(* ===== verification/Prelude.thy ===== *)
theory Prelude
  imports Main "HOL-Library.AList" "HOL-Library.Sublist"
    "HOL-Library.Char_ord" "HOL-Library.List_Lexorder"
begin

text \<open>
  Shared vocabulary of the development: the Python values the program stores
  (JSON values, dicts, strings), the exceptions it raises, clock arithmetic,
  and the state-and-exception computations in which multi-statement database
  code and worker code are written.

  A Python \<open>str\<close> is a HOL \<open>string\<close>, one character per code point; code points
  above 255 are outside the model.  JSON numbers are integers: none of the
  modelled payloads carries a fractional number.
\<close>

named_theorems act_simps "evaluation rules of state-and-exception computations"

section \<open>Strings\<close>

definition upper_char :: "char \<Rightarrow> char" where
  "upper_char c = (let n = of_char c :: nat in
     if 97 \<le> n \<and> n \<le> 122 then char_of (n - 32) else c)"

definition lower_char :: "char \<Rightarrow> char" where
  "lower_char c = (let n = of_char c :: nat in
     if 65 \<le> n \<and> n \<le> 90 then char_of (n + 32) else c)"

definition str_upper :: "string \<Rightarrow> string" where
  "str_upper s = map upper_char s"

definition str_lower :: "string \<Rightarrow> string" where
  "str_lower s = map lower_char s"

text \<open>The characters below code point 256 that Python's \<open>str.strip\<close> removes.\<close>

definition is_space :: "char \<Rightarrow> bool" where
  "is_space c = (let n = of_char c :: nat in
     9 \<le> n \<and> n \<le> 13 \<or> 28 \<le> n \<and> n \<le> 32 \<or> n = 133 \<or> n = 160)"

definition str_strip :: "string \<Rightarrow> string" where
  "str_strip s = rev (dropWhile is_space (rev (dropWhile is_space s)))"

definition starts_with :: "string \<Rightarrow> string \<Rightarrow> bool" where
  "starts_with s p = (take (length p) s = p)"

fun str_contains :: "string \<Rightarrow> string \<Rightarrow> bool" where
  "str_contains p [] = (p = [])"
| "str_contains p (c # cs) = (starts_with (c # cs) p \<or> str_contains p cs)"

fun nat_str :: "nat \<Rightarrow> string" where
  "nat_str n = (if n < 10 then [char_of (48 + n)]
                else nat_str (n div 10) @ [char_of (48 + n mod 10)])"

declare nat_str.simps [simp del]

definition int_str :: "int \<Rightarrow> string" where
  "int_str i = (if i < 0 then ''-'' @ nat_str (nat (- i)) else nat_str (nat i))"

text \<open>\<open>str(x or "")\<close> of an optional text, and the truth value of an optional text.\<close>

definition text_or :: "string \<Rightarrow> string option \<Rightarrow> string" where
  "text_or dflt x = (case x of None \<Rightarrow> dflt | Some s \<Rightarrow> if s = [] then dflt else s)"

definition text_true :: "string option \<Rightarrow> bool" where
  "text_true x = (case x of None \<Rightarrow> False | Some s \<Rightarrow> s \<noteq> [])"

definition or_else :: "string option \<Rightarrow> string option \<Rightarrow> string option" where
  "or_else x y = (if text_true x then x else y)"

lemma text_or_simps [simp]:
  "text_or d None = d" "text_or d (Some []) = d" "s \<noteq> [] \<Longrightarrow> text_or d (Some s) = s"
  by (simp_all add: text_or_def)

lemma text_true_simps [simp]:
  "\<not> text_true None" "text_true (Some s) = (s \<noteq> [])"
  by (simp_all add: text_true_def)

lemma upper_char_idem [simp]: "upper_char (upper_char c) = upper_char c"
proof -
  have "of_char (char_of (of_char c - 32 :: nat) :: char) = (of_char c - 32 :: nat)"
    if "(of_char c :: nat) \<le> 122"
    using that by simp
  then show ?thesis by (auto simp: upper_char_def Let_def)
qed

lemma str_upper_idem [simp]: "str_upper (str_upper s) = str_upper s"
  by (simp add: str_upper_def comp_def)

lemma nat_str_nonempty [simp]: "nat_str n \<noteq> []"
  by (subst nat_str.simps) simp

section \<open>JSON values and Python dicts\<close>

datatype json =
    JNull
  | JBool bool
  | JInt int
  | JStr string
  | JArr "json list"
  | JObj "(string \<times> json) list"

type_synonym dict = "(string \<times> json) list"

fun truthy :: "json \<Rightarrow> bool" where
  "truthy JNull = False"
| "truthy (JBool b) = b"
| "truthy (JInt i) = (i \<noteq> 0)"
| "truthy (JStr s) = (s \<noteq> [])"
| "truthy (JArr xs) = (xs \<noteq> [])"
| "truthy (JObj d) = (d \<noteq> [])"

text \<open>\<open>d.get(k)\<close>, \<open>d[k] = v\<close>, \<open>d.pop(k, None)\<close> and \<open>{**d, **e}\<close>.\<close>

definition dget :: "dict \<Rightarrow> string \<Rightarrow> json" where
  "dget d k = (case map_of d k of None \<Rightarrow> JNull | Some v \<Rightarrow> v)"

definition dput :: "dict \<Rightarrow> string \<Rightarrow> json \<Rightarrow> dict" where
  "dput d k v = AList.update k v d"

definition dpop :: "dict \<Rightarrow> string \<Rightarrow> dict" where
  "dpop d k = AList.delete k d"

definition dmerge :: "dict \<Rightarrow> dict \<Rightarrow> dict" where
  "dmerge d e = foldl (\<lambda>a (k, v). dput a k v) d e"

definition dict_of :: "json \<Rightarrow> dict" where
  "dict_of j = (case j of JObj d \<Rightarrow> d | _ \<Rightarrow> [])"

text \<open>The elements of a list, the objects in it, and \<open>a or b\<close>.\<close>

definition items_of :: "json \<Rightarrow> json list" where
  "items_of j = (case j of JArr xs \<Rightarrow> xs | _ \<Rightarrow> [])"

definition dicts_of :: "json \<Rightarrow> dict list" where
  "dicts_of j = map dict_of (items_of j)"

definition or_json :: "json \<Rightarrow> json \<Rightarrow> json" where
  "or_json a b = (if truthy a then a else b)"

lemma map_of_dput [simp]: "map_of (dput d k v) = (map_of d)(k \<mapsto> v)"
  by (simp add: dput_def update_conv')

lemma map_of_dpop [simp]: "map_of (dpop d k) = (map_of d)(k := None)"
  by (simp add: dpop_def delete_conv')

lemma dget_dput [simp]: "dget (dput d k v) k' = (if k' = k then v else dget d k')"
  by (simp add: dget_def)

lemma dget_dpop [simp]: "dget (dpop d k) k' = (if k' = k then JNull else dget d k')"
  by (simp add: dget_def)

lemma dget_simps [simp]:
  "dget [] k = JNull"
  "dget ((k', v) # d) k = (if k = k' then v else dget d k)"
  by (simp_all add: dget_def)

lemma map_of_dmerge:
  "distinct (map fst e) \<Longrightarrow> map_of (dmerge d e) = map_of d ++ map_of e"
proof (induction e arbitrary: d)
  case Nil
  then show ?case by (simp add: dmerge_def)
next
  case (Cons p e)
  then have "map_of (dmerge d (p # e)) = map_of (dput d (fst p) (snd p)) ++ map_of e"
    by (simp add: dmerge_def split_def)
  also have "\<dots> = map_of d ++ map_of (p # e)"
  proof -
    have "map_of e (fst p) = None"
      using Cons.prems by (simp add: map_of_eq_None_iff)
    then show ?thesis
      by (auto simp: fun_eq_iff map_add_def split: option.splits)
  qed
  finally show ?case .
qed

text \<open>
  Recursion over JSON values goes through lists of pairs; the size of a member
  is below the size of the object.
\<close>

lemma size_json_member [termination_simp]:
  "(k, v) \<in> set d \<Longrightarrow> size v < Suc (size_list (size_prod (\<lambda>_. 0) size) d)"
  by (induction d) auto

lemma size_json_member' [termination_simp]:
  "(k, v) \<in> set d \<Longrightarrow> size v < size (JObj d)"
  by (induction d) auto

text \<open>\<open>json.dumps(..., sort_keys=True, ensure_ascii=False, separators=(",", ":"))\<close>\<close>

fun sort_keys :: "json \<Rightarrow> json" where
  "sort_keys (JObj d) = JObj (sort_key fst (map (\<lambda>(k, v). (k, sort_keys v)) d))"
| "sort_keys (JArr xs) = JArr (map sort_keys xs)"
| "sort_keys j = j"

definition hex_digit :: "nat \<Rightarrow> char" where
  "hex_digit n = (if n < 10 then char_of (48 + n) else char_of (87 + n))"

definition json_escape_char :: "char \<Rightarrow> string" where
  "json_escape_char c = (let n = of_char c :: nat; bs = CHR 0x5C in
     if n = 34 then [bs, c] else if n = 92 then [bs, c]
     else if n = 10 then [bs, CHR ''n''] else if n = 13 then [bs, CHR ''r'']
     else if n = 9 then [bs, CHR ''t''] else if n = 8 then [bs, CHR ''b'']
     else if n = 12 then [bs, CHR ''f'']
     else if n < 32 then [bs, CHR ''u'', CHR ''0'', CHR ''0'', hex_digit (n div 16), hex_digit (n mod 16)]
     else [c])"

definition json_quote :: "string \<Rightarrow> string" where
  "json_quote s = [CHR 0x22] @ concat (map json_escape_char s) @ [CHR 0x22]"

fun join_with :: "string \<Rightarrow> string list \<Rightarrow> string" where
  "join_with sep [] = []"
| "join_with sep [s] = s"
| "join_with sep (s # t # ts) = s @ sep @ join_with sep (t # ts)"

fun json_text :: "json \<Rightarrow> string" where
  "json_text JNull = ''null''"
| "json_text (JBool b) = (if b then ''true'' else ''false'')"
| "json_text (JInt i) = int_str i"
| "json_text (JStr s) = json_quote s"
| "json_text (JArr xs) = ''['' @ join_with '','' (map json_text xs) @ '']''"
| "json_text (JObj d) =
     ''{'' @ join_with '','' (map (\<lambda>(k, v). json_quote k @ '':'' @ json_text v) d) @ ''}''"

definition json_dumps_sorted :: "json \<Rightarrow> string" where
  "json_dumps_sorted j = json_text (sort_keys j)"

text \<open>MySQL's \<open>JSON_MERGE_PATCH\<close> (RFC 7396).\<close>

fun json_merge_patch :: "json \<Rightarrow> json \<Rightarrow> json" where
  "json_merge_patch t (JObj p) = JObj (foldl (\<lambda>a (k, v).
     if v = JNull then dpop a k else dput a k (json_merge_patch (dget a k) v)) (dict_of t) p)"
| "json_merge_patch t p = p"

text \<open>
  Python's \<open>int(s)\<close> on a text: surrounding white space, a sign, decimal digits
  that single underscores may separate.
\<close>

definition digit_of :: "char \<Rightarrow> nat option" where
  "digit_of c = (let n = of_char c :: nat in if 48 \<le> n \<and> n \<le> 57 then Some (n - 48) else None)"

fun digits_value :: "nat \<Rightarrow> bool \<Rightarrow> string \<Rightarrow> nat option" where
  "digits_value acc after_digit [] = (if after_digit then Some acc else None)"
| "digits_value acc after_digit (c # cs) =
     (case digit_of c of
        Some d \<Rightarrow> digits_value (acc * 10 + d) True cs
      | None \<Rightarrow> if c = CHR ''_'' \<and> after_digit then digits_value acc False cs else None)"

definition py_int :: "string \<Rightarrow> int option" where
  "py_int s = (case str_strip s of
      [] \<Rightarrow> None
    | c # cs \<Rightarrow> if c = CHR ''-'' then map_option (\<lambda>n. - int n) (digits_value 0 False cs)
                else if c = CHR ''+'' then map_option int (digits_value 0 False cs)
                else map_option int (digits_value 0 False (c # cs)))"

definition int_of_json :: "json \<Rightarrow> int option" where
  "int_of_json j = (case j of JInt i \<Rightarrow> Some i | JBool b \<Rightarrow> Some (if b then 1 else 0)
                    | JStr s \<Rightarrow> py_int s | _ \<Rightarrow> None)"

text \<open>
  Python's \<open>repr\<close> and \<open>str\<close> of a JSON value: a text is quoted with single quotes
  unless it contains one and no double quote; the characters that are not
  printable are escaped.
\<close>

definition repr_char :: "char \<Rightarrow> char \<Rightarrow> string" where
  "repr_char q c = (let n = of_char c :: nat; bs = CHR 0x5C in
     if c = q then [bs, c] else if n = 92 then [bs, c]
     else if n = 10 then [bs, CHR ''n''] else if n = 13 then [bs, CHR ''r'']
     else if n = 9 then [bs, CHR ''t'']
     else if n < 32 \<or> 127 \<le> n \<and> n \<le> 160 \<or> n = 173
          then [bs, CHR ''x'', hex_digit (n div 16), hex_digit (n mod 16)]
     else [c])"

definition repr_str :: "string \<Rightarrow> string" where
  "repr_str s = (let q = if CHR 0x27 \<in> set s \<and> CHR 0x22 \<notin> set s then CHR 0x22 else CHR 0x27
     in [q] @ concat (map (repr_char q) s) @ [q])"

fun py_repr :: "json \<Rightarrow> string" where
  "py_repr JNull = ''None''"
| "py_repr (JBool b) = (if b then ''True'' else ''False'')"
| "py_repr (JInt i) = int_str i"
| "py_repr (JStr s) = repr_str s"
| "py_repr (JArr xs) = ''['' @ join_with '', '' (map py_repr xs) @ '']''"
| "py_repr (JObj d) =
     ''{'' @ join_with '', '' (map (\<lambda>(k, v). repr_str k @ '': '' @ py_repr v) d) @ ''}''"

definition py_str :: "json \<Rightarrow> string" where
  "py_str j = (case j of JStr s \<Rightarrow> s | _ \<Rightarrow> py_repr j)"

section \<open>Clock\<close>

text \<open>
  A point in time is a number of microseconds.  \<open>NOW(6)\<close> is read at that
  precision; a \<open>TIMESTAMP\<close> column drops the fraction of the second.
\<close>

type_synonym time = int

definition add_seconds :: "time \<Rightarrow> int \<Rightarrow> time" where
  "add_seconds t s = t + s * 1000000"

definition to_timestamp :: "time \<Rightarrow> time" where
  "to_timestamp t = t - t mod 1000000"

lemma to_timestamp_le: "to_timestamp t \<le> t"
  by (simp add: to_timestamp_def)

section \<open>Exceptions and computations\<close>

text \<open>
  The exceptions the modelled code raises or meets.  \<open>LiveChatError\<close> carries the
  HTTP status and the data of the reply, \<open>TelegramError\<close> the description, HTTP
  status, error code, data and \<open>retryable\<close> flag; \<open>DbError\<close> stands for a statement
  that the database server failed or refused, \<open>ConnectionLost\<close> for a
  \<open>ConnectionError\<close> or \<open>URLError\<close>.
\<close>

datatype exn =
    DbError string
  | KeyError string
  | ValueError string
  | TypeError string
  | SchemaError string
  | LiveChatError int dict
  | TelegramError string "int option" "int option" "dict option" bool
  | Timeout string
  | ConnectionLost string
  | OtherError string

text \<open>\<open>str(exc)\<close>\<close>

definition exn_text :: "exn \<Rightarrow> string" where
  "exn_text e = (case e of
     DbError s \<Rightarrow> s | KeyError s \<Rightarrow> repr_str s | ValueError s \<Rightarrow> s | TypeError s \<Rightarrow> s
   | SchemaError s \<Rightarrow> s | Timeout s \<Rightarrow> s | ConnectionLost s \<Rightarrow> s | OtherError s \<Rightarrow> s
   | LiveChatError st d \<Rightarrow> ''LiveChat API returned HTTP '' @ int_str st @ '': '' @ py_repr (JObj d)
   | TelegramError s _ _ _ _ \<Rightarrow> s)"

text \<open>A computation over a state: a result or an exception, and the state it leaves.\<close>

type_synonym ('s, 'a) act = "'s \<Rightarrow> (exn + 'a) \<times> 's"

definition ret :: "'a \<Rightarrow> ('s, 'a) act" where
  "ret a s = (Inr a, s)"

definition raise :: "exn \<Rightarrow> ('s, 'a) act" where
  "raise e s = (Inl e, s)"

definition andthen :: "('s, 'a) act \<Rightarrow> ('a \<Rightarrow> ('s, 'b) act) \<Rightarrow> ('s, 'b) act" where
  "andthen m f s = (case m s of (Inl e, s') \<Rightarrow> (Inl e, s') | (Inr a, s') \<Rightarrow> f a s')"

definition try_except :: "('s, 'a) act \<Rightarrow> (exn \<Rightarrow> ('s, 'a) act) \<Rightarrow> ('s, 'a) act" where
  "try_except m h s = (case m s of (Inl e, s') \<Rightarrow> h e s' | (Inr a, s') \<Rightarrow> (Inr a, s'))"

fun each :: "('a \<Rightarrow> ('s, 'b) act) \<Rightarrow> 'a list \<Rightarrow> ('s, 'b list) act" where
  "each f [] = ret []"
| "each f (x # xs) = andthen (f x) (\<lambda>y. andthen (each f xs) (\<lambda>ys. ret (y # ys)))"

definition lift :: "exn + 'a \<Rightarrow> ('s, 'a) act" where
  "lift x s = (x, s)"

text \<open>\<open>int(x)\<close> of a JSON value.\<close>

definition py_int_of :: "json \<Rightarrow> exn + int" where
  "py_int_of j = (case int_of_json j of
     Some i \<Rightarrow> Inr i
   | None \<Rightarrow> (case j of JStr _ \<Rightarrow> Inl (ValueError ''int'') | _ \<Rightarrow> Inl (TypeError ''int'')))"

fun all_ok :: "(exn + 'a) list \<Rightarrow> exn + 'a list" where
  "all_ok [] = Inr []"
| "all_ok (Inl e # xs) = Inl e"
| "all_ok (Inr x # xs) = (case all_ok xs of Inl e \<Rightarrow> Inl e | Inr ys \<Rightarrow> Inr (x # ys))"

lemma map_sum_Inr_iff: "map_sum id f x = Inr y \<longleftrightarrow> (\<exists>z. x = Inr z \<and> y = f z)"
  by (cases x) auto

lemma lift_Inr_iff: "lift x s = (Inr a, s') \<longleftrightarrow> x = Inr a \<and> s' = s"
  by (auto simp: lift_def)

lemma lift_run [act_simps]: "lift x s = (x, s)"
  by (simp add: lift_def)

lemma ret_run [act_simps]: "ret a s = (Inr a, s)"
  by (simp add: ret_def)

lemma raise_run [act_simps]: "raise e s = (Inl e, s)"
  by (simp add: raise_def)

lemma andthen_run [act_simps]:
  "m s = (Inr a, s') \<Longrightarrow> andthen m f s = f a s'"
  "m s = (Inl e, s') \<Longrightarrow> andthen m f s = (Inl e, s')"
  by (simp_all add: andthen_def)

lemma try_except_run [act_simps]:
  "m s = (Inr a, s') \<Longrightarrow> try_except m h s = (Inr a, s')"
  "m s = (Inl e, s') \<Longrightarrow> try_except m h s = h e s'"
  by (simp_all add: try_except_def)

lemma andthen_InrE:
  assumes "andthen m f s = (Inr b, s'')"
  obtains a s' where "m s = (Inr a, s')" and "f a s' = (Inr b, s'')"
  using assms by (auto simp: andthen_def split: prod.splits sum.splits)

lemma andthen_Inr_iff:
  "andthen m f s = (Inr b, s'') \<longleftrightarrow> (\<exists>a s'. m s = (Inr a, s') \<and> f a s' = (Inr b, s''))"
  by (auto simp: andthen_def split: prod.splits sum.splits)

lemma ret_Inr_iff: "ret a s = (Inr b, s') \<longleftrightarrow> b = a \<and> s' = s"
  by (auto simp: ret_def)

lemma raise_not_Inr [simp]: "raise e s \<noteq> (Inr b, s')"
  by (simp add: raise_def)

lemmas run_iffs = andthen_Inr_iff ret_Inr_iff lift_Inr_iff

lemma ret_andthen [simp]: "andthen (ret a) f = f a"
  by (simp add: fun_eq_iff andthen_def ret_def)

lemma andthen_ret [simp]: "andthen m ret = m"
  by (simp add: fun_eq_iff andthen_def ret_def split: prod.splits sum.splits)

lemma andthen_assoc:
  "andthen (andthen m f) g = andthen m (\<lambda>a. andthen (f a) g)"
  by (simp add: fun_eq_iff andthen_def split: prod.splits sum.splits)

section \<open>Lists of rows\<close>

text \<open>\<open>UPDATE ... WHERE p\<close> over a table kept as a list of rows.\<close>

definition update_where :: "('r \<Rightarrow> bool) \<Rightarrow> ('r \<Rightarrow> 'r) \<Rightarrow> 'r list \<Rightarrow> 'r list" where
  "update_where p f rs = map (\<lambda>r. if p r then f r else r) rs"

lemma update_where_simps [simp]:
  "update_where p f [] = []"
  "update_where p f (r # rs) = (if p r then f r else r) # update_where p f rs"
  by (simp_all add: update_where_def)

lemma length_update_where [simp]: "length (update_where p f rs) = length rs"
  by (simp add: update_where_def)

lemma set_update_where:
  "set (update_where p f rs) = (\<lambda>r. if p r then f r else r) ` set rs"
  by (simp add: update_where_def)

lemma update_whereE:
  assumes "r \<in> set (update_where p f rs)"
  obtains (changed) x where "x \<in> set rs" "p x" "r = f x"
  | (same) "r \<in> set rs" "\<not> p r"
  using assms by (auto simp: set_update_where split: if_splits)

lemma update_where_changedI: "x \<in> set rs \<Longrightarrow> p x \<Longrightarrow> f x \<in> set (update_where p f rs)"
  by (auto simp: set_update_where image_iff)

lemma update_where_sameI: "x \<in> set rs \<Longrightarrow> \<not> p x \<Longrightarrow> x \<in> set (update_where p f rs)"
  by (auto simp: set_update_where image_iff)

lemma find_not_None_iff: "find p xs \<noteq> None \<longleftrightarrow> (\<exists>x \<in> set xs. p x)"
  by (auto simp: find_None_iff)

lemma map_update_where:
  "(\<And>r. g (f r) = g r) \<Longrightarrow> map g (update_where p f rs) = map g rs"
  by (simp add: update_where_def)

lemma update_where_none: "(\<And>r. r \<in> set rs \<Longrightarrow> \<not> p r) \<Longrightarrow> update_where p f rs = rs"
  by (simp add: update_where_def map_idI)

lemma distinct_map_eqD:
  "distinct (map f xs) \<Longrightarrow> x \<in> set xs \<Longrightarrow> y \<in> set xs \<Longrightarrow> f x = f y \<Longrightarrow> x = y"
  by (simp add: distinct_map inj_on_def)

text \<open>Sorting by a minor and then, stably, by a major key.\<close>

definition lex_le :: "('a \<Rightarrow> 'k::linorder) \<Rightarrow> ('a \<Rightarrow> 'l::linorder) \<Rightarrow> 'a \<Rightarrow> 'a \<Rightarrow> bool" where
  "lex_le f g a b \<longleftrightarrow> f a < f b \<or> f a = f b \<and> g a \<le> g b"

lemma sorted_lexI:
  assumes "sorted (map f ys)" "\<And>k. sorted (map g (filter (\<lambda>y. f y = k) ys))"
  shows "sorted_wrt (lex_le f g) ys"
  using assms
proof (induction ys)
  case Nil
  then show ?case by simp
next
  case (Cons y ys)
  have "sorted (map g (filter (\<lambda>x. f x = k) ys))" for k
    using Cons.prems(2) [of k] by (auto split: if_splits)
  then have tail: "sorted_wrt (lex_le f g) ys"
    using Cons.prems(1) by (intro Cons.IH) simp_all
  have "g y \<le> g b" if "b \<in> set ys" "f b = f y" for b
    using Cons.prems(2) [of "f y"] that by auto
  moreover have "f y \<le> f b" if "b \<in> set ys" for b
    using Cons.prems(1) that by simp
  ultimately have "lex_le f g y b" if "b \<in> set ys" for b
    using that unfolding lex_le_def by (metis order_le_less)
  with tail show ?case by simp
qed

lemma sorted_filter_map: "sorted (map g ys) \<Longrightarrow> sorted (map g (filter p ys))"
  by (induction ys) auto

lemma sort_key_sort_key_lex: "sorted_wrt (lex_le f g) (sort_key f (sort_key g xs))"
  by (rule sorted_lexI) (simp_all add: sort_key_stable sorted_filter_map)

lemma set_map_filter_mem: "set (map f (filter (\<lambda>x. f x \<in> S) xs)) = set (map f xs) \<inter> S"
  by auto

lemma subseq_mem: "subseq xs ys \<Longrightarrow> x \<in> set xs \<Longrightarrow> x \<in> set ys"
  by (erule list_emb_set, assumption) simp

lemma find_append: "find p (xs @ ys) = (case find p xs of None \<Rightarrow> find p ys | Some x \<Rightarrow> Some x)"
  by (induction xs) auto

lemma find_update_where:
  "(\<And>r. p (f r) = p r) \<Longrightarrow>
   find p (update_where q f rs) = map_option (\<lambda>r. if q r then f r else r) (find p rs)"
  by (induction rs) auto

lemma find_Some_iff_mem: "find p xs = Some x \<Longrightarrow> x \<in> set xs \<and> p x"
  by (auto simp: find_Some_iff)

end
