(* ===== verification/Tables.thy ===== *)
theory Tables
  imports Prelude
begin

text \<open>
  The MySQL schema (\<open>sql/*.sql\<close>) as records, the database as a record of
  tables, and the connection: statements that may fail, autocommit, and
  transactions that roll back.

  A table is the list of its rows in insertion order, which is the order of the
  \<open>AUTO_INCREMENT\<close> key.  Columns that no modelled statement reads or writes
  (\<open>tenant_id\<close> of \<open>outbound_messages\<close>, the \<open>updated_at\<close> audit columns of the
  queue tables) are left out.  String comparison is equality: two keys that
  differ only in case or accents, which the default collation identifies, are
  kept apart.
\<close>

section \<open>Rows\<close>

text \<open>The columns every queue table shares (\<open>sql/007_add_worker_lease_fields.sql\<close>).\<close>

record queue_cols =
  row_id :: nat
  leased_at :: "time option"
  lease_expires_at :: "time option"
  locked_by :: "string option"
  attempted_at :: "time option"
  processed_at :: "time option"
  created_at :: time

record inbound_row = queue_cols +
  in_source :: string
  in_raw_action :: string
  in_organization_id :: "string option"
  in_chat_id :: "string option"
  in_thread_id :: "string option"
  in_event_id :: "string option"
  in_event_type :: "string option"
  in_standard_event_type :: string
  in_author_id :: "string option"
  in_sender_role :: string
  in_occurred_at :: "string option"
  in_dedup_key :: string
  in_payload :: dict
  in_ignored :: bool
  in_ignore_reason :: "string option"
  in_processed :: bool

text \<open>
  The columns of the three job tables.  \<open>conversation_id\<close> is nullable in
  \<open>outbound_messages\<close> only.
\<close>

record job_cols = queue_cols +
  status :: string
  retry_count :: nat
  last_error :: "string option"
  conversation_id :: "string option"

record outbound_row = job_cols +
  ob_chat_id :: string
  ob_thread_id :: "string option"
  ob_action_type :: string
  ob_message_type :: string
  ob_payload :: dict
  ob_inbound_event_id :: "nat option"
  ob_dedup_key :: "string option"
  ob_block_index :: "int option"
  ob_message_kind :: "string option"
  ob_command_type :: "string option"
  ob_sent_at :: "time option"

record command_row = job_cols +
  ec_tenant_id :: string
  ec_chat_id :: string
  ec_thread_id :: "string option"
  ec_inbound_event_id :: "nat option"
  ec_command_type :: string
  ec_payload :: dict
  ec_dedup_key :: string

record result_row = job_cols +
  er_command_id :: nat
  er_tenant_id :: string
  er_chat_id :: string
  er_thread_id :: "string option"
  er_inbound_event_id :: "nat option"
  er_command_type :: string
  er_result_type :: string
  er_json :: dict
  er_dedup_key :: string

record conversation_row =
  cs_id :: nat
  cs_conversation_id :: string
  cs_tenant_id :: string
  cs_channel_type :: string
  cs_chat_id :: string
  cs_thread_id :: "string option"
  cs_status :: string
  cs_active_workflow :: "string option"
  cs_workflow_stage :: "string option"
  cs_slot_memory :: "dict option"
  cs_handoff_state :: "dict option"
  cs_updated_at :: time

record message_row =
  cm_id :: nat
  cm_conversation_id :: string
  cm_tenant_id :: string
  cm_channel_type :: string
  cm_chat_id :: "string option"
  cm_thread_id :: "string option"
  cm_inbound_event_id :: "nat option"
  cm_outbound_message_id :: "nat option"
  cm_external_result_id :: "nat option"
  cm_sender_role :: string
  cm_message_type :: string
  cm_text :: "string option"
  cm_attachments :: "dict list"
  cm_source :: string
  cm_occurred_at :: "string option"
  cm_created_at :: time

record case_row =
  tc_id :: nat
  tc_tenant_id :: string
  tc_conversation_id :: string
  tc_current_conversation_id :: "string option"
  tc_chat_id :: string
  tc_thread_id :: "string option"
  tc_current_thread_id :: "string option"
  tc_inbound_event_id :: "nat option"
  tc_external_command_id :: nat
  tc_intent :: "string option"
  tc_active_workflow :: "string option"
  tc_telegram_chat_id :: string
  tc_telegram_thread_id :: "int option"
  tc_root_message_id :: int
  tc_status :: string
  tc_updated_at :: time

record case_message_row =
  tm_id :: nat
  tm_case_id :: nat
  tm_chat_id :: string
  tm_thread_id :: "int option"
  tm_message_id :: int
  tm_kind :: string

record followup_row =
  fu_id :: nat
  fu_case_id :: nat
  fu_command_id :: nat
  fu_conversation_id :: string
  fu_thread_id :: string
  fu_kind :: string
  fu_number :: int
  fu_update_en :: "string option"
  fu_previous_status :: string
  fu_message_id :: "int option"
  fu_status :: string
  fu_last_error :: "string option"
  fu_sent_at :: "time option"

record audit_row =
  wa_id :: nat
  wa_webhook_id :: "string option"
  wa_action :: "string option"
  wa_organization_id :: "string option"
  wa_chat_id :: "string option"
  wa_thread_id :: "string option"
  wa_event_id :: "string option"
  wa_event_type :: "string option"
  wa_status :: string
  wa_http_status :: "int option"
  wa_counts :: "int list"
  wa_error :: "(string \<times> string) option"
  wa_payload :: dict

record db =
  t_inbound :: "inbound_row list"
  t_conversations :: "conversation_row list"
  t_outbound :: "outbound_row list"
  t_commands :: "command_row list"
  t_results :: "result_row list"
  t_messages :: "message_row list"
  t_cases :: "case_row list"
  t_case_messages :: "case_message_row list"
  t_followups :: "followup_row list"
  t_offsets :: "(string \<times> int) list"
  t_audit :: "audit_row list"

definition empty_db :: db where
  "empty_db = \<lparr>t_inbound = [], t_conversations = [], t_outbound = [], t_commands = [],
     t_results = [], t_messages = [], t_cases = [], t_case_messages = [],
     t_followups = [], t_offsets = [], t_audit = []\<rparr>"

text \<open>
  \<open>AUTO_INCREMENT\<close>: an identifier above every identifier in use.  The gaps that
  rolled-back or duplicate inserts leave are not modelled; no code depends on them.
\<close>

definition fresh_id :: "nat list \<Rightarrow> nat" where
  "fresh_id ids = Suc (foldr max ids 0)"

lemma fresh_id_gt: "i \<in> set ids \<Longrightarrow> i < fresh_id ids"
proof -
  assume "i \<in> set ids"
  then have "i \<le> foldr max ids 0" by (induction ids) auto
  then show ?thesis by (simp add: fresh_id_def)
qed

lemma fresh_id_notin [simp]: "fresh_id ids \<notin> set ids"
  using fresh_id_gt by blast

lemma fresh_id_notin_image [simp]: "fresh_id (map f rs) \<notin> f ` set rs"
  using fresh_id_notin [of "map f rs"] by simp

section \<open>The connection\<close>

text \<open>
  A worker's world: the committed database, a schedule of statement failures
  (one entry per statement to come, \<open>True\<close> when the server or the network fails
  it; past the end nothing fails), and the log of calls to external services.
\<close>

record 'c world =
  store :: db
  faults :: "bool list"
  calls :: "'c list"

text \<open>
  One statement on the connection.  A failed statement has no effect; the pool
  is created with \<open>autocommit=True\<close>, so outside a transaction a statement that
  succeeds is durable at once.
\<close>

definition stmt :: "(db \<Rightarrow> exn + ('a \<times> db)) \<Rightarrow> ('c world, 'a) act" where
  "stmt f w =
     (case faults w of
        True # fs \<Rightarrow> (Inl (DbError ''connection''), w\<lparr>faults := fs\<rparr>)
      | fs \<Rightarrow> (case f (store w) of
                Inl e \<Rightarrow> (Inl e, w\<lparr>faults := tl fs\<rparr>)
              | Inr (a, d) \<Rightarrow> (Inr a, w\<lparr>store := d, faults := tl fs\<rparr>)))"

definition query :: "(db \<Rightarrow> 'a) \<Rightarrow> ('c world, 'a) act" where
  "query f = stmt (\<lambda>d. Inr (f d, d))"

definition exec :: "(db \<Rightarrow> 'a \<times> db) \<Rightarrow> ('c world, 'a) act" where
  "exec f = stmt (\<lambda>d. Inr (f d))"

definition update :: "(db \<Rightarrow> db) \<Rightarrow> ('c world, unit) act" where
  "update f = stmt (\<lambda>d. Inr ((), f d))"

text \<open>
  \<open>begin\<close>, the body, \<open>commit\<close>; any exception in the body or in the commit rolls
  the database back and is raised again.
\<close>

definition transaction :: "('c world, 'a) act \<Rightarrow> ('c world, 'a) act" where
  "transaction m =
     andthen (update id) (\<lambda>_. \<lambda>w.
       (case andthen m (\<lambda>a. andthen (update id) (\<lambda>_. ret a)) w of
          (Inl e, w') \<Rightarrow> (Inl e, w'\<lparr>store := store w\<rparr>)
        | (Inr a, w') \<Rightarrow> (Inr a, w')))"

lemma stmt_ok:
  "faults w = [] \<Longrightarrow> stmt f w =
     (case f (store w) of Inl e \<Rightarrow> (Inl e, w) | Inr (a, d) \<Rightarrow> (Inr a, w\<lparr>store := d\<rparr>))"
  by (cases w) (auto simp: stmt_def split: sum.splits)

lemma query_ok [act_simps]: "faults w = [] \<Longrightarrow> query f w = (Inr (f (store w)), w)"
  by (cases w) (simp add: query_def stmt_ok)

lemma exec_ok [act_simps]:
  "faults w = [] \<Longrightarrow> exec f w = (Inr (fst (f (store w))), w\<lparr>store := snd (f (store w))\<rparr>)"
  by (simp add: exec_def stmt_ok split: prod.splits)

lemma update_ok [act_simps]:
  "faults w = [] \<Longrightarrow> update f w = (Inr (), w\<lparr>store := f (store w)\<rparr>)"
  by (simp add: update_def stmt_ok)

text \<open>Every outcome of a statement: it failed and left the store, or it took effect.\<close>

lemma stmt_cases:
  obtains (failed) e w' where "stmt f w = (Inl e, w')" "store w' = store w" "calls w' = calls w"
  | (effect) a d w' where "stmt f w = (Inr a, w')" "f (store w) = Inr (a, d)"
      "store w' = d" "calls w' = calls w"
proof (cases "faults w")
  case Nil
  then show ?thesis
    using failed effect by (cases "f (store w)") (auto simp: stmt_def split: prod.splits)
next
  case (Cons b bs)
  then show ?thesis
    using failed effect
    by (cases b; cases "f (store w)") (auto simp: stmt_def split: prod.splits)
qed

lemma stmt_InrD:
  assumes "stmt f w = (Inr a, w')"
  shows "f (store w) = Inr (a, store w') \<and> calls w' = calls w"
  using assms by (cases rule: stmt_cases [of f w]) auto

lemma query_InrD: "query f w = (Inr a, w') \<Longrightarrow> a = f (store w) \<and> store w' = store w \<and> calls w' = calls w"
  by (auto simp: query_def dest!: stmt_InrD)

lemma exec_InrD:
  "exec f w = (Inr a, w') \<Longrightarrow> f (store w) = (a, store w') \<and> calls w' = calls w"
  by (auto simp: exec_def dest!: stmt_InrD)

lemma update_InrD:
  "update f w = (Inr a, w') \<Longrightarrow> store w' = f (store w) \<and> calls w' = calls w"
  by (auto simp: update_def dest!: stmt_InrD)

text \<open>The point of a transaction: an exception leaves the database as it was.\<close>

lemma transaction_rollback:
  "transaction m w = (Inl e, w') \<Longrightarrow> store w' = store w"
  unfolding transaction_def
  by (cases rule: stmt_cases [of "\<lambda>d. Inr ((), id d)" w])
     (auto simp: update_def andthen_def split: prod.splits sum.splits)

lemma transaction_commit:
  assumes "transaction m w = (Inr a, w')"
  obtains w1 w2 where "store w1 = store w" "calls w1 = calls w" "m w1 = (Inr a, w2)"
    "store w' = store w2" "calls w' = calls w2"
  using assms unfolding transaction_def
  by (auto simp: ret_def andthen_def dest!: update_InrD split: prod.splits sum.splits)

lemma transaction_InrD:
  "transaction m w = (Inr a, w') \<Longrightarrow> \<exists>w1 w2. store w1 = store w \<and> calls w1 = calls w \<and>
     m w1 = (Inr a, w2) \<and> store w' = store w2 \<and> calls w' = calls w2"
  by (blast elim: transaction_commit)

section \<open>What a computation does to the database\<close>

text \<open>
  \<open>stays R m\<close>: whatever statements fail, the database that \<open>m\<close> leaves is related
  to the one it started from.  For a preorder \<open>R\<close> the relation passes through
  sequencing, branching, exception handlers and transactions, so that each
  method needs one fact per statement.
\<close>

definition stays :: "(db \<Rightarrow> db \<Rightarrow> bool) \<Rightarrow> ('c world, 'a) act \<Rightarrow> bool" where
  "stays R m \<longleftrightarrow> (\<forall>w. R (store w) (store (snd (m w))))"

lemma staysD: "stays R m \<Longrightarrow> R (store w) (store (snd (m w)))"
  by (simp add: stays_def)

locale db_preorder =
  fixes R :: "db \<Rightarrow> db \<Rightarrow> bool"
  assumes R_refl: "R d d"
    and R_trans: "R a b \<Longrightarrow> R b c \<Longrightarrow> R a c"
begin

lemma stays_ret: "stays R (ret a)"
  by (simp add: stays_def ret_def R_refl)

lemma stays_raise: "stays R (raise e)"
  by (simp add: stays_def raise_def R_refl)

lemma stays_stmt:
  assumes "\<And>d a d'. f d = Inr (a, d') \<Longrightarrow> R d d'"
  shows "stays R (stmt f)"
  unfolding stays_def
proof
  fix w :: "'x world"
  show "R (store w) (store (snd (stmt f w)))"
    using assms by (cases rule: stmt_cases [of f w]) (auto simp: R_refl)
qed

lemma stays_query: "stays R (query f)"
  unfolding query_def by (rule stays_stmt) (auto simp: R_refl)

lemma stays_exec: "(\<And>d. R d (snd (f d))) \<Longrightarrow> stays R (exec f)"
  unfolding exec_def by (rule stays_stmt) (metis Inr_inject snd_conv)

lemma stays_update: "(\<And>d. R d (f d)) \<Longrightarrow> stays R (update f)"
  unfolding update_def by (rule stays_stmt) auto

lemma stays_andthen:
  "stays R m \<Longrightarrow> (\<And>a. stays R (f a)) \<Longrightarrow> stays R (andthen m f)"
  unfolding stays_def andthen_def
  by (auto split: prod.splits sum.splits) (metis R_trans snd_conv)+

lemma stays_try_except:
  "stays R m \<Longrightarrow> (\<And>e. stays R (h e)) \<Longrightarrow> stays R (try_except m h)"
  unfolding stays_def try_except_def
  by (auto split: prod.splits sum.splits) (metis R_trans snd_conv)+

lemma stays_transaction: "stays R m \<Longrightarrow> stays R (transaction m)"
proof -
  assume m: "stays R m"
  have body: "stays R (andthen m (\<lambda>a. andthen (update id) (\<lambda>_. ret a)))"
    by (intro stays_andthen m stays_update stays_ret) (simp add: R_refl)
  have "stays R (\<lambda>w. case andthen m (\<lambda>a. andthen (update id) (\<lambda>_. ret a)) w of
          (Inl e, w') \<Rightarrow> (Inl e, w'\<lparr>store := store w\<rparr>) | (Inr a, w') \<Rightarrow> (Inr a, w'))"
    using body unfolding stays_def
    by (auto split: prod.splits sum.splits simp: R_refl) (metis snd_conv)
  then show ?thesis
    unfolding transaction_def by (intro stays_andthen stays_update) (simp_all add: R_refl)
qed

lemma stays_each: "(\<And>x. stays R (f x)) \<Longrightarrow> stays R (each f xs)"
  by (induction xs) (auto intro: stays_ret stays_andthen)

lemma stays_if: "(b \<Longrightarrow> stays R m) \<Longrightarrow> (\<not> b \<Longrightarrow> stays R n) \<Longrightarrow> stays R (if b then m else n)"
  by simp

lemma stays_option:
  "stays R m \<Longrightarrow> (\<And>x. stays R (f x)) \<Longrightarrow> stays R (case y of None \<Rightarrow> m | Some x \<Rightarrow> f x)"
  by (simp split: option.split)

lemma stays_prod: "(\<And>x y. stays R (f x y)) \<Longrightarrow> stays R (case p of (x, y) \<Rightarrow> f x y)"
  by (simp split: prod.split)

lemmas stays_intros = stays_andthen stays_try_except stays_transaction stays_query stays_ret
  stays_raise stays_each stays_if stays_option stays_prod

end

text \<open>A part of the database that a computation leaves alone.\<close>

interpretation keeps: db_preorder "\<lambda>d d'. g d' = g d" for g :: "db \<Rightarrow> 'x"
  by unfold_locales simp_all

abbreviation keeps :: "(db \<Rightarrow> 'x) \<Rightarrow> ('c world, 'a) act \<Rightarrow> bool" where
  "keeps g \<equiv> stays (\<lambda>d d'. g d' = g d)"

lemma stays_InrD: "stays R m \<Longrightarrow> m w = (Inr a, w') \<Longrightarrow> R (store w) (store w')"
  by (drule staysD [of _ _ w]) simp

section \<open>What a computation that returns establishes\<close>

definition yields :: "('a \<Rightarrow> db \<Rightarrow> bool) \<Rightarrow> ('c world, 'a) act \<Rightarrow> bool" where
  "yields P m \<longleftrightarrow> (\<forall>w a w'. m w = (Inr a, w') \<longrightarrow> P a (store w'))"

lemma yieldsD: "yields P m \<Longrightarrow> m w = (Inr a, w') \<Longrightarrow> P a (store w')"
  by (simp add: yields_def)

lemma yields_andthen: "(\<And>a. yields P (f a)) \<Longrightarrow> yields P (andthen m f)"
  by (auto simp: yields_def andthen_Inr_iff)

lemma yields_if: "(b \<Longrightarrow> yields P m) \<Longrightarrow> (\<not> b \<Longrightarrow> yields P n) \<Longrightarrow> yields P (if b then m else n)"
  by simp

lemma yields_sum:
  "(\<And>x. yields P (f x)) \<Longrightarrow> (\<And>y. yields P (g y)) \<Longrightarrow> yields P (case s of Inl x \<Rightarrow> f x | Inr y \<Rightarrow> g y)"
  by (simp split: sum.split)

lemma yields_prod: "(\<And>x y. yields P (f x y)) \<Longrightarrow> yields P (case p of (x, y) \<Rightarrow> f x y)"
  by (simp split: prod.split)

lemma yields_option:
  "yields P m \<Longrightarrow> (\<And>x. yields P (f x)) \<Longrightarrow> yields P (case y of None \<Rightarrow> m | Some x \<Rightarrow> f x)"
  by (simp split: option.split)

lemma yields_raise: "yields P (raise e)"
  by (simp add: yields_def)

lemmas yields_intros = yields_andthen yields_if yields_sum yields_prod yields_option yields_raise

text \<open>A continuation only meets the values that the first computation yields.\<close>

context db_preorder
begin

lemma stays_andthen_yields:
  assumes "stays R m" "yields (\<lambda>a _. Q a) m" "\<And>a. Q a \<Longrightarrow> stays R (f a)"
  shows "stays R (andthen m f)"
  unfolding stays_def
proof
  fix w
  obtain r w' where m: "m w = (r, w')" by fastforce
  with staysD [OF assms(1), of w] have first: "R (store w) (store w')" by simp
  show "R (store w) (store (snd (andthen m f w)))"
  proof (cases r)
    case (Inl e)
    with m first show ?thesis by (simp add: andthen_def)
  next
    case (Inr a)
    with m have "Q a" using assms(2) by (auto simp: yields_def)
    from staysD [OF assms(3) [OF this], of w'] R_trans [OF first] m Inr show ?thesis
      by (simp add: andthen_def)
  qed
qed

end

end
