(* ===== verification/Queues.thy ===== *)
theory Queues
  imports Tables
begin

text \<open>
  The lease protocol that every queue table follows: which rows are free, what a
  grant writes, and the runs of workers that lease, settle and recover rows.
  The locale \<open>lease_queue\<close> is the contract between a queue table and its
  workers; it is interpreted by each repository on its own lease statement.
\<close>

section \<open>Lease columns\<close>

text \<open>\<open>locked_by IS NULL OR lease_expires_at IS NULL OR lease_expires_at < NOW(6)\<close>\<close>

definition lease_free :: "time \<Rightarrow> 'z queue_cols_scheme \<Rightarrow> bool" where
  "lease_free now r \<longleftrightarrow> locked_by r = None \<or>
     (case lease_expires_at r of None \<Rightarrow> True | Some t \<Rightarrow> t < now)"

definition lease_expired :: "time \<Rightarrow> 'z queue_cols_scheme \<Rightarrow> bool" where
  "lease_expired now r \<longleftrightarrow> (case lease_expires_at r of None \<Rightarrow> False | Some t \<Rightarrow> t < now)"

definition grant :: "time \<Rightarrow> int \<Rightarrow> string \<Rightarrow> 'z queue_cols_scheme \<Rightarrow> 'z queue_cols_scheme" where
  "grant now secs worker r = r\<lparr>leased_at := Some now,
     lease_expires_at := Some (add_seconds now secs),
     locked_by := Some worker, attempted_at := Some now\<rparr>"

definition clear_lease :: "'z queue_cols_scheme \<Rightarrow> 'z queue_cols_scheme" where
  "clear_lease r = r\<lparr>leased_at := None, lease_expires_at := None, locked_by := None\<rparr>"

definition grant_ids ::
  "nat list \<Rightarrow> time \<Rightarrow> int \<Rightarrow> string \<Rightarrow> 'z queue_cols_scheme list \<Rightarrow> 'z queue_cols_scheme list" where
  "grant_ids ids now secs worker = update_where (\<lambda>r. row_id r \<in> set ids) (grant now secs worker)"

definition at_id ::
  "nat \<Rightarrow> ('z queue_cols_scheme \<Rightarrow> 'z queue_cols_scheme) \<Rightarrow> 'z queue_cols_scheme list
     \<Rightarrow> 'z queue_cols_scheme list" where
  "at_id i f = update_where (\<lambda>r. row_id r = i) f"

text \<open>\<open>recover_expired_leases\<close>: the rows it frees, and how many they are.\<close>

definition recover ::
  "('z queue_cols_scheme \<Rightarrow> bool) \<Rightarrow> time \<Rightarrow> 'z queue_cols_scheme list
     \<Rightarrow> nat \<times> 'z queue_cols_scheme list" where
  "recover eligible now rows =
     (length (filter (\<lambda>r. eligible r \<and> lease_expired now r) rows),
      update_where (\<lambda>r. eligible r \<and> lease_expired now r) clear_lease rows)"

lemmas lease_defs = lease_free_def lease_expired_def grant_def clear_lease_def

lemma grant_simps [simp]:
  "row_id (grant now s w r) = row_id r"
  "created_at (grant now s w r) = created_at r"
  "locked_by (grant now s w r) = Some w"
  "lease_expires_at (grant now s w r) = Some (add_seconds now s)"
  "processed_at (grant now s w r) = processed_at r"
  by (simp_all add: grant_def)

lemma clear_lease_simps [simp]:
  "row_id (clear_lease r) = row_id r"
  "created_at (clear_lease r) = created_at r"
  "locked_by (clear_lease r) = None"
  "lease_expires_at (clear_lease r) = None"
  "processed_at (clear_lease r) = processed_at r"
  by (simp_all add: clear_lease_def)

lemma lease_free_clear [simp]: "lease_free now (clear_lease r)"
  by (simp add: lease_free_def)

lemma lease_free_mono: "lease_free now r \<Longrightarrow> now \<le> now' \<Longrightarrow> lease_free now' r"
  by (auto simp: lease_free_def split: option.splits)

lemma grant_idem [simp]: "grant t s w (grant t s w r) = grant t s w r"
  by (simp add: grant_def)

lemma not_free_granted:
  "now \<le> add_seconds t s \<Longrightarrow> \<not> lease_free now (grant t s w r)"
  by (simp add: lease_free_def)

lemma ids_grant_ids [simp]: "map row_id (grant_ids ids now s w rows) = map row_id rows"
  by (simp add: grant_ids_def map_update_where)

lemma grant_ids_append: "grant_ids js now s w (grant_ids is now s w rows) = grant_ids (is @ js) now s w rows"
  by (induction rows) (simp_all add: grant_ids_def)

lemma grant_ids_Nil [simp]: "grant_ids [] now s w rows = rows"
  by (simp add: grant_ids_def update_where_none)

lemma ids_at_id: "(\<And>r. row_id (f r) = row_id r) \<Longrightarrow> map row_id (at_id i f rows) = map row_id rows"
  by (simp add: at_id_def map_update_where)

lemma ids_recover [simp]: "map row_id (snd (recover el now rows)) = map row_id rows"
  by (simp add: recover_def map_update_where)

section \<open>Runs of workers over one queue\<close>

text \<open>
  A grant \<open>(w, i, e)\<close> is worker \<open>w\<close>'s belief that it alone may work on row \<open>i\<close>
  until time \<open>e\<close>.  In a run, the clock advances, workers lease, a worker that
  still holds a row settles it (any of the statements \<open>... WHERE id = %s\<close>, which
  do not look at \<open>locked_by\<close>), expired leases are recovered, rows are inserted,
  and rows are cancelled (taken out of the queue by the human-takeover update).
\<close>

type_synonym grants = "(string \<times> nat \<times> time) set"

text \<open>
  A lease statement gets the times of its reading and of its writing statements,
  what it finds in the environment (such as the rows that concurrent transactions
  hold locked), a limit, the worker and the length of the lease in seconds.
\<close>

type_synonym ('e, 'z) lease_fn =
  "time \<Rightarrow> time \<Rightarrow> 'e \<Rightarrow> nat \<Rightarrow> string \<Rightarrow> int \<Rightarrow> 'z queue_cols_scheme list
     \<Rightarrow> 'z queue_cols_scheme list \<times> 'z queue_cols_scheme list"

inductive lease_run ::
  "('e, 'z) lease_fn \<Rightarrow> ('z queue_cols_scheme \<Rightarrow> bool) \<Rightarrow> 'z queue_cols_scheme list \<Rightarrow> time \<Rightarrow> grants \<Rightarrow> bool"
  for lease eligible where
  start: "distinct (map row_id rows) \<Longrightarrow> lease_run lease eligible rows now {}"
| tick: "lease_run lease eligible rows now G \<Longrightarrow> now \<le> now' \<Longrightarrow> lease_run lease eligible rows now' G"
| lease: "lease_run lease eligible rows now G \<Longrightarrow> now \<le> now' \<Longrightarrow>
     lease now now' held n w s rows = (leased, rows') \<Longrightarrow>
     lease_run lease eligible rows' now' (G \<union> {(w, row_id r, add_seconds now' s) | r. r \<in> set leased})"
| settle: "lease_run lease eligible rows now G \<Longrightarrow> (w, i, e) \<in> G \<Longrightarrow> now \<le> e \<Longrightarrow>
     (\<And>r. row_id (f r) = row_id r) \<Longrightarrow>
     lease_run lease eligible (at_id i f rows) now {g \<in> G. \<not> (fst g = w \<and> fst (snd g) = i)}"
| recover: "lease_run lease eligible rows now G \<Longrightarrow>
     lease_run lease eligible (snd (recover eligible now rows)) now G"
| insert: "lease_run lease eligible rows now G \<Longrightarrow> row_id r \<notin> set (map row_id rows) \<Longrightarrow>
     lease_run lease eligible (rows @ [r]) now G"
| cancel: "lease_run lease eligible rows now G \<Longrightarrow>
     (\<And>r. row_id (f r) = row_id r) \<Longrightarrow> (\<And>r. \<not> eligible (f r)) \<Longrightarrow>
     lease_run lease eligible (update_where p f rows) now G"

text \<open>The ownership invariant: what a live grant says of the table.\<close>

definition owns :: "('z queue_cols_scheme \<Rightarrow> bool) \<Rightarrow> 'z queue_cols_scheme list
    \<Rightarrow> string \<Rightarrow> nat \<Rightarrow> time \<Rightarrow> bool" where
  "owns eligible rows w i e \<longleftrightarrow>
     i \<in> set (map row_id rows) \<and>
     (\<forall>r \<in> set rows. row_id r = i \<longrightarrow> eligible r \<longrightarrow>
        locked_by r = Some w \<and> lease_expires_at r = Some e)"

definition exclusive :: "time \<Rightarrow> grants \<Rightarrow> bool" where
  "exclusive now G \<longleftrightarrow> (\<forall>w w' i e e'. (w, i, e) \<in> G \<longrightarrow> (w', i, e') \<in> G \<longrightarrow>
     now \<le> e \<longrightarrow> now \<le> e' \<longrightarrow> w = w')"

definition lease_inv :: "('z queue_cols_scheme \<Rightarrow> bool) \<Rightarrow> 'z queue_cols_scheme list
    \<Rightarrow> time \<Rightarrow> grants \<Rightarrow> bool" where
  "lease_inv eligible rows now G \<longleftrightarrow>
     distinct (map row_id rows) \<and> exclusive now G \<and>
     (\<forall>w i e. (w, i, e) \<in> G \<longrightarrow> now \<le> e \<longrightarrow> owns eligible rows w i e)"

lemma lease_invI:
  "distinct (map row_id rows) \<Longrightarrow> exclusive now G \<Longrightarrow>
   (\<And>w i e. (w, i, e) \<in> G \<Longrightarrow> now \<le> e \<Longrightarrow> owns eligible rows w i e) \<Longrightarrow>
   lease_inv eligible rows now G"
  by (simp add: lease_inv_def)

lemma lease_invD:
  assumes "lease_inv eligible rows now G"
  shows "distinct (map row_id rows)" "exclusive now G"
    "(w, i, e) \<in> G \<Longrightarrow> now \<le> e \<Longrightarrow> owns eligible rows w i e"
  using assms by (simp_all add: lease_inv_def)

lemma exclusive_later: "exclusive now G \<Longrightarrow> now \<le> now' \<Longrightarrow> exclusive now' G"
  unfolding exclusive_def by (meson order_trans)

lemma exclusive_subset: "exclusive now G \<Longrightarrow> H \<subseteq> G \<Longrightarrow> exclusive now H"
  unfolding exclusive_def by (meson subsetD)

lemma owns_update:
  assumes "owns eligible rows w i e" "\<And>r. row_id (f r) = row_id r"
    and "\<And>r. r \<in> set rows \<Longrightarrow> row_id r = i \<Longrightarrow> p r \<Longrightarrow> eligible (f r) \<Longrightarrow> False"
  shows "owns eligible (update_where p f rows) w i e"
proof -
  have "i \<in> set (map row_id (update_where p f rows))"
    using assms(1,2) by (simp add: map_update_where owns_def)
  moreover have "locked_by r = Some w \<and> lease_expires_at r = Some e"
    if "r \<in> set (update_where p f rows)" "row_id r = i" "eligible r" for r
    using that(1)
  proof (cases rule: update_whereE)
    case (changed x)
    then show ?thesis using assms(2,3) that(2,3) by metis
  next
    case same
    then show ?thesis using assms(1) that(2,3) unfolding owns_def by blast
  qed
  ultimately show ?thesis unfolding owns_def by blast
qed

lemma owns_cong:
  assumes "owns eligible rows w i e" "\<And>r. row_id (f r) = row_id r"
    and "\<And>r. r \<in> set rows \<Longrightarrow> row_id r = i \<Longrightarrow> \<not> p r \<or> \<not> eligible (f r)"
  shows "owns eligible (update_where p f rows) w i e"
  using assms by (intro owns_update) auto

section \<open>The contract\<close>

locale lease_queue =
  fixes lease :: "('e, 'z) lease_fn"
    and eligible :: "'z queue_cols_scheme \<Rightarrow> bool"
  assumes leased_free:
    "lease now now' held n w s rows = (leased, rows') \<Longrightarrow> now \<le> now' \<Longrightarrow> r \<in> set leased \<Longrightarrow>
     \<exists>r0 \<in> set rows. row_id r0 = row_id r \<and> eligible r0 \<and> lease_free now' r0"
    and lease_table:
    "lease now now' held n w s rows = (leased, rows') \<Longrightarrow>
     rows' = grant_ids (map row_id leased) now' s w rows"
begin

lemma not_owned_when_leased:
  assumes "lease now now' held n w s rows = (leased, rows')" "now \<le> now'" "r \<in> set leased"
    and "distinct (map row_id rows)" "owns eligible rows w' (row_id r) e" "now' \<le> e"
  shows False
proof -
  obtain r0 where r0: "r0 \<in> set rows" "row_id r0 = row_id r" "eligible r0" "lease_free now' r0"
    using leased_free [OF assms(1-3)] by blast
  then have "locked_by r0 = Some w'" "lease_expires_at r0 = Some e"
    using assms(5) by (auto simp: owns_def)
  with r0(4) assms(6) show False by (simp add: lease_free_def)
qed

lemma owns_leased:
  assumes l: "lease now now' held n w s rows = (leased, rows')" "now \<le> now'" and r: "r \<in> set leased"
  shows "owns eligible rows' w (row_id r) (add_seconds now' s)"
proof -
  have "row_id r \<in> set (map row_id rows')"
    using leased_free [OF l r] unfolding lease_table [OF l(1)] ids_grant_ids
    by (metis image_eqI list.set_map)
  then show ?thesis
    using r unfolding owns_def lease_table [OF l(1)] grant_ids_def
    by (auto simp: set_update_where)
qed

lemma owns_kept:
  assumes l: "lease now now' held n w s rows = (leased, rows')" "now \<le> now'"
    and "distinct (map row_id rows)" "owns eligible rows w' i e" "now' \<le> e"
  shows "owns eligible rows' w' i e"
proof -
  have "i \<notin> set (map row_id leased)"
    using not_owned_when_leased [OF l] assms(3-5) by auto
  then show ?thesis
    unfolding lease_table [OF l(1)] grant_ids_def
    using assms(4) by (intro owns_cong) auto
qed

lemma lease_keeps_inv:
  assumes inv: "lease_inv eligible rows now G" and le: "now \<le> now'"
    and l: "lease now now' held n w s rows = (leased, rows')"
  shows "lease_inv eligible rows' now' (G \<union> {(w, row_id r, add_seconds now' s) | r. r \<in> set leased})"
    (is "lease_inv _ _ _ (G \<union> ?N)")
proof (rule lease_invI)
  note D = lease_invD [OF inv]
  have live: "now \<le> e" if "now' \<le> e" for e
    using that le by simp
  have fresh: False if "(w1, i, e1) \<in> G" "now' \<le> e1" "(w2, i, e2) \<in> ?N" for w1 w2 i e1 e2
    using that not_owned_when_leased [OF l le _ D(1)] D(3) live by blast
  show "distinct (map row_id rows')"
    using D(1) by (simp add: lease_table [OF l])
  show "exclusive now' (G \<union> ?N)"
    using D(2) live fresh unfolding exclusive_def by (auto; blast)
  show "owns eligible rows' w1 i e" if "(w1, i, e) \<in> G \<union> ?N" "now' \<le> e" for w1 i e
    using that owns_kept [OF l le D(1)] D(3) live owns_leased [OF l le] by blast
qed

lemma settle_keeps_inv:
  assumes inv: "lease_inv eligible rows now G" and g: "(w, i, e) \<in> G" "now \<le> e"
    and f: "\<And>r. row_id (f r) = row_id r"
  shows "lease_inv eligible (at_id i f rows) now {g \<in> G. \<not> (fst g = w \<and> fst (snd g) = i)}"
proof (rule lease_invI)
  note D = lease_invD [OF inv]
  show "distinct (map row_id (at_id i f rows))"
    using D(1) by (simp add: ids_at_id f)
  show "exclusive now {g \<in> G. \<not> (fst g = w \<and> fst (snd g) = i)}"
    by (rule exclusive_subset [OF D(2)]) auto
  show "owns eligible (at_id i f rows) w1 j e1"
    if "(w1, j, e1) \<in> {g \<in> G. \<not> (fst g = w \<and> fst (snd g) = i)}" "now \<le> e1" for w1 j e1
  proof -
    have "j \<noteq> i" using that g D(2) unfolding exclusive_def by auto
    then show ?thesis
      unfolding at_id_def using D(3) that f by (intro owns_cong) auto
  qed
qed

lemma recover_keeps_inv:
  assumes inv: "lease_inv eligible rows now G"
  shows "lease_inv eligible (snd (recover eligible now rows)) now G"
proof (rule lease_invI)
  note D = lease_invD [OF inv]
  show "distinct (map row_id (snd (recover eligible now rows)))" "exclusive now G"
    using D(1,2) by simp_all
  show "owns eligible (snd (recover eligible now rows)) w i e" if g: "(w, i, e) \<in> G" "now \<le> e" for w i e
    unfolding recover_def snd_conv
    using D(3) [OF g] g(2)
    by (intro owns_cong) (auto simp: owns_def lease_expired_def)
qed

lemma run_inv: "lease_run lease eligible rows now G \<Longrightarrow> lease_inv eligible rows now G"
proof (induction rule: lease_run.induct)
  case (start rows now)
  then show ?case by (simp add: lease_inv_def exclusive_def)
next
  case (tick rows now G now')
  then show ?case unfolding lease_inv_def by (meson exclusive_later order_trans)
next
  case (lease rows now G now' held n w s leased rows')
  then show ?case by (intro lease_keeps_inv)
next
  case (settle rows now G w i e f)
  then show ?case by (intro settle_keeps_inv)
next
  case (recover rows now G)
  then show ?case by (intro recover_keeps_inv)
next
  case (insert rows now G r)
  then show ?case unfolding lease_inv_def owns_def by fastforce
next
  case (cancel rows now G f p)
  then show ?case
    unfolding lease_inv_def by (auto simp: map_update_where intro!: owns_cong)
qed

lemma no_double_grant:
  "lease_run lease eligible rows now G \<Longrightarrow> (w, i, e) \<in> G \<Longrightarrow> (w', i, e') \<in> G \<Longrightarrow>
   now \<le> e \<Longrightarrow> now \<le> e' \<Longrightarrow> w = w'"
  using run_inv lease_invD(2) unfolding exclusive_def by blast

lemma second_lease_disjoint:
  assumes "distinct (map row_id rows)"
    and l: "lease now now' held n w s rows = (leased, rows')" "now \<le> now'"
    and "lease u u' held' n' w' s' rows' = (leased', rows'')" "u \<le> u'"
    and "u' \<le> add_seconds now' s"
  shows "set (map row_id leased) \<inter> set (map row_id leased') = {}"
proof -
  have "distinct (map row_id rows')"
    using assms(1) by (simp add: lease_table [OF l(1)])
  then have False if "r \<in> set leased" "r' \<in> set leased'" "row_id r' = row_id r" for r r'
    using that not_owned_when_leased [OF assms(4,5) that(2)] owns_leased [OF l that(1)] assms(6)
    by simp
  then show ?thesis by (fastforce simp: disjoint_iff)
qed

text \<open>A row with a live grant is, while it is open, locked in the table.\<close>

lemma live_grant_locked:
  assumes "lease_run lease eligible rows now G" "(w, i, e) \<in> G" "now \<le> e"
    and "r \<in> set rows" "row_id r = i" "eligible r"
  shows "locked_by r = Some w \<and> lease_expires_at r = Some e"
  using lease_invD(3) [OF run_inv [OF assms(1)] assms(2,3)] assms(4-) by (auto simp: owns_def)

end

end
