(* ===== verification/Jobs.thy ===== *)
theory Jobs
  imports Queues
begin

text \<open>
  What the two external-command tables share: idempotent insertion under unique
  keys (locale \<open>unique_keys\<close>), the lease statements over rows with a status, and
  the statements that settle a row.
\<close>

section \<open>INSERT ... ON DUPLICATE KEY UPDATE id = id\<close>

text \<open>
  \<open>clash a b\<close> says that some unique key of the table has the same, non-null value
  in both rows.  The result is the new identifier, or \<open>None\<close> for a duplicate,
  which leaves the table as it is.
\<close>

definition insert_new ::
  "('r \<Rightarrow> nat) \<Rightarrow> ('r \<Rightarrow> 'r \<Rightarrow> bool) \<Rightarrow> (nat \<Rightarrow> 'r) \<Rightarrow> 'r list \<Rightarrow> nat option \<times> 'r list" where
  "insert_new rid clash mk rows =
     (let i = fresh_id (map rid rows) in
      if \<exists>r \<in> set rows. clash (mk i) r then (None, rows) else (Some i, rows @ [mk i]))"

definition keys_ok :: "('r \<Rightarrow> nat) \<Rightarrow> ('r \<Rightarrow> 'r \<Rightarrow> bool) \<Rightarrow> 'r list \<Rightarrow> bool" where
  "keys_ok rid clash rows \<longleftrightarrow>
     distinct (map rid rows) \<and> sorted_wrt (\<lambda>a b. \<not> clash a b) rows"

locale unique_keys =
  fixes rid :: "'r \<Rightarrow> nat"
    and clash :: "'r \<Rightarrow> 'r \<Rightarrow> bool"
  assumes clash_sym: "clash a b \<Longrightarrow> clash b a"
begin

lemma insert_new_cases:
  assumes "insert_new rid clash mk rows = (res, rows')"
  obtains (dup) r i where "res = None" "rows' = rows" "r \<in> set rows" "clash (mk i) r"
      "i = fresh_id (map rid rows)"
  | (fresh) i where "res = Some i" "rows' = rows @ [mk i]" "i = fresh_id (map rid rows)"
      "\<And>r. r \<in> set rows \<Longrightarrow> \<not> clash (mk i) r"
proof -
  define i where "i = fresh_id (map rid rows)"
  show ?thesis
  proof (cases "\<exists>r \<in> set rows. clash (mk i) r")
    case True
    then obtain r where "r \<in> set rows" "clash (mk i) r" by blast
    moreover have "res = None" "rows' = rows"
      using assms True by (simp_all add: insert_new_def Let_def i_def)
    ultimately show ?thesis using dup i_def by blast
  next
    case False
    then have "res = Some i" "rows' = rows @ [mk i]"
      using assms by (simp_all add: insert_new_def Let_def i_def)
    with False show ?thesis using fresh i_def by blast
  qed
qed

lemma insert_new_keys_ok:
  assumes "keys_ok rid clash rows" "insert_new rid clash mk rows = (res, rows')"
    and "\<And>i. rid (mk i) = i"
  shows "keys_ok rid clash rows'"
  using assms(2)
proof (cases rule: insert_new_cases)
  case dup
  with assms(1) show ?thesis by simp
next
  case (fresh i)
  then have "\<not> clash r (mk i)" if "r \<in> set rows" for r
    using that clash_sym by blast
  moreover have "i \<notin> set (map rid rows)" using fresh(3) by simp
  ultimately show ?thesis
    using assms(1,3) fresh(2) by (auto simp: keys_ok_def sorted_wrt_append)
qed

lemma insert_new_keeps: "r \<in> set rows \<Longrightarrow> insert_new rid clash mk rows = (res, rows') \<Longrightarrow> r \<in> set rows'"
  by (auto simp: insert_new_def Let_def split: if_splits)

text \<open>
  Idempotence: once a row with the same keys is in the table, however the first
  insert ended, a second insert of it is a duplicate and changes nothing.
\<close>

lemma insert_new_twice:
  assumes "insert_new rid clash mk rows = (res, rows')"
    and same: "\<And>i j r. clash (mk i) r \<longleftrightarrow> clash (mk j) r"
    and self: "\<And>i j. clash (mk i) (mk j)"
  shows "insert_new rid clash mk rows' = (None, rows')"
  using assms(1)
proof (cases rule: insert_new_cases)
  case (dup r i)
  then show ?thesis using same [of i r] by (auto simp: insert_new_def Let_def)
next
  case (fresh i)
  then show ?thesis using self by (auto simp: insert_new_def Let_def)
qed

lemma keys_ok_distinct: "keys_ok rid clash rows \<Longrightarrow> distinct (map rid rows)"
  by (simp add: keys_ok_def)

lemma keys_ok_update:
  assumes "keys_ok rid clash rows"
    and "\<And>r. rid (f r) = rid r" "\<And>a b. clash (f a) b = clash a b" "\<And>a b. clash a (f b) = clash a b"
  shows "keys_ok rid clash (update_where p f rows)"
proof -
  have "clash (if p a then f a else a) (if p b then f b else b) = clash a b" for a b
    by (simp add: assms(3,4))
  then have "sorted_wrt (\<lambda>a b. \<not> clash a b) (update_where p f rows)"
    using assms(1) by (simp only: keys_ok_def update_where_def sorted_wrt_map)
  then show ?thesis
    using assms(1,2) by (simp add: keys_ok_def map_update_where)
qed

end

section \<open>Job statuses and leases\<close>

definition open_status :: "string \<Rightarrow> bool" where
  "open_status s \<longleftrightarrow> s = ''PENDING'' \<or> s = ''RETRYABLE''"

definition open_job :: "'z job_cols_scheme \<Rightarrow> bool" where
  "open_job r \<longleftrightarrow> open_status (status r)"

text \<open>
  \<open>SELECT ... WHERE status IN (...) AND <free> ORDER BY created_at LIMIT n FOR UPDATE
  SKIP LOCKED\<close>: \<open>held\<close> are the rows that concurrent transactions hold locked.
  Rows with equal \<open>created_at\<close> are taken in key order; the statement leaves that
  order open.
\<close>

definition select_jobs ::
  "time \<Rightarrow> (nat \<Rightarrow> bool) \<Rightarrow> nat \<Rightarrow> 'z job_cols_scheme list \<Rightarrow> nat list" where
  "select_jobs now held limit rows =
     map row_id (take limit (filter (\<lambda>r. \<not> held (row_id r))
       (sort_key created_at (filter (\<lambda>r. open_job r \<and> lease_free now r) rows))))"

definition lease_jobs ::
  "time \<Rightarrow> time \<Rightarrow> (nat \<Rightarrow> bool) \<Rightarrow> nat \<Rightarrow> string \<Rightarrow> int \<Rightarrow> 'z job_cols_scheme list
     \<Rightarrow> 'z job_cols_scheme list \<times> 'z job_cols_scheme list" where
  "lease_jobs now now' held limit worker secs rows =
     (let ids = select_jobs now held limit rows;
          rows' = grant_ids ids now' secs worker rows
      in (sort_key created_at (filter (\<lambda>r. row_id r \<in> set ids) rows'), rows'))"

definition lease_job_by_id ::
  "time \<Rightarrow> time \<Rightarrow> (nat \<Rightarrow> bool) \<Rightarrow> nat \<Rightarrow> string \<Rightarrow> int \<Rightarrow> 'z job_cols_scheme list
     \<Rightarrow> 'z job_cols_scheme option \<times> 'z job_cols_scheme list" where
  "lease_job_by_id now now' held i worker secs rows =
     (case find (\<lambda>r. row_id r = i \<and> open_job r \<and> lease_free now r \<and> \<not> held i) rows of
        None \<Rightarrow> (None, rows)
      | Some _ \<Rightarrow> (let rows' = grant_ids [i] now' secs worker rows
                   in (find (\<lambda>r. row_id r = i) rows', rows')))"

lemma status_grant [simp]:
  "status (grant now s w r) = status r" "open_job (grant now s w r) = open_job r"
  by (simp_all add: grant_def open_job_def)

lemma status_clear_lease [simp]: "status (clear_lease r) = status r"
  by (simp add: clear_lease_def)

lemma select_jobs_sound:
  "i \<in> set (select_jobs now held n rows) \<Longrightarrow>
   \<exists>r \<in> set rows. row_id r = i \<and> open_job r \<and> lease_free now r \<and> \<not> held i"
  by (auto simp: select_jobs_def dest!: in_set_takeD)

lemma length_select_jobs: "length (select_jobs now held n rows) \<le> n"
  by (simp add: select_jobs_def)

lemma ids_lease_jobs:
  assumes "lease_jobs now now' held n w s rows = (leased, rows')"
  shows "set (map row_id leased) = set (select_jobs now held n rows)"
proof -
  have "set (select_jobs now held n rows) \<subseteq> set (map row_id rows)"
    using select_jobs_sound by fastforce
  moreover have "set (map row_id leased) =
      {i \<in> set (map row_id (grant_ids (select_jobs now held n rows) now' s w rows)).
         i \<in> set (select_jobs now held n rows)}"
    using assms by (auto simp: lease_jobs_def Let_def)
  ultimately show ?thesis by auto
qed

lemma grant_ids_cong: "set ids = set ids' \<Longrightarrow> grant_ids ids now s w rows = grant_ids ids' now s w rows"
  by (simp add: grant_ids_def)

interpretation job_queue: lease_queue lease_jobs "open_job :: 'z job_cols_scheme \<Rightarrow> bool"
proof unfold_locales
  fix now now' :: time and held n w s and rows leased rows' :: "'z job_cols_scheme list"
  assume l: "lease_jobs now now' held n w s rows = (leased, rows')"
  note ids = ids_lease_jobs [OF l]
  show "rows' = grant_ids (map row_id leased) now' s w rows"
  proof -
    have "rows' = grant_ids (select_jobs now held n rows) now' s w rows"
      using l by (auto simp: lease_jobs_def Let_def)
    also have "\<dots> = grant_ids (map row_id leased) now' s w rows"
      by (rule grant_ids_cong [OF ids [symmetric]])
    finally show ?thesis .
  qed
  show "\<exists>r0 \<in> set rows. row_id r0 = row_id r \<and> open_job r0 \<and> lease_free now' r0"
    if "now \<le> now'" "r \<in> set leased" for r
  proof -
    from that ids have "row_id r \<in> set (select_jobs now held n rows)" by auto
    from select_jobs_sound [OF this] show ?thesis using lease_free_mono that(1) by blast
  qed
qed

text \<open>At most \<open>limit\<close> rows are handed out, in creation order, all locked by the worker.\<close>

lemma length_lease_jobs:
  assumes "distinct (map row_id rows)" "lease_jobs now now' held n w s rows = (leased, rows')"
  shows "length leased \<le> n"
proof -
  have "distinct (map row_id leased)"
  proof -
    have "distinct (map row_id rows')"
      using assms(1) job_queue.lease_table [OF assms(2)] by simp
    then have "inj_on row_id (set rows')" "distinct rows'"
      by (simp_all add: distinct_map)
    moreover have "leased = sort_key created_at (filter (\<lambda>r. row_id r \<in> set (select_jobs now held n rows)) rows')"
      using assms(2) by (auto simp: lease_jobs_def Let_def)
    ultimately show ?thesis
      by (auto simp: distinct_map intro: inj_on_subset)
  qed
  then have "length leased = card (set (map row_id leased))"
    using distinct_card [of "map row_id leased"] by simp
  also have "\<dots> = card (set (select_jobs now held n rows))"
    by (simp only: ids_lease_jobs [OF assms(2)])
  also have "\<dots> \<le> n"
    using card_length length_select_jobs le_trans by blast
  finally show ?thesis .
qed

section \<open>Settling a job\<close>

text \<open>
  The assignments of a single-table \<open>UPDATE\<close> are evaluated from left to right by
  MySQL, and each reads the values the earlier ones wrote.  In
  \<open>mark_processing_failed\<close> the \<open>CASE\<close> therefore sees the incremented counter.
\<close>

definition job_failed :: "string option \<Rightarrow> 'z job_cols_scheme \<Rightarrow> 'z job_cols_scheme" where
  "job_failed err r = clear_lease (r\<lparr>status := ''FAILED'', last_error := err\<rparr>)"

definition job_processing_failed :: "int \<Rightarrow> string option \<Rightarrow> 'z job_cols_scheme \<Rightarrow> 'z job_cols_scheme" where
  "job_processing_failed max_retries err r =
     (let r1 = r\<lparr>retry_count := retry_count r + 1\<rparr>;
          r2 = r1\<lparr>status := (if int (retry_count r1) + 1 \<ge> max_retries then ''FAILED'' else ''RETRYABLE'')\<rparr>
      in clear_lease (r2\<lparr>last_error := err\<rparr>))"

lemma job_settle_id [simp]:
  "row_id (job_failed err r) = row_id r"
  "row_id (job_processing_failed m err r) = row_id r"
  by (simp_all add: job_failed_def job_processing_failed_def Let_def)

lemma job_processing_failed_simps [simp]:
  "retry_count (job_processing_failed m err r) = Suc (retry_count r)"
  "locked_by (job_processing_failed m err r) = None"
  "last_error (job_processing_failed m err r) = err"
  "status (job_processing_failed m err r) =
     (if int (retry_count r) + 2 \<ge> m then ''FAILED'' else ''RETRYABLE'')"
  by (simp_all add: job_processing_failed_def clear_lease_def Let_def)

text \<open>After \<open>k\<close> failed attempts of a fresh job.\<close>

lemma job_processing_failed_iter:
  assumes "retry_count r = 0" "0 < k"
  shows "retry_count ((job_processing_failed m err ^^ k) r) = k"
    and "status ((job_processing_failed m err ^^ k) r) =
      (if int k + 1 \<ge> m then ''FAILED'' else ''RETRYABLE'')"
proof -
  have count: "retry_count ((job_processing_failed m err ^^ j) r) = j" for j
    using assms(1) by (induction j) simp_all
  then show "retry_count ((job_processing_failed m err ^^ k) r) = k" .
  from assms(2) obtain j where "k = Suc j" by (cases k) auto
  then show "status ((job_processing_failed m err ^^ k) r) =
      (if int k + 1 \<ge> m then ''FAILED'' else ''RETRYABLE'')"
    by (simp add: count)
qed

end
