(* ===== verification/Commands.thy ===== *)
theory Commands
  imports Jobs
begin

text \<open>
  \<open>ExternalCommandRepository\<close> (\<open>src/app/db/repositories.py\<close>): the queue of commands
  for external systems.  Each method is a function on the database; a method of
  one statement runs in autocommit mode, the lease methods are one transaction
  whose effect is the table they return.
\<close>

section \<open>Insertion\<close>

text \<open>The command dict handed to \<open>insert_idempotent\<close>; an absent key is \<open>None\<close>.\<close>

record command_in =
  ci_tenant_id :: "string option"
  ci_conversation_id :: string
  ci_chat_id :: "string option"
  ci_thread_id :: "string option"
  ci_inbound_event_id :: "nat option"
  ci_command_type :: string
  ci_payload :: dict
  ci_status :: "string option"
  ci_retry_count :: nat
  ci_last_error :: "string option"
  ci_dedup_key :: "string option"

text \<open>\<open>f"{x}"\<close> of an optional integer.\<close>

definition opt_nat_str :: "nat option \<Rightarrow> string" where
  "opt_nat_str x = (case x of None \<Rightarrow> ''None'' | Some n \<Rightarrow> nat_str n)"

text \<open>\<open>sha256_hex\<close> is \<open>hashlib.sha256(raw.encode("utf-8")).hexdigest()\<close>.\<close>

definition build_external_command_dedup_key ::
  "(string \<Rightarrow> string) \<Rightarrow> string \<Rightarrow> string \<Rightarrow> nat option \<Rightarrow> string \<Rightarrow> dict \<Rightarrow> string" where
  "build_external_command_dedup_key sha256_hex tenant conv inbound ctype payload =
     tenant @ '':'' @ conv @ '':'' @ opt_nat_str inbound @ '':'' @ ctype @ '':''
       @ sha256_hex (json_dumps_sorted (JObj payload))"

definition command_dedup_key :: "(string \<Rightarrow> string) \<Rightarrow> command_in \<Rightarrow> string" where
  "command_dedup_key sha c =
     (if text_true (ci_dedup_key c) then text_or [] (ci_dedup_key c)
      else build_external_command_dedup_key sha (text_or ''default'' (ci_tenant_id c))
             (ci_conversation_id c) (ci_inbound_event_id c) (ci_command_type c) (ci_payload c))"

definition new_command_row :: "(string \<Rightarrow> string) \<Rightarrow> time \<Rightarrow> command_in \<Rightarrow> string \<Rightarrow> nat \<Rightarrow> command_row" where
  "new_command_row sha now c chat i =
     \<lparr>row_id = i, leased_at = None, lease_expires_at = None, locked_by = None,
      attempted_at = None, processed_at = None, created_at = to_timestamp now,
      status = text_or ''PENDING'' (ci_status c), retry_count = ci_retry_count c,
      last_error = ci_last_error c, conversation_id = Some (ci_conversation_id c),
      ec_tenant_id = text_or ''default'' (ci_tenant_id c), ec_chat_id = chat,
      ec_thread_id = ci_thread_id c, ec_inbound_event_id = ci_inbound_event_id c,
      ec_command_type = ci_command_type c, ec_payload = ci_payload c,
      ec_dedup_key = command_dedup_key sha c\<rparr>"

definition ec_clash :: "command_row \<Rightarrow> command_row \<Rightarrow> bool" where
  "ec_clash a b \<longleftrightarrow> ec_dedup_key a = ec_dedup_key b"

text \<open>\<open>chat_id\<close> is \<open>NOT NULL\<close>: a missing one is refused by the server.\<close>

definition ec_insert_idempotent ::
  "(string \<Rightarrow> string) \<Rightarrow> time \<Rightarrow> command_in \<Rightarrow> db \<Rightarrow> exn + (nat option \<times> db)" where
  "ec_insert_idempotent sha now c d =
     (case ci_chat_id c of
        None \<Rightarrow> Inl (DbError ''chat_id cannot be null'')
      | Some chat \<Rightarrow>
          (let (res, rows) = insert_new row_id ec_clash (new_command_row sha now c chat) (t_commands d)
           in Inr (res, d\<lparr>t_commands := rows\<rparr>)))"

section \<open>Reading and leasing\<close>

definition ec_fetch_pending :: "nat \<Rightarrow> db \<Rightarrow> command_row list" where
  "ec_fetch_pending limit d =
     take limit (sort_key created_at (filter (\<lambda>r. status r = ''PENDING'') (t_commands d)))"

definition ec_lease_pending ::
  "time \<Rightarrow> time \<Rightarrow> (nat \<Rightarrow> bool) \<Rightarrow> nat \<Rightarrow> string \<Rightarrow> int \<Rightarrow> db \<Rightarrow> command_row list \<times> db" where
  "ec_lease_pending now now' held limit worker secs d =
     (let (leased, rows) = lease_jobs now now' held limit worker secs (t_commands d)
      in (leased, d\<lparr>t_commands := rows\<rparr>))"

definition ec_lease_pending_by_id ::
  "time \<Rightarrow> time \<Rightarrow> (nat \<Rightarrow> bool) \<Rightarrow> nat \<Rightarrow> string \<Rightarrow> int \<Rightarrow> db \<Rightarrow> command_row option \<times> db" where
  "ec_lease_pending_by_id now now' held i worker secs d =
     (let (leased, rows) = lease_job_by_id now now' held i worker secs (t_commands d)
      in (leased, d\<lparr>t_commands := rows\<rparr>))"

definition ec_recover_expired_leases :: "time \<Rightarrow> db \<Rightarrow> nat \<times> db" where
  "ec_recover_expired_leases now d =
     (let (n, rows) = recover open_job now (t_commands d) in (n, d\<lparr>t_commands := rows\<rparr>))"

section \<open>Settling\<close>

definition ec_update :: "nat \<Rightarrow> (command_row \<Rightarrow> command_row) \<Rightarrow> db \<Rightarrow> db" where
  "ec_update i f d = d\<lparr>t_commands := at_id i f (t_commands d)\<rparr>"

definition ec_release_lease :: "nat \<Rightarrow> db \<Rightarrow> db" where
  "ec_release_lease i = ec_update i clear_lease"

text \<open>\<open>_mark_status\<close>, behind \<open>mark_dry_run_done\<close> and \<open>mark_sent\<close>.\<close>

definition ec_mark_done :: "time \<Rightarrow> string \<Rightarrow> nat \<Rightarrow> db \<Rightarrow> db" where
  "ec_mark_done now st i = ec_update i (\<lambda>r.
     (let r1 = clear_lease (r\<lparr>status := st\<rparr>)
      in if st \<in> {''DRY_RUN_DONE'', ''SENT''} then r1\<lparr>processed_at := Some now\<rparr> else r1))"

definition ec_mark_dry_run_done :: "time \<Rightarrow> nat \<Rightarrow> db \<Rightarrow> db" where
  "ec_mark_dry_run_done now = ec_mark_done now ''DRY_RUN_DONE''"

definition ec_mark_sent :: "time \<Rightarrow> nat \<Rightarrow> db \<Rightarrow> db" where
  "ec_mark_sent now = ec_mark_done now ''SENT''"

definition ec_mark_failed :: "nat \<Rightarrow> string \<Rightarrow> db \<Rightarrow> db" where
  "ec_mark_failed i err = ec_update i (job_failed (Some err))"

definition ec_mark_retryable :: "nat \<Rightarrow> string \<Rightarrow> db \<Rightarrow> db" where
  "ec_mark_retryable i err = ec_update i (\<lambda>r.
     clear_lease (r\<lparr>status := ''RETRYABLE'', retry_count := retry_count r + 1, last_error := Some err\<rparr>))"

definition ec_mark_status :: "time \<Rightarrow> nat \<Rightarrow> string \<Rightarrow> string option \<Rightarrow> db \<Rightarrow> db" where
  "ec_mark_status now i st err = ec_update i (\<lambda>r.
     (let r1 = clear_lease (r\<lparr>status := st, last_error := err\<rparr>)
      in if st \<in> {''DRY_RUN_DONE'', ''SENT'', ''PROCESSED'', ''DONE''}
         then r1\<lparr>processed_at := Some now\<rparr> else r1))"

definition ec_merge_payload_json :: "nat \<Rightarrow> dict \<Rightarrow> db \<Rightarrow> db" where
  "ec_merge_payload_json i patch = ec_update i (\<lambda>r.
     r\<lparr>ec_payload := dict_of (json_merge_patch (JObj (ec_payload r)) (JObj patch))\<rparr>)"

definition ec_mark_processing_failed :: "nat \<Rightarrow> string \<Rightarrow> int \<Rightarrow> db \<Rightarrow> string \<times> db" where
  "ec_mark_processing_failed i err max_retries d =
     (''RETRYABLE'', ec_update i (job_processing_failed max_retries (Some err)) d)"

definition ec_mark_processing_failed_and_get_status :: "nat \<Rightarrow> string \<Rightarrow> int \<Rightarrow> db \<Rightarrow> string \<times> db" where
  "ec_mark_processing_failed_and_get_status i err max_retries d =
     (let d' = snd (ec_mark_processing_failed i err max_retries d)
      in (case find (\<lambda>r. row_id r = i) (t_commands d') of None \<Rightarrow> ''FAILED'' | Some r \<Rightarrow> status r, d'))"

definition ec_mark_pending_by_inbound_event_skipped :: "nat \<Rightarrow> string \<Rightarrow> string \<Rightarrow> db \<Rightarrow> nat \<times> db" where
  "ec_mark_pending_by_inbound_event_skipped inbound st err d =
     (let p = (\<lambda>r. ec_inbound_event_id r = Some inbound \<and> status r = ''PENDING'');
          f = (\<lambda>r. clear_lease (r\<lparr>status := st, last_error := Some err\<rparr>))
      in (length (filter (\<lambda>r. p r \<and> f r \<noteq> r) (t_commands d)),
          d\<lparr>t_commands := update_where p f (t_commands d)\<rparr>))"

lemmas ec_settle_defs = ec_release_lease_def ec_mark_done_def ec_mark_dry_run_done_def
  ec_mark_sent_def ec_mark_failed_def ec_mark_retryable_def ec_mark_status_def
  ec_merge_payload_json_def ec_mark_processing_failed_def

section \<open>Keys of the command table\<close>

interpretation ec_keys: unique_keys row_id ec_clash
  by unfold_locales (simp add: ec_clash_def)

definition ec_keys_ok :: "db \<Rightarrow> bool" where
  "ec_keys_ok d = keys_ok row_id ec_clash (t_commands d)"

lemma ec_update_keys_ok:
  "ec_keys_ok d \<Longrightarrow> (\<And>r. row_id (f r) = row_id r) \<Longrightarrow> (\<And>r. ec_dedup_key (f r) = ec_dedup_key r) \<Longrightarrow>
   ec_keys_ok (ec_update i f d)"
  unfolding ec_keys_ok_def ec_update_def at_id_def
  by (auto intro!: ec_keys.keys_ok_update simp: ec_clash_def)

lemma ec_dedup_key_simps [simp]:
  "ec_dedup_key (clear_lease r) = ec_dedup_key r"
  "ec_dedup_key (grant now s w r) = ec_dedup_key r"
  "ec_dedup_key (job_failed e r) = ec_dedup_key r"
  "ec_dedup_key (job_processing_failed m e r) = ec_dedup_key r"
  "ec_dedup_key (new_command_row sha now c chat i) = command_dedup_key sha c"
  "row_id (new_command_row sha now c chat i) = i"
  by (simp_all add: clear_lease_def grant_def job_failed_def job_processing_failed_def Let_def
      new_command_row_def)

lemma ec_insert_keys_ok:
  assumes "ec_keys_ok d" "ec_insert_idempotent sha now c d = Inr (res, d')"
  shows "ec_keys_ok d'"
  using assms ec_keys.insert_new_keys_ok
  by (fastforce simp: ec_insert_idempotent_def ec_keys_ok_def split: option.splits prod.splits)

text \<open>A second insert of the same command changes nothing and reports a duplicate.\<close>

lemma ec_insert_again:
  assumes "ec_insert_idempotent sha now c d = Inr (res, d')"
  shows "ec_insert_idempotent sha now' c d' = Inr (None, d')"
proof -
  obtain chat rows where chat: "ci_chat_id c = Some chat" and
    ins: "insert_new row_id ec_clash (new_command_row sha now c chat) (t_commands d) = (res, rows)"
    and d': "d' = d\<lparr>t_commands := rows\<rparr>"
    using assms by (auto simp: ec_insert_idempotent_def split: option.splits prod.splits)
  have key: "ec_clash (new_command_row sha t c chat i) r \<longleftrightarrow> command_dedup_key sha c = ec_dedup_key r" for t i r
    by (simp add: ec_clash_def)
  have "insert_new row_id ec_clash (new_command_row sha now' c chat) rows =
        insert_new row_id ec_clash (new_command_row sha now c chat) rows"
    if "\<exists>r \<in> set rows. command_dedup_key sha c = ec_dedup_key r"
    using that by (simp add: insert_new_def key Let_def)
  moreover have twice: "insert_new row_id ec_clash (new_command_row sha now c chat) rows = (None, rows)"
    by (rule ec_keys.insert_new_twice [OF ins]) (simp_all add: ec_clash_def)
  moreover have "\<exists>r \<in> set rows. command_dedup_key sha c = ec_dedup_key r"
    using twice by (auto simp: insert_new_def key Let_def split: if_splits)
  ultimately show ?thesis
    by (simp add: ec_insert_idempotent_def chat d')
qed

text \<open>
  Inserting a command is idempotent: when the insert is accepted, it reports a
  duplicate exactly when its key was in the table and changes nothing then, it
  keeps the keys of the table unique, and the same insert at any later time is a
  duplicate that changes nothing.
\<close>

theorem ec_insert_idempotent_twice:
  assumes "ec_keys_ok d" "ec_insert_idempotent sha now c d = Inr (res, d')"
  shows "ec_keys_ok d' \<and>
    (res = None \<longleftrightarrow> (\<exists>r \<in> set (t_commands d). ec_dedup_key r = command_dedup_key sha c)) \<and>
    (res = None \<longrightarrow> d' = d) \<and>
    ec_insert_idempotent sha now' c d' = Inr (None, d')"
proof -
  have "(res = None \<longleftrightarrow> (\<exists>r \<in> set (t_commands d). ec_dedup_key r = command_dedup_key sha c)) \<and>
    (res = None \<longrightarrow> d' = d)"
    using assms(2)
    by (auto simp: ec_insert_idempotent_def insert_new_def Let_def ec_clash_def split: option.splits if_splits)
  then show ?thesis
    using ec_insert_keys_ok [OF assms] ec_insert_again [OF assms(2)] by blast
qed

end
