(* ===== verification/Results.thy ===== *)
theory Results
  imports Commands
begin

text \<open>
  \<open>ExternalCommandResultRepository\<close> (\<open>src/app/db/repositories.py\<close>): the queue of
  results that external systems returned, consumed by the result consumer.
\<close>

section \<open>Insertion\<close>

record result_in =
  ri_command_id :: nat
  ri_tenant_id :: "string option"
  ri_conversation_id :: string
  ri_chat_id :: "string option"
  ri_thread_id :: "string option"
  ri_inbound_event_id :: "nat option"
  ri_command_type :: string
  ri_result_type :: string
  ri_json :: dict
  ri_status :: "string option"
  ri_processed_at :: "time option"
  ri_last_error :: "string option"
  ri_dedup_key :: "string option"

definition build_external_command_result_dedup_key ::
  "(string \<Rightarrow> string) \<Rightarrow> string \<Rightarrow> string \<Rightarrow> nat \<Rightarrow> string \<Rightarrow> string \<Rightarrow> dict \<Rightarrow> string" where
  "build_external_command_result_dedup_key sha256_hex tenant conv command ctype rtype result =
     tenant @ '':'' @ conv @ '':'' @ nat_str command @ '':'' @ ctype @ '':'' @ rtype @ '':''
       @ sha256_hex (json_dumps_sorted (JObj result))"

definition result_dedup_key :: "(string \<Rightarrow> string) \<Rightarrow> result_in \<Rightarrow> string" where
  "result_dedup_key sha x =
     (if text_true (ri_dedup_key x) then text_or [] (ri_dedup_key x)
      else build_external_command_result_dedup_key sha (text_or ''default'' (ri_tenant_id x))
             (ri_conversation_id x) (ri_command_id x) (ri_command_type x) (ri_result_type x) (ri_json x))"

text \<open>
  \<open>processed_at\<close> is the given time, or the time of the insert for a row that is
  inserted as already \<open>PROCESSED\<close>.
\<close>

definition new_result_row :: "(string \<Rightarrow> string) \<Rightarrow> time \<Rightarrow> result_in \<Rightarrow> string \<Rightarrow> nat \<Rightarrow> result_row" where
  "new_result_row sha now x chat i =
     (let st = text_or ''PENDING'' (ri_status x) in
      \<lparr>row_id = i, leased_at = None, lease_expires_at = None, locked_by = None, attempted_at = None,
       processed_at = (case ri_processed_at x of Some t \<Rightarrow> Some t
                       | None \<Rightarrow> if st = ''PROCESSED'' then Some now else None),
       created_at = to_timestamp now, status = st, retry_count = 0, last_error = ri_last_error x,
       conversation_id = Some (ri_conversation_id x), er_command_id = ri_command_id x,
       er_tenant_id = text_or ''default'' (ri_tenant_id x), er_chat_id = chat,
       er_thread_id = ri_thread_id x, er_inbound_event_id = ri_inbound_event_id x,
       er_command_type = ri_command_type x, er_result_type = ri_result_type x,
       er_json = ri_json x, er_dedup_key = result_dedup_key sha x\<rparr>)"

definition er_clash :: "result_row \<Rightarrow> result_row \<Rightarrow> bool" where
  "er_clash a b \<longleftrightarrow> er_dedup_key a = er_dedup_key b"

definition er_insert_idempotent ::
  "(string \<Rightarrow> string) \<Rightarrow> time \<Rightarrow> result_in \<Rightarrow> db \<Rightarrow> exn + (nat option \<times> db)" where
  "er_insert_idempotent sha now x d =
     (case ri_chat_id x of
        None \<Rightarrow> Inl (DbError ''chat_id cannot be null'')
      | Some chat \<Rightarrow>
          (let (res, rows) = insert_new row_id er_clash (new_result_row sha now x chat) (t_results d)
           in Inr (res, d\<lparr>t_results := rows\<rparr>)))"

section \<open>Reading and leasing\<close>

definition er_fetch_pending :: "nat \<Rightarrow> db \<Rightarrow> result_row list" where
  "er_fetch_pending limit d =
     take limit (sort_key created_at (filter (\<lambda>r. status r = ''PENDING'') (t_results d)))"

definition er_lease_pending ::
  "time \<Rightarrow> time \<Rightarrow> (nat \<Rightarrow> bool) \<Rightarrow> nat \<Rightarrow> string \<Rightarrow> int \<Rightarrow> db \<Rightarrow> result_row list \<times> db" where
  "er_lease_pending now now' held limit worker secs d =
     (let (leased, rows) = lease_jobs now now' held limit worker secs (t_results d)
      in (leased, d\<lparr>t_results := rows\<rparr>))"

definition er_lease_pending_by_id ::
  "time \<Rightarrow> time \<Rightarrow> (nat \<Rightarrow> bool) \<Rightarrow> nat \<Rightarrow> string \<Rightarrow> int \<Rightarrow> db \<Rightarrow> result_row option \<times> db" where
  "er_lease_pending_by_id now now' held i worker secs d =
     (let (leased, rows) = lease_job_by_id now now' held i worker secs (t_results d)
      in (leased, d\<lparr>t_results := rows\<rparr>))"

definition er_recover_expired_leases :: "time \<Rightarrow> db \<Rightarrow> nat \<times> db" where
  "er_recover_expired_leases now d =
     (let (n, rows) = recover open_job now (t_results d) in (n, d\<lparr>t_results := rows\<rparr>))"

section \<open>Settling\<close>

definition er_update :: "nat \<Rightarrow> (result_row \<Rightarrow> result_row) \<Rightarrow> db \<Rightarrow> db" where
  "er_update i f d = d\<lparr>t_results := at_id i f (t_results d)\<rparr>"

definition er_release_lease :: "nat \<Rightarrow> db \<Rightarrow> db" where
  "er_release_lease i = er_update i clear_lease"

definition er_mark_processed :: "time \<Rightarrow> nat \<Rightarrow> db \<Rightarrow> db" where
  "er_mark_processed now i = er_update i (\<lambda>r.
     clear_lease (r\<lparr>status := ''PROCESSED'', processed_at := Some now, last_error := None\<rparr>))"

definition er_mark_failed :: "nat \<Rightarrow> string \<Rightarrow> db \<Rightarrow> db" where
  "er_mark_failed i err = er_update i (job_failed (Some err))"

definition er_mark_retryable :: "nat \<Rightarrow> string \<Rightarrow> db \<Rightarrow> db" where
  "er_mark_retryable i err = er_update i (\<lambda>r.
     clear_lease (r\<lparr>status := ''RETRYABLE'', last_error := Some err\<rparr>))"

definition er_mark_processing_failed :: "nat \<Rightarrow> string \<Rightarrow> int \<Rightarrow> db \<Rightarrow> db" where
  "er_mark_processing_failed i err max_retries =
     er_update i (job_processing_failed max_retries (Some err))"

lemmas er_settle_defs = er_release_lease_def er_mark_processed_def er_mark_failed_def
  er_mark_retryable_def er_mark_processing_failed_def

section \<open>Keys of the result table\<close>

interpretation er_keys: unique_keys row_id er_clash
  by unfold_locales (simp add: er_clash_def)

definition er_keys_ok :: "db \<Rightarrow> bool" where
  "er_keys_ok d = keys_ok row_id er_clash (t_results d)"

lemma er_dedup_key_simps [simp]:
  "er_dedup_key (clear_lease r) = er_dedup_key r"
  "er_dedup_key (grant now s w r) = er_dedup_key r"
  "er_dedup_key (job_failed e r) = er_dedup_key r"
  "er_dedup_key (job_processing_failed m e r) = er_dedup_key r"
  "er_dedup_key (new_result_row sha now x chat i) = result_dedup_key sha x"
  "row_id (new_result_row sha now x chat i) = i"
  by (simp_all add: clear_lease_def grant_def job_failed_def job_processing_failed_def Let_def
      new_result_row_def)

lemma er_update_keys_ok:
  "er_keys_ok d \<Longrightarrow> (\<And>r. row_id (f r) = row_id r) \<Longrightarrow> (\<And>r. er_dedup_key (f r) = er_dedup_key r) \<Longrightarrow>
   er_keys_ok (er_update i f d)"
  unfolding er_keys_ok_def er_update_def at_id_def
  by (auto intro!: er_keys.keys_ok_update simp: er_clash_def)

lemma er_insert_keys_ok:
  assumes "er_keys_ok d" "er_insert_idempotent sha now x d = Inr (res, d')"
  shows "er_keys_ok d'"
  using assms er_keys.insert_new_keys_ok
  by (fastforce simp: er_insert_idempotent_def er_keys_ok_def split: option.splits prod.splits)

lemma er_leased_rows:
  assumes "er_lease_pending now now' held n w s d = (leased, d')"
  shows "lease_jobs now now' held n w s (t_results d) = (leased, t_results d')"
  using assms by (auto simp: er_lease_pending_def split: prod.splits)

end
