(* ===== verification/Messages.thy ===== *)
theory Messages
  imports Jobs
begin

text \<open>
  \<open>ConversationMessageRepository\<close> (\<open>src/app/db/repositories.py\<close>): the message history
  of a conversation, written under three nullable unique keys.
\<close>

section \<open>Insertion\<close>

record message_in =
  mi_conversation_id :: string
  mi_tenant_id :: "string option"
  mi_channel_type :: "string option"
  mi_chat_id :: "string option"
  mi_thread_id :: "string option"
  mi_inbound_event_id :: "nat option"
  mi_outbound_message_id :: "nat option"
  mi_external_result_id :: "nat option"
  mi_sender_role :: string
  mi_message_type :: "string option"
  mi_text :: "string option"
  mi_attachments :: "dict list"
  mi_source :: string
  mi_occurred_at :: "string option"

definition new_message_row :: "time \<Rightarrow> message_in \<Rightarrow> nat \<Rightarrow> message_row" where
  "new_message_row now m i =
     \<lparr>cm_id = i, cm_conversation_id = mi_conversation_id m,
      cm_tenant_id = text_or ''default'' (mi_tenant_id m),
      cm_channel_type = text_or ''livechat'' (mi_channel_type m),
      cm_chat_id = mi_chat_id m, cm_thread_id = mi_thread_id m,
      cm_inbound_event_id = mi_inbound_event_id m,
      cm_outbound_message_id = mi_outbound_message_id m,
      cm_external_result_id = mi_external_result_id m,
      cm_sender_role = mi_sender_role m, cm_message_type = text_or ''text'' (mi_message_type m),
      cm_text = mi_text m, cm_attachments = mi_attachments m, cm_source = mi_source m,
      cm_occurred_at = mi_occurred_at m, cm_created_at = now\<rparr>"

text \<open>
  The unique keys \<open>(inbound_event_id, sender_role, message_type)\<close>,
  \<open>(outbound_message_id)\<close> and \<open>(external_command_result_id, sender_role,
  message_type)\<close>; a key with a null component never clashes.
\<close>

definition same_key :: "nat option \<Rightarrow> nat option \<Rightarrow> bool" where
  "same_key a b \<longleftrightarrow> a \<noteq> None \<and> a = b"

definition cm_clash :: "message_row \<Rightarrow> message_row \<Rightarrow> bool" where
  "cm_clash a b \<longleftrightarrow>
     same_key (cm_inbound_event_id a) (cm_inbound_event_id b) \<and>
       cm_sender_role a = cm_sender_role b \<and> cm_message_type a = cm_message_type b \<or>
     same_key (cm_outbound_message_id a) (cm_outbound_message_id b) \<or>
     same_key (cm_external_result_id a) (cm_external_result_id b) \<and>
       cm_sender_role a = cm_sender_role b \<and> cm_message_type a = cm_message_type b"

definition cm_insert_idempotent :: "time \<Rightarrow> message_in \<Rightarrow> db \<Rightarrow> nat option \<times> db" where
  "cm_insert_idempotent now m d =
     (let (res, rows) = insert_new cm_id cm_clash (new_message_row now m) (t_messages d)
      in (res, d\<lparr>t_messages := rows\<rparr>))"

interpretation cm_keys: unique_keys cm_id cm_clash
  by unfold_locales (auto simp: cm_clash_def same_key_def)

section \<open>Reading\<close>

text \<open>
  \<open>ORDER BY created_at DESC, id DESC LIMIT n\<close>, then reversed by the caller: the
  last \<open>n\<close> rows in time order.
\<close>

definition newest_first :: "message_row list \<Rightarrow> message_row list" where
  "newest_first rows = rev (sort_key cm_created_at (sort_key cm_id rows))"

definition cm_fetch_recent :: "string \<Rightarrow> nat \<Rightarrow> db \<Rightarrow> message_row list" where
  "cm_fetch_recent conv limit d =
     rev (take limit (newest_first (filter (\<lambda>r. cm_conversation_id r = conv) (t_messages d))))"

definition cm_fetch_recent_current_thread :: "string \<Rightarrow> string option \<Rightarrow> nat \<Rightarrow> db \<Rightarrow> message_row list" where
  "cm_fetch_recent_current_thread conv thread limit d =
     (if \<not> text_true thread then cm_fetch_recent conv limit d
      else rev (take limit (newest_first
             (filter (\<lambda>r. cm_conversation_id r = conv \<and> cm_thread_id r = thread) (t_messages d)))))"

text \<open>
  The most recent other thread of the chat, by the newest message of each thread
  (the first of the threads with an equal maximum), and its last messages.
\<close>

definition previous_thread_id :: "string \<Rightarrow> string \<Rightarrow> message_row list \<Rightarrow> string option" where
  "previous_thread_id chat exclude rows =
     (case newest_first (filter (\<lambda>r. cm_chat_id r = Some chat \<and> cm_thread_id r \<noteq> None \<and>
                                     cm_thread_id r \<noteq> Some exclude) rows) of
        [] \<Rightarrow> None
      | r # _ \<Rightarrow> cm_thread_id r)"

text \<open>Each row of the memory is returned with three keys that mark it as read-only.\<close>

definition memory_annotation :: dict where
  "memory_annotation = [(''context_scope'', JStr ''previous_thread_memory''),
     (''read_only_memory'', JBool True),
     (''memory_instruction'', JStr (
        ''This message is from a previous LiveChat thread. Use it only as read-only background memory; ''
        @ ''do not treat it as the current user request and do not continue prior handoff/backend actions unless ''
        @ ''the current workflow explicitly continues an unfinished case.''))]"

definition cm_fetch_previous_thread_memory ::
  "string option \<Rightarrow> string option \<Rightarrow> nat \<Rightarrow> db \<Rightarrow> (message_row \<times> dict) list" where
  "cm_fetch_previous_thread_memory chat exclude limit d =
     (if \<not> text_true chat \<or> \<not> text_true exclude then []
      else (case previous_thread_id (text_or [] chat) (text_or [] exclude) (t_messages d) of
              None \<Rightarrow> []
            | Some thread \<Rightarrow> map (\<lambda>r. (r, memory_annotation)) (rev (take limit (newest_first
                (filter (\<lambda>r. cm_chat_id r = chat \<and> cm_thread_id r = Some thread) (t_messages d)))))))"

lemma set_newest_first [simp]: "set (newest_first rows) = set rows"
  by (simp add: newest_first_def)

lemma sorted_newest_first: "sorted (map cm_created_at (rev (newest_first rows)))"
  by (simp add: newest_first_def)

lemma sorted_take_newest:
  "sorted (map cm_created_at (rev (take n (newest_first rows))))"
proof -
  have "rev (take n (newest_first rows)) = drop (length rows - n) (rev (newest_first rows))"
    by (simp add: rev_take newest_first_def)
  then show ?thesis
    using sorted_newest_first [of rows] by (simp add: sorted_wrt_drop flip: drop_map)
qed

lemma previous_thread_differs:
  "previous_thread_id chat exclude rows = Some t \<Longrightarrow> t \<noteq> exclude \<and>
     (\<exists>r \<in> set rows. cm_chat_id r = Some chat \<and> cm_thread_id r = Some t)"
proof -
  let ?p = "\<lambda>r. cm_chat_id r = Some chat \<and> cm_thread_id r \<noteq> None \<and> cm_thread_id r \<noteq> Some exclude"
  assume "previous_thread_id chat exclude rows = Some t"
  then obtain r rs where r: "newest_first (filter ?p rows) = r # rs" "cm_thread_id r = Some t"
    by (auto simp: previous_thread_id_def split: list.splits)
  have "r \<in> set (filter ?p rows)"
    using arg_cong [OF r(1), of set] by (simp only: set_newest_first) simp
  with r(2) show ?thesis by auto
qed

lemma cm_insert_message:
  "cm_insert_idempotent now m d = (res, d') \<Longrightarrow>
   d' = d\<lparr>t_messages := t_messages d'\<rparr> \<and> set (t_messages d) \<subseteq> set (t_messages d')"
  by (auto simp: cm_insert_idempotent_def insert_new_def Let_def split: if_splits)

end
