(* ===== verification/Conversations.thy ===== *)
theory Conversations
  imports Jobs
begin

text \<open>
  \<open>ConversationRepository\<close> (\<open>src/app/db/repositories.py\<close>) and the conversation key
  (\<open>src/app/services/conversations.py\<close>): one row per LiveChat thread, its
  workflow state, and the human takeover that freezes it.

  A method that issues several statements is a computation on the connection,
  so that it can be interrupted between two of them.
\<close>

section \<open>Keys, events, states\<close>

definition conversation_id_for_chat :: "string option \<Rightarrow> string option \<Rightarrow> string" where
  "conversation_id_for_chat chat_id thread_id =
     (let chat = text_or ''unknown'' chat_id;
          thread = str_strip (text_or [] thread_id)
      in if thread \<noteq> [] then ''livechat:'' @ chat @ '':'' @ thread else ''livechat:'' @ chat)"

text \<open>\<open>InboundEvent\<close> (\<open>src/app/schemas/events.py\<close>).\<close>

record inbound_event =
  ev_source :: string
  ev_raw_action :: string
  ev_organization_id :: "string option"
  ev_chat_id :: "string option"
  ev_thread_id :: "string option"
  ev_event_id :: "string option"
  ev_event_type :: "string option"
  ev_standard_event_type :: string
  ev_author_id :: "string option"
  ev_sender_role :: string
  ev_occurred_at :: "string option"
  ev_dedup_key :: string
  ev_payload :: dict
  ev_ignored :: bool
  ev_ignore_reason :: "string option"

text \<open>The conversation dict that reads return.\<close>

record conversation =
  cv_conversation_id :: string
  cv_tenant_id :: string
  cv_channel_type :: string
  cv_chat_id :: string
  cv_thread_id :: "string option"
  cv_status :: string
  cv_active_workflow :: "string option"
  cv_workflow_stage :: "string option"
  cv_slot_memory :: "dict option"
  cv_handoff_state :: "dict option"

definition conversation_of :: "conversation_row \<Rightarrow> conversation" where
  "conversation_of r = \<lparr>cv_conversation_id = cs_conversation_id r, cv_tenant_id = cs_tenant_id r,
     cv_channel_type = cs_channel_type r, cv_chat_id = cs_chat_id r, cv_thread_id = cs_thread_id r,
     cv_status = cs_status r, cv_active_workflow = cs_active_workflow r,
     cv_workflow_stage = cs_workflow_stage r, cv_slot_memory = cs_slot_memory r,
     cv_handoff_state = cs_handoff_state r\<rparr>"

text \<open>
  The part of the graph state the repositories read.  \<open>gs_slot_memory\<close> is \<open>None\<close>
  when the key is absent; a present null is \<open>Some []\<close>, as \<open>... or {}\<close> makes it.
\<close>

record graph_state =
  gs_status :: "string option"
  gs_active_workflow :: "string option"
  gs_workflow_stage :: "string option"
  gs_slot_memory :: "dict option"
  gs_handoff_state :: "dict option"
  gs_delete_keys :: "string list"
  gs_case_update :: "(nat \<times> string) option"

definition opt_json :: "string option \<Rightarrow> json" where
  "opt_json x = (case x of None \<Rightarrow> JNull | Some s \<Rightarrow> JStr s)"

definition or_empty :: "dict option \<Rightarrow> dict" where
  "or_empty x = (case x of None \<Rightarrow> [] | Some d \<Rightarrow> d)"

definition locked_status :: "string \<Rightarrow> bool" where
  "locked_status s \<longleftrightarrow> s = ''HANDOFF_REQUESTED'' \<or> s = ''HUMAN_ACTIVE''"

section \<open>Inheriting an unfinished thread\<close>

definition is_fresh_ai_state :: "conversation \<Rightarrow> bool" where
  "is_fresh_ai_state c \<longleftrightarrow>
     str_upper (text_or ''AI_ACTIVE'' (Some (cv_status c))) = ''AI_ACTIVE'' \<and>
     \<not> text_true (cv_active_workflow c) \<and> \<not> text_true (cv_workflow_stage c) \<and>
     or_empty (cv_slot_memory c) = []"

definition thread_continuable_workflow_stages :: "string list" where
  "thread_continuable_workflow_stages =
     [''collecting_slots'', ''waiting_backend'', ''backend_querying'', ''lookup_pending_reply'']"

definition thread_continuable_statuses :: "string list" where
  "thread_continuable_statuses = [''WAITING_EXTERNAL'']"

definition is_continuable_previous_thread :: "conversation \<Rightarrow> bool" where
  "is_continuable_previous_thread c =
     (let st = str_upper (cv_status c); stage = text_or [] (cv_workflow_stage c)
      in if st \<in> {''CLOSED'', ''HUMAN_ACTIVE'', ''HANDOFF_REQUESTED''} then False
         else if stage = ''completed'' \<or> truthy (dget (or_empty (cv_slot_memory c)) ''telegram_case_resolved_at'')
         then False
         else st \<in> set thread_continuable_statuses \<or> stage \<in> set thread_continuable_workflow_stages)"

definition inherit_unfinished_thread_state :: "conversation \<Rightarrow> conversation \<Rightarrow> conversation" where
  "inherit_unfinished_thread_state cur prev =
     (if \<not> is_fresh_ai_state cur then cur
      else if \<not> is_continuable_previous_thread prev then cur
      else cur\<lparr>cv_status := text_or (cv_status cur) (Some (cv_status prev)),
               cv_active_workflow := cv_active_workflow prev,
               cv_workflow_stage := cv_workflow_stage prev,
               cv_slot_memory := Some (dput (or_empty (cv_slot_memory prev)) ''previous_thread_continuation''
                 (JObj [(''conversation_id'', JStr (cv_conversation_id prev)),
                        (''thread_id'', opt_json (cv_thread_id prev)),
                        (''active_workflow'', opt_json (cv_active_workflow prev)),
                        (''workflow_stage'', opt_json (cv_workflow_stage prev)),
                        (''status'', JStr (cv_status prev))]))\<rparr>)"

section \<open>Reading and creating\<close>

definition find_conversation :: "string \<Rightarrow> db \<Rightarrow> conversation_row option" where
  "find_conversation cid d = find (\<lambda>r. cs_conversation_id r = cid) (t_conversations d)"

definition get_by_conversation_id :: "string \<Rightarrow> db \<Rightarrow> conversation option" where
  "get_by_conversation_id cid d = map_option conversation_of (find_conversation cid d)"

definition new_conversation_row :: "time \<Rightarrow> string \<Rightarrow> string \<Rightarrow> string option \<Rightarrow> nat \<Rightarrow> conversation_row" where
  "new_conversation_row now cid chat thread i =
     \<lparr>cs_id = i, cs_conversation_id = cid, cs_tenant_id = ''default'', cs_channel_type = ''livechat'',
      cs_chat_id = chat, cs_thread_id = thread, cs_status = ''AI_ACTIVE'', cs_active_workflow = None,
      cs_workflow_stage = None, cs_slot_memory = None, cs_handoff_state = None,
      cs_updated_at = to_timestamp now\<rparr>"

text \<open>
  Writing a row: \<open>updated_at\<close> moves only when some column changes
  (\<open>ON UPDATE CURRENT_TIMESTAMP\<close>).
\<close>

definition touch :: "time \<Rightarrow> conversation_row \<Rightarrow> conversation_row \<Rightarrow> conversation_row" where
  "touch now old new = (if new = old then old else new\<lparr>cs_updated_at := to_timestamp now\<rparr>)"

text \<open>
  \<open>INSERT ... ON DUPLICATE KEY UPDATE current_thread_id = g(VALUES(current_thread_id),
  current_thread_id)\<close>; the two callers differ in \<open>g\<close>.
\<close>

definition upsert_conversation ::
  "(string option \<Rightarrow> string option \<Rightarrow> string option) \<Rightarrow> time \<Rightarrow> string \<Rightarrow> string \<Rightarrow> string option \<Rightarrow> db \<Rightarrow> db" where
  "upsert_conversation g now cid chat thread d =
     (let rows = t_conversations d in
      if \<exists>r \<in> set rows. cs_conversation_id r = cid
      then d\<lparr>t_conversations := update_where (\<lambda>r. cs_conversation_id r = cid)
             (\<lambda>r. touch now r (r\<lparr>cs_thread_id := g thread (cs_thread_id r)\<rparr>)) rows\<rparr>
      else d\<lparr>t_conversations := rows @ [new_conversation_row now cid chat thread (fresh_id (map cs_id rows))]\<rparr>)"

definition coalesce :: "'a option \<Rightarrow> 'a option \<Rightarrow> 'a option" where
  "coalesce a b = (case a of None \<Rightarrow> b | Some x \<Rightarrow> Some x)"

text \<open>\<open>ORDER BY updated_at DESC, id DESC LIMIT 1\<close> over the chat's other threads.\<close>

definition previous_conversation :: "string \<Rightarrow> string \<Rightarrow> db \<Rightarrow> conversation_row option" where
  "previous_conversation chat cid d =
     (case rev (sort_key cs_updated_at (sort_key cs_id
        (filter (\<lambda>r. cs_chat_id r = chat \<and> cs_conversation_id r \<noteq> cid) (t_conversations d)))) of
        [] \<Rightarrow> None | r # _ \<Rightarrow> Some r)"

definition default_conversation :: "string \<Rightarrow> string \<Rightarrow> string option \<Rightarrow> conversation" where
  "default_conversation cid chat thread =
     \<lparr>cv_conversation_id = cid, cv_tenant_id = ''default'', cv_channel_type = ''livechat'',
      cv_chat_id = chat, cv_thread_id = thread, cv_status = ''AI_ACTIVE'', cv_active_workflow = None,
      cv_workflow_stage = None, cv_slot_memory = Some [], cv_handoff_state = Some []\<rparr>"

text \<open>
  The result is the conversation and its \<open>previous_thread_state\<close> entry, if any.
\<close>

definition get_or_create ::
  "time \<Rightarrow> string \<Rightarrow> string option \<Rightarrow> ('c world, conversation \<times> conversation option) act" where
  "get_or_create now chat thread =
     (let cid = conversation_id_for_chat (Some chat) thread in
      andthen (update (upsert_conversation (\<lambda>new old. new) now cid chat thread)) (\<lambda>_.
      andthen (query (find_conversation cid)) (\<lambda>row.
      if text_true thread \<and> row = None
      then raise (SchemaError cid)
      else andthen (if text_true thread then query (previous_conversation chat cid) else ret None) (\<lambda>prev.
        ret (case row of
               None \<Rightarrow> (default_conversation cid chat thread, None)
             | Some r \<Rightarrow> (case prev of
                 None \<Rightarrow> (conversation_of r, None)
               | Some p \<Rightarrow> (inherit_unfinished_thread_state (conversation_of r) (conversation_of p),
                            Some (conversation_of p))))))))"

section \<open>Workflow state\<close>

definition workflow_row :: "graph_state \<Rightarrow> conversation_row \<Rightarrow> conversation_row" where
  "workflow_row gs r =
     r\<lparr>cs_status := (case gs_status gs of None \<Rightarrow> cs_status r | Some s \<Rightarrow> s),
       cs_active_workflow := gs_active_workflow gs,
       cs_workflow_stage := gs_workflow_stage gs,
       cs_slot_memory := Some (or_empty (gs_slot_memory gs)),
       cs_handoff_state := coalesce (gs_handoff_state gs) (cs_handoff_state r)\<rparr>"

text \<open>
  The \<open>WHERE\<close> clause; \<open>NULL IN (...)\<close> is not true.
\<close>

definition workflow_applies :: "string \<Rightarrow> graph_state \<Rightarrow> conversation_row \<Rightarrow> bool" where
  "workflow_applies cid gs r \<longleftrightarrow> cs_conversation_id r = cid \<and>
     (\<not> locked_status (cs_status r) \<or> (case gs_status gs of None \<Rightarrow> False | Some s \<Rightarrow> locked_status s))"

text \<open>The driver reports the rows it changed, not the rows that matched.\<close>

definition workflow_update :: "time \<Rightarrow> string \<Rightarrow> graph_state \<Rightarrow> db \<Rightarrow> nat \<times> db" where
  "workflow_update now cid gs d =
     (let rows = t_conversations d in
      (length (filter (\<lambda>r. workflow_applies cid gs r \<and> workflow_row gs r \<noteq> r) rows),
       d\<lparr>t_conversations := update_where (workflow_applies cid gs)
            (\<lambda>r. touch now r (workflow_row gs r)) rows\<rparr>))"

definition update_workflow_state ::
  "time \<Rightarrow> string \<Rightarrow> graph_state \<Rightarrow> ('c world, bool) act" where
  "update_workflow_state now cid gs =
     andthen (exec (workflow_update now cid gs)) (\<lambda>changed.
     if 0 < changed then ret True
     else andthen (query (find_conversation cid)) (\<lambda>row.
       ret (case row of
              None \<Rightarrow> False
            | Some r \<Rightarrow> \<not> locked_status (str_upper (cs_status r)) \<or>
                        locked_status (str_upper (text_or [] (gs_status gs))))))"

section \<open>Handoff failure and human takeover\<close>

definition handoff_failure_update :: "time \<Rightarrow> string \<Rightarrow> dict \<Rightarrow> db \<Rightarrow> db" where
  "handoff_failure_update now cid handoff d =
     d\<lparr>t_conversations := update_where
         (\<lambda>r. cs_conversation_id r = cid \<and> cs_status r \<noteq> ''HUMAN_ACTIVE'')
         (\<lambda>r. touch now r (r\<lparr>cs_status := ''HANDOFF_REQUESTED'',
                cs_active_workflow := Some ''human_handoff'',
                cs_workflow_stage := Some ''handoff_requested'',
                cs_handoff_state := Some handoff\<rparr>)) (t_conversations d)\<rparr>"

definition record_handoff_failure :: "time \<Rightarrow> string \<Rightarrow> dict \<Rightarrow> ('c world, bool) act" where
  "record_handoff_failure now cid failure =
     transaction (andthen (query (find_conversation cid)) (\<lambda>row.
       case row of
         None \<Rightarrow> ret False
       | Some r \<Rightarrow>
           if str_upper (cs_status r) = ''HUMAN_ACTIVE'' then ret False
           else andthen (update (handoff_failure_update now cid
                   (dput (or_empty (cs_handoff_state r)) ''failure'' (JObj failure))))
                (\<lambda>_. ret True)))"

definition human_active_state :: "dict \<Rightarrow> inbound_event \<Rightarrow> dict" where
  "human_active_state handoff ev =
     (let pick = (\<lambda>k dflt. if truthy (dget (ev_payload ev) k) then dget (ev_payload ev) k else opt_json dflt) in
      dmerge handoff
        [(''human_agent_detected'', JBool True),
         (''agent_id'', pick ''human_agent_id'' (ev_author_id ev)),
         (''first_agent_event_id'', pick ''human_agent_event_id'' (ev_event_id ev)),
         (''detected_at'', opt_json (ev_occurred_at ev)),
         (''source'', JStr ''livechat_agent_public_reply'')])"

definition human_active_update :: "time \<Rightarrow> string \<Rightarrow> dict \<Rightarrow> dict \<Rightarrow> db \<Rightarrow> db" where
  "human_active_update now cid slots handoff d =
     d\<lparr>t_conversations := update_where (\<lambda>r. cs_conversation_id r = cid)
         (\<lambda>r. touch now r (r\<lparr>cs_status := ''HUMAN_ACTIVE'', cs_workflow_stage := Some ''human_active'',
                cs_slot_memory := Some slots, cs_handoff_state := Some handoff\<rparr>)) (t_conversations d)\<rparr>"

definition cancel_job :: "string \<Rightarrow> 'z job_cols_scheme \<Rightarrow> 'z job_cols_scheme" where
  "cancel_job msg r = clear_lease (r\<lparr>status := ''SKIPPED_HUMAN_ACTIVE'', last_error := Some msg\<rparr>)"

definition cancel_jobs :: "string \<Rightarrow> string \<Rightarrow> 'z job_cols_scheme list \<Rightarrow> 'z job_cols_scheme list" where
  "cancel_jobs cid msg = update_where (\<lambda>r. conversation_id r = Some cid \<and> open_job r) (cancel_job msg)"

definition mark_human_active :: "time \<Rightarrow> inbound_event \<Rightarrow> ('c world, dict \<times> dict) act" where
  "mark_human_active now ev =
     (let chat = text_or ''unknown'' (ev_chat_id ev);
          cid = conversation_id_for_chat (Some chat) (ev_thread_id ev) in
      andthen (update (upsert_conversation coalesce now cid chat (ev_thread_id ev))) (\<lambda>_.
      andthen (query (find_conversation cid)) (\<lambda>row.
      let slots = (case row of None \<Rightarrow> [] | Some r \<Rightarrow> or_empty (cs_slot_memory r));
          handoff = human_active_state (case row of None \<Rightarrow> [] | Some r \<Rightarrow> or_empty (cs_handoff_state r)) ev
      in
      andthen (update (human_active_update now cid slots handoff)) (\<lambda>_.
      andthen (update (\<lambda>d. d\<lparr>t_outbound := cancel_jobs cid
          ''conversation is HUMAN_ACTIVE; outbound skipped'' (t_outbound d)\<rparr>)) (\<lambda>_.
      andthen (update (\<lambda>d. d\<lparr>t_commands := cancel_jobs cid
          ''conversation is HUMAN_ACTIVE; external command skipped'' (t_commands d)\<rparr>)) (\<lambda>_.
      andthen (update (\<lambda>d. d\<lparr>t_results := cancel_jobs cid
          ''conversation is HUMAN_ACTIVE; external result skipped'' (t_results d)\<rparr>)) (\<lambda>_.
      ret (slots, handoff))))))))"

definition is_conversation_human_active :: "string \<Rightarrow> db \<Rightarrow> bool" where
  "is_conversation_human_active cid d =
     (case find_conversation cid d of None \<Rightarrow> False
      | Some r \<Rightarrow> str_upper (cs_status r) = ''HUMAN_ACTIVE'')"

section \<open>One row per conversation\<close>

definition conversations_ok :: "db \<Rightarrow> bool" where
  "conversations_ok d \<longleftrightarrow> distinct (map cs_conversation_id (t_conversations d)) \<and>
     distinct (map cs_id (t_conversations d))"

lemma touch_simps [simp]:
  "cs_conversation_id (touch now old new) = cs_conversation_id new"
  "cs_id (touch now old new) = cs_id new"
  "cs_status (touch now old new) = cs_status new"
  "cs_chat_id (touch now old new) = cs_chat_id new"
  "cs_workflow_stage (touch now old new) = cs_workflow_stage new"
  "cs_active_workflow (touch now old new) = cs_active_workflow new"
  "cs_slot_memory (touch now old new) = cs_slot_memory new"
  "cs_handoff_state (touch now old new) = cs_handoff_state new"
  by (simp_all add: touch_def)

lemma workflow_row_simps [simp]:
  "cs_conversation_id (workflow_row gs r) = cs_conversation_id r"
  "cs_id (workflow_row gs r) = cs_id r"
  "cs_status (workflow_row gs r) = (case gs_status gs of None \<Rightarrow> cs_status r | Some s \<Rightarrow> s)"
  by (simp_all add: workflow_row_def)

lemma find_conversation_Some:
  "find_conversation cid d = Some r \<Longrightarrow> r \<in> set (t_conversations d) \<and> cs_conversation_id r = cid"
  unfolding find_conversation_def by (drule find_Some_iff_mem) simp

lemma find_conversation_unique:
  assumes "conversations_ok d" "r \<in> set (t_conversations d)"
  shows "find_conversation (cs_conversation_id r) d = Some r"
proof -
  obtain r' where r': "find_conversation (cs_conversation_id r) d = Some r'"
    using assms(2) by (cases "find_conversation (cs_conversation_id r) d")
      (auto simp: find_conversation_def find_None_iff)
  then have "r' = r"
    using find_conversation_Some [OF r'] assms by (auto simp: conversations_ok_def distinct_map inj_on_def)
  with r' show ?thesis by simp
qed

lemma conversations_ok_update:
  assumes "conversations_ok d" "\<And>r. cs_conversation_id (f r) = cs_conversation_id r" "\<And>r. cs_id (f r) = cs_id r"
  shows "conversations_ok (d\<lparr>t_conversations := update_where p f (t_conversations d)\<rparr>)"
  using assms by (simp add: conversations_ok_def map_update_where)

lemma upsert_conversation_ok:
  "conversations_ok d \<Longrightarrow> conversations_ok (upsert_conversation g now cid chat thread d)"
  by (auto simp: upsert_conversation_def Let_def new_conversation_row_def conversations_ok_update)
     (auto simp: conversations_ok_def)

section \<open>The handoff lock\<close>

text \<open>
  A conversation whose status is \<open>HANDOFF_REQUESTED\<close> or \<open>HUMAN_ACTIVE\<close> belongs to the
  human side.  \<open>lock_le\<close> says that no conversation has left that set.
\<close>

definition conversation_locked :: "string \<Rightarrow> db \<Rightarrow> bool" where
  "conversation_locked cid d \<longleftrightarrow>
     (\<exists>r \<in> set (t_conversations d). cs_conversation_id r = cid \<and> locked_status (cs_status r))"

definition lock_le :: "db \<Rightarrow> db \<Rightarrow> bool" where
  "lock_le d d' \<longleftrightarrow> (\<forall>cid. conversation_locked cid d \<longrightarrow> conversation_locked cid d')"

interpretation lock: db_preorder lock_le
  by unfold_locales (auto simp: lock_le_def)

lemma lock_le_same [simp]: "t_conversations d' = t_conversations d \<Longrightarrow> lock_le d d'"
  by (simp add: lock_le_def conversation_locked_def)

lemma lock_le_update:
  assumes "\<And>r. cs_conversation_id (f r) = cs_conversation_id r"
    and "\<And>r. p r \<Longrightarrow> locked_status (cs_status r) \<Longrightarrow> locked_status (cs_status (f r))"
    and "t_conversations d' = update_where p f (t_conversations d)"
  shows "lock_le d d'"
  unfolding lock_le_def
proof (intro allI impI)
  fix cid
  assume "conversation_locked cid d"
  then obtain r where r: "r \<in> set (t_conversations d)" "cs_conversation_id r = cid" "locked_status (cs_status r)"
    by (auto simp: conversation_locked_def)
  define r' where "r' = (if p r then f r else r)"
  have "r' \<in> set (t_conversations d')" "cs_conversation_id r' = cid" "locked_status (cs_status r')"
    using r assms by (auto simp: r'_def set_update_where)
  then show "conversation_locked cid d'"
    by (auto simp: conversation_locked_def)
qed

lemma lock_le_append:
  "t_conversations d' = t_conversations d @ rs \<Longrightarrow> lock_le d d'"
  by (auto simp: lock_le_def conversation_locked_def)

lemma lock_le_upsert: "lock_le d (upsert_conversation g now cid chat thread d)"
proof (cases "\<exists>r \<in> set (t_conversations d). cs_conversation_id r = cid")
  case True
  then show ?thesis
    by (intro lock_le_update [where p = "\<lambda>r. cs_conversation_id r = cid"
          and f = "\<lambda>r. touch now r (r\<lparr>cs_thread_id := g thread (cs_thread_id r)\<rparr>)"])
      (simp_all add: upsert_conversation_def)
next
  case False
  then show ?thesis by (intro lock_le_append) (simp add: upsert_conversation_def Let_def)
qed

lemma lock_le_workflow: "lock_le d (snd (workflow_update now cid gs d))"
  by (intro lock_le_update [where p = "workflow_applies cid gs"
        and f = "\<lambda>r. touch now r (workflow_row gs r)"])
    (auto simp: workflow_update_def Let_def workflow_applies_def split: option.splits)

lemma lock_le_handoff_failure: "lock_le d (handoff_failure_update now cid h d)"
  unfolding handoff_failure_update_def
  by (rule lock_le_update [where p = "\<lambda>r. cs_conversation_id r = cid \<and> cs_status r \<noteq> ''HUMAN_ACTIVE''"])
    (auto simp: locked_status_def)

lemma lock_le_human_active: "lock_le d (human_active_update now cid slots h d)"
  unfolding human_active_update_def
  by (rule lock_le_update [where p = "\<lambda>r. cs_conversation_id r = cid"])
    (auto simp: locked_status_def)

lemmas lock_le_statements = lock_le_upsert lock_le_workflow lock_le_handoff_failure
  lock_le_human_active lock_le_same

lemma get_or_create_lock: "stays lock_le (get_or_create now chat thread)"
  unfolding get_or_create_def Let_def
  by (intro lock.stays_intros lock.stays_update lock_le_statements)

lemma update_workflow_state_lock: "stays lock_le (update_workflow_state now cid gs)"
  unfolding update_workflow_state_def
  by (intro lock.stays_intros lock.stays_exec lock_le_statements)

lemma record_handoff_failure_lock: "stays lock_le (record_handoff_failure now cid failure)"
  unfolding record_handoff_failure_def
  by (intro lock.stays_intros lock.stays_update lock_le_statements)

lemma mark_human_active_lock: "stays lock_le (mark_human_active now ev)"
  unfolding mark_human_active_def Let_def
  by (intro lock.stays_intros lock.stays_update lock_le_statements) simp_all

section \<open>What a takeover guarantees\<close>

definition human_taken :: "string \<Rightarrow> db \<Rightarrow> bool" where
  "human_taken cid d \<longleftrightarrow>
     find_conversation cid d \<noteq> None \<and>
     (\<forall>r \<in> set (t_conversations d). cs_conversation_id r = cid \<longrightarrow> cs_status r = ''HUMAN_ACTIVE'') \<and>
     (\<forall>r \<in> set (t_outbound d). conversation_id r = Some cid \<longrightarrow> \<not> open_job r) \<and>
     (\<forall>r \<in> set (t_commands d). conversation_id r = Some cid \<longrightarrow> \<not> open_job r) \<and>
     (\<forall>r \<in> set (t_results d). conversation_id r = Some cid \<longrightarrow> \<not> open_job r)"

lemma cancel_job_simps [simp]:
  "row_id (cancel_job msg r) = row_id r"
  "status (cancel_job msg r) = ''SKIPPED_HUMAN_ACTIVE''"
  "\<not> open_job (cancel_job msg r)"
  "conversation_id (cancel_job msg r) = conversation_id r"
  by (simp_all add: cancel_job_def clear_lease_def open_job_def open_status_def)

lemma cancel_jobs_closes:
  "r \<in> set (cancel_jobs cid msg rows) \<Longrightarrow> conversation_id r = Some cid \<Longrightarrow> \<not> open_job r"
  unfolding cancel_jobs_def by (erule update_whereE) simp_all

lemma cancel_jobs_others:
  assumes "conversation_id r \<noteq> Some cid"
  shows "r \<in> set (cancel_jobs cid msg rows) \<longleftrightarrow> r \<in> set rows"
proof
  show "r \<in> set rows" if "r \<in> set (cancel_jobs cid msg rows)"
    using that assms unfolding cancel_jobs_def by (elim update_whereE) simp_all
  show "r \<in> set (cancel_jobs cid msg rows)" if "r \<in> set rows"
    using that assms unfolding cancel_jobs_def by (intro update_where_sameI) simp_all
qed

lemma find_conversation_iff:
  "find_conversation cid d \<noteq> None \<longleftrightarrow> (\<exists>r \<in> set (t_conversations d). cs_conversation_id r = cid)"
  unfolding find_conversation_def by (rule find_not_None_iff)

lemma bex_image: "(\<exists>r \<in> A. f r = c) \<longleftrightarrow> c \<in> f ` A"
  by auto

lemma mem_ids_update:
  assumes "\<And>r. cs_conversation_id (f r) = cs_conversation_id r"
  shows "(\<exists>r \<in> set (update_where p f rows). cs_conversation_id r = cid) \<longleftrightarrow>
         (\<exists>r \<in> set rows. cs_conversation_id r = cid)"
proof -
  have "set (map cs_conversation_id (update_where p f rows)) = set (map cs_conversation_id rows)"
    by (simp only: map_update_where assms)
  then show ?thesis by (simp only: bex_image set_map)
qed

lemma upsert_conversation_finds:
  "find_conversation cid (upsert_conversation g now cid chat thread d) \<noteq> None"
proof (cases "\<exists>r \<in> set (t_conversations d). cs_conversation_id r = cid")
  case True
  then show ?thesis
    unfolding find_conversation_iff upsert_conversation_def Let_def by (simp add: mem_ids_update)
next
  case False
  then show ?thesis
    unfolding find_conversation_iff upsert_conversation_def Let_def
    by (simp add: new_conversation_row_def)
qed

lemma human_active_update_sets:
  "r \<in> set (t_conversations (human_active_update now cid slots h d)) \<Longrightarrow>
   cs_conversation_id r = cid \<Longrightarrow> cs_status r = ''HUMAN_ACTIVE''"
  unfolding human_active_update_def by (simp, elim update_whereE) simp_all

lemma human_active_update_finds:
  "find_conversation cid (human_active_update now cid' slots h d) \<noteq> None \<longleftrightarrow> find_conversation cid d \<noteq> None"
  unfolding find_conversation_iff human_active_update_def by (simp add: mem_ids_update)

text \<open>The one database that a takeover without a failed statement writes.\<close>

definition taken_over :: "time \<Rightarrow> inbound_event \<Rightarrow> string \<Rightarrow> db \<Rightarrow> db" where
  "taken_over now ev cid d0 =
     (let d1 = upsert_conversation coalesce now cid (text_or ''unknown'' (ev_chat_id ev)) (ev_thread_id ev) d0;
          row = find_conversation cid d1;
          slots = (case row of None \<Rightarrow> [] | Some r \<Rightarrow> or_empty (cs_slot_memory r));
          handoff = human_active_state (case row of None \<Rightarrow> [] | Some r \<Rightarrow> or_empty (cs_handoff_state r)) ev;
          d = human_active_update now cid slots handoff d1
      in d\<lparr>t_outbound := cancel_jobs cid ''conversation is HUMAN_ACTIVE; outbound skipped'' (t_outbound d),
           t_commands := cancel_jobs cid ''conversation is HUMAN_ACTIVE; external command skipped'' (t_commands d),
           t_results := cancel_jobs cid ''conversation is HUMAN_ACTIVE; external result skipped'' (t_results d)\<rparr>)"

definition event_conversation_id :: "inbound_event \<Rightarrow> string" where
  "event_conversation_id ev =
     conversation_id_for_chat (Some (text_or ''unknown'' (ev_chat_id ev))) (ev_thread_id ev)"

lemma mark_human_active_store:
  assumes "mark_human_active now ev w = (Inr res, w')"
  shows "store w' = taken_over now ev (event_conversation_id ev) (store w)" and "calls w' = calls w"
  using assms unfolding mark_human_active_def Let_def event_conversation_id_def
  by (auto simp: run_iffs taken_over_def Let_def dest!: update_InrD query_InrD)

lemma other_tables_kept:
  "t_commands (upsert_conversation g now cid chat thread d) = t_commands d"
  "t_outbound (upsert_conversation g now cid chat thread d) = t_outbound d"
  "t_results (upsert_conversation g now cid chat thread d) = t_results d"
  "t_inbound (upsert_conversation g now cid chat thread d) = t_inbound d"
  "t_messages (upsert_conversation g now cid chat thread d) = t_messages d"
  "t_commands (human_active_update now cid slots h d) = t_commands d"
  "t_outbound (human_active_update now cid slots h d) = t_outbound d"
  "t_results (human_active_update now cid slots h d) = t_results d"
  "t_inbound (human_active_update now cid slots h d) = t_inbound d"
  "t_messages (human_active_update now cid slots h d) = t_messages d"
  by (simp_all add: upsert_conversation_def Let_def human_active_update_def)

lemma taken_over_human: "human_taken cid (taken_over now ev cid d)"
proof -
  have "find_conversation cid (human_active_update now cid slots handoff (upsert_conversation g now cid chat th d)) \<noteq> None"
    for slots handoff g chat th
    unfolding human_active_update_finds by (rule upsert_conversation_finds)
  moreover note human_active_update_sets
  ultimately show ?thesis
    unfolding human_taken_def taken_over_def Let_def
    by (auto simp: find_conversation_def dest: cancel_jobs_closes)
qed

text \<open>
  Claim C9.  When \<open>mark_human_active_on_connection\<close> returns, whatever the state it
  started from, the conversation exists, its status is \<open>HUMAN_ACTIVE\<close>, none of its
  outbound messages, external commands and results is left to be leased, and no job
  of another conversation has changed.
\<close>

theorem mark_human_active_takes_over:
  assumes "mark_human_active now ev w = (Inr res, w')"
  shows "human_taken (event_conversation_id ev) (store w') \<and>
    (\<forall>r. conversation_id r \<noteq> Some (event_conversation_id ev) \<longrightarrow>
       (r \<in> set (t_outbound (store w')) \<longleftrightarrow> r \<in> set (t_outbound (store w)))) \<and>
    (\<forall>r. conversation_id r \<noteq> Some (event_conversation_id ev) \<longrightarrow>
       (r \<in> set (t_commands (store w')) \<longleftrightarrow> r \<in> set (t_commands (store w)))) \<and>
    (\<forall>r. conversation_id r \<noteq> Some (event_conversation_id ev) \<longrightarrow>
       (r \<in> set (t_results (store w')) \<longleftrightarrow> r \<in> set (t_results (store w))))"
  using mark_human_active_store(1) [OF assms] taken_over_human
  by (auto simp: taken_over_def Let_def cancel_jobs_others other_tables_kept)

end
