(* ===== verification/Inbound.thy ===== *)
theory Inbound
  imports Conversations
begin

text \<open>
  \<open>InboundEventRepository\<close> and \<open>LiveChatWebhookAuditRepository\<close>
  (\<open>src/app/db/repositories.py\<close>): the queue of events received from LiveChat,
  leased at most one per chat and in order, and the audit of the webhook.
\<close>

section \<open>Insertion\<close>

definition is_human_agent_public_reply_event :: "inbound_event \<Rightarrow> bool" where
  "is_human_agent_public_reply_event ev = truthy (dget (ev_payload ev) ''human_agent_public_reply'')"

definition new_inbound_row :: "time \<Rightarrow> inbound_event \<Rightarrow> nat \<Rightarrow> inbound_row" where
  "new_inbound_row now ev i =
     \<lparr>row_id = i, leased_at = None, lease_expires_at = None, locked_by = None, attempted_at = None,
      processed_at = None, created_at = to_timestamp now,
      in_source = ev_source ev, in_raw_action = ev_raw_action ev,
      in_organization_id = ev_organization_id ev, in_chat_id = ev_chat_id ev,
      in_thread_id = ev_thread_id ev, in_event_id = ev_event_id ev, in_event_type = ev_event_type ev,
      in_standard_event_type = ev_standard_event_type ev, in_author_id = ev_author_id ev,
      in_sender_role = ev_sender_role ev, in_occurred_at = ev_occurred_at ev,
      in_dedup_key = ev_dedup_key ev, in_payload = ev_payload ev, in_ignored = ev_ignored ev,
      in_ignore_reason = ev_ignore_reason ev, in_processed = False\<rparr>"

definition ib_clash :: "inbound_row \<Rightarrow> inbound_row \<Rightarrow> bool" where
  "ib_clash a b \<longleftrightarrow> in_dedup_key a = in_dedup_key b"

definition ib_insert_row :: "time \<Rightarrow> inbound_event \<Rightarrow> db \<Rightarrow> nat option \<times> db" where
  "ib_insert_row now ev d =
     (let (res, rows) = insert_new row_id ib_clash (new_inbound_row now ev) (t_inbound d)
      in (res, d\<lparr>t_inbound := rows\<rparr>))"

text \<open>
  \<open>insert\<close>: the statements run in autocommit mode, outside any transaction.  The
  result says whether the event was inserted (else it is a duplicate).
\<close>

definition ib_insert :: "time \<Rightarrow> inbound_event \<Rightarrow> ('c world, bool) act" where
  "ib_insert now ev =
     andthen (exec (ib_insert_row now ev)) (\<lambda>res.
     if res \<noteq> None \<and> is_human_agent_public_reply_event ev
     then andthen (mark_human_active now ev) (\<lambda>_. ret True)
     else ret (res \<noteq> None))"

section \<open>Reading and leasing\<close>

definition open_inbound :: "inbound_row \<Rightarrow> bool" where
  "open_inbound r \<longleftrightarrow> \<not> in_processed r \<and> \<not> in_ignored r"

text \<open>\<open>COALESCE(chat_id, CONCAT('inbound:', id))\<close>\<close>

definition chat_key :: "inbound_row \<Rightarrow> string" where
  "chat_key r = (case in_chat_id r of Some c \<Rightarrow> c | None \<Rightarrow> ''inbound:'' @ nat_str (row_id r))"

definition no_earlier :: "inbound_row list \<Rightarrow> inbound_row \<Rightarrow> bool" where
  "no_earlier rows r \<longleftrightarrow> \<not> (\<exists>e \<in> set rows. open_inbound e \<and> chat_key e = chat_key r \<and> row_id e < row_id r)"

definition ib_fetch_unprocessed :: "nat \<Rightarrow> db \<Rightarrow> inbound_row list" where
  "ib_fetch_unprocessed limit d = take limit (sort_key row_id (filter open_inbound (t_inbound d)))"

definition select_inbound :: "time \<Rightarrow> (nat \<Rightarrow> bool) \<Rightarrow> nat \<Rightarrow> inbound_row list \<Rightarrow> nat list" where
  "select_inbound now held limit rows =
     map row_id (take limit (filter (\<lambda>r. \<not> held (row_id r))
       (sort_key row_id (filter (\<lambda>r. open_inbound r \<and> lease_free now r \<and> no_earlier rows r) rows))))"

definition lease_inbound ::
  "time \<Rightarrow> time \<Rightarrow> (nat \<Rightarrow> bool) \<Rightarrow> nat \<Rightarrow> string \<Rightarrow> int \<Rightarrow> inbound_row list
     \<Rightarrow> inbound_row list \<times> inbound_row list" where
  "lease_inbound now now' held limit worker secs rows =
     (let ids = select_inbound now held limit rows;
          rows' = grant_ids ids now' secs worker rows
      in (sort_key row_id (filter (\<lambda>r. row_id r \<in> set ids) rows'), rows'))"

definition ib_lease_unprocessed ::
  "time \<Rightarrow> time \<Rightarrow> (nat \<Rightarrow> bool) \<Rightarrow> nat \<Rightarrow> string \<Rightarrow> int \<Rightarrow> db \<Rightarrow> inbound_row list \<times> db" where
  "ib_lease_unprocessed now now' held limit worker secs d =
     (let (leased, rows) = lease_inbound now now' held limit worker secs (t_inbound d)
      in (leased, d\<lparr>t_inbound := rows\<rparr>))"

definition ib_fetch_unprocessed_by_id :: "nat \<Rightarrow> db \<Rightarrow> inbound_row option" where
  "ib_fetch_unprocessed_by_id i d = find (\<lambda>r. row_id r = i \<and> open_inbound r) (t_inbound d)"

section \<open>Settling\<close>

definition ib_update :: "nat \<Rightarrow> (inbound_row \<Rightarrow> inbound_row) \<Rightarrow> db \<Rightarrow> db" where
  "ib_update i f d = d\<lparr>t_inbound := at_id i f (t_inbound d)\<rparr>"

definition ib_mark_processed :: "time \<Rightarrow> nat \<Rightarrow> db \<Rightarrow> db" where
  "ib_mark_processed now i = ib_update i (\<lambda>r.
     clear_lease (r\<lparr>in_processed := True, processed_at := Some now\<rparr>))"

definition ib_release_lease :: "nat \<Rightarrow> db \<Rightarrow> db" where
  "ib_release_lease i = ib_update i clear_lease"

definition ib_extend_lease :: "time \<Rightarrow> nat \<Rightarrow> string \<Rightarrow> int \<Rightarrow> db \<Rightarrow> nat \<times> db" where
  "ib_extend_lease now i worker secs d =
     (let p = (\<lambda>r. row_id r = i \<and> locked_by r = Some worker \<and> \<not> in_processed r) in
      (length (filter p (t_inbound d)),
       d\<lparr>t_inbound := update_where p (\<lambda>r. r\<lparr>lease_expires_at := Some (add_seconds now secs)\<rparr>) (t_inbound d)\<rparr>))"

definition ib_recover_expired_leases :: "time \<Rightarrow> db \<Rightarrow> nat \<times> db" where
  "ib_recover_expired_leases now d =
     (let (n, rows) = recover open_inbound now (t_inbound d) in (n, d\<lparr>t_inbound := rows\<rparr>))"

section \<open>Group identifiers\<close>

definition coerce_group_ids :: "json \<Rightarrow> int list" where
  "coerce_group_ids j = (case j of JNull \<Rightarrow> [] | JArr xs \<Rightarrow> List.map_filter int_of_json xs
                         | _ \<Rightarrow> List.map_filter int_of_json [j])"

fun extract_livechat_group_ids :: "json \<Rightarrow> int list" where
  "extract_livechat_group_ids (JObj d) = concat (map (\<lambda>(k, v).
     if k = ''group_id'' \<or> k = ''group_ids'' then coerce_group_ids v
     else extract_livechat_group_ids v) d)"
| "extract_livechat_group_ids (JArr xs) = concat (map extract_livechat_group_ids xs)"
| "extract_livechat_group_ids _ = []"

definition ib_fetch_recent_livechat_group_ids :: "string option \<Rightarrow> nat \<Rightarrow> db \<Rightarrow> int set" where
  "ib_fetch_recent_livechat_group_ids chat limit d =
     (if \<not> text_true chat then {}
      else set (concat (map (\<lambda>r. extract_livechat_group_ids (JObj (in_payload r)))
             (take limit (rev (sort_key row_id (filter (\<lambda>r. in_source r = ''livechat_webhook'' \<and>
                in_chat_id r = chat) (t_inbound d))))))))"

section \<open>Webhook audit\<close>

fun first_text :: "json list \<Rightarrow> string option" where
  "first_text [] = None"
| "first_text (v # vs) =
     (if v = JNull then first_text vs
      else let t = str_strip (py_str v) in if t \<noteq> [] then Some t else first_text vs)"

text \<open>The identifiers, in the order of the columns of the audit table.\<close>

definition webhook_identifiers :: "json \<Rightarrow> (string \<times> string option) list" where
  "webhook_identifiers b =
     (let body = dict_of b;
          payload = dict_of (dget body ''payload'');
          chat = dict_of (dget payload ''chat'');
          thread0 = dict_of (dget payload ''thread'');
          thread = (if thread0 = [] then dict_of (dget chat ''thread'') else thread0);
          event = dict_of (dget payload ''event'')
      in [(''webhook_id'', first_text [dget body ''webhook_id'']),
          (''action'', first_text [dget body ''action'']),
          (''organization_id'', first_text [dget body ''organization_id'']),
          (''chat_id'', first_text [dget payload ''chat_id'', dget chat ''id'', dget chat ''chat_id'']),
          (''thread_id'', first_text [dget payload ''thread_id'', dget thread ''id'', dget event ''thread_id'']),
          (''event_id'', first_text [dget event ''id'', dget payload ''event_id'']),
          (''event_type'', first_text [dget event ''type''])])"

definition redacted_webhook_payload :: "json \<Rightarrow> dict" where
  "redacted_webhook_payload b =
     (case b of
        JObj body \<Rightarrow> if map_of body ''secret_key'' \<noteq> None
                     then dput body ''secret_key'' (JStr ''<redacted>'') else body
      | _ \<Rightarrow> [(''malformed_body'', JBool True)])"

definition ident :: "json \<Rightarrow> string \<Rightarrow> string option" where
  "ident b k = Option.bind (map_of (webhook_identifiers b) k) id"

definition wa_insert_received :: "json \<Rightarrow> db \<Rightarrow> nat \<times> db" where
  "wa_insert_received b d =
     (let i = fresh_id (map wa_id (t_audit d)) in
      (i, d\<lparr>t_audit := t_audit d @ [\<lparr>wa_id = i, wa_webhook_id = ident b ''webhook_id'',
         wa_action = ident b ''action'', wa_organization_id = ident b ''organization_id'',
         wa_chat_id = ident b ''chat_id'', wa_thread_id = ident b ''thread_id'',
         wa_event_id = ident b ''event_id'', wa_event_type = ident b ''event_type'',
         wa_status = ''RECEIVED'', wa_http_status = None, wa_counts = [0, 0, 0, 0], wa_error = None,
         wa_payload = redacted_webhook_payload b\<rparr>]\<rparr>))"

definition wa_update :: "nat \<Rightarrow> (audit_row \<Rightarrow> audit_row) \<Rightarrow> db \<Rightarrow> db" where
  "wa_update i f d = d\<lparr>t_audit := update_where (\<lambda>r. wa_id r = i) f (t_audit d)\<rparr>"

definition wa_mark_completed :: "nat \<Rightarrow> int \<Rightarrow> int \<Rightarrow> int \<Rightarrow> int \<Rightarrow> int \<Rightarrow> db \<Rightarrow> db" where
  "wa_mark_completed i http_status normalized inserted duplicate ignored = wa_update i (\<lambda>r.
     r\<lparr>wa_status := ''COMPLETED'', wa_http_status := Some http_status,
       wa_counts := [normalized, inserted, duplicate, ignored], wa_error := None\<rparr>)"

definition wa_mark_failed :: "nat \<Rightarrow> int \<Rightarrow> string \<times> string \<Rightarrow> db \<Rightarrow> db" where
  "wa_mark_failed i http_status err = wa_update i (\<lambda>r.
     r\<lparr>wa_status := ''FAILED'', wa_http_status := Some http_status, wa_error := Some err\<rparr>)"

section \<open>Keys and leases of the inbound table\<close>

interpretation ib_keys: unique_keys row_id ib_clash
  by unfold_locales (simp add: ib_clash_def)

lemma select_inbound_sound:
  "i \<in> set (select_inbound now held n rows) \<Longrightarrow>
   \<exists>r \<in> set rows. row_id r = i \<and> open_inbound r \<and> lease_free now r \<and> no_earlier rows r \<and> \<not> held i"
  by (auto simp: select_inbound_def dest!: in_set_takeD)

lemma ids_lease_inbound:
  assumes "lease_inbound now now' held n w s rows = (leased, rows')"
  shows "set (map row_id leased) = set (select_inbound now held n rows)"
proof -
  have "set (select_inbound now held n rows) \<subseteq> set (map row_id rows)"
    using select_inbound_sound by fastforce
  moreover have "set (map row_id leased) =
      {i \<in> set (map row_id (grant_ids (select_inbound now held n rows) now' s w rows)).
         i \<in> set (select_inbound now held n rows)}"
    using assms by (auto simp: lease_inbound_def Let_def)
  ultimately show ?thesis by auto
qed

interpretation inbound_queue: lease_queue lease_inbound open_inbound
proof unfold_locales
  fix now now' :: time and held n w s rows leased rows'
  assume l: "lease_inbound now now' held n w s rows = (leased, rows')"
  note ids = ids_lease_inbound [OF l]
  have "rows' = grant_ids (select_inbound now held n rows) now' s w rows"
    using l by (auto simp: lease_inbound_def Let_def)
  then show "rows' = grant_ids (map row_id leased) now' s w rows"
    by (simp only: grant_ids_cong [OF ids])
  show "\<exists>r0 \<in> set rows. row_id r0 = row_id r \<and> open_inbound r0 \<and> lease_free now' r0"
    if "now \<le> now'" "r \<in> set leased" for r
    using select_inbound_sound [of "row_id r" now held n rows] ids that lease_free_mono by fastforce
qed

section \<open>Runs of the inbound queue\<close>

text \<open>
  What can happen to the inbound table: events arrive, gateway workers lease,
  settle (with or without a live lease, the statements do not check it), leases
  expire and are recovered, and other tables change.  The grants are the pairs
  of a worker and a row it was handed, with the end of the lease.
\<close>

inductive inbound_run :: "db \<Rightarrow> time \<Rightarrow> grants \<Rightarrow> bool" where
  empty: "t_inbound d = [] \<Longrightarrow> inbound_run d now {}"
| tick: "inbound_run d now G \<Longrightarrow> now \<le> now' \<Longrightarrow> inbound_run d now' G"
| arrive: "inbound_run d now G \<Longrightarrow> ib_insert_row now ev d = (res, d') \<Longrightarrow> inbound_run d' now G"
| lease: "inbound_run d now G \<Longrightarrow> now \<le> now' \<Longrightarrow>
     ib_lease_unprocessed now now' held n w s d = (leased, d') \<Longrightarrow>
     inbound_run d' now' (G \<union> {(w, row_id r, add_seconds now' s) | r. r \<in> set leased})"
| processed: "inbound_run d now G \<Longrightarrow> (w, i, e) \<in> G \<Longrightarrow>
     inbound_run (ib_mark_processed now i d) now {g \<in> G. \<not> (fst g = w \<and> fst (snd g) = i)}"
| release: "inbound_run d now G \<Longrightarrow> (w, i, e) \<in> G \<Longrightarrow>
     inbound_run (ib_release_lease i d) now {g \<in> G. \<not> (fst g = w \<and> fst (snd g) = i)}"
| recover: "inbound_run d now G \<Longrightarrow> inbound_run (snd (ib_recover_expired_leases now d)) now G"
| other: "inbound_run d now G \<Longrightarrow> t_inbound d' = t_inbound d \<Longrightarrow> inbound_run d' now G"

text \<open>
  \<open>before rows i\<close>: every event of the chat of row \<open>i\<close> that arrived before it has
  been processed (ignored events apart).
\<close>

definition before :: "inbound_row list \<Rightarrow> nat \<Rightarrow> bool" where
  "before rows i \<longleftrightarrow> (\<forall>r \<in> set rows. row_id r = i \<longrightarrow> no_earlier rows r)"

definition inbound_inv :: "inbound_row list \<Rightarrow> grants \<Rightarrow> bool" where
  "inbound_inv rows G \<longleftrightarrow> distinct (map row_id rows) \<and>
     (\<forall>w i e. (w, i, e) \<in> G \<longrightarrow> i \<in> set (map row_id rows) \<and> before rows i) \<and>
     (\<forall>r \<in> set rows. in_processed r \<longrightarrow> no_earlier rows r)"

text \<open>An update that keeps identifiers and chats and reopens no event keeps the order.\<close>

lemma no_earlier_update:
  assumes "\<And>r. row_id (f r) = row_id r" "\<And>r. chat_key (f r) = chat_key r"
    and "\<And>r. open_inbound (f r) \<Longrightarrow> open_inbound r"
    and "no_earlier rows r" "chat_key r' = chat_key r" "row_id r' = row_id r"
  shows "no_earlier (update_where p f rows) r'"
  unfolding no_earlier_def
proof
  assume "\<exists>e \<in> set (update_where p f rows). open_inbound e \<and> chat_key e = chat_key r' \<and> row_id e < row_id r'"
  then obtain e where e: "e \<in> set (update_where p f rows)" "open_inbound e"
    "chat_key e = chat_key r" "row_id e < row_id r"
    using assms(5,6) by auto
  from e(1) obtain x where "x \<in> set rows" "open_inbound x" "chat_key x = chat_key e" "row_id x = row_id e"
    by (cases rule: update_whereE) (use e(2) assms(1-3) in auto)
  then show False using assms(4) e(3,4) by (auto simp: no_earlier_def)
qed

lemma before_update:
  assumes "\<And>r. row_id (f r) = row_id r" "\<And>r. chat_key (f r) = chat_key r"
    and "\<And>r. open_inbound (f r) \<Longrightarrow> open_inbound r" "before rows i"
  shows "before (update_where p f rows) i"
  unfolding before_def
proof (intro ballI impI)
  fix r assume r: "r \<in> set (update_where p f rows)" "row_id r = i"
  from r(1) obtain x where "x \<in> set rows" "chat_key r = chat_key x" "row_id r = row_id x"
    by (cases rule: update_whereE) (use assms(1,2) in auto)
  then show "no_earlier (update_where p f rows) r"
    using assms r(2) by (intro no_earlier_update [of f rows x r]) (auto simp: before_def)
qed

lemma inbound_inv_update:
  assumes inv: "inbound_inv rows G"
    and f: "\<And>r. row_id (f r) = row_id r" "\<And>r. chat_key (f r) = chat_key r"
      "\<And>r. open_inbound (f r) \<Longrightarrow> open_inbound r"
    and proc: "\<And>r. r \<in> set rows \<Longrightarrow> p r \<Longrightarrow> in_processed (f r) \<Longrightarrow> \<not> in_processed r \<Longrightarrow> no_earlier rows r"
    and H: "\<And>w i e. (w, i, e) \<in> H \<Longrightarrow> (w, i, e) \<in> G \<or> i \<in> set (map row_id rows) \<and> before rows i"
  shows "inbound_inv (update_where p f rows) H"
  unfolding inbound_inv_def
proof (intro conjI allI impI ballI)
  show "distinct (map row_id (update_where p f rows))"
    using inv f(1) by (simp add: inbound_inv_def map_update_where)
next
  fix w i e assume "(w, i, e) \<in> H"
  then have "i \<in> set (map row_id rows)" "before rows i"
    using H inv by (fastforce simp: inbound_inv_def)+
  then show "i \<in> set (map row_id (update_where p f rows))" "before (update_where p f rows) i"
    using f by (simp_all only: map_update_where before_update)
next
  fix r assume r: "r \<in> set (update_where p f rows)" "in_processed r"
  from r(1) show "no_earlier (update_where p f rows) r"
  proof (cases rule: update_whereE)
    case (changed x)
    then have "no_earlier rows x"
      using proc r(2) inv by (auto simp: inbound_inv_def)
    then show ?thesis using changed f by (intro no_earlier_update [of f rows x r]) auto
  next
    case same
    then have "no_earlier rows r" using r(2) inv by (simp add: inbound_inv_def)
    then show ?thesis using f by (intro no_earlier_update [of f rows r r]) auto
  qed
qed

lemma inbound_inv_append:
  assumes inv: "inbound_inv rows G" and new: "\<And>r. r \<in> set rows \<Longrightarrow> row_id r < row_id x" "\<not> in_processed x"
  shows "inbound_inv (rows @ [x]) G"
proof -
  have keep: "no_earlier rows r \<Longrightarrow> r \<in> set rows \<Longrightarrow> no_earlier (rows @ [x]) r" for r
    using new(1) by (fastforce simp: no_earlier_def)
  have "before (rows @ [x]) i" if "(w, i, e) \<in> G" for w i e
  proof -
    from that inv have i: "i \<in> set (map row_id rows)" "before rows i"
      by (auto simp: inbound_inv_def)
    then have "row_id x \<noteq> i" using new(1) by fastforce
    then show ?thesis using i(2) keep by (auto simp: before_def)
  qed
  moreover have "row_id x \<notin> row_id ` set rows" using new(1) by fastforce
  ultimately show ?thesis
    using inv new keep by (auto simp: inbound_inv_def)
qed

lemma chat_key_cong:
  "in_chat_id r' = in_chat_id r \<Longrightarrow> row_id r' = row_id r \<Longrightarrow> chat_key r' = chat_key r"
  by (simp add: chat_key_def split: option.split)

lemma inbound_lease_simps [simp]:
  "in_chat_id (grant now s w r) = in_chat_id r" "in_chat_id (clear_lease r) = in_chat_id r"
  "in_processed (grant now s w r) = in_processed r" "in_processed (clear_lease r) = in_processed r"
  "open_inbound (grant now s w r) = open_inbound r" "open_inbound (clear_lease r) = open_inbound r"
  "chat_key (grant now s w r) = chat_key r" "chat_key (clear_lease r) = chat_key r"
  by (simp_all add: grant_def clear_lease_def open_inbound_def chat_key_def split: option.split)

lemma row_id_below_fresh: "r \<in> set rows \<Longrightarrow> row_id r < fresh_id (map row_id rows)"
  by (rule fresh_id_gt) simp

lemma inbound_run_inv: "inbound_run d now G \<Longrightarrow> inbound_inv (t_inbound d) G"
proof (induction rule: inbound_run.induct)
  case (empty d now)
  then show ?case by (simp add: inbound_inv_def)
next
  case (arrive d now G ev res d')
  from arrive(2) obtain rows where ins: "insert_new row_id ib_clash (new_inbound_row now ev) (t_inbound d) = (res, rows)"
    and d': "d' = d\<lparr>t_inbound := rows\<rparr>"
    by (auto simp: ib_insert_row_def split: prod.splits)
  from ins show ?case
  proof (cases rule: ib_keys.insert_new_cases)
    case dup
    then show ?thesis using arrive.IH d' by simp
  next
    case (fresh i)
    then show ?thesis
      using arrive.IH by (auto simp: d' new_inbound_row_def intro!: inbound_inv_append row_id_below_fresh)
  qed
next
  case (lease d now G now' held n w s leased d')
  then have l: "lease_inbound now now' held n w s (t_inbound d) = (leased, t_inbound d')"
    by (auto simp: ib_lease_unprocessed_def split: prod.splits)
  have ids: "set (map row_id leased) = set (select_inbound now held n (t_inbound d))"
    by (rule ids_lease_inbound [OF l])
  have granted: "row_id r \<in> set (map row_id (t_inbound d)) \<and> before (t_inbound d) (row_id r)"
    if "r \<in> set leased" for r
  proof -
    from that ids obtain r0 where r0: "r0 \<in> set (t_inbound d)" "row_id r0 = row_id r" "no_earlier (t_inbound d) r0"
      using select_inbound_sound [of "row_id r" now held n "t_inbound d"] by fastforce
    have "x = r0" if "x \<in> set (t_inbound d)" "row_id x = row_id r" for x
      using distinct_map_eqD [of row_id "t_inbound d" x r0] that r0 lease.IH by (simp add: inbound_inv_def)
    then have "before (t_inbound d) (row_id r)"
      using r0(3) unfolding before_def by blast
    moreover have "row_id r \<in> set (map row_id (t_inbound d))"
      using r0(1,2) by (metis image_eqI list.set_map)
    ultimately show ?thesis by blast
  qed
  have "t_inbound d' = grant_ids (map row_id leased) now' s w (t_inbound d)"
    by (rule inbound_queue.lease_table [OF l])
  then show ?case
    unfolding grant_ids_def
    using granted by (auto intro!: inbound_inv_update [OF lease.IH])
next
  case (processed d now G w i e)
  then have "before (t_inbound d) i" by (auto simp: inbound_inv_def)
  then show ?case
    unfolding ib_mark_processed_def ib_update_def at_id_def
    by (auto intro!: inbound_inv_update [OF processed.IH] chat_key_cong simp: before_def open_inbound_def)
next
  case (release d now G w i e)
  then show ?case
    unfolding ib_release_lease_def ib_update_def at_id_def
    by (auto intro!: inbound_inv_update [OF release.IH])
next
  case (recover d now G)
  then show ?case
    unfolding ib_recover_expired_leases_def recover_def
    by (auto intro!: inbound_inv_update [OF recover.IH])
qed simp_all

text \<open>
  Claim C7.  Events of a chat are processed in arrival order: in every run of the
  gateway workers, crashes and expired leases included, when an event is
  processed, every earlier event of its chat that is not ignored has been
  processed.
\<close>

theorem inbound_processed_in_order:
  assumes "inbound_run d now G"
    and "r \<in> set (t_inbound d)" "in_processed r"
    and "e \<in> set (t_inbound d)" "chat_key e = chat_key r" "row_id e < row_id r" "\<not> in_ignored e"
  shows "in_processed e"
  using inbound_run_inv [OF assms(1)] assms(2-)
  by (auto simp: inbound_inv_def no_earlier_def open_inbound_def)

text \<open>
  One event of a chat is in work at a time: in every run, two grants on
  rows of one chat that are still open are grants on the same event, even when one
  of the leases has expired.
\<close>

theorem inbound_one_event_per_chat:
  assumes "inbound_run d now G"
    and "(w, row_id r, e) \<in> G" "r \<in> set (t_inbound d)" "open_inbound r"
    and "(w', row_id r', e') \<in> G" "r' \<in> set (t_inbound d)" "open_inbound r'"
    and "chat_key r = chat_key r'"
  shows "r = r'"
proof -
  note inv = inbound_run_inv [OF assms(1)]
  have "no_earlier (t_inbound d) r" "no_earlier (t_inbound d) r'"
    using inv assms(2-) by (auto simp: inbound_inv_def before_def)
  then have "row_id r = row_id r'"
    using assms(3-) unfolding no_earlier_def by (metis linorder_neqE_nat)
  then show ?thesis
    using distinct_map_eqD [of row_id "t_inbound d" r r'] inv assms(3,6) by (simp add: inbound_inv_def)
qed

section \<open>Arrival of an event\<close>

definition event_known :: "inbound_event \<Rightarrow> db \<Rightarrow> bool" where
  "event_known ev d \<longleftrightarrow> (\<exists>r \<in> set (t_inbound d). in_dedup_key r = ev_dedup_key ev)"

lemma ib_clash_new [simp]: "ib_clash (new_inbound_row now ev i) r \<longleftrightarrow> in_dedup_key r = ev_dedup_key ev"
  by (auto simp: ib_clash_def new_inbound_row_def)

lemma ib_insert_row_known:
  "event_known ev d \<Longrightarrow> ib_insert_row now ev d = (None, d)"
  by (auto simp: ib_insert_row_def insert_new_def event_known_def Let_def)

lemma ib_insert_row_new:
  "\<not> event_known ev d \<Longrightarrow> ib_insert_row now ev d = (Some (fresh_id (map row_id (t_inbound d))),
     d\<lparr>t_inbound := t_inbound d @ [new_inbound_row now ev (fresh_id (map row_id (t_inbound d)))]\<rparr>)"
  by (auto simp: ib_insert_row_def insert_new_def event_known_def Let_def)

lemma taken_over_inbound [simp]: "t_inbound (taken_over now ev cid d) = t_inbound d"
  by (simp add: taken_over_def Let_def other_tables_kept)

text \<open>
  When \<open>insert\<close> returns, the event is in the table exactly once more or was
  there already, the answer says which, a duplicate changes nothing, and a new
  public reply of a human agent has taken its conversation over.
\<close>

theorem ib_insert_outcome:
  assumes "ib_insert now ev w = (Inr inserted, w')"
  shows "if event_known ev (store w) then \<not> inserted \<and> store w' = store w
    else inserted \<and>
         t_inbound (store w') = t_inbound (store w) @
           [new_inbound_row now ev (fresh_id (map row_id (t_inbound (store w))))] \<and>
         (is_human_agent_public_reply_event ev \<longrightarrow> human_taken (event_conversation_id ev) (store w')) \<and>
         (\<not> is_human_agent_public_reply_event ev \<longrightarrow> t_conversations (store w') = t_conversations (store w))"
proof -
  obtain res w1 where 1: "exec (ib_insert_row now ev) w = (Inr res, w1)" and
    rest: "(if res \<noteq> None \<and> is_human_agent_public_reply_event ev
       then andthen (mark_human_active now ev) (\<lambda>_. ret True) else ret (res \<noteq> None)) w1 = (Inr inserted, w')"
    using assms unfolding ib_insert_def by (auto simp only: andthen_Inr_iff)
  have ins: "res = fst (ib_insert_row now ev (store w))" "store w1 = snd (ib_insert_row now ev (store w))"
    using exec_InrD [OF 1] by simp_all
  show ?thesis
  proof (cases "event_known ev (store w)")
    case True
    then show ?thesis using ins rest by (auto simp: ib_insert_row_known ret_Inr_iff)
  next
    case False
    show ?thesis
    proof (cases "is_human_agent_public_reply_event ev")
      case human: True
      then obtain r where "mark_human_active now ev w1 = (Inr r, w')" "inserted"
        using ins rest False by (auto simp: ib_insert_row_new run_iffs)
      then show ?thesis
        using ins False human
        by (auto simp: ib_insert_row_new taken_over_human dest!: mark_human_active_store(1))
    next
      case human: False
      then show ?thesis
        using ins rest False by (auto simp: ib_insert_row_new ret_Inr_iff)
    qed
  qed
qed

text \<open>
  The statements of \<open>insert\<close> are not one transaction.  When the connection fails
  after the first one, the event is stored and the takeover is not; the webhook
  delivers the event again, \<open>insert\<close> reports a duplicate, and the conversation
  stays with the bot.
\<close>

definition agent_reply :: inbound_event where
  "agent_reply = \<lparr>ev_source = ''livechat_webhook'', ev_raw_action = ''incoming_event'',
     ev_organization_id = None, ev_chat_id = Some ''C1'', ev_thread_id = Some ''T1'',
     ev_event_id = Some ''E1'', ev_event_type = Some ''message'',
     ev_standard_event_type = ''UNKNOWN'', ev_author_id = Some ''agent'', ev_sender_role = ''agent'',
     ev_occurred_at = None, ev_dedup_key = ''k1'',
     ev_payload = [(''human_agent_public_reply'', JBool True)], ev_ignored = True,
     ev_ignore_reason = None\<rparr>"

definition interrupted :: "nat world" where
  "interrupted = snd (ib_insert 0 agent_reply \<lparr>store = empty_db, faults = [False, True], calls = []\<rparr>)"

lemma interrupted_takeover_lost:
  "fst (ib_insert 0 agent_reply \<lparr>store = empty_db, faults = [False, True], calls = []\<rparr> :: (exn + bool) \<times> nat world)
     = Inl (DbError ''connection'') \<and>
   fst (ib_insert t agent_reply interrupted) = Inr False \<and>
   find_conversation (event_conversation_id agent_reply)
     (store (snd (ib_insert t agent_reply interrupted))) = None"
proof -
  have run: "ib_insert 0 agent_reply \<lparr>store = empty_db, faults = [False, True], calls = []\<rparr> =
      (Inl (DbError ''connection''), \<lparr>store = snd (ib_insert_row 0 agent_reply empty_db), faults = [], calls = []\<rparr>)"
    by (simp add: ib_insert_def andthen_def exec_def update_def stmt_def mark_human_active_def Let_def
        ib_insert_row_new event_known_def empty_db_def is_human_agent_public_reply_event_def agent_reply_def)
  have st: "store interrupted = snd (ib_insert_row 0 agent_reply empty_db)" "faults interrupted = []"
    by (simp_all add: interrupted_def run)
  have known: "event_known agent_reply (store interrupted)"
    by (simp add: st ib_insert_row_new event_known_def empty_db_def new_inbound_row_def)
  have again: "ib_insert t agent_reply interrupted = (Inr False, interrupted)"
    using known st(2) by (simp add: ib_insert_def andthen_def exec_ok ib_insert_row_known ret_def)
  have "t_conversations (store interrupted) = []"
    by (simp add: st ib_insert_row_new event_known_def empty_db_def)
  then show ?thesis
    by (simp add: run again find_conversation_def)
qed

end
