(* ===== verification/Outbound.thy ===== *)
theory Outbound
  imports Conversations
begin

text \<open>
  \<open>OutboundMessageRepository\<close> (\<open>src/app/db/repositories.py\<close>): the messages to send,
  leased in groups of one conversation, oldest first, with a delay before the
  first attempt and a growing delay after a failed one.
\<close>

section \<open>Settings\<close>

text \<open>\<open>env\<close> is the process environment.\<close>

definition positive_int_env :: "(string \<Rightarrow> string option) \<Rightarrow> string \<Rightarrow> int \<Rightarrow> int" where
  "positive_int_env env name dflt =
     (let raw = str_strip (text_or [] (env name)) in
      if raw = [] then dflt
      else (case py_int raw of None \<Rightarrow> dflt | Some v \<Rightarrow> if v > 0 then v else dflt))"

definition outbound_retry_base_seconds :: "(string \<Rightarrow> string option) \<Rightarrow> int" where
  "outbound_retry_base_seconds env = positive_int_env env ''LIVECHAT_SEND_RETRY_BASE_SECONDS'' 2"

definition outbound_retry_max_seconds :: "(string \<Rightarrow> string option) \<Rightarrow> int" where
  "outbound_retry_max_seconds env = positive_int_env env ''LIVECHAT_SEND_RETRY_MAX_SECONDS'' 15"

definition outbound_initial_delay_seconds :: "(string \<Rightarrow> string option) \<Rightarrow> int" where
  "outbound_initial_delay_seconds env = positive_int_env env ''LIVECHAT_SEND_INITIAL_DELAY_SECONDS'' 3"

lemma positive_int_env_pos: "0 < dflt \<Longrightarrow> 0 < positive_int_env env name dflt"
  by (simp add: positive_int_env_def Let_def split: option.split)

section \<open>Insertion\<close>

record outbound_in =
  oi_tenant_id :: "string option"
  oi_chat_id :: "string option"
  oi_thread_id :: "string option"
  oi_action_type :: string
  oi_message_type :: string
  oi_payload :: dict
  oi_status :: string
  oi_inbound_event_id :: "nat option"
  oi_conversation_id :: "string option"
  oi_dedup_key :: "string option"
  oi_block_index :: "int option"
  oi_message_kind :: "string option"
  oi_command_type :: "string option"

text \<open>\<open>f"{x or ''}"\<close> of an optional key.\<close>

definition nat_or_blank :: "nat option \<Rightarrow> string" where
  "nat_or_blank x = (case x of None \<Rightarrow> [] | Some n \<Rightarrow> if n = 0 then [] else nat_str n)"

definition outbound_dedup_key :: "outbound_in \<Rightarrow> string" where
  "outbound_dedup_key m =
     (if text_true (oi_dedup_key m) then text_or [] (oi_dedup_key m)
      else text_or ''default'' (oi_tenant_id m) @ '':'' @ text_or [] (oi_conversation_id m) @ '':''
             @ nat_or_blank (oi_inbound_event_id m) @ '':'' @ oi_action_type m)"

definition new_outbound_row :: "time \<Rightarrow> outbound_in \<Rightarrow> string \<Rightarrow> nat \<Rightarrow> outbound_row" where
  "new_outbound_row now m chat i =
     \<lparr>row_id = i, leased_at = None, lease_expires_at = None, locked_by = None, attempted_at = None,
      processed_at = None, created_at = to_timestamp now, status = oi_status m, retry_count = 0,
      last_error = None, conversation_id = oi_conversation_id m, ob_chat_id = chat,
      ob_thread_id = oi_thread_id m, ob_action_type = oi_action_type m,
      ob_message_type = oi_message_type m, ob_payload = oi_payload m,
      ob_inbound_event_id = oi_inbound_event_id m, ob_dedup_key = Some (outbound_dedup_key m),
      ob_block_index = oi_block_index m,
      ob_message_kind = or_else (oi_message_kind m) (Some (oi_message_type m)),
      ob_command_type = or_else (oi_command_type m) (Some (oi_action_type m)), ob_sent_at = None\<rparr>"

definition ob_clash :: "outbound_row \<Rightarrow> outbound_row \<Rightarrow> bool" where
  "ob_clash a b \<longleftrightarrow> ob_dedup_key a \<noteq> None \<and> ob_dedup_key a = ob_dedup_key b"

definition ob_insert_idempotent :: "time \<Rightarrow> outbound_in \<Rightarrow> db \<Rightarrow> exn + (nat option \<times> db)" where
  "ob_insert_idempotent now m d =
     (case oi_chat_id m of
        None \<Rightarrow> Inl (DbError ''chat_id cannot be null'')
      | Some chat \<Rightarrow>
          (let (res, rows) = insert_new row_id ob_clash (new_outbound_row now m chat) (t_outbound d)
           in Inr (res, d\<lparr>t_outbound := rows\<rparr>)))"

text \<open>The plain \<open>INSERT\<close>: a duplicate key is an error.\<close>

definition ob_insert :: "time \<Rightarrow> outbound_in \<Rightarrow> db \<Rightarrow> exn + (nat \<times> db)" where
  "ob_insert now m d =
     (case ob_insert_idempotent now m d of
        Inl e \<Rightarrow> Inl e
      | Inr (None, _) \<Rightarrow> Inl (DbError ''Duplicate entry'')
      | Inr (Some i, d') \<Rightarrow> Inr (i, d'))"

section \<open>Reading\<close>

text \<open>A message joined with its conversation, as the sender gets it.\<close>

record outbound_msg =
  om_row :: outbound_row
  om_tenant_id :: string
  om_channel_type :: string
  om_conversation_status :: "string option"
  om_conversation_active_workflow :: "string option"
  om_conversation_workflow_stage :: "string option"

definition joined :: "db \<Rightarrow> outbound_row \<Rightarrow> outbound_msg" where
  "joined d r =
     (let c = Option.bind (conversation_id r) (\<lambda>cid. find_conversation cid d) in
      \<lparr>om_row = r,
       om_tenant_id = (case c of None \<Rightarrow> ''default'' | Some x \<Rightarrow> cs_tenant_id x),
       om_channel_type = (case c of None \<Rightarrow> ''livechat'' | Some x \<Rightarrow> cs_channel_type x),
       om_conversation_status = map_option cs_status c,
       om_conversation_active_workflow = Option.bind c cs_active_workflow,
       om_conversation_workflow_stage = Option.bind c cs_workflow_stage\<rparr>)"

definition ob_fetch_pending :: "nat \<Rightarrow> db \<Rightarrow> outbound_msg list" where
  "ob_fetch_pending limit d = map (joined d)
     (take limit (sort_key row_id (filter (\<lambda>r. status r = ''PENDING'') (t_outbound d))))"

definition ob_fetch_pending_by_inbound_event :: "nat \<Rightarrow> nat \<Rightarrow> db \<Rightarrow> outbound_msg list" where
  "ob_fetch_pending_by_inbound_event inbound limit d = map (joined d)
     (take limit (sort_key row_id (filter (\<lambda>r. status r = ''PENDING'' \<and>
        ob_inbound_event_id r = Some inbound) (t_outbound d))))"

text \<open>\<open>JSON_UNQUOTE(JSON_EXTRACT(payload_json, '$.handoff_ack')) = 'true'\<close>\<close>

definition is_handoff_ack :: "dict \<Rightarrow> bool" where
  "is_handoff_ack p \<longleftrightarrow> dget p ''handoff_ack'' = JBool True \<or> dget p ''handoff_ack'' = JStr ''true''"

definition ob_fetch_handoff_ack_by_event :: "string \<Rightarrow> nat \<Rightarrow> db \<Rightarrow> outbound_row option" where
  "ob_fetch_handoff_ack_by_event cid inbound d =
     (case sort_key row_id (filter (\<lambda>r. conversation_id r = Some cid \<and>
          ob_inbound_event_id r = Some inbound \<and> is_handoff_ack (ob_payload r)) (t_outbound d)) of
        [] \<Rightarrow> None | r # _ \<Rightarrow> Some r)"

section \<open>Leasing groups\<close>

text \<open>\<open>COALESCE(conversation_id, CONCAT('outbound:', id))\<close>\<close>

definition group_key :: "outbound_row \<Rightarrow> string" where
  "group_key r = (case conversation_id r of Some c \<Rightarrow> c | None \<Rightarrow> ''outbound:'' @ nat_str (row_id r))"

definition send_due :: "time \<Rightarrow> int \<Rightarrow> outbound_row \<Rightarrow> bool" where
  "send_due now delay r \<longleftrightarrow> status r \<noteq> ''PENDING'' \<or> created_at r \<le> add_seconds now (- delay)"

definition sendable :: "time \<Rightarrow> int \<Rightarrow> outbound_row \<Rightarrow> bool" where
  "sendable now delay r \<longleftrightarrow> open_job r \<and> send_due now delay r \<and> lease_free now r"

definition live_locked :: "time \<Rightarrow> 'z queue_cols_scheme \<Rightarrow> bool" where
  "live_locked now r \<longleftrightarrow> locked_by r \<noteq> None \<and>
     (case lease_expires_at r of None \<Rightarrow> False | Some t \<Rightarrow> now \<le> t)"

definition group_head :: "time \<Rightarrow> int \<Rightarrow> outbound_row list \<Rightarrow> outbound_row \<Rightarrow> bool" where
  "group_head now delay rows m \<longleftrightarrow> sendable now delay m \<and>
     \<not> (\<exists>e \<in> set rows. open_job e \<and> group_key e = group_key m \<and> row_id e < row_id m) \<and>
     \<not> (\<exists>l \<in> set rows. open_job l \<and> group_key l = group_key m \<and> live_locked now l)"

text \<open>
  What a lease of groups finds: the rows other transactions hold at the first and
  at the later \<open>SELECT ... SKIP LOCKED\<close>, the initial delay and the group limit.
\<close>

record group_env =
  ge_held :: "nat \<Rightarrow> bool"
  ge_held' :: "nat \<Rightarrow> bool"
  ge_delay :: int
  ge_max :: nat

definition select_heads :: "time \<Rightarrow> group_env \<Rightarrow> nat \<Rightarrow> outbound_row list \<Rightarrow> string list" where
  "select_heads now env limit rows =
     map group_key (take limit (filter (\<lambda>r. \<not> ge_held env (row_id r))
       (sort_key row_id (filter (group_head now (ge_delay env) rows) rows))))"

definition block_order :: "outbound_row list \<Rightarrow> outbound_row list" where
  "block_order rows =
     sort_key (\<lambda>r. case ob_block_index r of None \<Rightarrow> 2147483647 | Some b \<Rightarrow> b) (sort_key row_id rows)"

definition select_group :: "time \<Rightarrow> group_env \<Rightarrow> string \<Rightarrow> outbound_row list \<Rightarrow> nat list" where
  "select_group now env key rows =
     map row_id (take (ge_max env) (filter (\<lambda>r. \<not> ge_held' env (row_id r))
       (block_order (filter (\<lambda>r. sendable now (ge_delay env) r \<and> group_key r = key) rows))))"

fun lease_each :: "time \<Rightarrow> group_env \<Rightarrow> string \<Rightarrow> int \<Rightarrow> string list \<Rightarrow> outbound_row list
    \<Rightarrow> outbound_row list list \<times> outbound_row list" where
  "lease_each now env worker secs [] rows = ([], rows)"
| "lease_each now env worker secs (key # keys) rows =
     (let ids = select_group now env key rows in
      if ids = [] then lease_each now env worker secs keys rows
      else let rows1 = grant_ids ids now secs worker rows;
               group = block_order (filter (\<lambda>r. row_id r \<in> set ids) rows1);
               (groups, rows2) = lease_each now env worker secs keys rows1
           in (group # groups, rows2))"

definition lease_groups ::
  "time \<Rightarrow> time \<Rightarrow> group_env \<Rightarrow> nat \<Rightarrow> string \<Rightarrow> int \<Rightarrow> outbound_row list
     \<Rightarrow> outbound_row list list \<times> outbound_row list" where
  "lease_groups now now' env limit worker secs rows =
     lease_each now' env worker secs (select_heads now env limit rows) rows"

definition ob_lease_pending_groups ::
  "time \<Rightarrow> time \<Rightarrow> group_env \<Rightarrow> nat \<Rightarrow> string \<Rightarrow> int \<Rightarrow> db \<Rightarrow> outbound_msg list list \<times> db" where
  "ob_lease_pending_groups now now' env limit worker secs d =
     (let (groups, rows) = lease_groups now now' env limit worker secs (t_outbound d)
      in (map (map (joined d)) groups, d\<lparr>t_outbound := rows\<rparr>))"

section \<open>Settling\<close>

definition ob_update :: "nat \<Rightarrow> (outbound_row \<Rightarrow> outbound_row) \<Rightarrow> db \<Rightarrow> db" where
  "ob_update i f d = d\<lparr>t_outbound := at_id i f (t_outbound d)\<rparr>"

definition sent_row :: "time \<Rightarrow> string option \<Rightarrow> outbound_row \<Rightarrow> outbound_row" where
  "sent_row now err r = clear_lease (r\<lparr>status := ''SENT'', ob_sent_at := Some now,
     processed_at := Some now, last_error := err\<rparr>)"

definition ob_mark_sent :: "time \<Rightarrow> nat \<Rightarrow> string option \<Rightarrow> db \<Rightarrow> db" where
  "ob_mark_sent now i err = ob_update i (sent_row now err)"

text \<open>
  The assignments are evaluated from left to right: the power of two in the
  back-off is taken of the counter after its increment.
\<close>

definition backoff_seconds :: "int \<Rightarrow> int \<Rightarrow> nat \<Rightarrow> int" where
  "backoff_seconds base max_secs retries = min max_secs (base * 2 ^ min retries 3)"

definition retry_row :: "time \<Rightarrow> int \<Rightarrow> int \<Rightarrow> string \<Rightarrow> string \<Rightarrow> outbound_row \<Rightarrow> outbound_row" where
  "retry_row now base max_secs st err r =
     (let r1 = r\<lparr>status := st, last_error := Some err, retry_count := retry_count r + 1\<rparr>
      in r1\<lparr>leased_at := None,
            lease_expires_at := Some (add_seconds now (backoff_seconds base max_secs (retry_count r1))),
            locked_by := Some (case locked_by r1 of None \<Rightarrow> ''retry-backoff'' | Some w \<Rightarrow> w)\<rparr>)"

definition ob_mark_failed ::
  "(string \<Rightarrow> string option) \<Rightarrow> time \<Rightarrow> nat \<Rightarrow> string \<Rightarrow> string \<Rightarrow> bool \<Rightarrow> db \<Rightarrow> db" where
  "ob_mark_failed env now i st err retryable =
     (if retryable
      then ob_update i (retry_row now (outbound_retry_base_seconds env) (outbound_retry_max_seconds env) st err)
      else ob_update i (\<lambda>r. clear_lease (r\<lparr>status := st, last_error := Some err\<rparr>)))"

definition ob_release_lease :: "nat \<Rightarrow> db \<Rightarrow> db" where
  "ob_release_lease i = ob_update i clear_lease"

definition ob_extend_lease :: "time \<Rightarrow> nat \<Rightarrow> string \<Rightarrow> int \<Rightarrow> db \<Rightarrow> nat \<times> db" where
  "ob_extend_lease now i worker secs d =
     (let p = (\<lambda>r. row_id r = i \<and> locked_by r = Some worker \<and> open_job r) in
      (length (filter p (t_outbound d)),
       d\<lparr>t_outbound := update_where p (\<lambda>r. r\<lparr>lease_expires_at := Some (add_seconds now secs)\<rparr>) (t_outbound d)\<rparr>))"

definition ob_recover_expired_leases :: "time \<Rightarrow> db \<Rightarrow> nat \<times> db" where
  "ob_recover_expired_leases now d =
     (let (n, rows) = recover open_job now (t_outbound d) in (n, d\<lparr>t_outbound := rows\<rparr>))"

definition ob_mark_pending_by_inbound_event_skipped :: "nat \<Rightarrow> string \<Rightarrow> string \<Rightarrow> db \<Rightarrow> nat \<times> db" where
  "ob_mark_pending_by_inbound_event_skipped inbound st err d =
     (let p = (\<lambda>r. ob_inbound_event_id r = Some inbound \<and> status r = ''PENDING'');
          f = (\<lambda>r. r\<lparr>status := st, last_error := Some err\<rparr>)
      in (length (filter (\<lambda>r. p r \<and> f r \<noteq> r) (t_outbound d)),
          d\<lparr>t_outbound := update_where p f (t_outbound d)\<rparr>))"

section \<open>Groups\<close>

lemma set_block_order [simp]: "set (block_order rows) = set rows"
  by (simp add: block_order_def)

lemma length_block_order [simp]: "length (block_order rows) = length rows"
  by (simp add: block_order_def)

abbreviation block_key :: "outbound_row \<Rightarrow> int" where
  "block_key r \<equiv> (case ob_block_index r of None \<Rightarrow> 2147483647 | Some b \<Rightarrow> b)"

lemma sorted_block_order: "sorted_wrt (lex_le block_key row_id) (block_order rows)"
  unfolding block_order_def by (rule sort_key_sort_key_lex)

lemma group_key_cong:
  "conversation_id r' = conversation_id r \<Longrightarrow> row_id r' = row_id r \<Longrightarrow> group_key r' = group_key r"
  by (simp add: group_key_def split: option.split)

lemma group_key_grant [simp]: "group_key (grant now s w r) = group_key r"
  by (rule group_key_cong) (simp_all add: grant_def)

lemma select_group_sound:
  "i \<in> set (select_group now env key rows) \<Longrightarrow>
   \<exists>r \<in> set rows. row_id r = i \<and> sendable now (ge_delay env) r \<and> group_key r = key"
  by (auto simp: select_group_def dest!: in_set_takeD)

text \<open>The rows fetched back after a grant are the rows selected.\<close>

lemma fetched_ids:
  assumes "set ids \<subseteq> set (map row_id rows)"
  shows "set (map row_id (block_order (filter (\<lambda>r. row_id r \<in> set ids) (grant_ids ids now s w rows)))) = set ids"
proof -
  have "set (map row_id (filter (\<lambda>r. row_id r \<in> set ids) (grant_ids ids now s w rows))) =
      set (map row_id (grant_ids ids now s w rows)) \<inter> set ids"
    by (rule set_map_filter_mem)
  also have "\<dots> = set ids"
    unfolding ids_grant_ids using assms by blast
  finally show ?thesis by simp
qed

lemma select_group_ids: "set (select_group now env key rows) \<subseteq> set (map row_id rows)"
  using select_group_sound by fastforce

lemma grant_ids_mem:
  assumes "r \<in> set (grant_ids ids now s w rows)"
  obtains r0 where "r0 \<in> set rows" "row_id r0 = row_id r" "row_id r \<in> set ids" "r = grant now s w r0"
  | "r \<in> set rows" "row_id r \<notin> set ids"
  using assms unfolding grant_ids_def by (cases rule: update_whereE) auto

lemma grant_ids_granted:
  "r \<in> set (grant_ids ids now s w rows) \<Longrightarrow> row_id r \<in> set ids \<Longrightarrow>
   \<exists>r0 \<in> set rows. row_id r0 = row_id r \<and> r = grant now s w r0"
  by (elim grant_ids_mem) blast+

lemma lease_each_table:
  "lease_each now env w s keys rows = (groups, rows') \<Longrightarrow>
   rows' = grant_ids (map row_id (concat groups)) now s w rows"
proof (induction keys arbitrary: rows groups)
  case (Cons key keys)
  define ids where "ids = select_group now env key rows"
  show ?case
  proof (cases "ids = []")
    case False
    define rows1 where "rows1 = grant_ids ids now s w rows"
    define g where "g = block_order (filter (\<lambda>r. row_id r \<in> set ids) rows1)"
    obtain gs where gs: "lease_each now env w s keys rows1 = (gs, rows')" "groups = g # gs"
      using Cons.prems False by (auto simp: ids_def rows1_def g_def Let_def split: prod.splits)
    have "set (map row_id g) = set ids"
      unfolding g_def rows1_def ids_def by (rule fetched_ids [OF select_group_ids])
    then have "rows1 = grant_ids (map row_id g) now s w rows"
      unfolding rows1_def by (intro grant_ids_cong) simp
    with Cons.IH [OF gs(1)] gs(2) show ?thesis
      by (simp add: grant_ids_append)
  qed (use Cons in \<open>simp add: ids_def\<close>)
qed simp

lemma lease_each_sound:
  "lease_each now env w s keys rows = (groups, rows') \<Longrightarrow> g \<in> set groups \<Longrightarrow> r \<in> set g \<Longrightarrow>
   \<exists>r0 \<in> set rows. row_id r0 = row_id r \<and> sendable now (ge_delay env) r0"
proof (induction keys arbitrary: rows groups)
  case (Cons key keys)
  define ids where "ids = select_group now env key rows"
  show ?case
  proof (cases "ids = []")
    case False
    define rows1 where "rows1 = grant_ids ids now s w rows"
    obtain gs where gs: "lease_each now env w s keys rows1 = (gs, rows')"
        "groups = block_order (filter (\<lambda>r. row_id r \<in> set ids) rows1) # gs"
      using Cons.prems False by (auto simp: ids_def rows1_def Let_def split: prod.splits)
    have ids: "\<exists>r0 \<in> set rows. row_id r0 = i \<and> sendable now (ge_delay env) r0" if "i \<in> set ids" for i
      using select_group_sound that unfolding ids_def by blast
    show ?thesis
    proof (cases "g \<in> set gs")
      case True
      from Cons.IH [OF gs(1) True Cons.prems(3)]
      obtain x where x: "x \<in> set rows1" "row_id x = row_id r" "sendable now (ge_delay env) x" by blast
      from x(1) show ?thesis
        unfolding rows1_def by (cases rule: grant_ids_mem) (use x(2,3) ids in auto)
    next
      case False
      then show ?thesis using Cons.prems gs(2) ids by auto
    qed
  qed (use Cons in \<open>simp add: ids_def\<close>)
qed simp

definition lease_outbound ::
  "time \<Rightarrow> time \<Rightarrow> group_env \<Rightarrow> nat \<Rightarrow> string \<Rightarrow> int \<Rightarrow> outbound_row list
     \<Rightarrow> outbound_row list \<times> outbound_row list" where
  "lease_outbound now now' env limit worker secs rows =
     (let (groups, rows') = lease_groups now now' env limit worker secs rows in (concat groups, rows'))"

interpretation outbound_queue: lease_queue lease_outbound open_job
proof unfold_locales
  fix now now' :: time and env n w s rows leased rows'
  assume "lease_outbound now now' env n w s rows = (leased, rows')"
  then obtain groups where g: "lease_each now' env w s (select_heads now env n rows) rows = (groups, rows')"
      "leased = concat groups"
    by (auto simp: lease_outbound_def lease_groups_def split: prod.splits)
  show "rows' = grant_ids (map row_id leased) now' s w rows"
    using lease_each_table [OF g(1)] g(2) by simp
  show "\<exists>r0 \<in> set rows. row_id r0 = row_id r \<and> open_job r0 \<and> lease_free now' r0" if "r \<in> set leased" for r
    using that g(2) lease_each_sound [OF g(1)] by (fastforce simp: sendable_def)
qed

text \<open>What a worker may rely on for each group it gets.\<close>

definition good_group :: "nat \<Rightarrow> string \<Rightarrow> time \<Rightarrow> outbound_row list \<Rightarrow> bool" where
  "good_group mx w e g \<longleftrightarrow> g \<noteq> [] \<and> length g \<le> mx \<and> sorted_wrt (lex_le block_key row_id) g \<and>
     (\<forall>r \<in> set g. group_key r = group_key (hd g) \<and> open_job r \<and>
        locked_by r = Some w \<and> lease_expires_at r = Some e)"

lemma leased_group:
  fixes w s
  assumes dist: "distinct (map row_id rows)" and "select_group now env key rows \<noteq> []"
  defines "ids \<equiv> select_group now env key rows"
  defines "g \<equiv> block_order (filter (\<lambda>r. row_id r \<in> set ids) (grant_ids ids now s w rows))"
  shows "good_group (ge_max env) w (add_seconds now s) g \<and> group_key (hd g) = key"
proof -
  have ids: "set (map row_id g) = set ids"
    unfolding g_def ids_def by (rule fetched_ids [OF select_group_ids])
  then have ne: "g \<noteq> []" using assms(2) by (auto simp: ids_def)
  have mem: "group_key r = key \<and> open_job r \<and> locked_by r = Some w \<and> lease_expires_at r = Some (add_seconds now s)"
    if "r \<in> set g" for r
  proof -
    from that have r: "r \<in> set (grant_ids ids now s w rows)" "row_id r \<in> set ids"
      by (simp_all add: g_def)
    from r(2) obtain r0 where r0: "r0 \<in> set rows" "row_id r0 = row_id r" "open_job r0" "group_key r0 = key"
      using select_group_sound [of "row_id r" now env key rows] by (auto simp: ids_def sendable_def)
    obtain r1 where r1: "r1 \<in> set rows" "row_id r1 = row_id r" "r = grant now s w r1"
      using grant_ids_granted [OF r] by blast
    have "r1 = r0"
      by (rule distinct_map_eqD [OF dist r1(1) r0(1)]) (simp only: r0(2) r1(2))
    then show ?thesis unfolding r1(3) using r0(3,4) by simp
  qed
  have "distinct (map row_id (filter (\<lambda>r. row_id r \<in> set ids) (grant_ids ids now s w rows)))"
    by (intro distinct_map_filter) (simp add: dist)
  then have "length g = card (set (map row_id g))"
    unfolding g_def by (simp add: distinct_map card_image flip: distinct_card)
  also have "\<dots> \<le> length ids" by (simp only: ids card_length)
  also have "\<dots> \<le> ge_max env" by (simp add: ids_def select_group_def)
  finally have "length g \<le> ge_max env" .
  moreover have "sorted_wrt (lex_le block_key row_id) g"
    unfolding g_def by (rule sorted_block_order)
  ultimately show ?thesis
    using ne mem hd_in_set [OF ne] by (simp add: good_group_def)
qed

lemma lease_each_groups:
  "lease_each now env w s keys rows = (groups, rows') \<Longrightarrow> distinct (map row_id rows) \<Longrightarrow>
   (\<forall>g \<in> set groups. good_group (ge_max env) w (add_seconds now s) g) \<and>
   subseq (map (\<lambda>g. group_key (hd g)) groups) keys"
proof (induction keys arbitrary: rows groups)
  case (Cons key keys)
  show ?case
  proof (cases "select_group now env key rows = []")
    case False
    define rows1 where "rows1 = grant_ids (select_group now env key rows) now s w rows"
    define g where "g = block_order (filter (\<lambda>r. row_id r \<in> set (select_group now env key rows)) rows1)"
    obtain gs where gs: "lease_each now env w s keys rows1 = (gs, rows')" "groups = g # gs"
      using Cons.prems(1) False by (auto simp: rows1_def g_def Let_def split: prod.splits)
    have "distinct (map row_id rows1)"
      using Cons.prems(2) by (simp add: rows1_def)
    with Cons.IH [OF gs(1)] leased_group [OF Cons.prems(2) False, of w s] show ?thesis
      by (simp add: gs(2) g_def rows1_def)
  next
    case True
    with Cons show ?thesis by auto
  qed
qed simp

lemma select_heads_head:
  "key \<in> set (select_heads now env n rows) \<Longrightarrow>
   \<exists>m \<in> set rows. group_key m = key \<and> group_head now (ge_delay env) rows m"
  by (auto simp: select_heads_def dest!: in_set_takeD)

lemma distinct_select_heads:
  assumes "distinct (map row_id rows)"
  shows "distinct (select_heads now env n rows)"
proof -
  define heads where "heads = filter (\<lambda>r. \<not> ge_held env (row_id r))
       (sort_key row_id (filter (group_head now (ge_delay env) rows) rows))"
  have "x = y" if "x \<in> set heads" "y \<in> set heads" "group_key x = group_key y" for x y
  proof -
    have "x \<in> set rows" "group_head now (ge_delay env) rows x" "y \<in> set rows" "group_head now (ge_delay env) rows y"
      using that by (auto simp: heads_def)
    then have "row_id x = row_id y"
      using that(3) unfolding group_head_def sendable_def by (metis linorder_neqE_nat)
    then show ?thesis
      using distinct_map_eqD [OF assms] \<open>x \<in> set rows\<close> \<open>y \<in> set rows\<close> by blast
  qed
  moreover have "distinct heads"
    using assms by (simp add: heads_def distinct_map)
  ultimately have "distinct (map group_key heads)"
    by (simp add: distinct_map inj_on_def)
  then have "distinct (take n (map group_key heads))" by (rule distinct_take)
  then show ?thesis by (simp add: select_heads_def heads_def take_map)
qed

text \<open>
  What \<open>lease_pending_groups\<close> hands out: at most \<open>limit\<close> groups of distinct
  conversations; each group is not empty, respects the group limit, holds
  open messages of one conversation in block order, all locked by the worker until
  the end of the lease.
\<close>

theorem lease_groups_wellformed:
  assumes "distinct (map row_id (t_outbound d))"
    and "ob_lease_pending_groups now now' env limit w s d = (groups, d')"
  shows "length groups \<le> limit \<and>
     distinct (map (\<lambda>g. group_key (om_row (hd g))) groups) \<and>
     (\<forall>g \<in> set groups. good_group (ge_max env) w (add_seconds now' s) (map om_row g))"
proof -
  obtain gs where gs: "lease_each now' env w s (select_heads now env limit (t_outbound d)) (t_outbound d) = (gs, t_outbound d')"
    "groups = map (map (joined d)) gs"
    using assms(2) by (auto simp: ob_lease_pending_groups_def lease_groups_def split: prod.splits)
  have rows: "om_row (joined d r) = r" for r by (simp add: joined_def Let_def)
  note * = lease_each_groups [OF gs(1) assms(1)]
  then have sub: "subseq (map (\<lambda>g. group_key (hd g)) gs) (select_heads now env limit (t_outbound d))" by blast
  have "length gs \<le> limit"
    using list_emb_length [OF sub] by (simp add: select_heads_def)
  moreover have "distinct (map (\<lambda>g. group_key (hd g)) gs)"
    using distinct_select_heads [OF assms(1)] sub by (metis subseq_conv_nths distinct_nthsI)
  moreover have keys: "map (\<lambda>g. group_key (om_row (hd g))) groups = map (\<lambda>g. group_key (hd g)) gs"
  proof -
    have "g \<noteq> []" if "g \<in> set gs" for g
      using * that unfolding good_group_def by blast
    then show ?thesis
      unfolding gs(2) map_map by (intro map_cong refl) (simp add: hd_map rows)
  qed
  moreover have "good_group (ge_max env) w (add_seconds now' s) (map om_row g)" if "g \<in> set groups" for g
  proof -
    from that obtain g0 where "g0 \<in> set gs" "g = map (joined d) g0" by (auto simp: gs(2))
    then show ?thesis using * by (simp add: comp_def rows)
  qed
  ultimately show ?thesis
    unfolding keys by (simp add: gs(2))
qed

section \<open>One sender per conversation\<close>

lemma leased_conversation_idle:
  assumes "lease_groups now now' env n w s rows = (groups, rows')" "distinct (map row_id rows)"
    and "g \<in> set groups" "r \<in> set g" "l \<in> set rows" "open_job l" "live_locked now l"
  shows "group_key r \<noteq> group_key l"
proof
  assume eq: "group_key r = group_key l"
  have l: "lease_each now' env w s (select_heads now env n rows) rows = (groups, rows')"
    using assms(1) by (simp add: lease_groups_def)
  note * = lease_each_groups [OF l assms(2)]
  then have "group_key r = group_key (hd g)"
    using assms(3,4) unfolding good_group_def by blast
  moreover have "group_key (hd g) \<in> set (select_heads now env n rows)"
  proof (rule subseq_mem)
    show "subseq (map (\<lambda>g. group_key (hd g)) groups) (select_heads now env n rows)" using * by blast
    show "group_key (hd g) \<in> set (map (\<lambda>g. group_key (hd g)) groups)" using assms(3) by simp
  qed
  ultimately have "group_key r \<in> set (select_heads now env n rows)" by simp
  from select_heads_head [OF this]
  obtain m where m: "group_key m = group_key r" "group_head now (ge_delay env) rows m" by blast
  have "group_key l = group_key m" using m(1) eq by simp
  then show False
    using assms(5-7) m(2) unfolding group_head_def by blast
qed

text \<open>
  Claim C12.  In every run of the sender workers, while a worker holds a live lease on
  a message that is still to be sent, no message of its conversation is handed out.
\<close>

theorem outbound_conversation_exclusive:
  assumes "lease_run lease_outbound open_job rows now G" "(w, row_id r, e) \<in> G" "now \<le> e"
    and "r \<in> set rows" "open_job r"
    and "lease_groups now now' env n w' s rows = (groups, rows')" "g \<in> set groups" "r' \<in> set g"
  shows "group_key r' \<noteq> group_key r"
proof (rule leased_conversation_idle [OF assms(6)])
  show "distinct (map row_id rows)"
    by (rule lease_invD(1) [OF outbound_queue.run_inv [OF assms(1)]])
  show "live_locked now r"
    using outbound_queue.live_grant_locked [OF assms(1-4)] assms(3,5) by (simp add: live_locked_def)
qed (use assms in auto)

section \<open>Back-off\<close>

lemma backoff_bounds:
  "0 < base \<Longrightarrow> 0 < mx \<Longrightarrow> 0 < backoff_seconds base mx k \<and> backoff_seconds base mx k \<le> mx \<and>
     backoff_seconds base mx k \<le> base * 8"
proof -
  assume pos: "0 < base" "0 < mx"
  have "(2::int) ^ min k 3 \<le> 2 ^ 3" by (rule power_increasing) simp_all
  then have "base * 2 ^ min k 3 \<le> base * 8" "0 < base * 2 ^ min k 3" using pos(1) by simp_all
  then show ?thesis unfolding backoff_seconds_def using pos(2) by linarith
qed

lemma backoff_mono:
  assumes "0 < base" "j \<le> k"
  shows "backoff_seconds base mx j \<le> backoff_seconds base mx k"
proof -
  have "(2::int) ^ min j 3 \<le> 2 ^ min k 3" using assms(2) by (intro power_increasing) simp_all
  then have "base * 2 ^ min j 3 \<le> base * 2 ^ min k 3" using assms(1) by simp
  then show ?thesis unfolding backoff_seconds_def by linarith
qed

lemma retry_row_simps [simp]:
  "row_id (retry_row now b m st err r) = row_id r"
  "status (retry_row now b m st err r) = st"
  "retry_count (retry_row now b m st err r) = Suc (retry_count r)"
  "conversation_id (retry_row now b m st err r) = conversation_id r"
  "lease_expires_at (retry_row now b m st err r) =
     Some (add_seconds now (backoff_seconds b m (Suc (retry_count r))))"
  "locked_by (retry_row now b m st err r) \<noteq> None"
  by (simp_all add: retry_row_def Let_def)

text \<open>
  Claim C23.  After a failed attempt that may be retried, the delay is between one
  second and the configured maximum, never more than eight times the base, and
  until it is over no message of the conversation is handed out.
\<close>

theorem retry_backs_off:
  fixes env ge
  assumes "distinct (map row_id (t_outbound d))" "r \<in> set (t_outbound d)" "row_id r = i"
  defines "delay \<equiv> backoff_seconds (outbound_retry_base_seconds env) (outbound_retry_max_seconds env)
                     (Suc (retry_count r))"
  assumes "lease_groups now now' ge n w s (t_outbound (ob_mark_failed env t i ''RETRYABLE'' err True d)) = (groups, rows')"
    and "now \<le> add_seconds t delay"
  shows "0 < delay \<and> delay \<le> outbound_retry_max_seconds env \<and> delay \<le> 8 * outbound_retry_base_seconds env \<and>
     (\<forall>g \<in> set groups. \<forall>m \<in> set g. group_key m \<noteq> group_key r)"
proof -
  define r' where "r' = retry_row t (outbound_retry_base_seconds env) (outbound_retry_max_seconds env) ''RETRYABLE'' err r"
  let ?rows = "t_outbound (ob_mark_failed env t i ''RETRYABLE'' err True d)"
  have rows: "?rows = at_id i (retry_row t (outbound_retry_base_seconds env) (outbound_retry_max_seconds env) ''RETRYABLE'' err) (t_outbound d)"
    by (simp add: ob_mark_failed_def ob_update_def)
  have r': "r' \<in> set ?rows" unfolding rows at_id_def r'_def
    using assms(2,3) by (intro update_where_changedI) simp_all
  have key: "group_key r' = group_key r" by (rule group_key_cong) (simp_all add: r'_def)
  have locked: "live_locked now r'" "open_job r'"
    using assms(6) by (simp_all add: r'_def live_locked_def open_job_def open_status_def delay_def)
  have dist: "distinct (map row_id ?rows)"
    unfolding rows using assms(1) by (simp add: ids_at_id)
  have "group_key m \<noteq> group_key r" if "g \<in> set groups" "m \<in> set g" for g m
    using leased_conversation_idle [OF assms(5) dist that r' locked(2,1)] key by simp
  moreover have "0 < delay \<and> delay \<le> outbound_retry_max_seconds env \<and> delay \<le> outbound_retry_base_seconds env * 8"
    unfolding delay_def
    by (rule backoff_bounds) (simp_all add: outbound_retry_base_seconds_def outbound_retry_max_seconds_def positive_int_env_pos)
  ultimately show ?thesis by simp
qed

section \<open>Keys of the outbound table\<close>

interpretation ob_keys: unique_keys row_id ob_clash
  by unfold_locales (metis ob_clash_def)

lemma ob_clash_new [simp]:
  "ob_clash (new_outbound_row now m chat i) r \<longleftrightarrow> ob_dedup_key r = Some (outbound_dedup_key m)"
  "row_id (new_outbound_row now m chat i) = i"
  by (auto simp: ob_clash_def new_outbound_row_def)

definition ob_known :: "outbound_in \<Rightarrow> db \<Rightarrow> bool" where
  "ob_known m d \<longleftrightarrow> (\<exists>r \<in> set (t_outbound d). ob_dedup_key r = Some (outbound_dedup_key m))"

lemma ob_insert_known:
  "oi_chat_id m = Some chat \<Longrightarrow> ob_known m d \<Longrightarrow> ob_insert_idempotent now m d = Inr (None, d)"
  by (auto simp: ob_insert_idempotent_def insert_new_def Let_def ob_known_def)

lemma ob_insert_unknown:
  "oi_chat_id m = Some chat \<Longrightarrow> \<not> ob_known m d \<Longrightarrow> ob_insert_idempotent now m d =
     (let i = fresh_id (map row_id (t_outbound d))
      in Inr (Some i, d\<lparr>t_outbound := t_outbound d @ [new_outbound_row now m chat i]\<rparr>))"
  by (auto simp: ob_insert_idempotent_def insert_new_def Let_def ob_known_def)

lemma ob_insert_makes_known:
  assumes "ob_insert_idempotent now m d = Inr (res, d')"
  shows "ob_known m d'"
proof -
  obtain chat where "oi_chat_id m = Some chat"
    using assms by (auto simp: ob_insert_idempotent_def split: option.splits)
  then show ?thesis
    using assms ob_insert_known ob_insert_unknown
    by (cases "ob_known m d") (auto simp: ob_known_def Let_def new_outbound_row_def)
qed

text \<open>
  Within a conversation the group is ordered by block index first: the blocks of a
  later event overtake a message of an earlier event that has no block index.
\<close>

definition plain_reply :: outbound_in where
  "plain_reply = \<lparr>oi_tenant_id = None, oi_chat_id = Some ''C1'', oi_thread_id = None,
     oi_action_type = ''send_event'', oi_message_type = ''text'', oi_payload = [],
     oi_status = ''PENDING'', oi_inbound_event_id = Some 1, oi_conversation_id = Some ''livechat:C1'',
     oi_dedup_key = None, oi_block_index = None, oi_message_kind = None, oi_command_type = None\<rparr>"

definition later_block :: outbound_in where
  "later_block = plain_reply\<lparr>oi_inbound_event_id := Some 2, oi_block_index := Some 0\<rparr>"

lemma later_event_overtakes:
  "case ob_insert_idempotent 0 plain_reply empty_db of
     Inr (_, d1) \<Rightarrow> (case ob_insert_idempotent 0 later_block d1 of
       Inr (_, d2) \<Rightarrow> map (map (\<lambda>m. ob_inbound_event_id (om_row m)))
         (fst (ob_lease_pending_groups 10000000 10000000
            \<lparr>ge_held = (\<lambda>_. False), ge_held' = (\<lambda>_. False), ge_delay = 3, ge_max = 20\<rparr> 5 ''w'' 30 d2))
         = [[Some 2, Some 1]]
     | _ \<Rightarrow> False)
   | _ \<Rightarrow> False"
  by code_simp

end
