(* ===== verification/Telegram_Cases.thy ===== *)
theory Telegram_Cases
  imports Conversations
begin

text \<open>
  \<open>TelegramCaseRepository\<close> and \<open>TelegramUpdateOffsetRepository\<close>
  (\<open>src/app/db/telegram_repositories.py\<close>): the cases opened in the staff's Telegram
  group, the messages that belong to a case, the numbered follow-ups of a case,
  and the offset of the update stream.  \<open>list_money_case_candidates\<close> rests on
  regular expressions over texts outside the character model and is left out.
\<close>

section \<open>Cases\<close>

text \<open>The row a case is created from, a result of an external command.\<close>

record case_source =
  sr_tenant_id :: "string option"
  sr_conversation_id :: string
  sr_chat_id :: string
  sr_thread_id :: "string option"
  sr_inbound_event_id :: "nat option"
  sr_external_command_id :: "nat option"

definition opt_text :: "json \<Rightarrow> string option" where
  "opt_text j = (if j = JNull then None else Some (py_str j))"

text \<open>A value stored in a nullable \<open>BIGINT\<close> column.\<close>

definition bigint_col :: "json \<Rightarrow> exn + int option" where
  "bigint_col j = (if j = JNull then Inr None
     else case int_of_json j of Some i \<Rightarrow> Inr (Some i) | None \<Rightarrow> Inl (DbError ''Incorrect integer value''))"

definition opt_int_of :: "json \<Rightarrow> exn + int option" where
  "opt_int_of j = (if j = JNull then Inr None
     else case py_int_of j of Inl e \<Rightarrow> Inl e | Inr i \<Rightarrow> Inr (Some i))"

definition attachment_message_ids :: "dict \<Rightarrow> exn + int list" where
  "attachment_message_ids result =
     all_ok (map py_int_of (filter (\<lambda>m. m \<noteq> JNull) (map (\<lambda>item.
       (case item of
          JObj it \<Rightarrow> (let m = dget it ''message_id'' in
                      if truthy m then m else dget (dict_of (dget it ''result'')) ''message_id'')
        | _ \<Rightarrow> JNull))
       (case dget result ''attachment_results'' of JArr xs \<Rightarrow> xs | _ \<Rightarrow> []))))"

definition same_case :: "string \<Rightarrow> int \<Rightarrow> case_row \<Rightarrow> bool" where
  "same_case chat root c \<longleftrightarrow> tc_telegram_chat_id c = chat \<and> tc_root_message_id c = root"

definition new_case_row :: "time \<Rightarrow> case_source \<Rightarrow> dict \<Rightarrow> string \<Rightarrow> int option \<Rightarrow> int \<Rightarrow> nat \<Rightarrow> case_row" where
  "new_case_row now src result chat topic root i =
     \<lparr>tc_id = i, tc_tenant_id = text_or ''default'' (sr_tenant_id src),
      tc_conversation_id = sr_conversation_id src, tc_current_conversation_id = None,
      tc_chat_id = sr_chat_id src, tc_thread_id = sr_thread_id src, tc_current_thread_id = None,
      tc_inbound_event_id = sr_inbound_event_id src,
      tc_external_command_id = (case sr_external_command_id src of None \<Rightarrow> 0 | Some n \<Rightarrow> n),
      tc_intent = opt_text (dget result ''intent''),
      tc_active_workflow = opt_text (if truthy (dget result ''active_workflow'')
                                     then dget result ''active_workflow'' else dget result ''intent''),
      tc_telegram_chat_id = chat, tc_telegram_thread_id = topic, tc_root_message_id = root,
      tc_status = ''awaiting_review'', tc_updated_at = to_timestamp now\<rparr>"

definition upsert_case_row :: "time \<Rightarrow> case_source \<Rightarrow> dict \<Rightarrow> string \<Rightarrow> int option \<Rightarrow> int \<Rightarrow> db \<Rightarrow> nat \<times> db" where
  "upsert_case_row now src result chat topic root d =
     (let i = fresh_id (map tc_id (t_cases d)); new = new_case_row now src result chat topic root i in
      case find (same_case chat root) (t_cases d) of
        None \<Rightarrow> (i, d\<lparr>t_cases := t_cases d @ [new]\<rparr>)
      | Some c \<Rightarrow> (tc_id c, d\<lparr>t_cases := update_where (\<lambda>r. tc_id r = tc_id c) (\<lambda>r.
          r\<lparr>tc_status := (if tc_status r = ''created'' then ''awaiting_review'' else tc_status r),
            tc_active_workflow := coalesce (tc_active_workflow new) (tc_active_workflow r),
            tc_updated_at := to_timestamp now\<rparr>) (t_cases d)\<rparr>))"

definition insert_case_message :: "nat \<Rightarrow> string \<Rightarrow> int option \<Rightarrow> int \<Rightarrow> string \<Rightarrow> db \<Rightarrow> db" where
  "insert_case_message case_id chat topic msg kind d =
     (if \<exists>m \<in> set (t_case_messages d). tm_chat_id m = chat \<and> tm_message_id m = msg then d
      else d\<lparr>t_case_messages := t_case_messages d @ [\<lparr>tm_id = fresh_id (map tm_id (t_case_messages d)),
             tm_case_id = case_id, tm_chat_id = chat, tm_thread_id = topic, tm_message_id = msg,
             tm_kind = kind\<rparr>]\<rparr>)"

definition insert_attachments ::
  "nat \<Rightarrow> string \<Rightarrow> int option \<Rightarrow> string \<Rightarrow> int list \<Rightarrow> ('c world, unit list) act" where
  "insert_attachments case_id chat topic kind =
     each (\<lambda>m. update (insert_case_message case_id chat topic m kind))"

definition upsert_case_created :: "time \<Rightarrow> case_source \<Rightarrow> dict \<Rightarrow> ('c world, nat \<times> int) act" where
  "upsert_case_created now src result =
     (let root = dget result ''telegram_message_id''; target = dget result ''target_chat_id'';
          topic = dget result ''message_thread_id''; chat = py_str target in
      if root = JNull \<or> target = JNull
      then raise (ValueError ''telegram.case.created result missing target_chat_id or telegram_message_id'')
      else transaction (
        andthen (lift (py_int_of root)) (\<lambda>root_id.
        andthen (lift (bigint_col topic)) (\<lambda>topic_col.
        andthen (exec (upsert_case_row now src result chat topic_col root_id)) (\<lambda>case_id.
        andthen (lift (opt_int_of topic)) (\<lambda>topic_id.
        andthen (update (insert_case_message case_id chat topic_id root_id ''root'')) (\<lambda>_.
        andthen (lift (attachment_message_ids result)) (\<lambda>ids.
        andthen (insert_attachments case_id chat topic_id ''attachment'' ids) (\<lambda>_.
        ret (case_id, root_id))))))))))"

section \<open>Replies of the staff\<close>

definition reply_language_from_slot_memory :: "dict \<Rightarrow> string option" where
  "reply_language_from_slot_memory slots =
     (case filter (\<lambda>v. v \<noteq> []) (map (\<lambda>k.
        (let v = dget slots k in if truthy v then str_strip (py_str v) else []))
        [''last_reply_language'', ''conversation_language'', ''last_user_language'']) of
        [] \<Rightarrow> None | v # _ \<Rightarrow> Some v)"

text \<open>The joined row: the case with its current route, and the reply language.\<close>

record found_case =
  fc_case :: case_row
  fc_conversation_id :: string
  fc_thread_id :: "string option"
  fc_reply_language :: "string option"

definition case_conversation :: "case_row \<Rightarrow> string" where
  "case_conversation c = (case tc_current_conversation_id c of None \<Rightarrow> tc_conversation_id c | Some x \<Rightarrow> x)"

definition case_of_message :: "string \<Rightarrow> int \<Rightarrow> db \<Rightarrow> found_case option" where
  "case_of_message chat msg d =
     (case List.map_filter (\<lambda>m.
        if tm_chat_id m = chat \<and> tm_message_id m = msg
        then find (\<lambda>c. tc_id c = tm_case_id m) (t_cases d) else None) (t_case_messages d) of
        [] \<Rightarrow> None
      | c # _ \<Rightarrow> Some \<lparr>fc_case = c, fc_conversation_id = case_conversation c,
          fc_thread_id = coalesce (tc_current_thread_id c) (tc_thread_id c),
          fc_reply_language = reply_language_from_slot_memory
            (case find_conversation (case_conversation c) d of
               None \<Rightarrow> [] | Some s \<Rightarrow> or_empty (cs_slot_memory s))\<rparr>)"

definition find_by_reply_message :: "string \<Rightarrow> json \<Rightarrow> json \<Rightarrow> ('c world, found_case option) act" where
  "find_by_reply_message chat reply_to topic =
     (if reply_to = JNull then ret None
      else andthen (lift (py_int_of reply_to)) (\<lambda>msg.
           andthen (query (case_of_message chat msg)) (\<lambda>row.
           (case row of
              None \<Rightarrow> ret None
            | Some fc \<Rightarrow> (case tc_telegram_thread_id (fc_case fc) of
                None \<Rightarrow> ret (Some fc)
              | Some expected \<Rightarrow>
                  if topic = JNull then ret (Some fc)
                  else andthen (lift (py_int_of topic)) (\<lambda>t. ret (if expected \<noteq> t then None else Some fc)))))))"

definition record_append_message :: "dict \<Rightarrow> ('c world, (nat \<times> int) option) act" where
  "record_append_message result =
     (let msg = dget result ''telegram_message_id''; target = dget result ''target_chat_id'';
          topic = dget result ''message_thread_id''; chat = py_str target;
          reply_to = (if truthy (dget result ''reply_to_message_id'')
                      then dget result ''reply_to_message_id'' else msg) in
      if msg = JNull \<or> target = JNull then ret None
      else andthen (find_by_reply_message chat reply_to topic) (\<lambda>found.
        (case found of
           None \<Rightarrow> ret None
         | Some fc \<Rightarrow>
             let case_id = tc_id (fc_case fc) in
             andthen (if dget result ''status'' = JStr ''edited'' then ret ()
                      else andthen (lift (py_int_of msg)) (\<lambda>m.
                           andthen (lift (opt_int_of topic)) (\<lambda>t.
                           update (insert_case_message case_id chat t m ''append'')))) (\<lambda>_.
             andthen (lift (attachment_message_ids result)) (\<lambda>ids.
             andthen (if ids = [] then ret [] else andthen (lift (opt_int_of topic)) (\<lambda>t.
                        insert_attachments case_id chat t ''attachment'' ids)) (\<lambda>_.
             andthen (lift (py_int_of msg)) (\<lambda>m. ret (Some (case_id, m)))))))))"

definition upsert_from_external_result ::
  "time \<Rightarrow> case_source \<Rightarrow> string \<Rightarrow> dict \<Rightarrow> ('c world, (nat \<times> int) option) act" where
  "upsert_from_external_result now src result_type result =
     (if result_type = ''telegram.case.created''
      then andthen (upsert_case_created now src result) (\<lambda>r. ret (Some r))
      else if result_type = ''telegram.append_to_case.result'' then record_append_message result
      else ret None)"

definition source_of_result :: "result_row \<Rightarrow> case_source" where
  "source_of_result r = \<lparr>sr_tenant_id = Some (er_tenant_id r),
     sr_conversation_id = (case conversation_id r of None \<Rightarrow> [] | Some c \<Rightarrow> c),
     sr_chat_id = er_chat_id r, sr_thread_id = er_thread_id r,
     sr_inbound_event_id = er_inbound_event_id r, sr_external_command_id = Some (er_command_id r)\<rparr>"

text \<open>\<open>synced\<close>, \<open>skipped\<close> and \<open>scanned\<close>.\<close>

definition sync_recent_external_results :: "time \<Rightarrow> nat \<Rightarrow> ('c world, nat \<times> nat \<times> nat) act" where
  "sync_recent_external_results now limit =
     andthen (query (\<lambda>d. rev (take limit (rev (sort_key created_at (sort_key row_id
        (filter (\<lambda>r. er_result_type r \<in> {''telegram.case.created'', ''telegram.append_to_case.result''})
           (t_results d)))))))) (\<lambda>rows.
     andthen (each (\<lambda>r. upsert_from_external_result now (source_of_result r) (er_result_type r) (er_json r)) rows)
       (\<lambda>rs. ret (length (filter (\<lambda>x. x \<noteq> None) rs), length (filter (\<lambda>x. x = None) rs), length rows)))"

definition record_staff_reply_message :: "nat \<Rightarrow> string \<Rightarrow> int \<Rightarrow> int option \<Rightarrow> ('c world, unit) act" where
  "record_staff_reply_message case_id chat msg topic =
     update (insert_case_message case_id chat topic msg ''staff_reply'')"

definition update_case_status :: "time \<Rightarrow> nat \<Rightarrow> string \<Rightarrow> db \<Rightarrow> db" where
  "update_case_status now i st d =
     d\<lparr>t_cases := update_where (\<lambda>c. tc_id c = i)
         (\<lambda>c. c\<lparr>tc_status := st, tc_updated_at := to_timestamp now\<rparr>) (t_cases d)\<rparr>"

section \<open>Follow-ups\<close>

definition find_case :: "nat \<Rightarrow> db \<Rightarrow> case_row option" where
  "find_case i d = find (\<lambda>c. tc_id c = i) (t_cases d)"

definition find_followup :: "nat \<Rightarrow> string \<Rightarrow> db \<Rightarrow> followup_row option" where
  "find_followup case_id thread d =
     find (\<lambda>f. fu_case_id f = case_id \<and> fu_thread_id f = thread) (t_followups d)"

text \<open>\<open>COALESCE(MAX(follow_up_number), 1) + 1\<close>\<close>

definition next_followup_number :: "nat \<Rightarrow> db \<Rightarrow> int" where
  "next_followup_number case_id d =
     (case map fu_number (filter (\<lambda>f. fu_case_id f = case_id) (t_followups d)) of
        [] \<Rightarrow> 2 | n # ns \<Rightarrow> foldl max n ns + 1)"

definition fu_clash :: "followup_row \<Rightarrow> followup_row \<Rightarrow> bool" where
  "fu_clash a b \<longleftrightarrow> fu_case_id a = fu_case_id b \<and> (fu_thread_id a = fu_thread_id b \<or> fu_number a = fu_number b) \<or>
     fu_command_id a = fu_command_id b"

definition insert_followup :: "nat \<Rightarrow> nat \<Rightarrow> string \<Rightarrow> string \<Rightarrow> string \<Rightarrow> int \<Rightarrow> string \<Rightarrow> db \<Rightarrow> exn + (followup_row \<times> db)" where
  "insert_followup command_id case_id conv thread kind number prev d =
     (let new = \<lparr>fu_id = fresh_id (map fu_id (t_followups d)), fu_case_id = case_id,
            fu_command_id = command_id, fu_conversation_id = conv, fu_thread_id = thread,
            fu_kind = kind, fu_number = number, fu_update_en = None, fu_previous_status = prev,
            fu_message_id = None, fu_status = ''reserved'', fu_last_error = None, fu_sent_at = None\<rparr>
      in if \<exists>f \<in> set (t_followups d). fu_clash new f then Inl (DbError ''Duplicate entry'')
         else Inr (new, d\<lparr>t_followups := t_followups d @ [new]\<rparr>))"

text \<open>
  The follow-up, whether it existed before, and its case.  The lock on the case row
  serialises concurrent reservations of one case.
\<close>

definition reserve_followup ::
  "nat \<Rightarrow> nat \<Rightarrow> string \<Rightarrow> string \<Rightarrow> string \<Rightarrow> string \<Rightarrow> ('c world, followup_row \<times> bool \<times> case_row) act" where
  "reserve_followup command_id case_id conv thread kind prev =
     (if thread = [] then raise (ValueError ''source_thread_id is required'')
      else transaction (
        andthen (query (find_case case_id)) (\<lambda>c.
        case c of
          None \<Rightarrow> raise (ValueError ''telegram case not found'')
        | Some cas \<Rightarrow>
            andthen (query (find_followup case_id thread)) (\<lambda>existing.
            case existing of
              Some f \<Rightarrow> ret (f, True, cas)
            | None \<Rightarrow>
                andthen (query (next_followup_number case_id)) (\<lambda>number.
                andthen (stmt (insert_followup command_id case_id conv thread kind number prev)) (\<lambda>f.
                ret (f, False, cas)))))))"

definition fu_update :: "nat \<Rightarrow> (followup_row \<Rightarrow> followup_row) \<Rightarrow> db \<Rightarrow> db" where
  "fu_update i f d = d\<lparr>t_followups := update_where (\<lambda>r. fu_id r = i) f (t_followups d)\<rparr>"

definition find_followup_id :: "nat \<Rightarrow> db \<Rightarrow> followup_row option" where
  "find_followup_id i d = find (\<lambda>f. fu_id f = i) (t_followups d)"

definition update_current_route :: "time \<Rightarrow> nat \<Rightarrow> string \<Rightarrow> string \<Rightarrow> db \<Rightarrow> db" where
  "update_current_route now case_id conv thread d =
     d\<lparr>t_cases := update_where (\<lambda>c. tc_id c = case_id) (\<lambda>c.
         c\<lparr>tc_current_conversation_id := Some conv, tc_current_thread_id := Some thread,
           tc_updated_at := to_timestamp now\<rparr>) (t_cases d)\<rparr>"

definition mark_followup_sending :: "time \<Rightarrow> nat \<Rightarrow> ('c world, unit) act" where
  "mark_followup_sending now i =
     transaction (andthen (query (find_followup_id i)) (\<lambda>f.
       case f of
         None \<Rightarrow> raise (ValueError ''telegram follow-up not found'')
       | Some fu \<Rightarrow>
           andthen (update (fu_update i (\<lambda>r. r\<lparr>fu_status := ''sending'', fu_last_error := None\<rparr>))) (\<lambda>_.
           update (update_current_route now (fu_case_id fu) (fu_conversation_id fu) (fu_thread_id fu)))))"

definition record_followup_sent :: "time \<Rightarrow> nat \<Rightarrow> int \<Rightarrow> int list \<Rightarrow> string \<Rightarrow> ('c world, unit) act" where
  "record_followup_sent now i msg attachments text_en =
     transaction (andthen (query (\<lambda>d. Option.bind (find_followup_id i d) (\<lambda>f. find_case (fu_case_id f) d))) (\<lambda>c.
       case c of
         None \<Rightarrow> raise (ValueError ''telegram follow-up not found'')
       | Some cas \<Rightarrow>
           andthen (update (fu_update i (\<lambda>r. r\<lparr>fu_status := ''sent'', fu_message_id := Some msg,
               fu_update_en := Some text_en, fu_sent_at := Some now, fu_last_error := None\<rparr>))) (\<lambda>_.
           andthen (update (insert_case_message (tc_id cas) (tc_telegram_chat_id cas)
               (tc_telegram_thread_id cas) msg ''follow_up'')) (\<lambda>_.
           andthen (insert_attachments (tc_id cas) (tc_telegram_chat_id cas) (tc_telegram_thread_id cas)
               ''follow_up_attachment'' attachments) (\<lambda>_. ret ())))))"

definition fu_set_status :: "string \<Rightarrow> nat \<Rightarrow> string \<Rightarrow> db \<Rightarrow> db" where
  "fu_set_status st i err = fu_update i (\<lambda>r. r\<lparr>fu_status := st, fu_last_error := Some (take 2000 err)\<rparr>)"

definition mark_followup_delivery_uncertain :: "nat \<Rightarrow> string \<Rightarrow> db \<Rightarrow> db" where
  "mark_followup_delivery_uncertain = fu_set_status ''delivery_uncertain''"

definition mark_followup_retryable :: "nat \<Rightarrow> string \<Rightarrow> db \<Rightarrow> db" where
  "mark_followup_retryable = fu_set_status ''reserved''"

definition cancel_followup :: "nat \<Rightarrow> string \<Rightarrow> db \<Rightarrow> db" where
  "cancel_followup = fu_set_status ''canceled''"

section \<open>Update offsets\<close>

definition get_offset :: "string \<Rightarrow> db \<Rightarrow> int" where
  "get_offset k d = (case map_of (t_offsets d) k of None \<Rightarrow> 0 | Some v \<Rightarrow> v)"

definition save_offset :: "string \<Rightarrow> int \<Rightarrow> db \<Rightarrow> db" where
  "save_offset k v d = d\<lparr>t_offsets := AList.update k
     (case map_of (t_offsets d) k of None \<Rightarrow> v | Some old \<Rightarrow> max old v) (t_offsets d)\<rparr>"

definition build_telegram_staff_reply_dedup_key :: "(string \<Rightarrow> string) \<Rightarrow> dict \<Rightarrow> nat \<Rightarrow> string" where
  "build_telegram_staff_reply_dedup_key sha256_hex upd case_id =
     ''telegram.staff_reply:'' @ take 24 (sha256_hex (json_dumps_sorted (JObj [
        (''telegram_case_id'', JInt (int case_id)),
        (''telegram_update_id'', dget upd ''update_id''),
        (''telegram_message_id'', dget (dict_of (dget upd ''message'')) ''message_id'')])))"

text \<open>
  A stored offset never moves back: after \<open>save_offset\<close> the offset of the key
  is the larger of the old and the new one (the new one for a new key), and no
  other key changes.
\<close>

theorem save_offset_monotone:
  "get_offset k' (save_offset k v d) =
     (if k' = k then (if k \<in> fst ` set (t_offsets d) then max (get_offset k d) v else v)
      else get_offset k' d)"
proof (cases "map_of (t_offsets d) k")
  case None
  then have "k \<notin> fst ` set (t_offsets d)" by (simp add: map_of_eq_None_iff)
  with None show ?thesis by (simp add: get_offset_def save_offset_def update_conv')
next
  case (Some old)
  then have "k \<in> fst ` set (t_offsets d)" by (force dest: map_of_SomeD)
  with Some show ?thesis by (simp add: get_offset_def save_offset_def update_conv')
qed

section \<open>Numbering of follow-ups\<close>

definition case_numbers :: "nat \<Rightarrow> db \<Rightarrow> int list" where
  "case_numbers case_id d = map fu_number (filter (\<lambda>f. fu_case_id f = case_id) (t_followups d))"

text \<open>The follow-ups of each case are numbered 2, 3, 4, ... in the order they were reserved.\<close>

definition followups_numbered :: "db \<Rightarrow> bool" where
  "followups_numbered d \<longleftrightarrow> (\<forall>c. case_numbers c d = map (\<lambda>k. int k + 2) [0..<length (case_numbers c d)])"

lemma foldl_max_numbers: "foldl max m (map (\<lambda>x. a + int x) [0..<n]) = (if n = 0 then m else max m (a + int n - 1))"
  by (induction n) auto

lemma next_followup_number_eq:
  assumes "followups_numbered d"
  shows "next_followup_number c d = int (length (case_numbers c d)) + 2"
proof (cases "case_numbers c d")
  case Nil
  then show ?thesis by (simp add: next_followup_number_def case_numbers_def)
next
  case (Cons n ns)
  then have "n # ns = map (\<lambda>k. int k + 2) [0..<Suc (length ns)]"
    using assms unfolding followups_numbered_def by (metis length_Cons)
  then have n: "n = 2" "ns = map (\<lambda>x. 3 + int x) [0..<length ns]"
    by (simp_all add: upt_conv_Cons map_Suc_upt [symmetric] comp_def del: upt_Suc)
  have "foldl max n ns = int (length ns) + 2"
    unfolding n(1) by (subst n(2)) (simp add: foldl_max_numbers)
  then show ?thesis
    using Cons by (simp add: next_followup_number_def case_numbers_def)
qed

definition followups_ok :: "db \<Rightarrow> bool" where
  "followups_ok d \<longleftrightarrow> followups_numbered d \<and> distinct (map fu_id (t_followups d)) \<and>
     sorted_wrt (\<lambda>a b. \<not> fu_clash a b) (t_followups d)"

lemma fu_clash_sym: "fu_clash a b \<Longrightarrow> fu_clash b a"
  by (auto simp: fu_clash_def)

lemma case_numbers_append:
  "t_followups d' = t_followups d @ [f] \<Longrightarrow>
   case_numbers c d' = case_numbers c d @ (if fu_case_id f = c then [fu_number f] else [])"
  by (simp add: case_numbers_def)

lemma followups_ok_append:
  assumes ok: "followups_ok d" and d': "t_followups d' = t_followups d @ [f]"
    and new: "fu_id f \<notin> set (map fu_id (t_followups d))" "\<And>g. g \<in> set (t_followups d) \<Longrightarrow> \<not> fu_clash f g"
    and num: "fu_number f = int (length (case_numbers (fu_case_id f) d)) + 2"
  shows "followups_ok d'"
proof -
  have "followups_numbered d'"
    using ok num by (auto simp: followups_ok_def followups_numbered_def case_numbers_append [OF d'])
  moreover have "sorted_wrt (\<lambda>a b. \<not> fu_clash a b) (t_followups d @ [f])"
    using ok new(2) fu_clash_sym by (auto simp: followups_ok_def sorted_wrt_append)
  ultimately show ?thesis
    using ok new(1) by (simp add: followups_ok_def d')
qed

lemma find_followup_Some:
  "find_followup c th d = Some f \<Longrightarrow> f \<in> set (t_followups d) \<and> fu_case_id f = c \<and> fu_thread_id f = th"
  unfolding find_followup_def by (drule find_Some_iff_mem) simp

lemma insert_followup_Inr:
  assumes "insert_followup cmd c conv th kind n prev d = Inr (f, d')"
  shows "t_followups d' = t_followups d @ [f]" "fu_id f \<notin> set (map fu_id (t_followups d))"
    "\<And>g. g \<in> set (t_followups d) \<Longrightarrow> \<not> fu_clash f g" "fu_number f = n" "fu_case_id f = c" "fu_thread_id f = th"
proof -
  have "fu_id f = fresh_id (map fu_id (t_followups d))"
    using assms by (auto simp: insert_followup_def Let_def split: if_splits)
  then show "fu_id f \<notin> set (map fu_id (t_followups d))" by (simp only: fresh_id_notin not_False_eq_True)
qed (use assms in \<open>auto simp: insert_followup_def Let_def split: if_splits\<close>)

lemma reserve_followup_cases:
  assumes "reserve_followup cmd c conv th kind prev w = (Inr (f, dup, cas), w')"
  shows "th \<noteq> [] \<and> find_case c (store w) = Some cas \<and>
    (if dup then find_followup c th (store w) = Some f \<and> store w' = store w
     else find_followup c th (store w) = None \<and>
          insert_followup cmd c conv th kind (next_followup_number c (store w)) prev (store w) = Inr (f, store w'))"
proof -
  have "th \<noteq> []" using assms by (auto simp: reserve_followup_def)
  with assms show ?thesis
    unfolding reserve_followup_def
    by (auto elim!: transaction_commit simp: run_iffs dest!: query_InrD stmt_InrD split: option.splits)
qed

text \<open>
  Claim C25.  Reserving a follow-up keeps the follow-ups of every case numbered 2, 3,
  4, ... without gaps or repetitions, one per source thread and per command; the
  reservation of a new thread gets the next number, that of a known thread returns
  the existing follow-up and changes nothing.
\<close>

theorem reserve_followup_numbering:
  assumes "followups_ok (store w)"
    and "reserve_followup cmd c conv th kind prev w = (Inr (f, dup, cas), w')"
  shows "followups_ok (store w') \<and> f \<in> set (t_followups (store w')) \<and>
    fu_case_id f = c \<and> fu_thread_id f = th \<and>
    (if dup then store w' = store w
     else t_followups (store w') = t_followups (store w) @ [f] \<and>
          fu_number f = int (length (case_numbers c (store w))) + 2)"
proof (cases dup)
  case True
  then show ?thesis
    using reserve_followup_cases [OF assms(2)] assms(1) find_followup_Some by auto
next
  case False
  then have ins: "insert_followup cmd c conv th kind (next_followup_number c (store w)) prev (store w) = Inr (f, store w')"
    using reserve_followup_cases [OF assms(2)] by simp
  note * = insert_followup_Inr [OF ins]
  have num: "next_followup_number c (store w) = int (length (case_numbers c (store w))) + 2"
    using assms(1) by (intro next_followup_number_eq) (simp add: followups_ok_def)
  have "followups_ok (store w')"
    by (rule followups_ok_append [OF assms(1) *(1-3)]) (simp_all add: *(4,5) num)
  then show ?thesis
    using False * num by simp
qed

lemma reserve_followup_again:
  assumes "reserve_followup cmd c conv th kind prev w = (Inr (f, dup, cas), w')"
    and "store w1 = store w'" "reserve_followup cmd' c conv' th kind' prev' w1 = (Inr (f', dup', cas'), w2)"
  shows "dup' \<and> store w2 = store w1 \<and> find_followup c th (store w1) = Some f'"
proof -
  have "find_followup c th (store w') \<noteq> None"
  proof (cases dup)
    case True
    then show ?thesis using reserve_followup_cases [OF assms(1)] by simp
  next
    case False
    then have "insert_followup cmd c conv th kind (next_followup_number c (store w)) prev (store w) = Inr (f, store w')"
      using reserve_followup_cases [OF assms(1)] by simp
    note * = insert_followup_Inr [OF this]
    show ?thesis
      unfolding find_followup_def find_not_None_iff using *(1,5,6) by auto
  qed
  then show ?thesis
    using reserve_followup_cases [OF assms(3)] assms(2) by (cases dup') auto
qed

end
