(* ===== verification/Transactions.thy ===== *)
theory Transactions
  imports Results Messages Inbound Outbound Telegram_Cases
begin

text \<open>
  The three transactions of \<open>src/app/db/repositories.py\<close> that tie the tables
  together: an inbound event and what the gateway made of it
  (\<open>GatewayTransactionRepository\<close>), a result of an external command and its
  consequences (\<open>ExternalResultTransactionRepository\<close>), a sent message and its
  entry in the history (\<open>SenderTransactionRepository\<close>).
\<close>

section \<open>Writing the output\<close>

definition add_message :: "time \<Rightarrow> string \<Rightarrow> message_in \<Rightarrow> ('c world, nat option) act" where
  "add_message now cid m = exec (cm_insert_idempotent now (m\<lparr>mi_conversation_id := cid\<rparr>))"

definition add_outbound :: "time \<Rightarrow> string \<Rightarrow> outbound_in \<Rightarrow> ('c world, nat option) act" where
  "add_outbound now cid m = stmt (ob_insert_idempotent now (m\<lparr>oi_conversation_id := Some cid\<rparr>))"

definition add_command :: "(string \<Rightarrow> string) \<Rightarrow> time \<Rightarrow> string \<Rightarrow> command_in \<Rightarrow> ('c world, nat option) act" where
  "add_command sha now cid c = stmt (ec_insert_idempotent sha now (c\<lparr>ci_conversation_id := cid\<rparr>))"

definition add_optional_message :: "time \<Rightarrow> string \<Rightarrow> message_in option \<Rightarrow> ('c world, nat option option) act" where
  "add_optional_message now cid m =
     (case m of None \<Rightarrow> ret None | Some x \<Rightarrow> andthen (add_message now cid x) (\<lambda>r. ret (Some r)))"

text \<open>
  The result of a transaction: the conversation, whether a human had taken over, and
  for each insert the new identifier or \<open>None\<close> for a duplicate.
\<close>

record tx_result =
  tx_conversation :: conversation
  tx_skipped :: bool
  tx_message :: "nat option option"
  tx_assistant :: "nat option list"
  tx_outbound :: "nat option list"
  tx_commands :: "nat option list"

section \<open>An inbound event\<close>

definition finish_skipped :: "time \<Rightarrow> nat \<Rightarrow> conversation \<Rightarrow> message_in option \<Rightarrow> ('c world, tx_result) act" where
  "finish_skipped now i conv customer =
     andthen (add_optional_message now (cv_conversation_id conv) customer) (\<lambda>m.
     andthen (update (ib_mark_processed now i)) (\<lambda>_.
     ret \<lparr>tx_conversation = conv, tx_skipped = True, tx_message = m, tx_assistant = [],
          tx_outbound = [], tx_commands = []\<rparr>))"

definition update_case :: "time \<Rightarrow> graph_state \<Rightarrow> ('c world, unit) act" where
  "update_case now gs =
     (case gs_case_update gs of None \<Rightarrow> ret () | Some (i, st) \<Rightarrow> update (update_case_status now i st))"

definition apply_graph_state :: "time \<Rightarrow> string \<Rightarrow> graph_state option \<Rightarrow> ('c world, bool) act" where
  "apply_graph_state now cid gs =
     (case gs of None \<Rightarrow> ret True
      | Some g \<Rightarrow> andthen (update_case now g) (\<lambda>_. update_workflow_state now cid g))"

definition write_event :: "(string \<Rightarrow> string) \<Rightarrow> time \<Rightarrow> nat \<Rightarrow> conversation \<Rightarrow> message_in option
    \<Rightarrow> outbound_in list \<Rightarrow> command_in list \<Rightarrow> message_in list \<Rightarrow> ('c world, tx_result) act" where
  "write_event sha now i conv customer outs cmds assistants =
     (let cid = cv_conversation_id conv in
      andthen (add_optional_message now cid customer) (\<lambda>m.
      andthen (each (add_message now cid) assistants) (\<lambda>as.
      andthen (each (add_outbound now cid) outs) (\<lambda>os.
      andthen (each (add_command sha now cid) cmds) (\<lambda>cs.
      andthen (update (ib_mark_processed now i)) (\<lambda>_.
      ret \<lparr>tx_conversation = conv, tx_skipped = False, tx_message = m, tx_assistant = as,
           tx_outbound = os, tx_commands = cs\<rparr>))))))"

definition process_event_body :: "(string \<Rightarrow> string) \<Rightarrow> time \<Rightarrow> nat \<Rightarrow> inbound_event \<Rightarrow> message_in option
    \<Rightarrow> outbound_in list \<Rightarrow> command_in list \<Rightarrow> graph_state option \<Rightarrow> message_in list
    \<Rightarrow> ('c world, tx_result) act" where
  "process_event_body sha now i ev customer outs cmds gs assistants =
     andthen (get_or_create now (text_or ''unknown'' (ev_chat_id ev)) (ev_thread_id ev)) (\<lambda>(conv, _).
     if locked_status (str_upper (cv_status conv)) then finish_skipped now i conv customer
     else andthen (apply_graph_state now (cv_conversation_id conv) gs) (\<lambda>applied.
       if \<not> applied then finish_skipped now i (conv\<lparr>cv_status := ''HUMAN_ACTIVE''\<rparr>) customer
       else write_event sha now i conv customer outs cmds assistants))"

definition process_event_transactionally :: "(string \<Rightarrow> string) \<Rightarrow> time \<Rightarrow> nat \<Rightarrow> inbound_event \<Rightarrow> message_in option
    \<Rightarrow> outbound_in list \<Rightarrow> command_in list \<Rightarrow> graph_state option \<Rightarrow> message_in list
    \<Rightarrow> ('c world, tx_result) act" where
  "process_event_transactionally sha now i ev customer outs cmds gs assistants =
     transaction (process_event_body sha now i ev customer outs cmds gs assistants)"

section \<open>A result of an external command\<close>

definition merge_slots :: "conversation \<Rightarrow> graph_state \<Rightarrow> graph_state" where
  "merge_slots conv gs =
     (case gs_slot_memory gs of
        None \<Rightarrow> gs
      | Some slots \<Rightarrow> gs\<lparr>gs_slot_memory := Some (foldl dpop
            (dmerge (or_empty (cv_slot_memory conv)) slots) (gs_delete_keys gs)),
          gs_delete_keys := []\<rparr>)"

definition result_done :: "time \<Rightarrow> nat \<Rightarrow> conversation \<Rightarrow> ('c world, tx_result) act" where
  "result_done now i conv =
     andthen (update (er_mark_processed now i)) (\<lambda>_.
     ret \<lparr>tx_conversation = conv, tx_skipped = True, tx_message = None, tx_assistant = [],
          tx_outbound = [], tx_commands = []\<rparr>)"

definition write_result :: "(string \<Rightarrow> string) \<Rightarrow> time \<Rightarrow> nat \<Rightarrow> conversation \<Rightarrow> outbound_in list
    \<Rightarrow> command_in list \<Rightarrow> message_in option \<Rightarrow> ('c world, tx_result) act" where
  "write_result sha now i conv outs cmds summary =
     (let cid = cv_conversation_id conv in
      andthen (add_optional_message now cid summary) (\<lambda>m.
      andthen (each (add_outbound now cid) outs) (\<lambda>os.
      andthen (each (add_command sha now cid) cmds) (\<lambda>cs.
      andthen (update (er_mark_processed now i)) (\<lambda>_.
      ret \<lparr>tx_conversation = conv, tx_skipped = False, tx_message = m, tx_assistant = [],
           tx_outbound = os, tx_commands = cs\<rparr>)))))"

definition process_result_body :: "(string \<Rightarrow> string) \<Rightarrow> time \<Rightarrow> nat \<Rightarrow> string \<Rightarrow> string option \<Rightarrow> graph_state
    \<Rightarrow> outbound_in list \<Rightarrow> command_in list \<Rightarrow> message_in option \<Rightarrow> ('c world, tx_result) act" where
  "process_result_body sha now i chat thread gs outs cmds summary =
     andthen (get_or_create now chat thread) (\<lambda>(conv, _).
     if locked_status (str_upper (cv_status conv)) then result_done now i conv
     else andthen (update_case now (merge_slots conv gs)) (\<lambda>_.
       andthen (update_workflow_state now (cv_conversation_id conv) (merge_slots conv gs)) (\<lambda>applied.
       if \<not> applied then result_done now i (conv\<lparr>cv_status := ''HUMAN_ACTIVE''\<rparr>)
       else write_result sha now i conv outs cmds summary)))"

definition process_result_transactionally :: "(string \<Rightarrow> string) \<Rightarrow> time \<Rightarrow> nat \<Rightarrow> string \<Rightarrow> string option \<Rightarrow> graph_state
    \<Rightarrow> outbound_in list \<Rightarrow> command_in list \<Rightarrow> message_in option \<Rightarrow> ('c world, tx_result) act" where
  "process_result_transactionally sha now i chat thread gs outs cmds summary =
     transaction (process_result_body sha now i chat thread gs outs cmds summary)"

section \<open>A sent message\<close>

definition mark_sent_with_message :: "time \<Rightarrow> nat \<Rightarrow> message_in \<Rightarrow> string option \<Rightarrow> ('c world, nat option) act" where
  "mark_sent_with_message now i m err =
     transaction (andthen (update (ob_mark_sent now i err)) (\<lambda>_. exec (cm_insert_idempotent now m)))"

section \<open>The handoff lock\<close>

lemma lock_le_inserts:
  "lock_le d (snd (cm_insert_idempotent now m d))"
  "ob_insert_idempotent now o' d = Inr (a, d') \<Longrightarrow> lock_le d d'"
  "ec_insert_idempotent sha now c d = Inr (b, d'') \<Longrightarrow> lock_le d d''"
  "lock_le d (ib_mark_processed now i d)"
  "lock_le d (er_mark_processed now i d)"
  "lock_le d (update_case_status now i st d)"
  by (auto simp: cm_insert_idempotent_def ob_insert_idempotent_def ec_insert_idempotent_def
      ib_mark_processed_def ib_update_def er_mark_processed_def er_update_def update_case_status_def
      split: prod.splits option.splits)

lemmas lock_intros = lock.stays_intros lock.stays_update lock.stays_exec lock.stays_stmt get_or_create_lock
  update_workflow_state_lock lock_le_inserts

lemma adding_lock:
  "stays lock_le (add_message now cid m)" "stays lock_le (add_outbound now cid out)"
  "stays lock_le (add_command sha now cid c)" "stays lock_le (add_optional_message now cid om)"
  "stays lock_le (update_case now gs)"
  unfolding add_message_def add_outbound_def add_command_def add_optional_message_def update_case_def
  by (intro lock_intros; assumption)+

lemma writing_lock:
  "stays lock_le (finish_skipped now i conv om)" "stays lock_le (result_done now i conv)"
  "stays lock_le (write_event sha now i conv om outs cmds ms)"
  "stays lock_le (write_result sha now i conv outs cmds om)"
  "stays lock_le (apply_graph_state now cid gso)"
  unfolding finish_skipped_def result_done_def write_event_def write_result_def apply_graph_state_def Let_def
  by (intro lock_intros adding_lock)+

lemma process_event_lock:
  "stays lock_le (process_event_transactionally sha now i ev customer outs cmds gs assistants)"
  unfolding process_event_transactionally_def process_event_body_def
  by (intro lock_intros writing_lock)

lemma process_result_lock:
  "stays lock_le (process_result_transactionally sha now i chat thread gs outs cmds summary)"
  unfolding process_result_transactionally_def process_result_body_def
  by (intro lock_intros writing_lock adding_lock)

text \<open>
  Claim C10.  No transaction of the gateway or of the result consumer, whatever
  statement fails in it, takes a conversation back from the human side: a
  conversation whose status is \<open>HANDOFF_REQUESTED\<close> or \<open>HUMAN_ACTIVE\<close> keeps one of
  these statuses.
\<close>

theorem transactions_respect_handoff:
  "lock_le (store w) (store (snd (process_event_transactionally sha now i ev customer outs cmds gs assistants w))) \<and>
   lock_le (store w) (store (snd (process_result_transactionally sha now j chat thread gs' outs' cmds' summary w)))"
  by (intro conjI staysD process_event_lock process_result_lock)

section \<open>What the transactions add\<close>

text \<open>No statement of the transactions removes a message, an outbound message or a command.\<close>

definition adds_le :: "db \<Rightarrow> db \<Rightarrow> bool" where
  "adds_le d d' \<longleftrightarrow> set (t_messages d) \<subseteq> set (t_messages d') \<and>
     set (t_outbound d) \<subseteq> set (t_outbound d') \<and> set (t_commands d) \<subseteq> set (t_commands d')"

interpretation adds: db_preorder adds_le
  by unfold_locales (auto simp: adds_le_def)

lemma adds_le_same:
  "t_messages d' = t_messages d \<Longrightarrow> t_outbound d' = t_outbound d \<Longrightarrow> t_commands d' = t_commands d \<Longrightarrow>
   adds_le d d'"
  by (simp add: adds_le_def)

lemma insert_new_set: "insert_new rid clash mk rows = (res, rows') \<Longrightarrow> set rows \<subseteq> set rows'"
  by (auto simp: insert_new_def Let_def split: if_splits)

lemma adds_le_inserts:
  "adds_le d (snd (cm_insert_idempotent now m d))"
  "ob_insert_idempotent now o' d = Inr (a, d') \<Longrightarrow> adds_le d d'"
  "ec_insert_idempotent sha now c d = Inr (b, d'') \<Longrightarrow> adds_le d d''"
  by (auto simp: cm_insert_idempotent_def ob_insert_idempotent_def ec_insert_idempotent_def adds_le_def
      split: prod.splits option.splits dest: insert_new_set [THEN subsetD])

lemma adds_le_updates:
  "adds_le d (ib_mark_processed now i d)"
  "adds_le d (er_mark_processed now i d)"
  "adds_le d (update_case_status now i st d)"
  "adds_le d (upsert_conversation g now cid chat thread d)"
  "adds_le d (snd (workflow_update now cid gs' d))"
  by (rule adds_le_same; simp add: ib_mark_processed_def ib_update_def er_mark_processed_def er_update_def
      update_case_status_def upsert_conversation_def workflow_update_def Let_def)+

lemma get_or_create_adds: "stays adds_le (get_or_create now chat thread)"
  unfolding get_or_create_def Let_def
  by (intro adds.stays_intros adds.stays_update adds_le_updates)

lemma update_workflow_state_adds: "stays adds_le (update_workflow_state now cid gs)"
  unfolding update_workflow_state_def
  by (intro adds.stays_intros adds.stays_exec adds_le_updates)

lemmas adds_intros = adds.stays_intros adds.stays_update adds.stays_exec adds.stays_stmt
  get_or_create_adds update_workflow_state_adds adds_le_inserts adds_le_updates

section \<open>Known rows\<close>

text \<open>
  A message is known when the table has a row that an insert of it would clash with;
  inserting a known row is a duplicate and changes nothing.
\<close>

definition cm_hits :: "message_in \<Rightarrow> message_row \<Rightarrow> bool" where
  "cm_hits m r = cm_clash (new_message_row 0 m 0) r"

definition cm_known :: "message_in \<Rightarrow> db \<Rightarrow> bool" where
  "cm_known m d \<longleftrightarrow> (\<exists>r \<in> set (t_messages d). cm_hits m r)"

definition mi_keyed :: "message_in \<Rightarrow> bool" where
  "mi_keyed m \<longleftrightarrow> mi_inbound_event_id m \<noteq> None \<or> mi_outbound_message_id m \<noteq> None \<or> mi_external_result_id m \<noteq> None"

definition ec_known :: "(string \<Rightarrow> string) \<Rightarrow> command_in \<Rightarrow> db \<Rightarrow> bool" where
  "ec_known sha c d \<longleftrightarrow> (\<exists>r \<in> set (t_commands d). command_dedup_key sha c = ec_dedup_key r)"

lemma cm_clash_new: "cm_clash (new_message_row now m i) r \<longleftrightarrow> cm_hits m r"
  by (simp add: cm_clash_def new_message_row_def cm_hits_def)

lemma cm_hits_new: "mi_keyed m \<Longrightarrow> cm_hits m (new_message_row now m i)"
  by (auto simp: cm_hits_def cm_clash_def new_message_row_def mi_keyed_def same_key_def)

lemma cm_insert_known: "cm_known m d \<Longrightarrow> cm_insert_idempotent now m d = (None, d)"
  by (auto simp: cm_insert_idempotent_def insert_new_def Let_def cm_known_def cm_clash_new)

lemma cm_insert_makes_known:
  "mi_keyed m \<Longrightarrow> cm_insert_idempotent now m d = (res, d') \<Longrightarrow> cm_known m d'"
  by (auto simp: cm_insert_idempotent_def insert_new_def Let_def cm_known_def cm_clash_new cm_hits_new
      split: if_splits)

lemma ec_insert_known:
  "ci_chat_id c = Some chat \<Longrightarrow> ec_known sha c d \<Longrightarrow> ec_insert_idempotent sha now c d = Inr (None, d)"
  by (auto simp: ec_insert_idempotent_def insert_new_def Let_def ec_known_def ec_clash_def)

lemma ec_insert_makes_known:
  assumes "ec_insert_idempotent sha now c d = Inr (res, d')"
  shows "ec_known sha c d'"
proof -
  have "ec_insert_idempotent sha now c d' = Inr (None, d')"
    by (rule ec_insert_again [OF assms])
  then show ?thesis
    by (auto simp: ec_insert_idempotent_def insert_new_def Let_def ec_known_def ec_clash_def
        split: option.splits prod.splits if_splits)
qed

lemma known_mono:
  "adds_le d d' \<Longrightarrow> cm_known m d \<Longrightarrow> cm_known m d'"
  "adds_le d d' \<Longrightarrow> ob_known x d \<Longrightarrow> ob_known x d'"
  "adds_le d d' \<Longrightarrow> ec_known sha c d \<Longrightarrow> ec_known sha c d'"
  by (auto simp: adds_le_def cm_known_def ob_known_def ec_known_def)

text \<open>What every element of a loop establishes holds after the loop.\<close>

lemma each_establishes:
  assumes "each f xs w = (Inr ys, w')" "\<And>x. stays adds_le (f x)"
    and "\<And>x v y v'. x \<in> set xs \<Longrightarrow> f x v = (Inr y, v') \<Longrightarrow> K x (store v')"
    and "\<And>x d d'. adds_le d d' \<Longrightarrow> K x d \<Longrightarrow> K x d'"
  shows "\<forall>x \<in> set xs. K x (store w')"
  using assms(1,3)
proof (induction xs arbitrary: w ys)
  case (Cons x xs)
  from Cons.prems(1) obtain y v zs where v: "f x w = (Inr y, v)" "each f xs v = (Inr zs, w')"
    by (auto simp: run_iffs)
  have "K x (store v)" using Cons.prems(2) v(1) by auto
  moreover have "stays adds_le (each f xs)" by (intro adds.stays_each assms(2))
  then have "adds_le (store v) (store w')" using v(2) by (rule stays_InrD)
  ultimately have "K x (store w')" using assms(4) by blast
  moreover have "\<forall>x \<in> set xs. K x (store w')"
    using Cons.IH [OF v(2)] Cons.prems(2) by auto
  ultimately show ?case by simp
qed simp

lemma add_message_known:
  "mi_keyed m \<Longrightarrow> add_message now cid m w = (Inr r, w') \<Longrightarrow> cm_known (m\<lparr>mi_conversation_id := cid\<rparr>) (store w')"
  unfolding add_message_def
  by (auto dest!: exec_InrD intro: cm_insert_makes_known simp: mi_keyed_def)

lemma add_outbound_known:
  "add_outbound now cid m w = (Inr r, w') \<Longrightarrow> ob_known (m\<lparr>oi_conversation_id := Some cid\<rparr>) (store w')"
  unfolding add_outbound_def by (auto dest!: stmt_InrD intro: ob_insert_makes_known)

lemma add_command_known:
  "add_command sha now cid c w = (Inr r, w') \<Longrightarrow> ec_known sha (c\<lparr>ci_conversation_id := cid\<rparr>) (store w')"
  unfolding add_command_def by (auto dest!: stmt_InrD intro: ec_insert_makes_known)

text \<open>All the output of an event or a result is in the database.\<close>

definition output_known :: "(string \<Rightarrow> string) \<Rightarrow> string \<Rightarrow> message_in list \<Rightarrow> outbound_in list \<Rightarrow> command_in list \<Rightarrow> db \<Rightarrow> bool" where
  "output_known sha cid ms outs cmds d \<longleftrightarrow>
     (\<forall>m \<in> set ms. mi_keyed m \<longrightarrow> cm_known (m\<lparr>mi_conversation_id := cid\<rparr>) d) \<and>
     (\<forall>m \<in> set outs. ob_known (m\<lparr>oi_conversation_id := Some cid\<rparr>) d) \<and>
     (\<forall>c \<in> set cmds. ec_known sha (c\<lparr>ci_conversation_id := cid\<rparr>) d)"

definition inbound_done :: "nat \<Rightarrow> db \<Rightarrow> bool" where
  "inbound_done i d \<longleftrightarrow> (\<forall>r \<in> set (t_inbound d). row_id r = i \<longrightarrow> in_processed r)"

definition result_processed :: "nat \<Rightarrow> db \<Rightarrow> bool" where
  "result_processed i d \<longleftrightarrow> (\<forall>r \<in> set (t_results d). row_id r = i \<longrightarrow> status r = ''PROCESSED'')"

definition handed_over :: "string \<Rightarrow> db \<Rightarrow> bool" where
  "handed_over cid d \<longleftrightarrow> (case find_conversation cid d of None \<Rightarrow> False
     | Some r \<Rightarrow> locked_status (str_upper (cs_status r)))"

lemma inbound_done_marked: "inbound_done i (ib_mark_processed now i d)"
  unfolding inbound_done_def ib_mark_processed_def ib_update_def at_id_def
  by (intro ballI impI) (simp, erule update_whereE, simp_all)

lemma result_processed_marked: "result_processed i (er_mark_processed now i d)"
  unfolding result_processed_def er_mark_processed_def er_update_def at_id_def
  by (intro ballI impI) (simp, erule update_whereE, simp_all)

lemma output_known_mono: "adds_le d d' \<Longrightarrow> output_known sha cid ms outs cmds d \<Longrightarrow> output_known sha cid ms outs cmds d'"
  using known_mono unfolding output_known_def by blast

lemma each_messages_known:
  assumes "each (add_message now cid) ms w = (Inr rs, w')"
  shows "\<forall>m \<in> set ms. mi_keyed m \<longrightarrow> cm_known (m\<lparr>mi_conversation_id := cid\<rparr>) (store w')"
  by (rule each_establishes [OF assms])
    (auto simp: add_message_def intro: adds_intros add_message_known [unfolded add_message_def] known_mono)

lemma each_outbound_known:
  assumes "each (add_outbound now cid) ms w = (Inr rs, w')"
  shows "\<forall>m \<in> set ms. ob_known (m\<lparr>oi_conversation_id := Some cid\<rparr>) (store w')"
  by (rule each_establishes [OF assms])
    (auto simp: add_outbound_def intro: adds_intros add_outbound_known [unfolded add_outbound_def] known_mono)

lemma each_commands_known:
  assumes "each (add_command sha now cid) cs w = (Inr rs, w')"
  shows "\<forall>c \<in> set cs. ec_known sha (c\<lparr>ci_conversation_id := cid\<rparr>) (store w')"
  by (rule each_establishes [OF assms])
    (auto simp: add_command_def intro: adds_intros add_command_known [unfolded add_command_def] known_mono)

section \<open>Outcome of the transactions\<close>

definition option_list :: "'a option \<Rightarrow> 'a list" where
  "option_list x = (case x of None \<Rightarrow> [] | Some a \<Rightarrow> [a])"

lemma add_optional_known:
  assumes "add_optional_message now cid mo w = (Inr r, w')"
  shows "\<forall>m \<in> set (option_list mo). mi_keyed m \<longrightarrow> cm_known (m\<lparr>mi_conversation_id := cid\<rparr>) (store w')"
  using assms by (auto simp: add_optional_message_def option_list_def run_iffs split: option.splits
      intro: add_message_known)

lemma adds_parts:
  "stays adds_le (each (add_message now cid) ms)"
  "stays adds_le (each (add_outbound now cid) os)"
  "stays adds_le (each (add_command sha now cid) cs)"
  "stays adds_le (update (ib_mark_processed now i))"
  "stays adds_le (update (er_mark_processed now i))"
  unfolding add_message_def add_outbound_def add_command_def
  by (intro adds.stays_each adds.stays_exec adds_le_inserts(1)
    | rule adds.stays_stmt, erule adds_le_inserts | intro adds.stays_update adds_le_updates)+

lemma write_event_output:
  assumes "write_event sha now i conv customer outs cmds assistants w = (Inr res, w')"
  shows "\<not> tx_skipped res \<and> tx_conversation res = conv \<and> inbound_done i (store w') \<and>
    output_known sha (cv_conversation_id conv) (option_list customer @ assistants) outs cmds (store w')"
proof -
  let ?cid = "cv_conversation_id conv"
  obtain m as os cs u w1 w2 w3 w4 where
    run: "add_optional_message now ?cid customer w = (Inr m, w1)"
      "each (add_message now ?cid) assistants w1 = (Inr as, w2)"
      "each (add_outbound now ?cid) outs w2 = (Inr os, w3)"
      "each (add_command sha now ?cid) cmds w3 = (Inr cs, w4)"
      "update (ib_mark_processed now i) w4 = (Inr u, w')"
    and res: "res = \<lparr>tx_conversation = conv, tx_skipped = False, tx_message = m, tx_assistant = as,
           tx_outbound = os, tx_commands = cs\<rparr>"
    using assms unfolding write_event_def Let_def run_iffs by blast
  note le = stays_InrD [OF adds_parts(1) run(2)] stays_InrD [OF adds_parts(2) run(3)]
    stays_InrD [OF adds_parts(3) run(4)] stays_InrD [OF adds_parts(4) run(5)]
  note known = add_optional_known [OF run(1)] each_messages_known [OF run(2)]
    each_outbound_known [OF run(3)] each_commands_known [OF run(4)]
  have "output_known sha ?cid (option_list customer) [] [] (store w1)"
    "output_known sha ?cid assistants [] [] (store w2)" "output_known sha ?cid [] outs [] (store w3)"
    "output_known sha ?cid [] [] cmds (store w4)"
    using known by (simp_all add: output_known_def)
  then have "output_known sha ?cid (option_list customer) [] [] (store w')"
    "output_known sha ?cid assistants [] [] (store w')" "output_known sha ?cid [] outs [] (store w')"
    "output_known sha ?cid [] [] cmds (store w')"
    using le by (blast intro: output_known_mono)+
  then have "output_known sha ?cid (option_list customer @ assistants) outs cmds (store w')"
    unfolding output_known_def by auto
  moreover have "inbound_done i (store w')"
    using update_InrD [OF run(5)] inbound_done_marked by simp
  ultimately show ?thesis by (simp add: res)
qed

lemma write_result_output:
  assumes "write_result sha now i conv outs cmds summary w = (Inr res, w')"
  shows "\<not> tx_skipped res \<and> tx_conversation res = conv \<and> result_processed i (store w') \<and>
    output_known sha (cv_conversation_id conv) (option_list summary) outs cmds (store w')"
proof -
  let ?cid = "cv_conversation_id conv"
  obtain m os cs u w1 w3 w4 where
    run: "add_optional_message now ?cid summary w = (Inr m, w1)"
      "each (add_outbound now ?cid) outs w1 = (Inr os, w3)"
      "each (add_command sha now ?cid) cmds w3 = (Inr cs, w4)"
      "update (er_mark_processed now i) w4 = (Inr u, w')"
    and res: "res = \<lparr>tx_conversation = conv, tx_skipped = False, tx_message = m, tx_assistant = [],
           tx_outbound = os, tx_commands = cs\<rparr>"
    using assms unfolding write_result_def Let_def run_iffs by blast
  note le = stays_InrD [OF adds_parts(2) run(2)] stays_InrD [OF adds_parts(3) run(3)]
    stays_InrD [OF adds_parts(5) run(4)]
  note known = add_optional_known [OF run(1)] each_outbound_known [OF run(2)] each_commands_known [OF run(3)]
  have "output_known sha ?cid (option_list summary) [] [] (store w1)"
    "output_known sha ?cid [] outs [] (store w3)" "output_known sha ?cid [] [] cmds (store w4)"
    using known by (simp_all add: output_known_def)
  then have "output_known sha ?cid (option_list summary) [] [] (store w')"
    "output_known sha ?cid [] outs [] (store w')" "output_known sha ?cid [] [] cmds (store w')"
    using le by (blast intro: output_known_mono)+
  then have "output_known sha ?cid (option_list summary) outs cmds (store w')"
    unfolding output_known_def by auto
  moreover have "result_processed i (store w')"
    using update_InrD [OF run(4)] result_processed_marked by simp
  ultimately show ?thesis by (simp add: res)
qed

abbreviation to_send :: "db \<Rightarrow> outbound_row list \<times> command_row list" where
  "to_send d \<equiv> (t_outbound d, t_commands d)"

lemma keeps_to_send:
  "to_send (snd (cm_insert_idempotent now m d)) = to_send d"
  "to_send (ib_mark_processed now i d) = to_send d"
  "to_send (er_mark_processed now i d) = to_send d"
  "to_send (update_case_status now i st d) = to_send d"
  "to_send (upsert_conversation g now cid chat thread d) = to_send d"
  "to_send (snd (workflow_update now cid gs d)) = to_send d"
  by (simp_all add: cm_insert_idempotent_def ib_mark_processed_def ib_update_def er_mark_processed_def
      er_update_def update_case_status_def upsert_conversation_def workflow_update_def Let_def split: prod.split)

lemma finish_skipped_keeps: "keeps to_send (finish_skipped now i conv customer)"
  unfolding finish_skipped_def add_optional_message_def add_message_def
  by (intro keeps.stays_intros keeps.stays_update keeps.stays_exec keeps_to_send)

lemma result_done_keeps: "keeps to_send (result_done now i conv)"
  unfolding result_done_def
  by (intro keeps.stays_intros keeps.stays_update keeps.stays_exec keeps_to_send)

lemma get_or_create_keeps: "keeps to_send (get_or_create now chat thread)"
  unfolding get_or_create_def Let_def
  by (intro keeps.stays_intros keeps.stays_update keeps_to_send)

lemma apply_keeps:
  "keeps to_send (update_case now g)" "keeps to_send (update_workflow_state now cid g)"
  "keeps to_send (apply_graph_state now cid gs)"
  unfolding update_case_def update_workflow_state_def apply_graph_state_def
  by (intro keeps.stays_intros keeps.stays_update keeps.stays_exec keeps_to_send)+

lemma finish_skipped_outcome:
  assumes "finish_skipped now i conv customer w = (Inr res, w')"
  shows "tx_skipped res \<and> tx_conversation res = conv \<and> inbound_done i (store w') \<and>
    output_known sha (cv_conversation_id conv) (option_list customer) [] [] (store w') \<and>
    to_send (store w') = to_send (store w)"
proof -
  obtain m u w1 where run: "add_optional_message now (cv_conversation_id conv) customer w = (Inr m, w1)"
      "update (ib_mark_processed now i) w1 = (Inr u, w')"
    and res: "res = \<lparr>tx_conversation = conv, tx_skipped = True, tx_message = m, tx_assistant = [],
          tx_outbound = [], tx_commands = []\<rparr>"
    using assms unfolding finish_skipped_def run_iffs by blast
  have "output_known sha (cv_conversation_id conv) (option_list customer) [] [] (store w1)"
    using add_optional_known [OF run(1)] by (simp add: output_known_def)
  then have "output_known sha (cv_conversation_id conv) (option_list customer) [] [] (store w')"
    using stays_InrD [OF adds_parts(4) run(2)] output_known_mono by blast
  moreover have "inbound_done i (store w')"
    using update_InrD [OF run(2)] inbound_done_marked by simp
  moreover have "to_send (store w') = to_send (store w)"
    by (rule stays_InrD [OF finish_skipped_keeps assms])
  ultimately show ?thesis by (simp add: res)
qed

lemma conversation_of_simps [simp]:
  "cv_conversation_id (conversation_of r) = cs_conversation_id r"
  "cv_status (conversation_of r) = cs_status r"
  by (simp_all add: conversation_of_def)

lemma inherit_id [simp]: "cv_conversation_id (inherit_unfinished_thread_state c p) = cv_conversation_id c"
  by (simp add: inherit_unfinished_thread_state_def)

lemma inherit_locked:
  assumes "locked_status (str_upper (cv_status c))"
  shows "inherit_unfinished_thread_state c p = c"
proof -
  have "cv_status c \<noteq> []" using assms by (auto simp: locked_status_def str_upper_def)
  then have "\<not> is_fresh_ai_state c" using assms by (auto simp: is_fresh_ai_state_def locked_status_def)
  then show ?thesis by (simp add: inherit_unfinished_thread_state_def)
qed

lemma upsert_conversation_find:
  "find_conversation cid (upsert_conversation g now cid chat thread d) =
     (case find_conversation cid d of
        Some r \<Rightarrow> Some (touch now r (r\<lparr>cs_thread_id := g thread (cs_thread_id r)\<rparr>))
      | None \<Rightarrow> Some (new_conversation_row now cid chat thread (fresh_id (map cs_id (t_conversations d)))))"
proof (cases "find_conversation cid d")
  case None
  then have no: "\<not> (\<exists>r \<in> set (t_conversations d). cs_conversation_id r = cid)"
    by (auto simp: find_conversation_def find_None_iff)
  with None show ?thesis
    by (simp add: upsert_conversation_def Let_def find_conversation_def new_conversation_row_def find_append)
next
  case (Some r)
  then have "\<exists>r \<in> set (t_conversations d). cs_conversation_id r = cid"
    using find_conversation_Some by blast
  with Some show ?thesis
    using find_conversation_Some [OF Some]
    by (simp add: upsert_conversation_def Let_def find_conversation_def find_update_where)
qed

lemma get_or_create_outcome:
  assumes "get_or_create now chat thread w = (Inr (conv, prev), w')"
  defines "cid \<equiv> conversation_id_for_chat (Some chat) thread"
  shows "cv_conversation_id conv = cid"
    and "handed_over cid (store w) \<Longrightarrow> locked_status (str_upper (cv_status conv))"
proof -
  let ?d = "upsert_conversation (\<lambda>new old. new) now cid chat thread (store w)"
  obtain r where r: "find_conversation cid ?d = Some r"
    by (cases "find_conversation cid (store w)") (auto simp: upsert_conversation_find)
  have conv: "conv = conversation_of r \<or> (\<exists>p. conv = inherit_unfinished_thread_state (conversation_of r) (conversation_of p))"
    using assms(1) r unfolding get_or_create_def Let_def cid_def [symmetric]
    by (auto simp: run_iffs dest!: update_InrD query_InrD split: option.splits if_splits)
  show "cv_conversation_id conv = cid"
    using conv find_conversation_Some [OF r] by auto
  show "locked_status (str_upper (cv_status conv))" if "handed_over cid (store w)"
  proof -
    have "locked_status (str_upper (cs_status r))"
      using that r by (auto simp: handed_over_def upsert_conversation_find split: option.splits)
    then show ?thesis using conv inherit_locked by auto
  qed
qed

lemma process_event_committed:
  fixes w :: "'c world"
  assumes "process_event_transactionally sha now i ev customer outs cmds gs assistants w = (Inr res, w')"
  defines "cid \<equiv> event_conversation_id ev"
  shows "inbound_done i (store w') \<and> (handed_over cid (store w) \<longrightarrow> tx_skipped res) \<and>
    (if tx_skipped res
     then to_send (store w') = to_send (store w) \<and> output_known sha cid (option_list customer) [] [] (store w')
     else output_known sha cid (option_list customer @ assistants) outs cmds (store w'))"
proof -
  have "transaction (process_event_body sha now i ev customer outs cmds gs assistants) w = (Inr res, w')"
    using assms(1) by (simp add: process_event_transactionally_def)
  from transaction_InrD [OF this] obtain w1 w2 :: "'c world" where w: "store w1 = store w" "store w' = store w2" and
    run: "process_event_body sha now i ev customer outs cmds gs assistants w1 = (Inr res, w2)"
    by blast
  obtain conv prev w3 where get: "get_or_create now (text_or ''unknown'' (ev_chat_id ev)) (ev_thread_id ev) w1 = (Inr (conv, prev), w3)"
    and rest: "(if locked_status (str_upper (cv_status conv)) then finish_skipped now i conv customer
     else andthen (apply_graph_state now (cv_conversation_id conv) gs) (\<lambda>applied.
       if \<not> applied then finish_skipped now i (conv\<lparr>cv_status := ''HUMAN_ACTIVE''\<rparr>) customer
       else write_event sha now i conv customer outs cmds assistants)) w3 = (Inr res, w2)"
    using run unfolding process_event_body_def andthen_Inr_iff by auto
  have id: "cv_conversation_id conv = cid" and locked: "handed_over cid (store w) \<longrightarrow> locked_status (str_upper (cv_status conv))"
    using get_or_create_outcome [OF get] w(1) by (auto simp: cid_def event_conversation_id_def)
  have same: "to_send (store w3) = to_send (store w1)"
    by (rule stays_InrD [OF get_or_create_keeps get])
  show ?thesis
  proof (cases "locked_status (str_upper (cv_status conv))")
    case True
    then show ?thesis
      using rest finish_skipped_outcome [of now i conv customer w3 res w2] same w id by auto
  next
    case False
    then obtain applied w4 where app: "apply_graph_state now (cv_conversation_id conv) gs w3 = (Inr applied, w4)"
      and last: "(if \<not> applied then finish_skipped now i (conv\<lparr>cv_status := ''HUMAN_ACTIVE''\<rparr>) customer
       else write_event sha now i conv customer outs cmds assistants) w4 = (Inr res, w2)"
      using rest by (auto simp: andthen_Inr_iff)
    have "to_send (store w4) = to_send (store w3)"
      by (rule stays_InrD [OF apply_keeps(3) app])
    then show ?thesis
      using last same w id locked False write_event_output [of sha now i conv customer outs cmds assistants w4 res w2]
        finish_skipped_outcome [of now i "conv\<lparr>cv_status := ''HUMAN_ACTIVE''\<rparr>" customer w4 res w2]
      by (cases applied) auto
  qed
qed


lemma process_result_settled:
  fixes w :: "'c world"
  assumes "process_result_transactionally sha now i chat thread gs outs cmds summary w = (r, w')"
  defines "cid \<equiv> conversation_id_for_chat (Some chat) thread"
  shows "case r of
      Inl e \<Rightarrow> store w' = store w
    | Inr res \<Rightarrow> result_processed i (store w') \<and>
        (handed_over cid (store w) \<longrightarrow> tx_skipped res) \<and>
        (if tx_skipped res then to_send (store w') = to_send (store w)
         else output_known sha cid (option_list summary) outs cmds (store w'))"
proof (cases r)
  case (Inl e)
  then show ?thesis
    using assms(1) transaction_rollback by (auto simp: process_result_transactionally_def)
next
  case (Inr res)
  have "transaction (process_result_body sha now i chat thread gs outs cmds summary) w = (Inr res, w')"
    using assms(1) Inr by (simp add: process_result_transactionally_def)
  from transaction_InrD [OF this] obtain w1 w2 :: "'c world" where w: "store w1 = store w" "store w' = store w2" and
    run: "process_result_body sha now i chat thread gs outs cmds summary w1 = (Inr res, w2)"
    by blast
  obtain conv prev w3 where get: "get_or_create now chat thread w1 = (Inr (conv, prev), w3)"
    and rest: "(if locked_status (str_upper (cv_status conv)) then result_done now i conv
     else andthen (update_case now (merge_slots conv gs)) (\<lambda>_.
       andthen (update_workflow_state now (cv_conversation_id conv) (merge_slots conv gs)) (\<lambda>applied.
       if \<not> applied then result_done now i (conv\<lparr>cv_status := ''HUMAN_ACTIVE''\<rparr>)
       else write_result sha now i conv outs cmds summary))) w3 = (Inr res, w2)"
    using run unfolding process_result_body_def andthen_Inr_iff by auto
  have id: "cv_conversation_id conv = cid" and locked: "handed_over cid (store w) \<longrightarrow> locked_status (str_upper (cv_status conv))"
    using get_or_create_outcome [OF get] w(1) by (auto simp: cid_def)
  have same: "to_send (store w3) = to_send (store w1)"
    by (rule stays_InrD [OF get_or_create_keeps get])
  have fin: "tx_skipped res \<and> result_processed i (store w2) \<and> to_send (store w2) = to_send (store v)"
    if "result_done now i c v = (Inr res, w2)" for c v
    using that stays_InrD [OF result_done_keeps that]
    by (auto simp: result_done_def run_iffs result_processed_marked dest!: update_InrD)
  show ?thesis
  proof (cases "locked_status (str_upper (cv_status conv))")
    case True
    then show ?thesis using rest fin same w Inr by auto
  next
    case False
    then obtain u applied w4 w5 where app: "update_case now (merge_slots conv gs) w3 = (Inr u, w4)"
        "update_workflow_state now (cv_conversation_id conv) (merge_slots conv gs) w4 = (Inr applied, w5)"
      and last: "(if \<not> applied then result_done now i (conv\<lparr>cv_status := ''HUMAN_ACTIVE''\<rparr>)
       else write_result sha now i conv outs cmds summary) w5 = (Inr res, w2)"
      using rest by (auto simp: andthen_Inr_iff)
    have "to_send (store w5) = to_send (store w1)"
      using stays_InrD [OF apply_keeps(1) app(1)] stays_InrD [OF apply_keeps(2) app(2)] same by simp
    then show ?thesis
      using last w id Inr locked False fin write_result_output [of sha now i conv outs cmds summary w5 res w2]
      by (cases applied) auto
  qed
qed

text \<open>
  The transaction of the result consumer is all or nothing as well: on an
  exception the database is as before; otherwise the result is processed, and
  either the conversation belongs to a human (as it does whenever it was handed
  over before) and nothing was added to send, or the summary, the messages and
  the commands are all in the database.
\<close>

theorem process_result_outcome:
  fixes w :: "'c world"
  assumes "process_result_transactionally sha now i chat thread gs outs cmds summary w = (r, w')"
  defines "cid \<equiv> conversation_id_for_chat (Some chat) thread"
  shows "case r of
      Inl e \<Rightarrow> store w' = store w
    | Inr res \<Rightarrow> result_processed i (store w') \<and>
        (handed_over cid (store w) \<longrightarrow> tx_skipped res) \<and>
        (if tx_skipped res then to_send (store w') = to_send (store w)
         else output_known sha cid (option_list summary) outs cmds (store w'))"
  unfolding cid_def by (rule process_result_settled [OF assms(1)])

section \<open>Replay\<close>

abbreviation sends :: "db \<Rightarrow> outbound_row list \<times> command_row list \<times> message_row list" where
  "sends d \<equiv> (t_outbound d, t_commands d, t_messages d)"

lemma output_known_cong: "sends d' = sends d \<Longrightarrow> output_known sha cid ms outs cmds d' = output_known sha cid ms outs cmds d"
  by (simp add: output_known_def cm_known_def ob_known_def ec_known_def)

lemma keeps_sends:
  "sends (ib_mark_processed now i d) = sends d"
  "sends (update_case_status now i st d) = sends d"
  "sends (upsert_conversation g now cid chat thread d) = sends d"
  "sends (snd (workflow_update now cid gs d)) = sends d"
  by (simp_all add: ib_mark_processed_def ib_update_def update_case_status_def upsert_conversation_def
      workflow_update_def Let_def)

lemma prelude_keeps_sends:
  "keeps sends (get_or_create now chat thread)"
  "keeps sends (apply_graph_state now cid gs)"
  unfolding get_or_create_def Let_def update_case_def update_workflow_state_def apply_graph_state_def
  by (intro keeps.stays_intros keeps.stays_update keeps.stays_exec keeps_sends)+

text \<open>A loop whose steps change nothing in a given database changes nothing.\<close>

lemma each_idle:
  assumes "each f xs w = (Inr ys, w')"
    and "\<And>x v y v'. x \<in> set xs \<Longrightarrow> store v = store w \<Longrightarrow> f x v = (Inr y, v') \<Longrightarrow> store v' = store v"
  shows "store w' = store w"
  using assms
proof (induction xs arbitrary: w ys)
  case (Cons x xs)
  from Cons.prems(1) obtain y v zs where v: "f x w = (Inr y, v)" "each f xs v = (Inr zs, w')"
    by (auto simp: run_iffs)
  have "store v = store w" using Cons.prems(2) v(1) by auto
  moreover have "store w' = store v"
    by (rule Cons.IH [OF v(2)]) (use Cons.prems(2) \<open>store v = store w\<close> in auto)
  ultimately show ?case by simp
qed (simp add: ret_Inr_iff)

lemma add_message_idle:
  "cm_known (m\<lparr>mi_conversation_id := cid\<rparr>) (store v) \<Longrightarrow> add_message now cid m v = (Inr y, v') \<Longrightarrow> store v' = store v"
  unfolding add_message_def by (auto dest!: exec_InrD simp: cm_insert_known)

lemma add_outbound_idle:
  assumes "ob_known (m\<lparr>oi_conversation_id := Some cid\<rparr>) (store v)" "add_outbound now cid m v = (Inr y, v')"
  shows "store v' = store v"
proof -
  have *: "ob_insert_idempotent now (m\<lparr>oi_conversation_id := Some cid\<rparr>) (store v) = Inr (y, store v')"
    using stmt_InrD [OF assms(2) [unfolded add_outbound_def]] by simp
  then obtain chat where "oi_chat_id (m\<lparr>oi_conversation_id := Some cid\<rparr>) = Some chat"
    by (auto simp: ob_insert_idempotent_def split: option.splits)
  with * ob_insert_known [OF this assms(1), of now] show ?thesis by simp
qed

lemma add_command_idle:
  assumes "ec_known sha (c\<lparr>ci_conversation_id := cid\<rparr>) (store v)" "add_command sha now cid c v = (Inr y, v')"
  shows "store v' = store v"
proof -
  have *: "ec_insert_idempotent sha now (c\<lparr>ci_conversation_id := cid\<rparr>) (store v) = Inr (y, store v')"
    using stmt_InrD [OF assms(2) [unfolded add_command_def]] by simp
  then obtain chat where "ci_chat_id (c\<lparr>ci_conversation_id := cid\<rparr>) = Some chat"
    by (auto simp: ec_insert_idempotent_def split: option.splits)
  with * ec_insert_known [OF this assms(1), of now] show ?thesis by simp
qed

lemma add_optional_idle:
  assumes "\<forall>m \<in> set (option_list mo). cm_known (m\<lparr>mi_conversation_id := cid\<rparr>) (store v)"
    and "add_optional_message now cid mo v = (Inr y, v')"
  shows "store v' = store v"
  using assms add_message_idle
  by (auto simp: add_optional_message_def option_list_def run_iffs split: option.splits)

lemma finish_skipped_idle:
  assumes "finish_skipped now i conv customer w = (Inr res, w')"
    and "\<forall>m \<in> set (option_list customer). cm_known (m\<lparr>mi_conversation_id := cv_conversation_id conv\<rparr>) (store w)"
  shows "sends (store w') = sends (store w)"
proof -
  obtain m u w1 where run: "add_optional_message now (cv_conversation_id conv) customer w = (Inr m, w1)"
      "update (ib_mark_processed now i) w1 = (Inr u, w')"
    using assms(1) unfolding finish_skipped_def run_iffs by blast
  then have "store w1 = store w" by (intro add_optional_idle [OF assms(2)])
  then show ?thesis using update_InrD [OF run(2)] keeps_sends(1) by simp
qed

lemma write_event_idle:
  assumes "write_event sha now i conv customer outs cmds assistants w = (Inr res, w')"
    and keyed: "\<forall>m \<in> set (option_list customer @ assistants). mi_keyed m"
    and known: "output_known sha (cv_conversation_id conv) (option_list customer @ assistants) outs cmds (store w)"
  shows "sends (store w') = sends (store w)"
proof -
  let ?cid = "cv_conversation_id conv"
  obtain m as os cs u w1 w2 w3 w4 where
    run: "add_optional_message now ?cid customer w = (Inr m, w1)"
      "each (add_message now ?cid) assistants w1 = (Inr as, w2)"
      "each (add_outbound now ?cid) outs w2 = (Inr os, w3)"
      "each (add_command sha now ?cid) cmds w3 = (Inr cs, w4)"
      "update (ib_mark_processed now i) w4 = (Inr u, w')"
    using assms unfolding write_event_def Let_def run_iffs by blast
  have 1: "store w1 = store w"
    by (rule add_optional_idle [OF _ run(1)]) (use keyed known in \<open>auto simp: output_known_def\<close>)
  have 2: "store w2 = store w1"
    by (rule each_idle [OF run(2)], rule add_message_idle)
      (use keyed known 1 in \<open>auto simp: output_known_def\<close>)
  have 3: "store w3 = store w2"
    by (rule each_idle [OF run(3)], rule add_outbound_idle)
      (use known 1 2 in \<open>auto simp: output_known_def\<close>)
  have 4: "store w4 = store w3"
    by (rule each_idle [OF run(4)], rule add_command_idle)
      (use known 1 2 3 in \<open>auto simp: output_known_def\<close>)
  show ?thesis
    using update_InrD [OF run(5)] keeps_sends(1) 1 2 3 4 by simp
qed


lemma mark_sent_runs:
  assumes "mark_sent_with_message now i m err w = (Inr res, w')"
  shows "cm_insert_idempotent now m (ob_mark_sent now i err (store w)) = (res, store w') \<and>
    t_outbound (store w') = t_outbound (ob_mark_sent now i err (store w))"
proof -
  have run: "cm_insert_idempotent now m (ob_mark_sent now i err (store w)) = (res, store w')"
    using assms unfolding mark_sent_with_message_def
    by (auto dest!: transaction_InrD update_InrD exec_InrD simp: run_iffs)
  then show ?thesis
    using arg_cong [OF run, of "\<lambda>x. t_outbound (snd x)"]
    by (simp add: cm_insert_idempotent_def split: prod.splits) (metis db.select_convs(3) db.surjective db.update_convs(6))
qed

lemma mark_sent_rows:
  assumes "mark_sent_with_message now i m err w = (Inr res, w')" "x \<in> set (t_outbound (store w'))" "row_id x = i"
  shows "status x = ''SENT'' \<and> locked_by x = None"
proof -
  have "x \<in> set (t_outbound (ob_mark_sent now i err (store w)))"
    using assms(2) mark_sent_runs [OF assms(1)] by simp
  then show ?thesis
    using assms(3) unfolding ob_mark_sent_def ob_update_def at_id_def
    by (simp, elim update_whereE) (simp_all add: sent_row_def)
qed

text \<open>
  A sent message and its entry in the history are written together: when
  \<open>mark_sent_with_message\<close> fails the database is as before, otherwise the row is
  \<open>SENT\<close>, its lease is cleared and the history has its message, once however
  often the step is repeated.
\<close>

theorem mark_sent_with_message_outcome:
  assumes "mark_sent_with_message now i m err w = (r, w')" "mi_keyed m"
  shows "case r of
      Inl e \<Rightarrow> store w' = store w
    | Inr res \<Rightarrow> (\<forall>x \<in> set (t_outbound (store w')). row_id x = i \<longrightarrow> status x = ''SENT'' \<and> locked_by x = None) \<and>
        cm_known m (store w') \<and> (cm_known m (store w) \<longrightarrow> t_messages (store w') = t_messages (store w))"
proof (cases r)
  case (Inl e)
  then show ?thesis
    using assms(1) transaction_rollback by (auto simp: mark_sent_with_message_def)
next
  case (Inr res)
  then have ok: "mark_sent_with_message now i m err w = (Inr res, w')" using assms(1) by simp
  note run = conjunct1 [OF mark_sent_runs [OF ok]]
  have "t_messages (ob_mark_sent now i err (store w)) = t_messages (store w)"
    by (simp add: ob_mark_sent_def ob_update_def)
  then have "cm_known m (store w')" "cm_known m (store w) \<longrightarrow> t_messages (store w') = t_messages (store w)"
    using run cm_insert_makes_known [OF assms(2) run] cm_insert_known [of m "ob_mark_sent now i err (store w)" now]
    by (auto simp: cm_known_def)
  then show ?thesis using Inr mark_sent_rows [OF ok] by simp
qed

end
