(* ===== verification/Outbox.thy ===== *)
theory Outbox
  imports Transactions
begin

text \<open>
  The builders of rows: \<open>src/app/services/outbox.py\<close> turns a command of the graph
  into an outbound message or an external command, and
  \<open>src/app/services/message_history.py\<close> turns events, sent messages and results
  into entries of the history.
\<close>

section \<open>Decimal texts\<close>

lemma digits_value_nat_str:
  "digits_value acc b (nat_str n @ s) = digits_value (acc * 10 ^ length (nat_str n) + n) True s"
proof (induction n arbitrary: acc b s rule: nat_str.induct)
  case (1 n)
  have dig: "digit_of (char_of (48 + k)) = Some k" if "k < 10" for k :: nat
    using that by (simp add: digit_of_def)
  show ?case
  proof (cases "n < 10")
    case True
    then show ?thesis by (simp add: nat_str.simps [of n] dig)
  next
    case False
    have "n mod 10 < 10" by simp
    with False 1 [of acc b "[char_of (48 + n mod 10)] @ s"] show ?thesis
      by (simp add: nat_str.simps [of n] dig algebra_simps)
  qed
qed

lemma digits_value_nat_str' [simp]: "digits_value 0 False (nat_str n) = Some n"
  using digits_value_nat_str [of 0 False n "[]"] by simp

lemma nat_str_inj: "nat_str m = nat_str n \<Longrightarrow> m = n"
  using digits_value_nat_str' by (metis option.inject)

lemma set_nat_str: "c \<in> set (nat_str n) \<Longrightarrow> digit_of c \<noteq> None"
proof (induction n rule: nat_str.induct)
  case (1 n)
  have "digit_of (char_of (48 + k)) \<noteq> None" if "k < 10" for k :: nat
    using that by (simp add: digit_of_def)
  then show ?case using 1 by (subst (asm) nat_str.simps) (auto split: if_splits)
qed

lemma no_minus_in_nat_str: "CHR ''-'' \<notin> set (nat_str n)"
  using set_nat_str by (force simp: digit_of_def)

lemma int_str_inj: "int_str i = int_str j \<Longrightarrow> i = j"
proof -
  have "hd (nat_str n) \<noteq> CHR ''-''" for n
    using no_minus_in_nat_str hd_in_set [OF nat_str_nonempty] by metis
  then have minus: "nat_str n \<noteq> CHR ''-'' # s" for n s
    by (metis list.sel(1))
  then show "int_str i = int_str j \<Longrightarrow> i = j"
    by (auto simp: int_str_def split: if_splits dest!: nat_str_inj dest: minus [symmetric, THEN notE])
qed

section \<open>Commands to outbound messages\<close>

text \<open>\<open>str(d.get(k) or "")\<close> and \<open>d.get(k) or {}\<close> as a dict.\<close>

definition str_or :: "string \<Rightarrow> json \<Rightarrow> string" where
  "str_or dflt j = (if truthy j then py_str j else dflt)"

definition truthy_text :: "json \<Rightarrow> string option" where
  "truthy_text j = (if truthy j then Some (py_str j) else None)"

definition strip_internal_payload_fields :: "dict \<Rightarrow> dict" where
  "strip_internal_payload_fields p =
     filter (\<lambda>(k, v). k \<noteq> ''final_reply_target'' \<and> k \<noteq> ''final_reply_exempt'') p"

definition fixed_reply_text :: string where
  "fixed_reply_text = ''Hello, I received your message. How can I help you today?''"

definition build_text_outbox ::
  "string option \<Rightarrow> string option \<Rightarrow> string \<Rightarrow> nat option \<Rightarrow> string \<Rightarrow> outbound_in" where
  "build_text_outbox chat thread cid inbound txt =
     \<lparr>oi_tenant_id = None, oi_chat_id = chat, oi_thread_id = thread, oi_action_type = ''send_event'',
      oi_message_type = ''text'', oi_payload = [(''type'', JStr ''message''), (''text'', JStr txt)],
      oi_status = ''PENDING'', oi_inbound_event_id = inbound, oi_conversation_id = Some cid,
      oi_dedup_key = None, oi_block_index = None, oi_message_kind = None, oi_command_type = None\<rparr>"

text \<open>A block index is an integer; \<open>with_command_metadata\<close> makes it part of the key.\<close>

definition with_command_metadata :: "outbound_in \<Rightarrow> dict \<Rightarrow> outbound_in" where
  "with_command_metadata row command =
     (let r1 = (if truthy (dget command ''dedup_key'')
                then row\<lparr>oi_dedup_key := Some (py_str (dget command ''dedup_key''))\<rparr> else row);
          block = dget command ''block_index''
      in if block = JNull then r1
         else let r2 = r1\<lparr>oi_block_index := int_of_json block\<rparr>
              in if text_true (oi_dedup_key r2) then r2
                 else r2\<lparr>oi_dedup_key := Some (
                    text_or ''default'' (oi_tenant_id r2) @ '':'' @ text_or [] (oi_conversation_id r2) @ '':''
                    @ nat_or_blank (oi_inbound_event_id r2) @ '':''
                    @ text_or (oi_action_type r2) (oi_command_type r2) @ '':'' @ py_str block)\<rparr>)"

definition media_outbox ::
  "string option \<Rightarrow> string option \<Rightarrow> string \<Rightarrow> nat \<Rightarrow> string \<Rightarrow> string \<Rightarrow> dict \<Rightarrow> outbound_in" where
  "media_outbox chat thread cid inbound ctype mtype payload =
     \<lparr>oi_tenant_id = None, oi_chat_id = chat, oi_thread_id = thread, oi_action_type = ctype,
      oi_message_type = mtype, oi_payload = payload, oi_status = ''PENDING'',
      oi_inbound_event_id = Some inbound, oi_conversation_id = Some cid, oi_dedup_key = None,
      oi_block_index = None, oi_message_kind = Some mtype, oi_command_type = Some ctype\<rparr>"

definition build_command_outbox ::
  "string option \<Rightarrow> string option \<Rightarrow> string \<Rightarrow> nat \<Rightarrow> dict \<Rightarrow> exn + outbound_in" where
  "build_command_outbox chat thread cid inbound command =
     (if map_of command ''type'' = None then Inl (KeyError ''type'') else
      let ctype = py_str (dget command ''type''); payload = dict_of (dget command ''payload'') in
      if ctype = ''livechat.send_text'' then
        let p = strip_internal_payload_fields (dput payload ''text'' (JStr (str_or [] (dget payload ''text''))))
        in Inr (with_command_metadata
             ((build_text_outbox chat thread cid (Some inbound) (str_or [] (dget p ''text'')))
                \<lparr>oi_command_type := Some ctype, oi_message_kind := Some ''text'',
                 oi_payload := dmerge [(''type'', JStr ''message'')] p\<rparr>) command)
      else if ctype = ''livechat.send_image'' then
        let p1 = dput payload ''asset_key'' (JStr (str_or [] (dget payload ''asset_key'')));
            p2 = dput p1 ''asset_ref'' (dget p1 ''asset_ref'');
            p3 = dput p2 ''caption'' (JStr (str_or [] (dget p2 ''caption'')));
            p4 = dput p3 ''position'' (JStr (str_or ''after'' (dget p3 ''position'')))
        in Inr (with_command_metadata
             (media_outbox chat thread cid inbound ctype ''image'' (strip_internal_payload_fields p4)) command)
      else if ctype = ''livechat.send_buttons'' then
        let p = strip_internal_payload_fields
                  (dput payload ''menu_key'' (JStr (str_or [] (dget payload ''menu_key''))))
        in Inr (with_command_metadata (media_outbox chat thread cid inbound ctype ''buttons'' p) command)
      else Inl (ValueError (''Unsupported outbound command type: '' @ ctype)))"

definition build_external_command_record ::
  "string \<Rightarrow> string option \<Rightarrow> string option \<Rightarrow> string \<Rightarrow> nat \<Rightarrow> dict \<Rightarrow> exn + command_in" where
  "build_external_command_record tenant chat thread cid inbound command =
     (if map_of command ''type'' = None then Inl (KeyError ''type'') else
      Inr \<lparr>ci_tenant_id = Some tenant, ci_conversation_id = cid, ci_chat_id = chat,
           ci_thread_id = thread, ci_inbound_event_id = Some inbound,
           ci_command_type = py_str (dget command ''type''),
           ci_payload = dict_of (dget command ''payload''), ci_status = Some ''PENDING'',
           ci_retry_count = 0, ci_last_error = None,
           ci_dedup_key = truthy_text (dget command ''dedup_key'')\<rparr>)"

section \<open>History entries\<close>

text \<open>A truthy value that is not a dict has no \<open>get\<close>.\<close>

definition as_dict :: "json \<Rightarrow> exn + dict" where
  "as_dict j = (if \<not> truthy j then Inr [] else
     case j of JObj d \<Rightarrow> Inr d | _ \<Rightarrow> Inl (OtherError ''AttributeError''))"

fun first_truthy :: "json list \<Rightarrow> json" where
  "first_truthy [] = JNull"
| "first_truthy [j] = j"
| "first_truthy (j # js) = (if truthy j then j else first_truthy js)"

definition extract_text :: "dict \<Rightarrow> exn + string option" where
  "extract_text payload =
     (case as_dict (dget payload ''event'') of
        Inl e \<Rightarrow> Inl e
      | Inr event \<Rightarrow>
          Inr (let t = first_truthy [dget event ''text'', dget payload ''text'', dget payload ''message'']
               in if t = JNull then None else Some (py_str t)))"

definition sanitize_attachment :: "json \<Rightarrow> dict" where
  "sanitize_attachment item =
     (case item of
        JObj it \<Rightarrow> filter (\<lambda>(k, v). v \<noteq> JNull)
          [(''url'', first_truthy [dget it ''url'', dget it ''content_url'', dget it ''thumbnail_url'']),
           (''filename'', first_truthy [dget it ''filename'', dget it ''name'']),
           (''mime_type'', first_truthy [dget it ''mime_type'', dget it ''content_type'']),
           (''size'', dget it ''size'')]
      | _ \<Rightarrow> [])"

definition extract_attachment_refs :: "dict \<Rightarrow> string \<Rightarrow> exn + dict list" where
  "extract_attachment_refs payload event_type =
     (case as_dict (dget payload ''event'') of
        Inl e \<Rightarrow> Inl e
      | Inr event \<Rightarrow>
          (let listed = (case dget payload ''attachments'' of JArr xs \<Rightarrow> xs | _ \<Rightarrow> []);
               file = (case dget event ''file'' of JObj f \<Rightarrow> JObj f | _ \<Rightarrow> JObj event);
               refs = map sanitize_attachment (listed @ (if event_type = ''FILE_RECEIVED'' then [file] else []))
           in Inr (filter (\<lambda>r. r \<noteq> []) refs)))"

definition build_customer_message_from_inbound ::
  "inbound_event \<Rightarrow> conversation \<Rightarrow> nat \<Rightarrow> exn + message_in" where
  "build_customer_message_from_inbound ev conv i =
     (case extract_attachment_refs (ev_payload ev) (ev_standard_event_type ev) of
        Inl e \<Rightarrow> Inl e
      | Inr refs \<Rightarrow>
     (case extract_text (ev_payload ev) of
        Inl e \<Rightarrow> Inl e
      | Inr txt \<Rightarrow>
          Inr \<lparr>mi_conversation_id = cv_conversation_id conv,
               mi_tenant_id = Some (text_or (text_or ''default'' (ev_organization_id ev)) (Some (cv_tenant_id conv))),
               mi_channel_type = Some (text_or ''livechat'' (Some (cv_channel_type conv))),
               mi_chat_id = ev_chat_id ev, mi_thread_id = ev_thread_id ev,
               mi_inbound_event_id = Some i, mi_outbound_message_id = None, mi_external_result_id = None,
               mi_sender_role = ''customer'',
               mi_message_type = Some (if ev_standard_event_type ev = ''FILE_RECEIVED'' then ''file'' else ''text''),
               mi_text = txt, mi_attachments = refs, mi_source = ''inbound_event'',
               mi_occurred_at = ev_occurred_at ev\<rparr>))"

text \<open>\<open>payload\<close> is the payload of the row or the one the sender substitutes for it.\<close>

definition build_assistant_message_from_outbound :: "outbound_msg \<Rightarrow> dict \<Rightarrow> message_in" where
  "build_assistant_message_from_outbound m payload =
     (let r = om_row m in
      \<lparr>mi_conversation_id = (case conversation_id r of None \<Rightarrow> [] | Some c \<Rightarrow> c),
       mi_tenant_id = Some (text_or ''default'' (Some (om_tenant_id m))),
       mi_channel_type = Some (text_or ''livechat'' (Some (om_channel_type m))),
       mi_chat_id = Some (ob_chat_id r), mi_thread_id = ob_thread_id r,
       mi_inbound_event_id = None, mi_outbound_message_id = Some (row_id r), mi_external_result_id = None,
       mi_sender_role = ''assistant'', mi_message_type = Some (text_or ''text'' (Some (ob_message_type r))),
       mi_text = Some (str_or [] (dget payload ''text'')), mi_attachments = [],
       mi_source = ''sender_worker'', mi_occurred_at = None\<rparr>)"

definition build_external_result_summary_message :: "result_row \<Rightarrow> string \<Rightarrow> string \<Rightarrow> message_in" where
  "build_external_result_summary_message r sender_role summary =
     \<lparr>mi_conversation_id = (case conversation_id r of None \<Rightarrow> [] | Some c \<Rightarrow> c),
      mi_tenant_id = Some (text_or ''default'' (Some (er_tenant_id r))), mi_channel_type = Some ''livechat'',
      mi_chat_id = Some (er_chat_id r), mi_thread_id = er_thread_id r, mi_inbound_event_id = None,
      mi_outbound_message_id = None, mi_external_result_id = Some (row_id r),
      mi_sender_role = sender_role, mi_message_type = Some ''external_result'', mi_text = Some summary,
      mi_attachments = [], mi_source = ''external_result_consumer'', mi_occurred_at = None\<rparr>"

section \<open>What the builders guarantee\<close>

lemma map_of_strip:
  "map_of (strip_internal_payload_fields p) k =
     (if k = ''final_reply_target'' \<or> k = ''final_reply_exempt'' then None else map_of p k)"
  by (induction p) (auto simp: strip_internal_payload_fields_def)

lemma with_command_metadata_simps [simp]:
  "oi_payload (with_command_metadata row c) = oi_payload row"
  "oi_status (with_command_metadata row c) = oi_status row"
  "oi_conversation_id (with_command_metadata row c) = oi_conversation_id row"
  "oi_inbound_event_id (with_command_metadata row c) = oi_inbound_event_id row"
  "oi_chat_id (with_command_metadata row c) = oi_chat_id row"
  by (simp_all add: with_command_metadata_def Let_def)

lemma distinct_strip: "distinct (map fst p) \<Longrightarrow> distinct (map fst (strip_internal_payload_fields p))"
  unfolding strip_internal_payload_fields_def by (rule distinct_map_filter)

lemma distinct_dput [simp]: "distinct (map fst d) \<Longrightarrow> distinct (map fst (dput d k v))"
  by (simp add: dput_def distinct_update)

definition payload_ok :: "dict \<Rightarrow> bool" where
  "payload_ok p \<longleftrightarrow> map_of p ''final_reply_target'' = None \<and> map_of p ''final_reply_exempt'' = None"

lemma payload_ok_strip [simp]: "payload_ok (strip_internal_payload_fields p)"
  by (simp add: payload_ok_def map_of_strip)

text \<open>
  A command of the graph becomes a pending message of its event and
  conversation, with none of the fields that steer the final reply, or is refused
  with a \<open>ValueError\<close> when its type is not one the sender knows.
\<close>

theorem build_command_outbox_clean:
  assumes "distinct (map fst (dict_of (dget command ''payload'')))"
    and "map_of command ''type'' = Some (JStr t)"
  shows "case build_command_outbox chat thread cid i command of
      Inl e \<Rightarrow> e = ValueError (''Unsupported outbound command type: '' @ t) \<and>
        t \<notin> {''livechat.send_text'', ''livechat.send_image'', ''livechat.send_buttons''}
    | Inr m \<Rightarrow> payload_ok (oi_payload m) \<and> oi_status m = ''PENDING'' \<and> oi_chat_id m = chat \<and>
        oi_conversation_id m = Some cid \<and> oi_inbound_event_id m = Some i \<and>
        t \<in> {''livechat.send_text'', ''livechat.send_image'', ''livechat.send_buttons''}"
proof -
  have t: "dget command ''type'' = JStr t" using assms(2) by (simp add: dget_def)
  have merge: "payload_ok (dmerge [(''type'', JStr ''message'')] (strip_internal_payload_fields p))"
    if "distinct (map fst p)" for p
    using that by (simp add: payload_ok_def map_of_dmerge distinct_strip map_of_strip map_add_def)
  show ?thesis
    using assms merge
    by (simp add: build_command_outbox_def t py_str_def Let_def media_outbox_def build_text_outbox_def)
qed

text \<open>
  The messages of one event that differ in their block index differ in
  their deduplication key, so that none of them is taken for a duplicate of another.
\<close>

theorem block_keys_distinct:
  assumes "build_command_outbox chat thread cid i c = Inr m" "build_command_outbox chat thread cid i c' = Inr m'"
    and "dget c ''block_index'' = JInt b" "dget c' ''block_index'' = JInt b'" "b \<noteq> b'"
    and "\<not> truthy (dget c ''dedup_key'')" "\<not> truthy (dget c' ''dedup_key'')"
  shows "outbound_dedup_key m \<noteq> outbound_dedup_key m'"
proof -
  have key: "\<exists>t \<in> {''livechat.send_text'', ''livechat.send_image'', ''livechat.send_buttons''}.
      outbound_dedup_key x = ''default:'' @ cid @ '':'' @ nat_or_blank (Some i) @ '':'' @ t @ '':'' @ int_str k"
    if "build_command_outbox chat thread cid i cmd = Inr x" "dget cmd ''block_index'' = JInt k"
      "\<not> truthy (dget cmd ''dedup_key'')" for cmd x k
    using that by (auto simp: build_command_outbox_def Let_def media_outbox_def build_text_outbox_def
        with_command_metadata_def outbound_dedup_key_def text_or_def py_str_def split: if_splits)
  show ?thesis
    using key [OF assms(1,3,6)] key [OF assms(2,4,7)] assms(5) int_str_inj by auto
qed

text \<open>The references kept of an attachment: only the four known keys, none of them null.\<close>

lemma sanitize_attachment_keys:
  "(k, v) \<in> set (sanitize_attachment item) \<Longrightarrow>
   v \<noteq> JNull \<and> k \<in> {''url'', ''filename'', ''mime_type'', ''size''}"
  by (cases item) (auto simp: sanitize_attachment_def simp del: filter.simps)

lemma assistant_message_keyed [simp]: "mi_keyed (build_assistant_message_from_outbound m payload)"
  by (simp add: build_assistant_message_from_outbound_def mi_keyed_def Let_def)

lemma customer_message_keyed:
  "build_customer_message_from_inbound ev conv i = Inr m \<Longrightarrow> mi_keyed m"
  by (auto simp: build_customer_message_from_inbound_def mi_keyed_def split: sum.splits)

end
