(* ===== verification/LiveChat_Client.thy ===== *)
theory LiveChat_Client
  imports Tables
begin

text \<open>
  \<open>LiveChatSenderClient\<close> (\<open>src/app/channels/livechat/sender_client.py\<close>) over the
  services it calls.  A service is a function of the calls made so far and the
  call itself; every call is appended to the log of the world, so that what a
  worker did outside the database can be stated.
\<close>

section \<open>Services\<close>

datatype service_call =
    LiveChat string dict
  | LiveChatUpload string string string
  | LoadFile string
  | TelegramFile string
  | Telegram string dict
  | BackendQuery dict
  | PendingLookup json string "string option"

type_synonym services = "service_call list \<Rightarrow> service_call \<Rightarrow> exn + json"

type_synonym 'a job = "(service_call world, 'a) act"

definition call :: "services \<Rightarrow> service_call \<Rightarrow> json job" where
  "call srv c w = (srv (calls w) c, w\<lparr>calls := calls w @ [c]\<rparr>)"

lemma call_store [simp]: "store (snd (call srv c w)) = store w"
  by (simp add: call_def)

lemma call_calls [simp]: "calls (snd (call srv c w)) = calls w @ [c]"
  by (simp add: call_def)

lemma call_Inr_iff: "call srv c w = (Inr a, w') \<longleftrightarrow> srv (calls w) c = Inr a \<and> w' = w\<lparr>calls := calls w @ [c]\<rparr>"
  by (auto simp: call_def)

section \<open>Requests\<close>

text \<open>\<open>_post_json\<close>: an HTTP error carries the data of the reply and the path.\<close>

definition post_json :: "services \<Rightarrow> string \<Rightarrow> dict \<Rightarrow> dict job" where
  "post_json srv path body =
     andthen (try_except (call srv (LiveChat path body)) (\<lambda>e.
       case e of LiveChatError st d \<Rightarrow> raise (LiveChatError st (dput d ''path'' (JStr path))) | _ \<Rightarrow> raise e))
     (\<lambda>r. ret (dict_of r))"

definition upload_file :: "services \<Rightarrow> string \<Rightarrow> string \<Rightarrow> string \<Rightarrow> dict job" where
  "upload_file srv content ctype filename =
     andthen (try_except (call srv (LiveChatUpload content ctype filename)) (\<lambda>e.
       case e of LiveChatError st d \<Rightarrow> raise (LiveChatError st (dput d ''path'' (JStr ''/agent/action/upload_file'')))
       | _ \<Rightarrow> raise e))
     (\<lambda>r. ret (dict_of r))"

definition looks_like_already_joined_error :: "dict \<Rightarrow> bool" where
  "looks_like_already_joined_error d =
     (let raw = str_lower (json_text (JObj d)) in
      \<exists>m \<in> set [''already'', ''already exists'', ''already in chat'', ''already a member'', ''is already''].
        str_contains m raw)"

definition add_user_to_chat :: "services \<Rightarrow> string option \<Rightarrow> string \<Rightarrow> dict job" where
  "add_user_to_chat srv email chat =
     (if \<not> text_true email
      then ret [(''skipped'', JBool True), (''reason'', JStr ''livechat_agent_email_not_configured'')]
      else try_except (post_json srv ''/agent/action/add_user_to_chat''
             [(''chat_id'', JStr chat), (''user_id'', JStr (text_or [] email)), (''user_type'', JStr ''agent''),
              (''visibility'', JStr ''all''), (''ignore_requester_presence'', JBool True)])
           (\<lambda>e. case e of
              LiveChatError st d \<Rightarrow>
                if st \<in> {400, 409, 422} \<and> looks_like_already_joined_error d
                then ret [(''skipped'', JBool True), (''reason'', JStr ''already_joined'')]
                else raise e
            | _ \<Rightarrow> raise e))"

definition ensure_agent_added_before_send :: "services \<Rightarrow> string option \<Rightarrow> string \<Rightarrow> dict job" where
  "ensure_agent_added_before_send srv email chat =
     try_except (add_user_to_chat srv email chat) (\<lambda>e. case e of
       LiveChatError st d \<Rightarrow>
         if st = 500 \<and> dget d ''path'' = JStr ''/agent/action/add_user_to_chat''
         then ret [(''skipped'', JBool True), (''reason'', JStr ''add_user_to_chat_server_error''),
                   (''error'', JStr (exn_text e))]
         else raise e
     | _ \<Rightarrow> raise e)"

section \<open>Sending\<close>

definition text_event :: "json \<Rightarrow> string option \<Rightarrow> dict" where
  "text_event txt custom_id = [(''type'', JStr ''message''), (''text'', txt)]
     @ (if text_true custom_id then [(''custom_id'', JStr (text_or [] custom_id))] else [])"

definition send_event :: "services \<Rightarrow> string \<Rightarrow> dict \<Rightarrow> dict job" where
  "send_event srv chat event =
     post_json srv ''/agent/action/send_event'' [(''chat_id'', JStr chat), (''event'', JObj event)]"

definition send_text :: "services \<Rightarrow> string option \<Rightarrow> string \<Rightarrow> json \<Rightarrow> string option \<Rightarrow> dict job" where
  "send_text srv email chat txt custom_id =
     andthen (ensure_agent_added_before_send srv email chat) (\<lambda>_. send_event srv chat (text_event txt custom_id))"

definition send_event_preview :: "services \<Rightarrow> string \<Rightarrow> string \<Rightarrow> string option \<Rightarrow> dict job" where
  "send_event_preview srv chat txt custom_id =
     post_json srv ''/agent/action/send_event_preview'' [(''chat_id'', JStr chat),
       (''event'', JObj ([(''type'', JStr ''message''), (''text'', JStr txt), (''visibility'', JStr ''all'')]
         @ (if text_true custom_id then [(''custom_id'', JStr (text_or [] custom_id))] else [])))]"

definition send_typing_indicator :: "services \<Rightarrow> string \<Rightarrow> bool \<Rightarrow> dict job" where
  "send_typing_indicator srv chat typing =
     post_json srv ''/agent/action/send_typing_indicator''
       [(''chat_id'', JStr chat), (''is_typing'', JBool typing), (''visibility'', JStr ''all'')]"

definition send_buttons :: "services \<Rightarrow> string option \<Rightarrow> string \<Rightarrow> dict \<Rightarrow> dict job" where
  "send_buttons srv email chat rich_message =
     andthen (ensure_agent_added_before_send srv email chat) (\<lambda>_.
     send_event srv chat (dpop rich_message ''visibility''))"

definition upload_and_send_file :: "services \<Rightarrow> string \<Rightarrow> string \<Rightarrow> string \<Rightarrow> string \<Rightarrow> dict job" where
  "upload_and_send_file srv chat content ctype filename =
     andthen (upload_file srv content ctype filename) (\<lambda>up.
     let url = (if truthy (dget up ''url'') then str_strip (py_str (dget up ''url'')) else []) in
     if url = []
     then raise (LiveChatError 502 [(''path'', JStr ''/agent/action/upload_file''),
            (''error'', JObj [(''message'', JStr (''upload_file returned no url: '' @ py_repr (JObj up)))])])
     else send_event srv chat [(''type'', JStr ''file''), (''url'', JStr url), (''name'', JStr filename),
            (''content_type'', JStr ctype)])"

text \<open>
  \<open>_load_file\<close> reads a file or fetches a URL; the reply holds the content, its type
  and the file name.
\<close>

definition file_field :: "json \<Rightarrow> string \<Rightarrow> string" where
  "file_field j k = py_str (dget (dict_of j) k)"

definition load_file :: "services \<Rightarrow> string \<Rightarrow> json job" where
  "load_file srv source =
     (let s = str_strip source in
      if s = [] then raise (ValueError ''image asset_ref is required'') else call srv (LoadFile s))"

definition send_image :: "services \<Rightarrow> string option \<Rightarrow> string \<Rightarrow> string \<Rightarrow> dict job" where
  "send_image srv email chat asset_ref =
     andthen (ensure_agent_added_before_send srv email chat) (\<lambda>_.
     andthen (load_file srv asset_ref) (\<lambda>f.
     upload_and_send_file srv chat (file_field f ''content'') (file_field f ''content_type'') (file_field f ''filename'')))"

definition send_image_content :: "services \<Rightarrow> string option \<Rightarrow> string \<Rightarrow> json \<Rightarrow> dict job" where
  "send_image_content srv email chat f =
     andthen (ensure_agent_added_before_send srv email chat) (\<lambda>_.
     upload_and_send_file srv chat (file_field f ''content'') (file_field f ''content_type'') (file_field f ''filename''))"

section \<open>Reading, transferring and closing chats\<close>

definition list_chats :: "services \<Rightarrow> int \<Rightarrow> json list job" where
  "list_chats srv limit =
     andthen (post_json srv ''/agent/action/list_chats'' [(''sort_order'', JStr ''desc''), (''limit'', JInt limit)])
     (\<lambda>d. ret (case dget d ''chats_summary'' of JArr xs \<Rightarrow> xs | _ \<Rightarrow> []))"

definition get_chat :: "services \<Rightarrow> string \<Rightarrow> dict job" where
  "get_chat srv chat =
     andthen (post_json srv ''/agent/action/get_chat'' [(''chat_id'', JStr chat)]) (\<lambda>d.
     ret (if truthy (dget d ''chat'') then dict_of (dget d ''chat'') else d))"

definition list_archives :: "services \<Rightarrow> dict \<Rightarrow> int \<Rightarrow> string option \<Rightarrow> dict job" where
  "list_archives srv filters limit page_id =
     post_json srv ''/agent/action/list_archives''
       ([(''filters'', JObj filters), (''limit'', JInt limit)]
        @ (if text_true page_id then [(''page_id'', JStr (text_or [] page_id))] else []))"

definition transfer_body :: "string \<Rightarrow> int \<Rightarrow> bool \<Rightarrow> bool \<Rightarrow> dict" where
  "transfer_body chat gid ignore_agents ignore_requester =
     [(''id'', JStr chat), (''target'', JObj [(''type'', JStr ''group''), (''ids'', JArr [JInt gid])]),
      (''ignore_agents_availability'', JBool ignore_agents),
      (''ignore_requester_presence'', JBool ignore_requester)]"

definition transfer_chat_to_group :: "services \<Rightarrow> string \<Rightarrow> int \<Rightarrow> bool \<Rightarrow> bool \<Rightarrow> dict job" where
  "transfer_chat_to_group srv chat gid ignore_agents ignore_requester =
     post_json srv ''/agent/action/transfer_chat'' (transfer_body chat gid ignore_agents ignore_requester)"

definition deactivate_chat :: "services \<Rightarrow> string \<Rightarrow> dict job" where
  "deactivate_chat srv chat = post_json srv ''/agent/action/deactivate_chat'' [(''id'', JStr chat)]"

section \<open>The database is not touched\<close>

definition no_db :: "'a job \<Rightarrow> bool" where
  "no_db m \<longleftrightarrow> (\<forall>w. store (snd (m w)) = store w \<and> faults (snd (m w)) = faults w)"

lemma no_dbD: "no_db m \<Longrightarrow> m w = (r, w') \<Longrightarrow> store w' = store w \<and> faults w' = faults w"
  unfolding no_db_def by (metis snd_conv)

lemma no_db_call: "no_db (call srv c)"
  by (simp add: no_db_def call_def)

lemma no_db_ret: "no_db (ret a)" "no_db (raise e)" "no_db (lift x)"
  by (simp_all add: no_db_def ret_def raise_def lift_def)

lemma no_db_andthen: "no_db m \<Longrightarrow> (\<And>a. no_db (f a)) \<Longrightarrow> no_db (andthen m f)"
  unfolding no_db_def andthen_def by (auto split: prod.splits sum.splits) (metis snd_conv)+

lemma no_db_try: "no_db m \<Longrightarrow> (\<And>e. no_db (h e)) \<Longrightarrow> no_db (try_except m h)"
  unfolding no_db_def try_except_def by (auto split: prod.splits sum.splits) (metis snd_conv)+

lemma no_db_if: "(b \<Longrightarrow> no_db m) \<Longrightarrow> (\<not> b \<Longrightarrow> no_db n) \<Longrightarrow> no_db (if b then m else n)"
  by simp

lemma no_db_exn: "(\<And>s d. no_db (f s d)) \<Longrightarrow> no_db g \<Longrightarrow>
   no_db (case e of LiveChatError s d \<Rightarrow> f s d | _ \<Rightarrow> g)"
  by (simp split: exn.split)

lemmas no_db_intros = no_db_call no_db_ret no_db_andthen no_db_try no_db_if no_db_exn

lemma post_json_no_db: "no_db (post_json srv path body)"
  unfolding post_json_def by (intro no_db_intros)

lemma ensure_agent_no_db: "no_db (ensure_agent_added_before_send srv email chat)"
  unfolding ensure_agent_added_before_send_def add_user_to_chat_def
  by (intro no_db_intros post_json_no_db)

lemma client_no_db:
  "no_db (send_text srv email chat txt cid)"
  "no_db (send_buttons srv email chat rich)"
  "no_db (send_image srv email chat ref)"
  "no_db (send_image_content srv email chat f)"
  "no_db (transfer_chat_to_group srv chat g ia ir)"
  "no_db (deactivate_chat srv chat)"
  "no_db (get_chat srv chat)"
  unfolding send_text_def send_buttons_def send_image_def send_image_content_def send_event_def
    upload_and_send_file_def upload_file_def load_file_def Let_def transfer_chat_to_group_def
    deactivate_chat_def get_chat_def
  by (intro no_db_intros post_json_no_db ensure_agent_no_db)+

end
