(* ===== verification/Sender.thy ===== *)
theory Sender
  imports Outbox LiveChat_Client
begin

text \<open>
  The sender worker (\<open>src/app/workers/sender_worker.py\<close>): it leases groups of
  messages, sends them through LiveChat, and records what happened.

  The catalogue of menus (\<open>src/app/services/livechat_menus.py\<close>) and the label of
  the text that replaces an image hold characters outside the model and are
  arguments (\<open>sc_menus\<close>, \<open>sc_image_label\<close>).  The branches for repositories
  without transactions or leases, which only test doubles lack, are left out.
\<close>

section \<open>Classification\<close>

record send_result =
  sr_status :: string
  sr_last_error :: "string option"
  sr_retryable :: bool
  sr_delivery_mode :: "string option"
  sr_caption :: "(string \<times> string option) option"

definition send_result :: "string \<Rightarrow> string option \<Rightarrow> bool \<Rightarrow> send_result" where
  "send_result st err retryable = \<lparr>sr_status = st, sr_last_error = err, sr_retryable = retryable,
     sr_delivery_mode = None, sr_caption = None\<rparr>"

lemma send_result_simps [simp]:
  "sr_status (send_result st err r) = st" "sr_last_error (send_result st err r) = err"
  "sr_retryable (send_result st err r) = r"
  by (simp_all add: send_result_def)

definition classify_send_result :: "dict \<Rightarrow> send_result" where
  "classify_send_result response =
     (if truthy (dget response ''success'') \<or> truthy (dget response ''event_id'')
      then send_result ''SENT'' None False
      else send_result ''FAILED_UNKNOWN''
             (Some (''send_event returned no event_id: '' @ py_repr (JObj response))) False)"

definition max_retries :: "(string \<Rightarrow> string option) \<Rightarrow> int" where
  "max_retries env =
     (let raw = str_strip (text_or [] (env ''LIVECHAT_SEND_MAX_RETRIES'')) in
      if raw = [] then 20 else (case py_int raw of None \<Rightarrow> 20 | Some v \<Rightarrow> v))"

definition retry_limit_reached :: "(string \<Rightarrow> string option) \<Rightarrow> nat \<Rightarrow> bool" where
  "retry_limit_reached env retries =
     (let m = max_retries env in if m \<le> 0 then False else int retries + 1 \<ge> m)"

definition config_failure_statuses :: "int list" where
  "config_failure_statuses = [401, 403]"

definition retryable_statuses :: "int list" where
  "retryable_statuses = [429, 500, 502, 503, 504]"

definition business_error_markers :: "string list" where
  "business_error_markers = [''chat is closed'', ''chat closed'', ''chat not active'', ''thread not found'',
     ''thread does not exist'', ''cannot send'', [CHR ''c'', CHR ''a'', CHR ''n'', CHR 0x27, CHR ''t''] @ '' send'',
     ''unable to send'']"

definition classify_send_error :: "(string \<Rightarrow> string option) \<Rightarrow> exn \<Rightarrow> nat \<Rightarrow> send_result" where
  "classify_send_error env e retries =
     (let msg = exn_text e in
      case e of
        TelegramError _ _ _ _ again \<Rightarrow> send_result (if again then ''RETRYABLE'' else ''FAILED_BUSINESS'') (Some msg) again
      | LiveChatError st _ \<Rightarrow>
          if st \<in> set config_failure_statuses then send_result ''FAILED_CONFIG'' (Some msg) False
          else if st \<in> set retryable_statuses then
            (if retry_limit_reached env retries
             then send_result ''FAILED_BUSINESS'' (Some (msg @ '' (retry limit reached)'')) False
             else send_result ''RETRYABLE'' (Some msg) True)
          else if \<exists>m \<in> set business_error_markers. str_contains m (str_lower msg)
          then send_result ''FAILED_BUSINESS'' (Some msg) False
          else send_result ''FAILED_UNKNOWN'' (Some msg) False
      | Timeout _ \<Rightarrow> send_result ''RETRYABLE'' (Some msg) True
      | ConnectionLost _ \<Rightarrow> send_result ''RETRYABLE'' (Some msg) True
      | _ \<Rightarrow> send_result ''FAILED_UNKNOWN'' (Some msg) False)"

section \<open>One message\<close>

record sender_config =
  sc_env :: "string \<Rightarrow> string option"
  sc_services :: services
  sc_agent_email :: "string option"
  sc_telegram_client :: bool
  sc_menus :: "dict \<Rightarrow> exn + dict \<times> string \<times> string"
  sc_image_label :: string

definition is_human_active_conversation :: "outbound_msg \<Rightarrow> bool" where
  "is_human_active_conversation m =
     (let st = str_upper (text_or [] (om_conversation_status m));
          wf = text_or [] (om_conversation_active_workflow m);
          pending_ack = (st = ''HANDOFF_REQUESTED'' \<and> wf = ''human_handoff'' \<and>
                         dget (ob_payload (om_row m)) ''handoff_ack'' = JBool True)
      in if st = ''HUMAN_ACTIVE'' then True else wf = ''human_handoff'' \<and> \<not> pending_ack)"

definition image_asset_ref :: "dict \<Rightarrow> string" where
  "image_asset_ref p =
     (let r = str_strip (str_or [] (dget p ''asset_ref'')) in
      if r \<noteq> [] then r else str_strip (str_or [] (dget p ''asset_key'')))"

definition image_mvp_fallback_text :: "string \<Rightarrow> dict \<Rightarrow> string" where
  "image_mvp_fallback_text label p =
     (let r = str_strip (str_or (str_or [] (dget p ''asset_key'')) (dget p ''asset_ref''));
          caption = str_strip (str_or [] (dget p ''caption''));
          txt = label @ r
      in if caption \<noteq> [] then txt @ [CHR 0x0A] @ caption else txt)"

definition image_text_fallback_enabled :: "(string \<Rightarrow> string option) \<Rightarrow> bool" where
  "image_text_fallback_enabled env \<longleftrightarrow>
     str_lower (str_strip (text_or [] (env ''LIVECHAT_IMAGE_TEXT_FALLBACK''))) \<in> {''1'', ''true'', ''yes'', ''on''}"

definition final_send_custom_id :: "dict \<Rightarrow> string option" where
  "final_send_custom_id p =
     (let cid = str_strip (str_or [] (dget p ''custom_id'')) in
      if \<exists>pre \<in> {''preview:'', ''preview-'', ''final:'', ''final-''}. starts_with cid pre then None
      else if cid = [] then None else Some cid)"

text \<open>\<open>try: ... except Exception as exc\<close>, the outcome as a value.\<close>

definition catching :: "('s, 'a) act \<Rightarrow> ('s, exn + 'a) act" where
  "catching m = try_except (andthen m (\<lambda>x. ret (Inr x))) (\<lambda>e. ret (Inl e))"

definition mark_result :: "sender_config \<Rightarrow> time \<Rightarrow> outbound_msg \<Rightarrow> send_result \<Rightarrow> send_result job" where
  "mark_result cfg now m r =
     andthen (update (ob_mark_failed (sc_env cfg) now (row_id (om_row m)) (sr_status r)
                (text_or [] (sr_last_error r)) (sr_retryable r))) (\<lambda>_. ret r)"

definition send_failed :: "sender_config \<Rightarrow> time \<Rightarrow> outbound_msg \<Rightarrow> exn \<Rightarrow> send_result job" where
  "send_failed cfg now m e =
     mark_result cfg now m (classify_send_error (sc_env cfg) e (retry_count (om_row m)))"

text \<open>A row without a conversation has no history: the insert is refused.\<close>

definition record_sent :: "time \<Rightarrow> outbound_msg \<Rightarrow> dict \<Rightarrow> string option \<Rightarrow> unit job" where
  "record_sent now m payload err =
     (let i = row_id (om_row m) in
      case conversation_id (om_row m) of
        None \<Rightarrow> transaction (andthen (update (ob_mark_sent now i err)) (\<lambda>_.
                  raise (DbError ''conversation_id cannot be null'')))
      | Some _ \<Rightarrow> andthen (mark_sent_with_message now i (build_assistant_message_from_outbound m payload) err)
                  (\<lambda>_. ret ()))"

definition settle_sent :: "sender_config \<Rightarrow> time \<Rightarrow> outbound_msg \<Rightarrow> dict \<Rightarrow> send_result \<Rightarrow> string option \<Rightarrow> send_result job" where
  "settle_sent cfg now m payload r err =
     (if sr_status r = ''SENT'' then andthen (record_sent now m payload err) (\<lambda>_. ret r)
      else mark_result cfg now m r)"

definition buttons_fallback_last_error :: "exn \<Rightarrow> string" where
  "buttons_fallback_last_error e =
     ''delivery_mode=buttons_text_fallback; original_error='' @ take 900 (exn_text e)"

definition process_buttons :: "sender_config \<Rightarrow> time \<Rightarrow> outbound_msg \<Rightarrow> send_result job" where
  "process_buttons cfg now m =
     (let row = om_row m; chat = ob_chat_id row; srv = sc_services cfg; email = sc_agent_email cfg in
      case sc_menus cfg (ob_payload row) of
        Inl e \<Rightarrow> mark_result cfg now m (send_result ''FAILED_UNKNOWN'' (Some (exn_text e)) False)
      | Inr (rich, key, fallback) \<Rightarrow>
          let history = [(''text'', JStr fallback), (''menu_key'', JStr key)] in
          andthen (catching (send_buttons srv email chat rich)) (\<lambda>sent.
          case sent of
            Inr response \<Rightarrow> settle_sent cfg now m history (classify_send_result response) None
          | Inl e \<Rightarrow>
              andthen (catching (send_text srv email chat (JStr fallback) None)) (\<lambda>again.
              case again of
                Inl _ \<Rightarrow> send_failed cfg now m e
              | Inr response \<Rightarrow>
                  let r = classify_send_result response; err = Some (buttons_fallback_last_error e) in
                  settle_sent cfg now m history
                    (if sr_status r = ''SENT''
                     then r\<lparr>sr_delivery_mode := Some ''buttons_text_fallback'', sr_last_error := err\<rparr> else r)
                    err)))"

definition send_image_caption_if_present ::
  "sender_config \<Rightarrow> outbound_msg \<Rightarrow> (string \<times> string option) option job" where
  "send_image_caption_if_present cfg m =
     (let row = om_row m; caption = str_strip (str_or [] (dget (ob_payload row) ''caption'')) in
      if caption = [] then ret None
      else andthen (catching (send_text (sc_services cfg) (sc_agent_email cfg) (ob_chat_id row) (JStr caption) None))
        (\<lambda>r. ret (Some (case r of
           Inl e \<Rightarrow> (''FAILED_CAPTION'', Some (exn_text e))
         | Inr resp \<Rightarrow> (let c = classify_send_result resp in (sr_status c, sr_last_error c))))))"

text \<open>The response, the payload for the history, the result of the caption.\<close>

definition attempt_image :: "sender_config \<Rightarrow> outbound_msg \<Rightarrow> (dict \<times> dict \<times> (string \<times> string option) option) job" where
  "attempt_image cfg m =
     (let row = om_row m; p = ob_payload row; srv = sc_services cfg; email = sc_agent_email cfg in
      andthen (if dget p ''asset_source'' = JStr ''telegram''
               then if \<not> sc_telegram_client cfg
                    then raise (ValueError ''telegram client is required for Telegram image outbound'')
                    else andthen (call srv (TelegramFile (str_or [] (dget p ''telegram_file_id'')))) (\<lambda>f.
                         send_image_content srv email (ob_chat_id row) f)
               else send_image srv email (ob_chat_id row) (image_asset_ref p)) (\<lambda>response.
      andthen (send_image_caption_if_present cfg m) (\<lambda>caption.
      ret (response, [(''text'', JStr (str_or [] (dget p ''caption'')))], caption))))"

definition attempt_text :: "sender_config \<Rightarrow> outbound_msg \<Rightarrow> (dict \<times> dict \<times> (string \<times> string option) option) job" where
  "attempt_text cfg m =
     (let row = om_row m; p = ob_payload row in
      case map_of p ''text'' of
        None \<Rightarrow> raise (KeyError ''text'')
      | Some t \<Rightarrow> andthen (send_text (sc_services cfg) (sc_agent_email cfg) (ob_chat_id row) t
                           (final_send_custom_id p)) (\<lambda>response. ret (response, p, None)))"

definition image_result :: "bool \<Rightarrow> (string \<times> string option) option \<Rightarrow> send_result \<Rightarrow> send_result" where
  "image_result fallback caption r =
     (if sr_status r = ''SENT''
      then r\<lparr>sr_delivery_mode := Some (if fallback then ''mvp_text_fallback'' else ''livechat_file''),
             sr_caption := caption\<rparr> else r)"

definition process_text_or_image :: "sender_config \<Rightarrow> time \<Rightarrow> outbound_msg \<Rightarrow> string \<Rightarrow> send_result job" where
  "process_text_or_image cfg now m mtype =
     (let row = om_row m; p = ob_payload row; image = (mtype = ''image'') in
      andthen (catching (if image then attempt_image cfg m else attempt_text cfg m)) (\<lambda>sent.
      case sent of
        Inr (response, history, caption) \<Rightarrow>
          (let r = classify_send_result response in
           settle_sent cfg now m history
             (if image then image_result (dget response ''_delivery_mode'' = JStr ''mvp_text_fallback'') caption r else r)
             None)
      | Inl e \<Rightarrow>
          if image \<and> dget p ''asset_source'' \<noteq> JStr ''telegram'' \<and> image_text_fallback_enabled (sc_env cfg)
          then let txt = image_mvp_fallback_text (sc_image_label cfg) p in
               andthen (catching (send_text (sc_services cfg) (sc_agent_email cfg) (ob_chat_id row) (JStr txt) None)) (\<lambda>again.
               case again of
                 Inl _ \<Rightarrow> send_failed cfg now m e
               | Inr response \<Rightarrow> settle_sent cfg now m [(''text'', JStr txt)]
                    (image_result True None (classify_send_result
                      (dput response ''_delivery_mode'' (JStr ''mvp_text_fallback'')))) None)
          else send_failed cfg now m e))"

definition message_kind_of :: "outbound_row \<Rightarrow> string" where
  "message_kind_of r = text_or (text_or ''text'' (ob_message_kind r)) (Some (ob_message_type r))"

definition process_pending_message :: "sender_config \<Rightarrow> time \<Rightarrow> outbound_msg \<Rightarrow> send_result job" where
  "process_pending_message cfg now m =
     (let row = om_row m in
      andthen (if text_true (conversation_id row)
               then query (is_conversation_human_active (text_or [] (conversation_id row))) else ret False) (\<lambda>fresh.
      if is_human_active_conversation m \<or> fresh
      then mark_result cfg now m (send_result ''SKIPPED_HUMAN_ACTIVE''
             (Some ''conversation is HUMAN_ACTIVE or human_handoff; bot outbound skipped'') False)
      else let mtype = message_kind_of row in
        if mtype = ''buttons'' then process_buttons cfg now m
        else if mtype \<notin> {''text'', ''image''}
        then mark_result cfg now m (send_result ''SKIPPED_UNSUPPORTED''
               (Some (''unsupported outbound message_type: '' @ mtype)) False)
        else process_text_or_image cfg now m mtype))"

section \<open>A group, a batch\<close>

definition release_message :: "outbound_msg \<Rightarrow> unit job" where
  "release_message m = update (ob_release_lease (row_id (om_row m)))"

fun process_message_group :: "sender_config \<Rightarrow> time \<Rightarrow> outbound_msg list \<Rightarrow> send_result list job" where
  "process_message_group cfg now [] = ret []"
| "process_message_group cfg now (m # ms) =
     andthen (try_except (process_pending_message cfg now m) (\<lambda>e.
        andthen (release_message m) (\<lambda>_. ret (send_result ''FAILED_UNKNOWN'' (Some (exn_text e)) False)))) (\<lambda>r.
     if sr_status r \<noteq> ''SENT'' then andthen (each release_message ms) (\<lambda>_. ret [r])
     else andthen (process_message_group cfg now ms) (\<lambda>rs. ret (r # rs)))"

text \<open>
  \<open>process_next_batch\<close>: the groups, which are of distinct conversations, run
  concurrently in the program and one after the other in the model.
\<close>

definition process_next_batch ::
  "sender_config \<Rightarrow> time \<Rightarrow> group_env \<Rightarrow> nat \<Rightarrow> string \<Rightarrow> int \<Rightarrow> send_result list job" where
  "process_next_batch cfg now ge limit worker secs =
     andthen (transaction (exec (ob_lease_pending_groups now now ge limit worker secs))) (\<lambda>groups.
     andthen (each (process_message_group cfg now) groups) (\<lambda>rs. ret (concat rs)))"

definition process_pending_for_inbound_event ::
  "sender_config \<Rightarrow> time \<Rightarrow> nat \<Rightarrow> nat \<Rightarrow> (send_result \<times> nat) list job" where
  "process_pending_for_inbound_event cfg now inbound limit =
     andthen (query (ob_fetch_pending_by_inbound_event inbound limit)) (\<lambda>ms.
     each (\<lambda>m. andthen (process_pending_message cfg now m) (\<lambda>r. ret (r, row_id (om_row m)))) ms)"

definition sender_summary :: "send_result list \<Rightarrow> nat \<times> nat \<times> nat \<times> nat" where
  "sender_summary rs = (length rs, length (filter (\<lambda>r. sr_status r = ''SENT'') rs),
     length (filter (\<lambda>r. sr_status r \<noteq> ''SENT'') rs), length (filter (\<lambda>r. sr_status r = ''RETRYABLE'') rs))"

section \<open>What the database says afterwards\<close>

text \<open>The row of the message has the status the worker reports.\<close>

definition row_agrees :: "outbound_msg \<Rightarrow> send_result \<Rightarrow> db \<Rightarrow> bool" where
  "row_agrees m r d \<longleftrightarrow> (\<forall>x \<in> set (t_outbound d). row_id x = row_id (om_row m) \<longrightarrow> status x = sr_status r)"

lemma mark_failed_status:
  "x \<in> set (t_outbound (ob_mark_failed env now i st err again d)) \<Longrightarrow> row_id x = i \<Longrightarrow> status x = st"
  unfolding ob_mark_failed_def ob_update_def at_id_def
  by (cases again) (simp_all, (erule update_whereE; simp)+)

definition result_ok :: "send_result \<Rightarrow> bool" where
  "result_ok r \<longleftrightarrow> (open_status (sr_status r) \<longrightarrow> sr_status r = ''RETRYABLE'' \<and> sr_retryable r)"

lemma result_ok_simps [simp]:
  "result_ok (classify_send_error env e n)"
  "result_ok (classify_send_result resp)"
  "result_ok (send_result st err False) = (\<not> open_status st)"
  by (auto simp: result_ok_def classify_send_error_def classify_send_result_def Let_def open_status_def
      send_result_def split: exn.split)

lemma result_ok_updates [simp]:
  "result_ok (r\<lparr>sr_delivery_mode := x\<rparr>) = result_ok r"
  "result_ok (r\<lparr>sr_last_error := y\<rparr>) = result_ok r"
  "result_ok (image_result b c r) = result_ok r"
  by (simp_all add: result_ok_def image_result_def)

lemma mark_result_agrees:
  "result_ok r \<Longrightarrow> yields (\<lambda>r d. row_agrees m r d \<and> result_ok r) (mark_result cfg now m r)"
  unfolding mark_result_def yields_def
  by (auto simp: run_iffs row_agrees_def dest!: update_InrD intro: mark_failed_status)

lemma send_failed_agrees: "yields (\<lambda>r d. row_agrees m r d \<and> result_ok r) (send_failed cfg now m e)"
  unfolding send_failed_def by (rule mark_result_agrees) simp

lemma record_sent_marks:
  assumes "record_sent now m payload err w = (Inr u, w')" "x \<in> set (t_outbound (store w'))"
    and "row_id x = row_id (om_row m)"
  shows "status x = ''SENT''"
proof (cases "conversation_id (om_row m)")
  case None
  then have False
    using assms(1) by (auto simp: record_sent_def run_iffs dest!: transaction_InrD)
  then show ?thesis ..
next
  case (Some c)
  then obtain r where "mark_sent_with_message now (row_id (om_row m))
      (build_assistant_message_from_outbound m payload) err w = (Inr r, w')"
    using assms(1) by (auto simp: record_sent_def run_iffs)
  from mark_sent_rows [OF this assms(2,3)] show ?thesis by simp
qed

lemma settle_sent_agrees:
  assumes "result_ok r"
  shows "yields (\<lambda>r d. row_agrees m r d \<and> result_ok r) (settle_sent cfg now m payload r err)"
proof (cases "sr_status r = ''SENT''")
  case True
  with assms show ?thesis
    unfolding settle_sent_def yields_def
    by (auto simp: run_iffs row_agrees_def intro: record_sent_marks)
next
  case False
  with assms show ?thesis by (simp add: settle_sent_def mark_result_agrees)
qed

lemmas agrees_intros = mark_result_agrees send_failed_agrees settle_sent_agrees

lemma process_pending_message_yields:
  "yields (\<lambda>r d. row_agrees m r d \<and> result_ok r) (process_pending_message cfg now m)"
proof -
  have "yields (\<lambda>r d. row_agrees m r d \<and> result_ok r) (process_buttons cfg now m)"
    unfolding process_buttons_def Let_def
    by (intro yields_intros agrees_intros) (simp_all add: open_status_def)
  moreover have "yields (\<lambda>r d. row_agrees m r d \<and> result_ok r) (process_text_or_image cfg now m t)" for t
    unfolding process_text_or_image_def Let_def
    by (intro yields_intros agrees_intros) simp_all
  ultimately show ?thesis
    unfolding process_pending_message_def Let_def
    by (intro yields_intros agrees_intros) (simp_all add: open_status_def)
qed

text \<open>
  Claim C24.  Whatever LiveChat answers and whichever branch is taken, when
  \<open>process_pending_message\<close> returns a result, the row of the message has the status
  of that result, and this status keeps the message in the queue only when it is
  \<open>RETRYABLE\<close> and the result says that the message may be retried.
\<close>

theorem process_pending_message_agrees:
  assumes "process_pending_message cfg now m w = (Inr r, w')"
  shows "row_agrees m r (store w') \<and>
    (open_status (sr_status r) \<longrightarrow> sr_status r = ''RETRYABLE'' \<and> sr_retryable r)"
  using yieldsD [OF process_pending_message_yields assms] by (simp add: result_ok_def)

section \<open>A human in the chat silences the bot\<close>

lemma stmt_calls [simp]: "calls (snd (stmt f w)) = calls w"
  by (cases rule: stmt_cases [of f w]) simp_all

lemma update_calls [simp]: "calls (snd (update f w)) = calls w"
  by (simp add: update_def)

lemma query_calls [simp]: "calls (snd (query f w)) = calls w"
  by (simp add: query_def)

definition silent :: "('c world, 'a) act \<Rightarrow> bool" where
  "silent m \<longleftrightarrow> (\<forall>w. calls (snd (m w)) = calls w)"

lemma silent_andthen: "silent m \<Longrightarrow> (\<And>a. silent (f a)) \<Longrightarrow> silent (andthen m f)"
  unfolding silent_def andthen_def by (auto split: prod.splits sum.splits) (metis snd_conv)+

lemma silent_basic: "silent (update g)" "silent (query h)" "silent (ret a)" "silent (raise e)"
  by (simp_all add: silent_def ret_def raise_def)

lemma silent_mark_result: "silent (mark_result cfg now m r)"
  unfolding mark_result_def by (intro silent_andthen silent_basic)

text \<open>
  Claim C8.  When the conversation is \<open>HUMAN_ACTIVE\<close> in the database at the moment of
  sending, or was in the hands of a human when the message was leased, nothing is
  sent to LiveChat or Telegram, whatever else fails; when the step returns, the
  message is out of the queue with status \<open>SKIPPED_HUMAN_ACTIVE\<close>.
\<close>

theorem human_active_not_sent:
  assumes "process_pending_message cfg now m w = (r, w')"
    and "is_human_active_conversation m \<or>
         (\<exists>cid. conversation_id (om_row m) = Some cid \<and> cid \<noteq> [] \<and> is_conversation_human_active cid (store w))"
  shows "calls w' = calls w \<and>
    (case r of Inl e \<Rightarrow> True | Inr res \<Rightarrow> sr_status res = ''SKIPPED_HUMAN_ACTIVE'' \<and> row_agrees m res (store w'))"
proof -
  let ?check = "if text_true (conversation_id (om_row m))
      then query (is_conversation_human_active (text_or [] (conversation_id (om_row m)))) else ret False"
  let ?skip = "mark_result cfg now m (send_result ''SKIPPED_HUMAN_ACTIVE''
             (Some ''conversation is HUMAN_ACTIVE or human_handoff; bot outbound skipped'') False)"
  have check: "silent ?check" by (simp add: silent_basic)
  obtain c w1 where 1: "?check w = (c, w1)" by (cases "?check w")
  have calls1: "calls w1 = calls w" using check 1 unfolding silent_def by (metis snd_conv)
  show ?thesis
  proof (cases c)
    case (Inl e)
    then show ?thesis
      using assms(1) 1 calls1 by (auto simp: process_pending_message_def Let_def andthen_def)
  next
    case (Inr fresh)
    have "is_human_active_conversation m \<or> fresh"
      using assms(2) 1 Inr by (auto dest!: query_InrD)
    then have run: "?skip w1 = (r, w')"
      using assms(1) 1 Inr by (simp add: process_pending_message_def Let_def andthen_def)
    then have "calls w' = calls w1"
      using silent_mark_result unfolding silent_def by (metis snd_conv)
    moreover have "sr_status res = ''SKIPPED_HUMAN_ACTIVE''" if "r = Inr res" for res
      using run that by (auto simp: mark_result_def run_iffs)
    ultimately show ?thesis
      using calls1 yieldsD [OF process_pending_message_yields] assms(1)
      by (fastforce split: sum.split)
  qed
qed

section \<open>A group is sent in order\<close>

lemma release_all:
  assumes "each release_message ms w = (Inr us, w')"
  shows "\<forall>x \<in> set (t_outbound (store w')). row_id x \<in> (\<lambda>m. row_id (om_row m)) ` set ms \<longrightarrow> locked_by x = None"
  using assms
proof (induction ms arbitrary: w us)
  case (Cons m ms)
  from Cons.prems obtain u w1 us' where 1: "release_message m w = (Inr u, w1)"
    "each release_message ms w1 = (Inr us', w')"
    by (auto simp: run_iffs)
  have kept: "\<forall>x \<in> set (t_outbound (store w2)). row_id x = i \<longrightarrow> locked_by x = None"
    if "each release_message ns v = (Inr vs, w2)"
      "\<forall>x \<in> set (t_outbound (store v)). row_id x = i \<longrightarrow> locked_by x = None" for ns v vs w2 i
    using that
  proof (induction ns arbitrary: v vs)
    case (Cons n ns)
    from Cons.prems(1) obtain u v1 vs' where v1: "release_message n v = (Inr u, v1)"
      "each release_message ns v1 = (Inr vs', w2)"
      by (auto simp: run_iffs)
    have "locked_by x = None" if "x \<in> set (t_outbound (store v1))" "row_id x = i" for x
      using that Cons.prems(2) update_InrD [OF v1(1) [unfolded release_message_def]]
      by (simp add: ob_release_lease_def ob_update_def at_id_def) (erule update_whereE, auto)
    then show ?case using Cons.IH [OF v1(2)] by blast
  qed (simp add: ret_Inr_iff)
  have "locked_by x = None" if "x \<in> set (t_outbound (store w1))" "row_id x = row_id (om_row m)" for x
    using that update_InrD [OF 1(1) [unfolded release_message_def]]
    by (simp add: ob_release_lease_def ob_update_def at_id_def) (erule update_whereE, auto)
  then have "\<forall>x \<in> set (t_outbound (store w')). row_id x = row_id (om_row m) \<longrightarrow> locked_by x = None"
    using kept [OF 1(2)] by blast
  then show ?case using Cons.IH [OF 1(2)] by auto
qed simp

text \<open>
  A group is sent in order and stops at the first message that is not sent:
  every result but the last says \<open>SENT\<close>, the last one may only differ when the
  group ends there, and the leases of the messages after it are released.
\<close>

theorem group_stops_at_failure:
  assumes "process_message_group cfg now ms w = (Inr rs, w')"
  shows "length rs \<le> length ms \<and> (ms \<noteq> [] \<longrightarrow> rs \<noteq> []) \<and>
    (\<forall>r \<in> set (butlast rs). sr_status r = ''SENT'') \<and>
    (length rs < length ms \<longrightarrow> sr_status (last rs) \<noteq> ''SENT'') \<and>
    (\<forall>x \<in> set (t_outbound (store w')).
       row_id x \<in> (\<lambda>m. row_id (om_row m)) ` set (drop (length rs) ms) \<longrightarrow> locked_by x = None)"
  using assms
proof (induction ms arbitrary: w rs)
  case Nil
  then show ?case by (simp add: ret_Inr_iff)
next
  case (Cons m ms)
  then obtain r w1 where
    rest: "(if sr_status r \<noteq> ''SENT'' then andthen (each release_message ms) (\<lambda>_. ret [r])
     else andthen (process_message_group cfg now ms) (\<lambda>rs. ret (r # rs))) w1 = (Inr rs, w')"
    by (auto simp: andthen_Inr_iff)
  show ?case
  proof (cases "sr_status r = ''SENT''")
    case False
    then obtain us where "each release_message ms w1 = (Inr us, w')" "rs = [r]"
      using rest by (auto simp: run_iffs)
    then show ?thesis using False release_all by simp
  next
    case True
    then obtain rs' where rs': "process_message_group cfg now ms w1 = (Inr rs', w')" "rs = r # rs'"
      using rest by (auto simp: run_iffs)
    note IH = Cons.IH [OF rs'(1)]
    show ?thesis
    proof (cases rs')
      case Nil
      then have "ms = []" using IH by auto
      then show ?thesis using rs'(2) Nil True by simp
    next
      case (Cons a list)
      then show ?thesis using IH rs'(2) True by auto
    qed
  qed
qed

section \<open>The retry limit\<close>

text \<open>
  A LiveChat status that may be retried is retried exactly while the limit of
  attempts (20 unless configured, none when the configured limit is not positive)
  is not reached; the last attempt ends as \<open>FAILED_BUSINESS\<close>.
\<close>

theorem retry_limit:
  assumes "st \<in> {429, 500, 502, 503, 504}"
  shows "sr_status (classify_send_error env (LiveChatError st d) n) =
     (if max_retries env \<le> 0 \<or> int n + 1 < max_retries env then ''RETRYABLE'' else ''FAILED_BUSINESS'')"
  using assms
  by (auto simp: classify_send_error_def config_failure_statuses_def retryable_statuses_def
      retry_limit_reached_def Let_def)

text \<open>A lost connection is not counted against the limit: it is retried for ever.\<close>

lemma lost_connection_never_gives_up:
  "sr_status (classify_send_error env (ConnectionLost s) n) = ''RETRYABLE''"
  "sr_status (classify_send_error env (Timeout s) n) = ''RETRYABLE''"
  "sr_status (classify_send_error env (TelegramError s st code d True) n) = ''RETRYABLE''"
  by (simp_all add: classify_send_error_def Let_def)

end
