(* ===== verification/Platforms.thy ===== *)
theory Platforms
  imports Outbox
begin

text \<open>
  The platforms (\<open>src/app/config/platforms.py\<close>) and the choice of the Telegram chat
  for a case (\<open>src/app/services/telegram_target_resolver.py\<close>).
\<close>

section \<open>Tables\<close>

definition test_platform :: string where
  "test_platform = ''TEST''"

definition default_telegram_finance_group :: string where
  "default_telegram_finance_group = ''-1003181576378''"

definition official_platform_codes :: "string list" where
  "official_platform_codes = [''JUE999'', ''GNA777'', ''JG7'', ''PAG99'', ''CUM777'', ''CON777'', ''ZAP69'']"

definition livechat_group_to_platform :: "(int \<times> string) list" where
  "livechat_group_to_platform = [(2, ''JUE999''), (12, ''GNA777''), (11, ''JG7''), (13, ''PAG99''),
     (24, ''CUM777''), (25, ''CON777''), (28, ''ZAP69''), (23, test_platform)]"

definition platform_to_livechat_group :: "(string \<times> int) list" where
  "platform_to_livechat_group = map (\<lambda>(g, p). (p, g)) livechat_group_to_platform"

definition platform_topics :: "(string \<times> int) list" where
  "platform_topics = [(''JUE999'', 4), (''GNA777'', 15372), (''CUM777'', 26447), (''CON777'', 29915),
     (''PAG99'', 18565), (''JG7'', 15371), (''ZAP69'', 36735)]"

definition platform_merchants :: "(string \<times> string) list" where
  "platform_merchants = [(''JUE999'', ''juecopf1''), (''GNA777'', ''gnacops1''), (''JG7'', ''jgcops1''),
     (''PAG99'', ''pagcops1''), (''CUM777'', ''cumcops1''), (''CON777'', ''concops1''),
     (''ZAP69'', ''zapcops1''), (test_platform, ''zapcops1'')]"

section \<open>Lookups\<close>

definition normalize_platform :: "json \<Rightarrow> string" where
  "normalize_platform p = str_upper (str_strip (str_or [] p))"

definition is_decimal :: "string \<Rightarrow> bool" where
  "is_decimal s \<longleftrightarrow> s \<noteq> [] \<and> list_all (\<lambda>c. digit_of c \<noteq> None) s"

definition normalize_livechat_group_id :: "json \<Rightarrow> int option" where
  "normalize_livechat_group_id v =
     (let positive = (\<lambda>g. if g > 0 then Some g else None) in
      case v of
        JInt i \<Rightarrow> positive i
      | JStr s \<Rightarrow> (let t = str_strip s in if is_decimal t then Option.bind (py_int t) positive else None)
      | _ \<Rightarrow> None)"

definition platform_for_livechat_group_id :: "json \<Rightarrow> string option" where
  "platform_for_livechat_group_id g =
     Option.bind (normalize_livechat_group_id g) (map_of livechat_group_to_platform)"

definition merchant_for_platform :: "json \<Rightarrow> string option" where
  "merchant_for_platform p = map_of platform_merchants (normalize_platform p)"

definition merchant_for_livechat_group_id :: "json \<Rightarrow> string option" where
  "merchant_for_livechat_group_id g =
     (case platform_for_livechat_group_id g of
        None \<Rightarrow> None | Some p \<Rightarrow> if p = [] then None else merchant_for_platform (JStr p))"

definition livechat_group_for_platform :: "json \<Rightarrow> int option" where
  "livechat_group_for_platform p = map_of platform_to_livechat_group (normalize_platform p)"

definition topic_for_platform :: "json \<Rightarrow> int option" where
  "topic_for_platform p =
     (let code = normalize_platform p in if code = test_platform then None else map_of platform_topics code)"

definition default_allowed_livechat_group_ids :: "bool \<Rightarrow> int set" where
  "default_allowed_livechat_group_ids include_test =
     set (map fst (filter (\<lambda>(g, p). p \<in> set official_platform_codes) livechat_group_to_platform))
     \<union> (if include_test then set_option (map_of platform_to_livechat_group test_platform) else {})"

section \<open>The chat of a case\<close>

record telegram_settings =
  ts_test_group :: "string option"
  ts_finance_group :: "string option"
  ts_sop_target_chat_id :: "string option"
  ts_sop_message_thread_id :: "int option"
  ts_force_no_topic :: bool

record telegram_target =
  tg_chat_id :: "string option"
  tg_message_thread_id :: json
  tg_source :: string

definition opt_topic :: "int option \<Rightarrow> json" where
  "opt_topic t = (case t of None \<Rightarrow> JNull | Some i \<Rightarrow> JInt i)"

definition target :: "string option \<Rightarrow> json \<Rightarrow> string \<Rightarrow> telegram_target" where
  "target chat topic source = \<lparr>tg_chat_id = chat, tg_message_thread_id = topic, tg_source = source\<rparr>"

definition resolve_telegram_target :: "dict \<Rightarrow> telegram_settings \<Rightarrow> telegram_target" where
  "resolve_telegram_target payload st =
     (let slots = dict_of (dget payload ''slot_memory'');
          chat = first_truthy [dget payload ''telegram_target_chat_id'', dget payload ''target_chat_id''];
          topic = first_truthy [dget payload ''telegram_message_thread_id'', dget payload ''message_thread_id''];
          platform = JStr (normalize_platform (first_truthy [dget payload ''platform'', dget slots ''platform'']));
          no_topic = ts_force_no_topic st
      in
      if truthy chat then target (Some (py_str chat)) topic ''command_payload''
      else if platform = JStr test_platform then
        (if text_true (ts_test_group st) then target (ts_test_group st) JNull ''platform_test_group''
         else target None JNull ''missing_test_group'')
      else case topic_for_platform platform of
        Some t \<Rightarrow> target (Some (text_or default_telegram_finance_group (ts_finance_group st)))
                   (if no_topic then JNull else JInt t) ''platform_finance_topic''
      | None \<Rightarrow>
        if text_true (ts_test_group st) then target (ts_test_group st) JNull ''test_group''
        else if text_true (ts_sop_target_chat_id st)
        then target (ts_sop_target_chat_id st) (if no_topic then JNull else opt_topic (ts_sop_message_thread_id st))
               ''explicit_sop_target''
        else if text_true (ts_finance_group st) then target (ts_finance_group st) JNull ''finance_group''
        else target None JNull ''missing'')"

section \<open>Consistency\<close>

text \<open>
  The tables agree with each other: the LiveChat group of every official
  platform leads back to the platform, the platform has a merchant and a topic of
  its own, its group is allowed by default, and the test platform has no topic.
\<close>

theorem platform_tables_consistent:
  "(\<forall>p \<in> set official_platform_codes.
     (case livechat_group_for_platform (JStr p) of
        None \<Rightarrow> False
      | Some g \<Rightarrow> platform_for_livechat_group_id (JInt g) = Some p \<and>
                  g \<in> default_allowed_livechat_group_ids False \<and>
                  merchant_for_livechat_group_id (JInt g) = merchant_for_platform (JStr p)) \<and>
     merchant_for_platform (JStr p) \<noteq> None \<and> topic_for_platform (JStr p) \<noteq> None) \<and>
   distinct (map snd platform_topics) \<and> distinct (map fst livechat_group_to_platform) \<and>
   distinct (map snd livechat_group_to_platform) \<and> topic_for_platform (JStr test_platform) = None"
  by code_simp

text \<open>
  A case of the test platform never reaches the finance group: unless the
  command names a chat itself, its target is the configured test group or none.
\<close>

theorem test_cases_stay_in_test_group:
  assumes "\<not> truthy (dget payload ''telegram_target_chat_id'')" "\<not> truthy (dget payload ''target_chat_id'')"
    and "normalize_platform (first_truthy [dget payload ''platform'', dget (dict_of (dget payload ''slot_memory'')) ''platform'']) = test_platform"
  shows "tg_chat_id (resolve_telegram_target payload st) = (if text_true (ts_test_group st) then ts_test_group st else None)
     \<and> tg_message_thread_id (resolve_telegram_target payload st) = JNull"
  using assms by (simp add: resolve_telegram_target_def Let_def target_def)

text \<open>
  A case of a platform that has a topic goes to that topic in the finance
  group, or to the group without a topic when topics are switched off.
\<close>

theorem official_cases_reach_their_topic:
  assumes "\<not> truthy (dget payload ''telegram_target_chat_id'')" "\<not> truthy (dget payload ''target_chat_id'')"
    and "topic_for_platform (JStr (normalize_platform (first_truthy [dget payload ''platform'',
           dget (dict_of (dget payload ''slot_memory'')) ''platform'']))) = Some t"
  shows "resolve_telegram_target payload st =
     target (Some (text_or default_telegram_finance_group (ts_finance_group st)))
       (if ts_force_no_topic st then JNull else JInt t) ''platform_finance_topic''"
proof -
  define code where "code = normalize_platform (first_truthy [dget payload ''platform'', dget (dict_of (dget payload ''slot_memory'')) ''platform''])"
  have topic: "topic_for_platform (JStr code) = Some t" using assms(3) by (simp add: code_def)
  have "code \<noteq> test_platform"
  proof
    assume "code = test_platform"
    moreover have "topic_for_platform (JStr test_platform) = None" by code_simp
    ultimately show False using topic by simp
  qed
  then show ?thesis
    using assms(1,2) topic by (simp add: resolve_telegram_target_def Let_def code_def)
qed

end
