(* ===== verification/Command_Worker.thy ===== *)
theory Command_Worker
  imports Sender Platforms
begin

text \<open>
  The external command worker (\<open>src/app/workers/external_command_worker.py\<close>): it
  leases commands and executes them against LiveChat (transfer to a human),
  Telegram (cases and follow-ups), the back office and the reply lookup, or
  pretends to in a dry run.

  Arguments of the model (\<open>worker_config\<close>): the services, the texts that other
  modules render for Telegram (\<open>services/telegram_case_card.py\<close>,
  \<open>services/telegram_case_followup.py\<close>, the translation by a language model) and
  the canned results of a dry run that hold texts outside the character model.
  The worker runs its batch concurrently; the model runs one command after the
  other.  The branches for repositories that lack a method, which only test
  doubles take, are left out.
\<close>

section \<open>Configuration\<close>

record worker_settings =
  ws_handoff_enabled :: bool
  ws_handoff_group :: "int option"
  ws_ignore_agents :: bool
  ws_ignore_requester :: bool
  ws_telegram_enabled :: bool
  ws_bot_token :: "string option"
  ws_backend_enabled :: bool
  ws_telegram :: telegram_settings

record worker_config =
  wc_services :: services
  wc_sha :: "string \<Rightarrow> string"
  wc_settings :: "worker_settings option"
  wc_dry_run :: bool
  wc_emit :: bool
  wc_handoff :: bool
  wc_telegram :: bool
  wc_backend :: bool
  wc_pending :: bool
  wc_max_retries :: int
  wc_mock_results :: "string \<Rightarrow> string \<times> dict"
  wc_case_card :: "command_row \<Rightarrow> telegram_target \<Rightarrow> dict"
  wc_case_append :: "command_row \<Rightarrow> telegram_target \<Rightarrow> json \<Rightarrow> dict"
  wc_is_followup_text :: "string \<Rightarrow> bool"
  wc_customer_update :: "string \<Rightarrow> string \<Rightarrow> string"
  wc_followup :: "command_row \<Rightarrow> case_row \<Rightarrow> followup_row \<Rightarrow> string \<Rightarrow> dict"
  wc_recorded_at :: string

text \<open>What the worker reports of a command; \<open>im_result\<close> is the insert of its result.\<close>

record cmd_item =
  im_id :: nat
  im_status :: string
  im_error :: "string option"
  im_result :: "nat option option"

definition item :: "command_row \<Rightarrow> string \<Rightarrow> string option \<Rightarrow> nat option option \<Rightarrow> cmd_item" where
  "item c st err res = \<lparr>im_id = row_id c, im_status = st, im_error = err, im_result = res\<rparr>"

definition supported_command_types :: "string list" where
  "supported_command_types = [''telegram.send_case_card'', ''telegram.append_to_case'', ''telegram.remind_case'',
     ''backend.query'', ''pending_reply.lookup'', ''human_handoff.requested'', ''rag.placeholder'']"

definition command_conversation :: "command_row \<Rightarrow> string" where
  "command_conversation c = (case conversation_id c of None \<Rightarrow> [] | Some x \<Rightarrow> x)"

section \<open>Shared steps\<close>

definition build_result_record :: "command_row \<Rightarrow> string \<Rightarrow> dict \<Rightarrow> string option \<Rightarrow> result_in" where
  "build_result_record c rtype json st =
     \<lparr>ri_command_id = row_id c, ri_tenant_id = Some (text_or ''default'' (Some (ec_tenant_id c))),
      ri_conversation_id = command_conversation c, ri_chat_id = Some (ec_chat_id c),
      ri_thread_id = ec_thread_id c, ri_inbound_event_id = ec_inbound_event_id c,
      ri_command_type = ec_command_type c, ri_result_type = rtype, ri_json = json, ri_status = st,
      ri_processed_at = None, ri_last_error = None, ri_dedup_key = None\<rparr>"

definition emit_result ::
  "worker_config \<Rightarrow> time \<Rightarrow> command_row \<Rightarrow> string \<Rightarrow> dict \<Rightarrow> string option \<Rightarrow> nat option option job" where
  "emit_result cfg now c rtype json st =
     (if wc_emit cfg
      then andthen (stmt (er_insert_idempotent (wc_sha cfg) now (build_result_record c rtype json st)))
             (\<lambda>r. ret (Some r))
      else ret None)"

text \<open>\<open>_mark_command_status\<close>: a retryable failure counts as an attempt and may become final.\<close>

definition mark_command_status :: "time \<Rightarrow> nat \<Rightarrow> string \<Rightarrow> string option \<Rightarrow> int \<Rightarrow> string job" where
  "mark_command_status now i st err retries =
     (if st = ''RETRYABLE''
      then andthen (exec (ec_mark_processing_failed i (text_or st err) retries)) (\<lambda>_.
           query (\<lambda>d. case find (\<lambda>r. row_id r = i) (t_commands d) of None \<Rightarrow> ''FAILED'' | Some r \<Rightarrow> status r))
      else andthen (update (ec_mark_status now i st err)) (\<lambda>_. ret st))"

definition reject :: "worker_config \<Rightarrow> time \<Rightarrow> command_row \<Rightarrow> string \<Rightarrow> string \<Rightarrow> cmd_item job" where
  "reject cfg now c st err =
     andthen (mark_command_status now (row_id c) st (Some err) (wc_max_retries cfg)) (\<lambda>_.
     ret (item c st (Some err) None))"

definition fail_with :: "worker_config \<Rightarrow> time \<Rightarrow> command_row \<Rightarrow> string \<Rightarrow> exn \<Rightarrow> cmd_item job" where
  "fail_with cfg now c st e =
     andthen (mark_command_status now (row_id c) st (Some (exn_text e)) (wc_max_retries cfg)) (\<lambda>final.
     ret (item c final (Some (exn_text e)) None))"

definition finish_sent :: "time \<Rightarrow> command_row \<Rightarrow> string \<Rightarrow> nat option option \<Rightarrow> cmd_item job" where
  "finish_sent now c st res =
     andthen (update (ec_mark_sent now (row_id c))) (\<lambda>_. ret (item c st None res))"

section \<open>Classification of errors\<close>

definition says_timeout :: "exn \<Rightarrow> bool" where
  "says_timeout e \<longleftrightarrow> (case e of Timeout _ \<Rightarrow> True | _ \<Rightarrow> False) \<or>
     str_contains ''timed out'' (str_lower (exn_text e)) \<or> str_contains ''timeout'' (str_lower (exn_text e))"

definition classify_handoff_error :: "exn \<Rightarrow> string" where
  "classify_handoff_error e =
     (case e of
        LiveChatError st d \<Rightarrow>
          if st \<in> {401, 403} then ''FAILED_CONFIG''
          else if st \<in> {429, 500, 502, 503, 504} then ''RETRYABLE''
          else if \<exists>t \<in> set [''inactive'', ''not active'', ''closed'', ''not found'', ''requester presence'', ''group access''].
                    str_contains t (str_lower (json_text (JObj d)))
          then ''FAILED_BUSINESS'' else ''FAILED_UNKNOWN''
      | _ \<Rightarrow> if says_timeout e then ''RETRYABLE'' else ''FAILED_UNKNOWN'')"

definition classify_telegram_error :: "exn \<Rightarrow> string" where
  "classify_telegram_error e =
     (case e of
        TelegramError desc st code d again \<Rightarrow>
          if st \<in> {Some 401, Some 403} \<or> code \<in> {Some 401, Some 403} then ''FAILED_CONFIG''
          else if st \<in> {Some 429, Some 500, Some 502, Some 503, Some 504} \<or> again then ''RETRYABLE''
          else let data = (case d of None \<Rightarrow> [(''description'', JStr desc)]
                           | Some x \<Rightarrow> if x = [] then [(''description'', JStr desc)] else x)
               in if \<exists>t \<in> set [''chat not found'', ''bot was blocked'', ''not enough rights'',
                                 ''message thread not found'', ''thread not found''].
                       str_contains t (str_lower (json_text (JObj data)))
                  then ''FAILED_BUSINESS'' else ''FAILED_UNKNOWN''
      | _ \<Rightarrow> if says_timeout e then ''RETRYABLE'' else ''FAILED_UNKNOWN'')"

section \<open>Guards\<close>

definition validate_execution_mode :: "worker_config \<Rightarrow> bool" where
  "validate_execution_mode cfg \<longleftrightarrow>
     wc_dry_run cfg \<or> wc_handoff cfg \<or> wc_telegram cfg \<or> wc_backend cfg \<or> wc_pending cfg"

definition resolve_handoff_target_group_id :: "command_row \<Rightarrow> worker_settings \<Rightarrow> exn + int option" where
  "resolve_handoff_target_group_id c st =
     (let g = dget (ec_payload c) ''livechat_group_id'';
          bad = Inl (ValueError ''command.payload_json.livechat_group_id must be a positive integer'')
      in if g \<noteq> JNull \<and> str_strip (py_str g) \<noteq> []
         then (case int_of_json g of None \<Rightarrow> bad | Some i \<Rightarrow> if i \<le> 0 then bad else Inr (Some i))
         else Inr (ws_handoff_group st))"

definition handoff_block_reason :: "worker_config \<Rightarrow> command_row \<Rightarrow> string option" where
  "handoff_block_reason cfg c =
     (if \<not> wc_handoff cfg then Some ''--execute-human-handoff is required''
      else case wc_settings cfg of
        None \<Rightarrow> Some ''settings are required for real human handoff''
      | Some st \<Rightarrow>
          if \<not> ws_handoff_enabled st then Some ''livechat_handoff_enabled is false''
          else if ec_chat_id c = [] then Some ''command.chat_id is required''
          else (case resolve_handoff_target_group_id c st of
                  Inl e \<Rightarrow> Some (exn_text e)
                | Inr None \<Rightarrow> Some ''livechat_handoff_target_group_id is required when command.payload_json.livechat_group_id is missing''
                | Inr (Some _) \<Rightarrow> None))"

definition telegram_command_types :: "string list" where
  "telegram_command_types = [''telegram.send_case_card'', ''telegram.append_to_case'', ''telegram.remind_case'']"

definition telegram_block_reason :: "worker_config \<Rightarrow> command_row \<Rightarrow> string option" where
  "telegram_block_reason cfg c =
     (let p = ec_payload c; slots = dict_of (dget p ''slot_memory''); t = ec_command_type c in
      if t \<notin> set telegram_command_types then Some (''unsupported telegram command_type: '' @ t)
      else if \<not> wc_telegram cfg then Some ''--execute-telegram is required''
      else case wc_settings cfg of
        None \<Rightarrow> Some ''settings are required for telegram execution''
      | Some st \<Rightarrow>
          if \<not> ws_telegram_enabled st then Some ''telegram_sop_enabled is false''
          else if \<not> text_true (ws_bot_token st) then Some ''telegram_bot_token is required''
          else if command_conversation c = [] \<or> ec_chat_id c = []
          then Some ''command conversation_id and chat_id are required''
          else if t \<noteq> ''telegram.remind_case'' \<and> \<not> truthy (dget p ''slot_memory'')
          then Some ''command payload.slot_memory is required''
          else if t = ''telegram.remind_case'' then
            (if \<not> truthy (dget p ''telegram_case_id'') \<or> \<not> text_true (ec_thread_id c)
             then Some ''telegram reminder requires telegram_case_id and source thread_id'' else None)
          else if t = ''telegram.append_to_case'' \<and>
            (\<not> truthy (first_truthy [dget p ''telegram_case_id'', dget slots ''telegram_case_id'']) \<or>
             \<not> truthy (first_truthy [dget p ''telegram_message_id'', dget slots ''telegram_message_id'']))
          then Some ''telegram append requires existing telegram_case_id and telegram_message_id''
          else if \<not> text_true (tg_chat_id (resolve_telegram_target p (ws_telegram st)))
          then Some ''telegram target chat_id is missing'' else None)"

definition backend_block_reason :: "worker_config \<Rightarrow> string option" where
  "backend_block_reason cfg =
     (if \<not> wc_backend cfg then Some ''--execute-backend is required''
      else case wc_settings cfg of
        None \<Rightarrow> Some ''settings are required for backend execution''
      | Some st \<Rightarrow> if \<not> ws_backend_enabled st then Some ''backend_query_enabled is false'' else None)"

section \<open>Dry run\<close>

definition build_mock_result_for_command :: "worker_config \<Rightarrow> command_row \<Rightarrow> string \<times> dict" where
  "build_mock_result_for_command cfg c =
     (let p = ec_payload c; i = int (row_id c);
          workflow = first_truthy [dget p ''active_workflow'', dget p ''intent''] in
      if ec_command_type c = ''telegram.send_case_card'' then
        (''telegram.case.created'',
         [(''status'', JStr ''created''), (''case_id'', JStr (''mock_tg:'' @ nat_str (row_id c))),
          (''telegram_message_id'', JInt (900000 + i)), (''target_chat_id'', JStr ''mock_target''),
          (''message_thread_id'', JNull), (''target_source'', JStr ''dry_run''),
          (''delivery_mode'', JStr ''dry_run''), (''attachment_results'', JArr []),
          (''intent'', dget p ''intent''), (''active_workflow'', workflow)])
      else if ec_command_type c = ''telegram.append_to_case'' then
        (''telegram.append_to_case.result'',
         [(''status'', JStr ''appended''), (''telegram_message_id'', JInt (910000 + i)),
          (''reply_to_message_id'', dget p ''telegram_message_id''),
          (''target_chat_id'', if truthy (dget p ''telegram_target_chat_id'')
                               then dget p ''telegram_target_chat_id'' else JStr ''mock_target''),
          (''message_thread_id'', dget p ''telegram_message_thread_id''),
          (''target_source'', JStr ''dry_run''), (''attachment_results'', JArr []),
          (''intent'', dget p ''intent''), (''active_workflow'', workflow)])
      else if ec_command_type c = ''telegram.remind_case'' then
        (''telegram.case.reminded'',
         [(''status'', JStr ''mocked''), (''followup_id'', JInt (920000 + i)),
          (''telegram_message_id'', JInt (930000 + i)), (''follow_up_kind'', dget p ''follow_up_kind'')])
      else wc_mock_results cfg (ec_command_type c))"

definition process_dry_run_command :: "worker_config \<Rightarrow> time \<Rightarrow> command_row \<Rightarrow> cmd_item job" where
  "process_dry_run_command cfg now c =
     (let (rtype, json) = build_mock_result_for_command cfg c in
      andthen (emit_result cfg now c rtype json None) (\<lambda>res.
      andthen (update (ec_mark_dry_run_done now (row_id c))) (\<lambda>_.
      ret (item c ''DRY_RUN_DONE'' None res))))"

section \<open>Handoff to a human\<close>

definition ack_failure_reason :: "outbound_row option \<Rightarrow> string" where
  "ack_failure_reason ack =
     (case ack of
        Some r \<Rightarrow> ''handoff ack outbound_message_id='' @ nat_str (row_id r) @ '' is not sendable: status='' @ status r
      | None \<Rightarrow> ''handoff ack outbound message is missing'')"

definition ack_failure :: "worker_config \<Rightarrow> command_row \<Rightarrow> outbound_row option \<Rightarrow> dict" where
  "ack_failure cfg c ack =
     [(''stage'', JStr ''handoff_ack''), (''command_id'', JInt (int (row_id c))),
      (''outbound_message_id'', case ack of None \<Rightarrow> JNull | Some r \<Rightarrow> JInt (int (row_id r))),
      (''status'', JStr ''FAILED_DEPENDENCY''), (''error'', JStr (ack_failure_reason ack)),
      (''recorded_at'', JStr (wc_recorded_at cfg))]"

definition ack_dependency_failed ::
  "worker_config \<Rightarrow> time \<Rightarrow> command_row \<Rightarrow> outbound_row option \<Rightarrow> cmd_item option job" where
  "ack_dependency_failed cfg now c ack =
     andthen (mark_command_status now (row_id c) ''FAILED_DEPENDENCY'' (Some (ack_failure_reason ack)) 3) (\<lambda>_.
     andthen (record_handoff_failure now (command_conversation c) (ack_failure cfg c ack)) (\<lambda>_.
     ret (Some (item c ''FAILED_DEPENDENCY'' (Some (ack_failure_reason ack)) None))))"

definition wait_for_ack :: "command_row \<Rightarrow> outbound_row \<Rightarrow> cmd_item option job" where
  "wait_for_ack c r =
     andthen (update (ec_release_lease (row_id c))) (\<lambda>_.
     ret (Some (item c ''WAITING_DEPENDENCY'' (Some (''waiting for handoff ack outbound_message_id='' @
       nat_str (row_id r) @ '' status='' @ status r)) None)))"

text \<open>\<open>None\<close> when nothing stands in the way of the transfer.\<close>

definition judge_ack :: "worker_config \<Rightarrow> time \<Rightarrow> command_row \<Rightarrow> outbound_row option \<Rightarrow> cmd_item option job" where
  "judge_ack cfg now c ack =
     (case ack of
        None \<Rightarrow> ack_dependency_failed cfg now c None
      | Some r \<Rightarrow>
          if str_upper (status r) = ''SENT'' then ret None
          else if str_upper (status r) \<in> {''PENDING'', ''RETRYABLE''} then wait_for_ack c r
          else ack_dependency_failed cfg now c (Some r))"

definition handoff_ack_dependency_status :: "worker_config \<Rightarrow> time \<Rightarrow> command_row \<Rightarrow> cmd_item option job" where
  "handoff_ack_dependency_status cfg now c =
     (if dget (ec_payload c) ''handoff_ack_mode'' = JStr ''direct_notice'' then ret None
      else case ec_inbound_event_id c of
        None \<Rightarrow> raise (TypeError ''int'')
      | Some inbound \<Rightarrow>
          andthen (query (ob_fetch_handoff_ack_by_event (command_conversation c) inbound)) (judge_ack cfg now c))"

definition record_handoff_stage :: "nat \<Rightarrow> dict \<Rightarrow> unit job" where
  "record_handoff_stage i stage = update (ec_merge_payload_json i [(''human_handoff_stage'', JObj stage)])"

definition transferred_state :: graph_state where
  "transferred_state = \<lparr>gs_status = Some ''HUMAN_ACTIVE'', gs_active_workflow = Some ''human_handoff'',
     gs_workflow_stage = Some ''transferred'', gs_slot_memory = Some [], gs_handoff_state = None,
     gs_delete_keys = [], gs_case_update = None\<rparr>"

text \<open>What follows a transfer that LiveChat accepted, up to \<open>mark_sent\<close>.\<close>

definition complete_handoff :: "worker_config \<Rightarrow> time \<Rightarrow> command_row \<Rightarrow> dict \<Rightarrow> dict \<Rightarrow> nat option option job" where
  "complete_handoff cfg now c stage result =
     (let i = row_id c; s2 = dput stage ''transfer_succeeded'' (JBool True);
          s3 = dput s2 ''conversation_state_updated'' (JBool True);
          s4 = dput s3 ''result_emitted'' (JBool (wc_emit cfg)) in
      andthen (record_handoff_stage i s2) (\<lambda>_.
      andthen (update_workflow_state now (command_conversation c) transferred_state) (\<lambda>_.
      andthen (record_handoff_stage i s3) (\<lambda>_.
      andthen (emit_result cfg now c ''human_handoff.transfer_chat.result'' result (Some ''PROCESSED'')) (\<lambda>res.
      andthen (record_handoff_stage i s4) (\<lambda>_.
      andthen (update (ec_mark_sent now i)) (\<lambda>_. ret res)))))))"

definition transfer_result :: "command_row \<Rightarrow> int \<Rightarrow> worker_settings \<Rightarrow> dict \<Rightarrow> dict" where
  "transfer_result c gid st response =
     [(''status'', JStr ''TRANSFERRED''), (''chat_id'', JStr (ec_chat_id c)), (''target_group_id'', JInt gid),
      (''ignore_agents_availability'', JBool (ws_ignore_agents st)),
      (''ignore_requester_presence'', JBool (ws_ignore_requester st)), (''livechat_response'', JObj response)]"

definition completion_failed :: "exn \<Rightarrow> string" where
  "completion_failed e =
     ''LiveChat transfer may have succeeded; local handoff completion failed and manual verification is required: ''
       @ exn_text e"

definition after_transfer ::
  "worker_config \<Rightarrow> time \<Rightarrow> command_row \<Rightarrow> worker_settings \<Rightarrow> int \<Rightarrow> dict \<Rightarrow> exn + dict \<Rightarrow> cmd_item job" where
  "after_transfer cfg now c st gid stage sent =
     (case sent of
        Inl e \<Rightarrow> fail_with cfg now c (classify_handoff_error e) e
      | Inr response \<Rightarrow>
          andthen (catching (complete_handoff cfg now c stage (transfer_result c gid st response))) (\<lambda>finished.
          case finished of
            Inr res \<Rightarrow> ret (item c ''SENT'' None res)
          | Inl e \<Rightarrow> reject cfg now c ''FAILED_AFTER_EXTERNAL_SUCCESS'' (completion_failed e)))"

definition attempt_transfer ::
  "worker_config \<Rightarrow> command_row \<Rightarrow> worker_settings \<Rightarrow> int \<Rightarrow> dict \<Rightarrow> dict job" where
  "attempt_transfer cfg c st gid stage =
     andthen (record_handoff_stage (row_id c) stage) (\<lambda>_.
     transfer_chat_to_group (wc_services cfg) (ec_chat_id c) gid (ws_ignore_agents st) (ws_ignore_requester st))"

definition transfer_and_complete ::
  "worker_config \<Rightarrow> time \<Rightarrow> command_row \<Rightarrow> worker_settings \<Rightarrow> int \<Rightarrow> cmd_item job" where
  "transfer_and_complete cfg now c st gid =
     (let stage = dict_of (dget (ec_payload c) ''human_handoff_stage'');
          attempted = dput stage ''transfer_attempted'' (JBool True) in
      if truthy (dget stage ''transfer_succeeded'')
      then reject cfg now c ''FAILED_AFTER_EXTERNAL_SUCCESS''
             ''LiveChat transfer may have succeeded before local completion; manual verification required before retry''
      else andthen (catching (attempt_transfer cfg c st gid attempted)) (after_transfer cfg now c st gid attempted))"

definition process_handoff_command :: "worker_config \<Rightarrow> time \<Rightarrow> command_row \<Rightarrow> cmd_item job" where
  "process_handoff_command cfg now c =
     (case handoff_block_reason cfg c of
        Some reason \<Rightarrow>
          reject cfg now c (if reason \<in> {''livechat_handoff_enabled is false'', ''--execute-human-handoff is required''}
                            then ''SKIPPED_DISABLED'' else ''FAILED_CONFIG'') reason
      | None \<Rightarrow>
          andthen (handoff_ack_dependency_status cfg now c) (\<lambda>dep.
          case dep of
            Some it \<Rightarrow> ret it
          | None \<Rightarrow>
             (case wc_settings cfg of
                None \<Rightarrow> raise (OtherError ''settings'')
              | Some st \<Rightarrow>
                 (case resolve_handoff_target_group_id c st of
                    Inl e \<Rightarrow> raise e
                  | Inr None \<Rightarrow> raise (OtherError ''target group'')
                  | Inr (Some gid) \<Rightarrow> transfer_and_complete cfg now c st gid))))"

section \<open>Telegram\<close>

definition effective_follow_up_kind :: "(string \<Rightarrow> bool) \<Rightarrow> string \<Rightarrow> string \<Rightarrow> string option" where
  "effective_follow_up_kind is_followup_text st raw =
     (if st \<in> {''completed_confirmed_by_customer'', ''terminal_other'', ''waiting_customer''} then None
      else if st \<in> {''completed_by_staff'', ''completion_disputed''}
      then (if is_followup_text raw then Some ''completion_dispute'' else None)
      else Some ''pending_follow_up'')"

definition delivery_message_id :: "dict \<Rightarrow> exn + int" where
  "delivery_message_id d =
     (case map_of d ''message_id'' of None \<Rightarrow> Inl (KeyError ''message_id'') | Some m \<Rightarrow> py_int_of m)"

definition delivery_list :: "dict \<Rightarrow> string \<Rightarrow> json" where
  "delivery_list d k = (case dget d k of JArr xs \<Rightarrow> JArr xs | _ \<Rightarrow> JArr [])"

text \<open>
  The reminder is sent between two transactions: the follow-up is \<open>sending\<close> before
  the call and \<open>sent\<close> after it.
\<close>

definition send_followup ::
  "worker_config \<Rightarrow> time \<Rightarrow> followup_row \<Rightarrow> string \<Rightarrow> dict \<Rightarrow> (int \<times> dict) job" where
  "send_followup cfg now fu text_en rendered =
     andthen (call (wc_services cfg) (Telegram ''send_case_followup'' rendered)) (\<lambda>reply.
     let delivery = dict_of reply in
     andthen (lift (delivery_message_id delivery)) (\<lambda>msg.
     andthen (lift (attachment_message_ids delivery)) (\<lambda>ids.
     andthen (record_followup_sent now (fu_id fu) msg ids text_en) (\<lambda>_. ret (msg, delivery)))))"

definition followup_failed :: "worker_config \<Rightarrow> time \<Rightarrow> command_row \<Rightarrow> followup_row \<Rightarrow> exn \<Rightarrow> cmd_item job" where
  "followup_failed cfg now c fu e =
     (if case e of TelegramError _ st code _ _ \<Rightarrow> st = Some 429 \<or> code = Some 429 | _ \<Rightarrow> False
      then andthen (update (mark_followup_retryable (fu_id fu) (exn_text e))) (\<lambda>_. fail_with cfg now c ''RETRYABLE'' e)
      else andthen (update (mark_followup_delivery_uncertain (fu_id fu) (exn_text e))) (\<lambda>_.
           reject cfg now c ''FAILED_DELIVERY_UNCERTAIN'' (exn_text e)))"

definition deliver_followup ::
  "worker_config \<Rightarrow> time \<Rightarrow> command_row \<Rightarrow> followup_row \<Rightarrow> case_row \<Rightarrow> string \<Rightarrow> cmd_item job" where
  "deliver_followup cfg now c fu cas kind =
     (let p = ec_payload c; text_en = wc_customer_update cfg (str_or [] (dget p ''raw_user_input'')) (case tc_intent cas of None \<Rightarrow> ''None'' | Some t \<Rightarrow> t);
          rendered = wc_followup cfg c cas (fu\<lparr>fu_kind := kind,
            fu_previous_status := str_or (fu_previous_status fu) (dget p ''previous_status'')\<rparr>) text_en in
      andthen (mark_followup_sending now (fu_id fu)) (\<lambda>_.
      andthen (catching (send_followup cfg now fu text_en rendered)) (\<lambda>sent.
      case sent of
        Inl e \<Rightarrow> followup_failed cfg now c fu e
      | Inr (msg, delivery) \<Rightarrow>
          andthen (emit_result cfg now c ''telegram.case.reminded''
            [(''status'', JStr ''sent''), (''followup_id'', JInt (int (fu_id fu))),
             (''telegram_case_id'', JInt (int (tc_id cas))), (''telegram_message_id'', JInt msg),
             (''follow_up_number'', JInt (fu_number fu)), (''follow_up_kind'', JStr kind),
             (''attachment_errors'', delivery_list delivery ''attachment_errors'')] (Some ''PROCESSED'')) (\<lambda>res.
          finish_sent now c ''SENT'' res))))"

text \<open>Identifiers start at 1: a negative number finds no case, as 0 does.\<close>

definition process_telegram_followup_command :: "worker_config \<Rightarrow> time \<Rightarrow> command_row \<Rightarrow> cmd_item job" where
  "process_telegram_followup_command cfg now c =
     (case telegram_block_reason cfg c of
        Some reason \<Rightarrow>
          reject cfg now c (if reason = ''--execute-telegram is required'' then ''SKIPPED_DISABLED'' else ''FAILED_CONFIG'') reason
      | None \<Rightarrow>
          let p = ec_payload c in
          andthen (lift (py_int_of (dget p ''telegram_case_id''))) (\<lambda>case_no.
          andthen (reserve_followup (row_id c) (nat case_no) (command_conversation c) (text_or [] (ec_thread_id c))
             (str_or ''pending_follow_up'' (dget p ''follow_up_kind''))
             (str_or ''under_review'' (dget p ''previous_status''))) (\<lambda>reserved.
          case reserved of (fu, duplicate, cas) \<Rightarrow>
            if duplicate \<and> fu_status fu \<in> {''sent'', ''delivery_uncertain'', ''sending''}
            then finish_sent now c ''DUPLICATE_SENT'' None
            else if duplicate \<and> fu_command_id fu \<noteq> row_id c then finish_sent now c ''DUPLICATE_RESERVED'' None
            else case effective_follow_up_kind (wc_is_followup_text cfg) (tc_status cas)
                        (str_or [] (dget p ''raw_user_input'')) of
              None \<Rightarrow> andthen (update (cancel_followup (fu_id fu) (''stale case status: '' @ tc_status cas))) (\<lambda>_.
                      finish_sent now c ''CANCELED_STALE'' None)
            | Some kind \<Rightarrow> deliver_followup cfg now c fu cas kind)))"

definition case_created_result :: "command_row \<Rightarrow> telegram_target \<Rightarrow> dict \<Rightarrow> dict \<Rightarrow> exn + dict" where
  "case_created_result c tgt case_card delivery =
     (let p = ec_payload c; intent = first_truthy [dget p ''intent'', dget p ''active_workflow''] in
      case map_of delivery ''message_id'' of
        None \<Rightarrow> Inl (KeyError ''message_id'')
      | Some m \<Rightarrow> (case map_of case_card ''card_text'' of
          None \<Rightarrow> Inl (KeyError ''card_text'')
        | Some txt \<Rightarrow> Inr
           [(''status'', JStr ''created''), (''case_id'', JStr (''tg:'' @ py_str m)), (''telegram_message_id'', m),
            (''target_chat_id'', opt_json (tg_chat_id tgt)), (''message_thread_id'', tg_message_thread_id tgt),
            (''target_source'', JStr (tg_source tgt)), (''delivery_mode'', JStr ''text_with_attachments''),
            (''attachment_results'', case map_of delivery ''attachment_results'' of None \<Rightarrow> JArr [] | Some a \<Rightarrow> a),
            (''card_text'', txt), (''intent'', intent),
            (''active_workflow'', first_truthy [dget p ''active_workflow'', intent])]))"

definition append_result :: "command_row \<Rightarrow> telegram_target \<Rightarrow> dict \<Rightarrow> dict \<Rightarrow> exn + dict" where
  "append_result c tgt app delivery =
     (let p = ec_payload c; intent = first_truthy [dget p ''intent'', dget p ''active_workflow''] in
      case map_of delivery ''message_id'' of
        None \<Rightarrow> Inl (KeyError ''message_id'')
      | Some m \<Rightarrow>
          if \<not> truthy (dget delivery ''card_text'') \<and> map_of app ''text'' = None then Inl (KeyError ''text'')
          else Inr
           [(''status'', first_truthy [dget delivery ''status'', JStr ''edited'']), (''telegram_message_id'', m),
            (''reply_to_message_id'', first_truthy [dget delivery ''reply_to_message_id'', dget p ''telegram_message_id'']),
            (''target_chat_id'', opt_json (tg_chat_id tgt)), (''message_thread_id'', tg_message_thread_id tgt),
            (''target_source'', JStr (tg_source tgt)),
            (''attachment_results'', case map_of delivery ''attachment_results'' of None \<Rightarrow> JArr [] | Some a \<Rightarrow> a),
            (''card_text'', first_truthy [dget delivery ''card_text'', dget app ''text'']), (''intent'', intent),
            (''active_workflow'', first_truthy [dget p ''active_workflow'', intent])])"

definition send_telegram :: "worker_config \<Rightarrow> command_row \<Rightarrow> telegram_target \<Rightarrow> (string \<times> dict) job" where
  "send_telegram cfg c tgt =
     (let p = ec_payload c in
      if ec_command_type c = ''telegram.send_case_card''
      then let case_card = wc_case_card cfg c tgt in
           andthen (call (wc_services cfg) (Telegram ''send_case_card'' case_card)) (\<lambda>reply.
           andthen (lift (case_created_result c tgt case_card (dict_of reply))) (\<lambda>result.
           ret (''telegram.case.created'', result)))
      else let app = wc_case_append cfg c tgt (first_truthy [dget p ''telegram_message_id'',
                          dget (dict_of (dget p ''slot_memory'')) ''telegram_message_id'']) in
           andthen (call (wc_services cfg) (Telegram ''append_to_case'' app)) (\<lambda>reply.
           andthen (lift (append_result c tgt app (dict_of reply))) (\<lambda>result.
           ret (''telegram.append_to_case.result'', result))))"

definition telegram_block_status :: "string \<Rightarrow> string" where
  "telegram_block_status reason =
     (if reason = ''telegram append requires existing telegram_case_id and telegram_message_id'' then ''FAILED_BUSINESS''
      else if starts_with reason ''unsupported'' then ''FAILED_UNSUPPORTED''
      else if reason = ''--execute-telegram is required'' then ''SKIPPED_DISABLED'' else ''FAILED_CONFIG'')"

definition process_telegram_command :: "worker_config \<Rightarrow> time \<Rightarrow> command_row \<Rightarrow> cmd_item job" where
  "process_telegram_command cfg now c =
     (case telegram_block_reason cfg c of
        Some reason \<Rightarrow> reject cfg now c (telegram_block_status reason) reason
      | None \<Rightarrow>
         (case wc_settings cfg of
            None \<Rightarrow> raise (OtherError ''settings'')
          | Some st \<Rightarrow>
              let tgt = resolve_telegram_target (ec_payload c) (ws_telegram st) in
              if \<not> text_true (tg_chat_id tgt) then reject cfg now c ''FAILED_CONFIG'' ''telegram target chat_id is missing''
              else andthen (catching (send_telegram cfg c tgt)) (\<lambda>sent.
                case sent of
                  Inl e \<Rightarrow> fail_with cfg now c (classify_telegram_error e) e
                | Inr (rtype, result) \<Rightarrow>
                    andthen (emit_result cfg now c rtype result None) (\<lambda>res. finish_sent now c ''SENT'' res))))"

section \<open>Back office queries\<close>

definition copy_keys :: "(dict \<Rightarrow> string \<Rightarrow> bool) \<Rightarrow> string list \<Rightarrow> dict \<Rightarrow> dict \<Rightarrow> dict" where
  "copy_keys wanted ks payload result =
     foldl (\<lambda>r k. if wanted r k \<and> dget payload k \<noteq> JNull then dput r k (dget payload k) else r) result ks"

definition copy_user_visible_context :: "dict \<Rightarrow> dict \<Rightarrow> dict" where
  "copy_user_visible_context = copy_keys (\<lambda>_ _. True)
     [''reply_language'', ''conversation_language'', ''detected_language'', ''raw_user_input'',
      ''rewritten_question'', ''identity_source'']"

definition copy_backend_context :: "dict \<Rightarrow> dict \<Rightarrow> dict" where
  "copy_backend_context payload result =
     copy_user_visible_context payload
       (copy_keys (\<lambda>r k. dget r k = JNull) [''livechat_group_id'', ''platform''] payload result)"

definition backend_failed ::
  "worker_config \<Rightarrow> time \<Rightarrow> command_row \<Rightarrow> dict \<Rightarrow> string \<Rightarrow> string option \<Rightarrow> cmd_item job" where
  "backend_failed cfg now c result st err =
     andthen (emit_result cfg now c ''backend.query.result'' result None) (\<lambda>res.
     andthen (mark_command_status now (row_id c) st err (wc_max_retries cfg)) (\<lambda>_. ret (item c st err res)))"

definition process_backend_query_command :: "worker_config \<Rightarrow> time \<Rightarrow> command_row \<Rightarrow> cmd_item job" where
  "process_backend_query_command cfg now c =
     (let p = ec_payload c in
      case backend_block_reason cfg of
        Some reason \<Rightarrow>
          backend_failed cfg now c (copy_backend_context p
            [(''status'', JStr ''failed''), (''error_code'', JStr ''FAILED_CONFIG''), (''error_message'', JStr reason)])
            ''FAILED_CONFIG'' (Some reason)
      | None \<Rightarrow>
          andthen (call (wc_services cfg) (BackendQuery
            [(''payload'', JObj p), (''tenant_id'', first_truthy [dget p ''tenant_id'', JStr (ec_tenant_id c)]),
             (''channel_type'', JStr ''livechat''), (''channel_instance_id'', JStr (ec_chat_id c))])) (\<lambda>reply.
          let result = copy_backend_context p (dict_of reply) in
          if dget result ''status'' \<noteq> JStr ''success''
          then backend_failed cfg now c result (str_or ''FAILED_BACKEND_QUERY'' (dget result ''error_code''))
                 (opt_text (dget result ''error_message''))
          else andthen (emit_result cfg now c ''backend.query.result'' result None) (\<lambda>res.
               finish_sent now c ''SENT'' res)))"

definition process_pending_reply_lookup_command :: "worker_config \<Rightarrow> time \<Rightarrow> command_row \<Rightarrow> cmd_item job" where
  "process_pending_reply_lookup_command cfg now c =
     (let p = ec_payload c in
      if \<not> wc_pending cfg then reject cfg now c ''SKIPPED_DISABLED'' ''--execute-pending-reply-lookup is required''
      else andthen (call (wc_services cfg) (PendingLookup
             (first_truthy [dget p ''pending_reply_identity'', dget (dict_of (dget p ''slot_memory'')) ''pending_reply_identity''])
             (text_or ''default'' (Some (ec_tenant_id c))) (conversation_id c))) (\<lambda>reply.
           andthen (emit_result cfg now c ''pending_reply.lookup.result''
             (copy_user_visible_context p (dict_of reply)) None) (\<lambda>res. finish_sent now c ''SENT'' res)))"

section \<open>One command, a batch\<close>

definition process_real_command :: "worker_config \<Rightarrow> time \<Rightarrow> command_row \<Rightarrow> cmd_item job" where
  "process_real_command cfg now c =
     (let t = ec_command_type c in
      if t = ''telegram.remind_case'' then process_telegram_followup_command cfg now c
      else if t \<in> {''telegram.send_case_card'', ''telegram.append_to_case''} then process_telegram_command cfg now c
      else if t = ''backend.query'' then process_backend_query_command cfg now c
      else if t = ''pending_reply.lookup'' then process_pending_reply_lookup_command cfg now c
      else if t \<noteq> ''human_handoff.requested''
      then reject cfg now c ''FAILED_UNSUPPORTED'' (''real execution unsupported for command_type: '' @ t)
      else process_handoff_command cfg now c)"

definition command_blocked_by_human_active :: "command_row \<Rightarrow> bool job" where
  "command_blocked_by_human_active c =
     (if \<not> text_true (conversation_id c) then ret False
      else query (\<lambda>d. case get_by_conversation_id (command_conversation c) d of
             None \<Rightarrow> False | Some conv \<Rightarrow> str_upper (cv_status conv) = ''HUMAN_ACTIVE''))"

definition execute_command :: "worker_config \<Rightarrow> time \<Rightarrow> command_row \<Rightarrow> bool \<Rightarrow> cmd_item job" where
  "execute_command cfg now c blocked =
     (if blocked
      then reject cfg now c ''SKIPPED_HUMAN_ACTIVE'' ''conversation is HUMAN_ACTIVE; external command skipped''
      else if ec_command_type c \<notin> set supported_command_types
      then raise (ValueError (''unsupported command_type: '' @ ec_command_type c))
      else if wc_dry_run cfg then process_dry_run_command cfg now c
      else process_real_command cfg now c)"

definition record_failure :: "worker_config \<Rightarrow> command_row \<Rightarrow> exn \<Rightarrow> cmd_item job" where
  "record_failure cfg c e =
     andthen (exec (ec_mark_processing_failed (row_id c) (exn_text e) (wc_max_retries cfg))) (\<lambda>_.
     ret (item c ''FAILED'' (Some (exn_text e)) None))"

definition process_one_pending_command :: "worker_config \<Rightarrow> time \<Rightarrow> command_row \<Rightarrow> cmd_item job" where
  "process_one_pending_command cfg now c =
     try_except (andthen (command_blocked_by_human_active c) (execute_command cfg now c)) (record_failure cfg c)"

definition process_pending_commands ::
  "worker_config \<Rightarrow> time \<Rightarrow> (nat \<Rightarrow> bool) \<Rightarrow> nat \<Rightarrow> string \<Rightarrow> int \<Rightarrow> cmd_item list job" where
  "process_pending_commands cfg now held limit worker secs =
     (if \<not> validate_execution_mode cfg
      then raise (ValueError (''must pass either --dry-run or --execute-human-handoff, --execute-telegram, '' @
             ''--execute-backend, or --execute-pending-reply-lookup''))
      else andthen (transaction (exec (ec_lease_pending now now held limit worker secs))) (\<lambda>cs.
           each (process_one_pending_command cfg now) cs))"

definition command_limit_target :: "string \<Rightarrow> string option" where
  "command_limit_target t =
     (if t = ''backend.query'' then Some ''backend''
      else if t \<in> set telegram_command_types then Some ''telegram''
      else if t = ''human_handoff.requested'' then Some ''handoff'' else None)"

text \<open>\<open>run_polling_loop\<close> runs this between two batches; the times are those of a monotonic clock.\<close>

definition maybe_recover_expired_leases :: "time \<Rightarrow> int option \<Rightarrow> int \<Rightarrow> int \<Rightarrow> int option job" where
  "maybe_recover_expired_leases now last_at interval clk =
     (if interval \<le> 0 then ret last_at
      else if (case last_at of None \<Rightarrow> False | Some l \<Rightarrow> clk - l < interval) then ret last_at
      else andthen (catching (exec (ec_recover_expired_leases now))) (\<lambda>_. ret (Some clk)))"

record batch_summary =
  bs_processed :: nat
  bs_dry_run_done :: nat
  bs_sent :: nat
  bs_results_emitted :: nat
  bs_failed :: nat
  bs_retryable :: nat
  bs_skipped :: nat
  bs_blocked :: nat

definition summarize_results :: "cmd_item list \<Rightarrow> batch_summary" where
  "summarize_results its =
     (let count = (\<lambda>p. length (filter (\<lambda>i. p (im_status i)) its)) in
      \<lparr>bs_processed = length its, bs_dry_run_done = count (\<lambda>s. s = ''DRY_RUN_DONE''),
       bs_sent = count (\<lambda>s. s = ''SENT''),
       bs_results_emitted = length (filter (\<lambda>i. im_result i \<noteq> None) its),
       bs_failed = count (\<lambda>s. starts_with s ''FAILED''), bs_retryable = count (\<lambda>s. s = ''RETRYABLE''),
       bs_skipped = count (\<lambda>s. starts_with s ''SKIPPED''),
       bs_blocked = count (\<lambda>s. s \<in> {''SKIPPED_DISABLED'', ''WAITING_DEPENDENCY''})\<rparr>)"

end
