(* ===== verification/Service_Calls.thy ===== *)
theory Service_Calls
  imports Sender
begin

text \<open>
  Two properties of computations that the safety proofs of the workers rest on:
  which calls to external services a computation can make at all, and which it
  makes none from databases that satisfy a condition.
\<close>

section \<open>Caught exceptions\<close>

lemma catching_run: "m w = (r, w') \<Longrightarrow> catching m w = (Inr r, w')"
  by (cases r) (auto simp: catching_def try_except_def andthen_def ret_def)

lemma catching_Inr: "catching m w = (Inr (Inr a), w') \<longleftrightarrow> m w = (Inr a, w')"
  by (cases "m w"; cases "fst (m w)") (auto simp: catching_def try_except_def andthen_def ret_def)

lemma catching_Inl: "catching m w = (Inr (Inl e), w') \<longleftrightarrow> m w = (Inl e, w')"
  by (cases "m w"; cases "fst (m w)") (auto simp: catching_def try_except_def andthen_def ret_def)

lemma catching_never_raises: "fst (catching m w) \<noteq> Inl e"
  by (cases "m w"; cases "fst (m w)") (auto simp: catching_def try_except_def andthen_def ret_def)

section \<open>What a step keeps\<close>

lemma keeps_lift: "keeps f (lift x)"
  by (simp add: stays_def lift_def)

lemma keeps_call: "keeps f (call srv c)"
  by (simp add: stays_def call_def split: prod.split)

lemma keeps_catching: "keeps f m \<Longrightarrow> keeps f (catching m)"
  unfolding catching_def by (intro keeps.stays_intros)

section \<open>Calls of a kind\<close>

text \<open>\<open>avoids P m\<close>: whatever fails, \<open>m\<close> makes no call that \<open>P\<close> selects.\<close>

definition avoids :: "('c \<Rightarrow> bool) \<Rightarrow> ('c world, 'a) act \<Rightarrow> bool" where
  "avoids P m \<longleftrightarrow> (\<forall>w. filter P (calls (snd (m w))) = filter P (calls w))"

lemma avoidsD: "avoids P m \<Longrightarrow> m w = (r, w') \<Longrightarrow> filter P (calls w') = filter P (calls w)"
  unfolding avoids_def by (metis snd_conv)

lemma avoids_allD: "(\<And>P. avoids P m) \<Longrightarrow> m w = (r, w') \<Longrightarrow> calls w' = calls w"
  using avoidsD [of "\<lambda>_. True" m w r w'] by simp

lemma avoids_basic:
  "avoids P (ret a)" "avoids P (raise e)" "avoids P (lift x)" "avoids P (stmt f)"
  "avoids P (query g)" "avoids P (exec h)" "avoids P (update u)"
  by (simp_all add: avoids_def ret_def raise_def lift_def query_def exec_def update_def)

lemma avoids_call: "\<not> P c \<Longrightarrow> avoids P (call srv c)"
  by (simp add: avoids_def)

lemma avoids_andthen: "avoids P m \<Longrightarrow> (\<And>a. avoids P (f a)) \<Longrightarrow> avoids P (andthen m f)"
  unfolding avoids_def andthen_def by (auto split: prod.splits sum.splits) (metis snd_conv)+

lemma avoids_try: "avoids P m \<Longrightarrow> (\<And>e. avoids P (h e)) \<Longrightarrow> avoids P (try_except m h)"
  unfolding avoids_def try_except_def by (auto split: prod.splits sum.splits) (metis snd_conv)+

lemma avoids_catching: "avoids P m \<Longrightarrow> avoids P (catching m)"
  unfolding catching_def by (intro avoids_try avoids_andthen avoids_basic)

lemma avoids_restore: "avoids P m \<Longrightarrow>
   avoids P (\<lambda>w. case m w of (Inl e, w') \<Rightarrow> (Inl e, w'\<lparr>store := f w\<rparr>) | (Inr a, w') \<Rightarrow> (Inr a, w'))"
  unfolding avoids_def by (auto split: prod.splits sum.splits) (metis snd_conv)+

lemma avoids_transaction: "avoids P m \<Longrightarrow> avoids P (transaction m)"
  unfolding transaction_def by (intro avoids_andthen avoids_restore avoids_basic)

lemma avoids_each: "(\<And>x. avoids P (f x)) \<Longrightarrow> avoids P (each f xs)"
  by (induction xs) (auto intro: avoids_andthen avoids_basic)

lemma avoids_if: "(b \<Longrightarrow> avoids P m) \<Longrightarrow> (\<not> b \<Longrightarrow> avoids P n) \<Longrightarrow> avoids P (if b then m else n)"
  by simp

lemma avoids_option:
  "avoids P m \<Longrightarrow> (\<And>x. avoids P (f x)) \<Longrightarrow> avoids P (case y of None \<Rightarrow> m | Some x \<Rightarrow> f x)"
  by (simp split: option.split)

lemma avoids_sum:
  "(\<And>x. avoids P (f x)) \<Longrightarrow> (\<And>y. avoids P (g y)) \<Longrightarrow> avoids P (case s of Inl x \<Rightarrow> f x | Inr y \<Rightarrow> g y)"
  by (simp split: sum.split)

lemma avoids_prod: "(\<And>x y. avoids P (f x y)) \<Longrightarrow> avoids P (case p of (x, y) \<Rightarrow> f x y)"
  by (simp split: prod.split)

lemmas avoids_intros = avoids_andthen avoids_try avoids_catching avoids_transaction avoids_each avoids_if
  avoids_option avoids_sum avoids_prod avoids_basic

section \<open>No calls while a condition holds\<close>

text \<open>
  \<open>quiet P Q m\<close>: from a database that satisfies \<open>P\<close>, the computation makes no call,
  keeps \<open>P\<close> and returns values that satisfy \<open>Q\<close>, whatever statements fail.
\<close>

definition quiet :: "(db \<Rightarrow> bool) \<Rightarrow> ('a \<Rightarrow> bool) \<Rightarrow> 'a job \<Rightarrow> bool" where
  "quiet P Q m \<longleftrightarrow> (\<forall>w r w'. m w = (r, w') \<longrightarrow> P (store w) \<longrightarrow>
     P (store w') \<and> calls w' = calls w \<and> (\<forall>a. r = Inr a \<longrightarrow> Q a))"

abbreviation anything :: "'a \<Rightarrow> bool" where
  "anything \<equiv> (\<lambda>_. True)"

lemma quietD: "quiet P Q m \<Longrightarrow> P (store w) \<Longrightarrow> calls (snd (m w)) = calls w"
  unfolding quiet_def by (metis prod.collapse)

lemma quiet_ret: "Q a \<Longrightarrow> quiet P Q (ret a)"
  by (simp add: quiet_def ret_def)

lemma quiet_lift: "quiet P anything (lift x)"
  by (simp add: quiet_def lift_def)

lemma quiet_stmt:
  assumes "\<And>d a d'. P d \<Longrightarrow> f d = Inr (a, d') \<Longrightarrow> P d' \<and> Q a"
  shows "quiet P Q (stmt f)"
  unfolding quiet_def
proof (intro allI impI)
  fix w r w'
  assume "stmt f w = (r, w')" "P (store w)"
  then show "P (store w') \<and> calls w' = calls w \<and> (\<forall>a. r = Inr a \<longrightarrow> Q a)"
    using assms by (cases rule: stmt_cases [of f w]) auto
qed

lemma quiet_query: "(\<And>d. P d \<Longrightarrow> Q (f d)) \<Longrightarrow> quiet P Q (query f)"
  unfolding query_def by (rule quiet_stmt) auto

lemma quiet_update: "(\<And>d. P d \<Longrightarrow> P (f d)) \<Longrightarrow> quiet P anything (update f)"
  unfolding update_def by (rule quiet_stmt) auto

lemma quiet_andthen: "quiet P Q m \<Longrightarrow> (\<And>a. Q a \<Longrightarrow> quiet P R (f a)) \<Longrightarrow> quiet P R (andthen m f)"
  unfolding quiet_def andthen_def by (simp split: prod.splits sum.splits) metis

lemma quiet_catching: "quiet P Q m \<Longrightarrow> quiet P (\<lambda>x. case x of Inl _ \<Rightarrow> True | Inr a \<Rightarrow> Q a) (catching m)"
  unfolding quiet_def catching_def try_except_def andthen_def ret_def
  by (simp split: prod.splits sum.splits)

lemma quiet_reads: "quiet P anything (query f)" "quiet P anything (catching (query f))"
  unfolding catching_def query_def stmt_def quiet_def try_except_def andthen_def ret_def
  by (simp_all split: list.splits bool.splits)

lemma quiet_if: "(b \<Longrightarrow> quiet P Q m) \<Longrightarrow> (\<not> b \<Longrightarrow> quiet P Q n) \<Longrightarrow> quiet P Q (if b then m else n)"
  by simp

end
