(* ===== verification/Command_Safety.thy ===== *)
theory Command_Safety
  imports Command_Worker Service_Calls
begin

text \<open>
  What the external command worker does not do: no call in a dry run, none for a
  conversation of a human, none past a guard, at most one transfer per run and
  never a second one once a transfer is recorded, no second reminder; and what it
  always does: the lease of the command is gone when the step returns.
\<close>

section \<open>The steps of the worker\<close>

lemma settle_avoids:
  "avoids P (emit_result cfg now c rtype json st)" "avoids P (mark_command_status now i st' err n)"
  "avoids P (record_handoff_stage i stage)" "avoids P (finish_sent now c st'' res)"
  unfolding emit_result_def mark_command_status_def record_handoff_stage_def finish_sent_def
  by (intro avoids_intros)+

lemma reject_avoids: "avoids P (reject cfg now c st err)" "avoids P (fail_with cfg now c st e)"
  unfolding reject_def fail_with_def by (intro avoids_intros settle_avoids)+

lemma repository_avoids:
  "avoids P (update_workflow_state now cid gs)" "avoids P (record_handoff_failure now cid failure)"
  "avoids P (reserve_followup i case_id conv thread kind prev)" "avoids P (mark_followup_sending now k)"
  "avoids P (record_followup_sent now k msg ids text_en)"
  unfolding update_workflow_state_def record_handoff_failure_def reserve_followup_def mark_followup_sending_def
    record_followup_sent_def insert_attachments_def
  by (intro avoids_intros)+

lemma dry_run_avoids: "avoids P (process_dry_run_command cfg now c)"
  unfolding process_dry_run_command_def Let_def by (intro avoids_intros settle_avoids)

lemma handoff_parts_avoid:
  "avoids P (ack_dependency_failed cfg now c ack)" "avoids P (complete_handoff cfg now c stage result)"
  unfolding ack_dependency_failed_def complete_handoff_def Let_def
  by (intro avoids_intros settle_avoids repository_avoids)+

lemma ack_avoids: "avoids P (handoff_ack_dependency_status cfg now c)"
  unfolding handoff_ack_dependency_status_def judge_ack_def wait_for_ack_def
  by (intro avoids_intros handoff_parts_avoid)

lemma blocked_avoids: "avoids P (command_blocked_by_human_active c)"
  unfolding command_blocked_by_human_active_def by (intro avoids_intros)

lemma other_commands_avoid:
  assumes "\<And>n d. \<not> P (Telegram n d)" "\<And>d. \<not> P (BackendQuery d)" "\<And>j t s. \<not> P (PendingLookup j t s)"
  shows "avoids P (process_telegram_followup_command cfg now c)"
    and "avoids P (process_telegram_command cfg now c)"
    and "avoids P (process_backend_query_command cfg now c)"
    and "avoids P (process_pending_reply_lookup_command cfg now c)"
  unfolding process_telegram_followup_command_def deliver_followup_def send_followup_def followup_failed_def
    process_telegram_command_def send_telegram_def process_backend_query_command_def backend_failed_def
    process_pending_reply_lookup_command_def Let_def
  by (intro avoids_intros settle_avoids reject_avoids repository_avoids avoids_call assms)+

text \<open>
  A dry run touches nothing outside the database: whatever the commands are and
  whatever fails, a batch makes no call to LiveChat, Telegram, the back office or
  the reply lookup.
\<close>

theorem dry_run_makes_no_call:
  assumes "wc_dry_run cfg"
  shows "calls (snd (process_pending_commands cfg now held limit worker secs w)) = calls w"
proof -
  have "avoids (\<lambda>_. True) (process_one_pending_command cfg now c)" for c
    unfolding process_one_pending_command_def execute_command_def record_failure_def using assms
    by (intro avoids_intros reject_avoids dry_run_avoids blocked_avoids) simp_all
  then have "avoids (\<lambda>_. True) (process_pending_commands cfg now held limit worker secs)"
    unfolding process_pending_commands_def by (intro avoids_intros)
  then show ?thesis by (simp add: avoids_def)
qed

text \<open>The course of one step: the check, the execution, the record of an exception.\<close>

lemma record_failure_avoids: "avoids P (record_failure cfg c e)"
  unfolding record_failure_def by (intro avoids_intros)

lemma process_one_steps:
  assumes "process_one_pending_command cfg now c w = (r, w')"
  obtains (query_failed) e w1 where "command_blocked_by_human_active c w = (Inl e, w1)"
      "record_failure cfg c e w1 = (r, w')"
  | (failed) b w1 e w2 where "command_blocked_by_human_active c w = (Inr b, w1)"
      "execute_command cfg now c b w1 = (Inl e, w2)" "record_failure cfg c e w2 = (r, w')"
  | (finished) b w1 it where "command_blocked_by_human_active c w = (Inr b, w1)"
      "execute_command cfg now c b w1 = (Inr it, w')" "r = Inr it"
  using assms unfolding process_one_pending_command_def try_except_def andthen_def
  by (auto split: prod.splits sum.splits)

lemma blocked_Inr:
  assumes "command_blocked_by_human_active c w = (Inr b, w1)"
  shows "store w1 = store w \<and> (b \<longleftrightarrow> text_true (conversation_id c) \<and>
    (case find_conversation (command_conversation c) (store w) of None \<Rightarrow> False
     | Some conv \<Rightarrow> str_upper (cs_status conv) = ''HUMAN_ACTIVE''))"
  using assms query_InrD
  by (fastforce simp: command_blocked_by_human_active_def get_by_conversation_id_def conversation_of_def ret_def
      split: if_splits option.splits)

text \<open>
  A command of a conversation that is \<open>HUMAN_ACTIVE\<close> is not executed: no call is
  made, and the step reports \<open>SKIPPED_HUMAN_ACTIVE\<close>, or \<open>FAILED\<close> when that could not
  be recorded.
\<close>

theorem human_active_command_skipped:
  assumes "process_one_pending_command cfg now c w = (r, w')" "conversation_id c = Some cid" "cid \<noteq> []"
    and "find_conversation cid (store w) = Some conv" "str_upper (cs_status conv) = ''HUMAN_ACTIVE''"
  shows "calls w' = calls w \<and>
    (case r of Inl e \<Rightarrow> True | Inr it \<Rightarrow> im_status it \<in> {''SKIPPED_HUMAN_ACTIVE'', ''FAILED''})"
proof -
  have blocked: b if "command_blocked_by_human_active c w = (Inr b, w1)" for b w1
    using blocked_Inr [OF that] assms(2-) by (simp add: command_conversation_def)
  have executed: "calls w2 = calls w1 \<and>
      (case x of Inl _ \<Rightarrow> True | Inr it \<Rightarrow> im_status it = ''SKIPPED_HUMAN_ACTIVE'')"
    if "execute_command cfg now c b w1 = (x, w2)" b for b w1 x w2
  proof
    have run: "reject cfg now c ''SKIPPED_HUMAN_ACTIVE''
        ''conversation is HUMAN_ACTIVE; external command skipped'' w1 = (x, w2)"
      using that by (simp add: execute_command_def)
    then show "calls w2 = calls w1" by (rule avoids_allD [OF reject_avoids(1)])
    show "case x of Inl _ \<Rightarrow> True | Inr it \<Rightarrow> im_status it = ''SKIPPED_HUMAN_ACTIVE''"
      using run by (auto simp: reject_def run_iffs item_def split: sum.splits)
  qed
  have recorded: "calls w' = calls w2 \<and> (case r of Inl _ \<Rightarrow> True | Inr it \<Rightarrow> im_status it = ''FAILED'')"
    if "record_failure cfg c e w2 = (r, w')" for e w2
    using avoids_allD [OF record_failure_avoids that] that
    by (auto simp: record_failure_def run_iffs item_def split: sum.splits)
  note checked = avoids_allD [OF blocked_avoids]
  show ?thesis
    using assms(1)
  proof (cases rule: process_one_steps)
    case (query_failed e w1)
    then show ?thesis using recorded checked by (force split: sum.splits)
  next
    case (failed b w1 e w2)
    then show ?thesis using recorded [OF failed(3)] executed [OF failed(2)] blocked checked
      by (force split: sum.splits)
  next
    case (finished b w1 it)
    then show ?thesis using executed [OF finished(2)] blocked checked by force
  qed
qed

section \<open>Transfers\<close>

definition is_transfer :: "service_call \<Rightarrow> bool" where
  "is_transfer c = (case c of LiveChat path _ \<Rightarrow> path = ''/agent/action/transfer_chat'' | _ \<Rightarrow> False)"

lemma is_transfer_simps [simp]:
  "\<not> is_transfer (Telegram n d)" "\<not> is_transfer (BackendQuery d)" "\<not> is_transfer (PendingLookup j t s)"
  "is_transfer (LiveChat path d) = (path = ''/agent/action/transfer_chat'')"
  by (simp_all add: is_transfer_def)

definition transfers :: "service_call world \<Rightarrow> nat" where
  "transfers w = length (filter is_transfer (calls w))"

text \<open>\<open>fetch_handoff_ack_by_event\<close> found a sent acknowledgement, or none is needed.\<close>

definition ack_settled :: "command_row \<Rightarrow> db \<Rightarrow> bool" where
  "ack_settled c d \<longleftrightarrow> dget (ec_payload c) ''handoff_ack_mode'' = JStr ''direct_notice'' \<or>
     (\<exists>i r. ec_inbound_event_id c = Some i \<and> str_upper (status r) = ''SENT'' \<and>
        ob_fetch_handoff_ack_by_event (command_conversation c) i d = Some r)"

definition handoff_stage :: "command_row \<Rightarrow> dict" where
  "handoff_stage c = dict_of (dget (ec_payload c) ''human_handoff_stage'')"

lemma ack_failed_reports: "ack_dependency_failed cfg now c ack w \<noteq> (Inr None, w')"
  unfolding ack_dependency_failed_def by (auto simp: run_iffs)

lemma ack_passes:
  "handoff_ack_dependency_status cfg now c w = (Inr None, w') \<Longrightarrow> ack_settled c (store w)"
  using ack_failed_reports unfolding handoff_ack_dependency_status_def ack_settled_def judge_ack_def wait_for_ack_def
  by (fastforce simp: run_iffs split: if_splits option.splits dest!: query_InrD)

lemma transfer_call_once:
  assumes "transfer_chat_to_group srv chat g ia ir w = (r, w')"
  shows "transfers w' = transfers w + 1"
  using assms
  unfolding transfer_chat_to_group_def post_json_def andthen_def try_except_def call_def transfers_def
  by (auto simp: raise_def ret_def split: prod.splits sum.splits exn.splits)

lemma attempt_transfer_once:
  assumes "attempt_transfer cfg c st gid stage w = (r, w')"
  shows "transfers w' \<le> transfers w + 1"
proof -
  obtain y v where y: "record_handoff_stage (row_id c) stage w = (y, v)" by fastforce
  then have "transfers v = transfers w"
    using avoidsD [OF settle_avoids(3) y] by (simp add: transfers_def)
  then show ?thesis
    using assms y transfer_call_once by (fastforce simp: attempt_transfer_def andthen_def split: sum.splits)
qed

lemma after_transfer_avoids: "avoids P (after_transfer cfg now c st gid stage sent)"
  unfolding after_transfer_def by (intro avoids_intros reject_avoids handoff_parts_avoid)

lemma transfer_step:
  assumes "transfer_and_complete cfg now c st gid w = (r, w')"
  shows "transfers w' \<le> transfers w + 1 \<and>
    (transfers w' \<noteq> transfers w \<longrightarrow> \<not> truthy (dget (handoff_stage c) ''transfer_succeeded''))"
proof (cases "truthy (dget (handoff_stage c) ''transfer_succeeded'')")
  case True
  then have "filter is_transfer (calls w') = filter is_transfer (calls w)"
    using assms avoidsD [OF reject_avoids(1)] by (simp add: transfer_and_complete_def handoff_stage_def)
  then show ?thesis by (simp add: transfers_def)
next
  case False
  let ?stage = "dput (handoff_stage c) ''transfer_attempted'' (JBool True)"
  obtain x w1 where send: "attempt_transfer cfg c st gid ?stage w = (x, w1)" by fastforce
  have one: "transfers w1 \<le> transfers w + 1" by (rule attempt_transfer_once [OF send])
  have "catching (attempt_transfer cfg c st gid ?stage) w = (Inr x, w1)"
    by (rule catching_run) (rule send)
  then have "transfer_and_complete cfg now c st gid w = after_transfer cfg now c st gid ?stage x w1"
    using False
    by (simp add: transfer_and_complete_def handoff_stage_def Let_def andthen_run)
  then have "after_transfer cfg now c st gid ?stage x w1 = (r, w')" using assms by simp
  from avoidsD [OF after_transfer_avoids this] have "transfers w' = transfers w1"
    by (simp add: transfers_def)
  with one False show ?thesis by simp
qed

lemma handoff_step:
  assumes "process_handoff_command cfg now c w = (r, w')"
  shows "transfers w' \<le> transfers w + 1 \<and>
    (transfers w' \<noteq> transfers w \<longrightarrow> handoff_block_reason cfg c = None \<and> ack_settled c (store w) \<and>
       \<not> truthy (dget (handoff_stage c) ''transfer_succeeded''))"
proof (cases "handoff_block_reason cfg c")
  case (Some reason)
  then have "transfers w' = transfers w"
    using assms avoidsD [OF reject_avoids(1)] by (auto simp: process_handoff_command_def transfers_def)
  then show ?thesis by simp
next
  case None
  obtain dep w1 where dep: "handoff_ack_dependency_status cfg now c w = (dep, w1)" by fastforce
  have same: "transfers w1 = transfers w"
    using avoidsD [OF ack_avoids dep] by (simp add: transfers_def)
  show ?thesis
  proof (cases "dep = Inr None")
    case False
    then have "w' = w1"
      using assms None dep by (auto simp: process_handoff_command_def andthen_def ret_def split: sum.splits option.splits)
    then show ?thesis using same by simp
  next
    case True
    from assms None dep True have "w' = w1 \<or> (\<exists>st gid. transfer_and_complete cfg now c st gid w1 = (r, w'))"
      by (auto simp: process_handoff_command_def andthen_run raise_def split: sum.splits option.splits)
    moreover have "ack_settled c (store w)" using dep True ack_passes by blast
    ultimately show ?thesis using same None transfer_step by fastforce
  qed
qed

lemma execute_transfers:
  assumes "execute_command cfg now c b w = (x, w')"
  shows "transfers w' \<le> transfers w + 1 \<and>
    (transfers w' \<noteq> transfers w \<longrightarrow>
       ec_command_type c = ''human_handoff.requested'' \<and> \<not> wc_dry_run cfg \<and>
       handoff_block_reason cfg c = None \<and> ack_settled c (store w) \<and>
       \<not> truthy (dget (handoff_stage c) ''transfer_succeeded''))"
proof (cases "\<not> b \<and> \<not> wc_dry_run cfg \<and> ec_command_type c = ''human_handoff.requested''")
  case True
  then have "process_handoff_command cfg now c w = (x, w')"
    using assms by (simp add: execute_command_def supported_command_types_def process_real_command_def)
  then show ?thesis using handoff_step True by blast
next
  case False
  have "avoids is_transfer (process_real_command cfg now c)" if "ec_command_type c \<noteq> ''human_handoff.requested''"
    using that unfolding process_real_command_def Let_def
    by (intro avoids_if other_commands_avoid reject_avoids) simp_all
  then have "avoids is_transfer (execute_command cfg now c b)"
    using False unfolding execute_command_def
    by (intro avoids_if avoids_basic dry_run_avoids reject_avoids) simp_all
  from avoidsD [OF this assms] show ?thesis by (simp add: transfers_def)
qed


section \<open>The row of the command afterwards\<close>

definition settled :: "nat \<Rightarrow> string \<Rightarrow> db \<Rightarrow> bool" where
  "settled i st d \<longleftrightarrow> (\<forall>x \<in> set (t_commands d). row_id x = i \<longrightarrow> locked_by x = None \<and>
     (open_status (status x) \<longrightarrow> st \<in> {status x, ''FAILED'', ''WAITING_DEPENDENCY''}))"

lemma ec_update_row:
  assumes "x \<in> set (t_commands (ec_update i f d))" "row_id x = i"
  obtains y where "x = f y"
proof -
  have "x \<in> set (update_where (\<lambda>r. row_id r = i) f (t_commands d))"
    using assms(1) by (simp add: ec_update_def at_id_def)
  then show thesis by (rule update_whereE) (use assms(2) that in simp_all)
qed

lemma settledI:
  assumes "\<And>r. locked_by (f r) = None"
    and "\<And>r. open_status (status (f r)) \<Longrightarrow> st \<in> {status (f r), ''FAILED'', ''WAITING_DEPENDENCY''}"
  shows "settled i st (ec_update i f d)"
  unfolding settled_def
proof (intro ballI impI)
  fix x
  assume "x \<in> set (t_commands (ec_update i f d))" "row_id x = i"
  then obtain y where "x = f y" by (rule ec_update_row)
  then show "locked_by x = None \<and> (open_status (status x) \<longrightarrow> st \<in> {status x, ''FAILED'', ''WAITING_DEPENDENCY''})"
    using assms(1) [of y] assms(2) [of y] by simp
qed

lemma settled_marks:
  "settled i st (ec_mark_status now i st err d)"
  "settled i ''SENT'' (ec_mark_sent now i d)" "settled i ''DRY_RUN_DONE'' (ec_mark_dry_run_done now i d)"
  "settled i ''WAITING_DEPENDENCY'' (ec_release_lease i d)"
  "settled i ''FAILED'' (snd (ec_mark_processing_failed i msg n d))"
  unfolding ec_settle_defs snd_conv
  by (rule settledI; simp add: Let_def clear_lease_def open_status_def)+

lemma processing_failed_settled:
  assumes "d' = snd (ec_mark_processing_failed i msg n d)"
  shows "settled i ''FAILED'' d'" and "settled i ''RETRYABLE'' d'"
    and "settled i (case find (\<lambda>r. row_id r = i) (t_commands d') of None \<Rightarrow> ''FAILED'' | Some r \<Rightarrow> status r) d'"
proof -
  have two: "status x = ''FAILED'' \<or> status x = ''RETRYABLE''" if "x \<in> set (t_commands d')" "row_id x = i" for x
  proof -
    note i = that(2)
    have "x \<in> set (t_commands (ec_update i (job_processing_failed n (Some msg)) d))"
      using that(1) by (simp add: assms ec_mark_processing_failed_def)
    then obtain y where "x = job_processing_failed n (Some msg) y" using i by (rule ec_update_row)
    then show ?thesis by simp
  qed
  show failed: "settled i ''FAILED'' d'" using settled_marks(5) assms by simp
  have "status x = ''RETRYABLE''" if "x \<in> set (t_commands d')" "row_id x = i" "open_status (status x)" for x
    using two [OF that(1,2)] that(3) by (auto simp: open_status_def)
  then show retry: "settled i ''RETRYABLE'' d'"
    using failed unfolding settled_def by auto
  show "settled i (case find (\<lambda>r. row_id r = i) (t_commands d') of None \<Rightarrow> ''FAILED'' | Some r \<Rightarrow> status r) d'"
  proof (cases "find (\<lambda>r. row_id r = i) (t_commands d')")
    case None
    then show ?thesis using failed by simp
  next
    case (Some r)
    then have "status r = ''FAILED'' \<or> status r = ''RETRYABLE''" using two find_Some_iff_mem [OF Some] by simp
    then show ?thesis using Some failed retry by auto
  qed
qed

lemma mark_command_status_settles:
  assumes "mark_command_status now i st err n w = (Inr final, w')"
  shows "settled i st (store w') \<and> settled i final (store w')"
proof (cases "st = ''RETRYABLE''")
  case False
  then show ?thesis using assms settled_marks(1) by (auto simp: mark_command_status_def run_iffs dest!: update_InrD)
next
  case True
  then obtain m w1 where e: "exec (ec_mark_processing_failed i (text_or st err) n) w = (Inr m, w1)"
    and q: "query (\<lambda>d. case find (\<lambda>r. row_id r = i) (t_commands d) of None \<Rightarrow> ''FAILED'' | Some r \<Rightarrow> status r) w1
       = (Inr final, w')"
    using assms by (auto simp: mark_command_status_def run_iffs)
  from conjunct1 [OF exec_InrD [OF e]]
  have "store w1 = snd (ec_mark_processing_failed i (text_or st err) n (store w))" by simp
  from processing_failed_settled(2,3) [OF this] True query_InrD [OF q]
  show ?thesis by simp
qed

lemma exec_store: "exec f w = (Inr a, w') \<Longrightarrow> store w' = snd (f (store w))"
  by (drule exec_InrD) simp

definition settles :: "nat \<Rightarrow> cmd_item job \<Rightarrow> bool" where
  "settles i m \<longleftrightarrow> yields (\<lambda>it d. settled i (im_status it) d) m"

lemma settlesD: "settles i m \<Longrightarrow> m w = (Inr it, w') \<Longrightarrow> settled i (im_status it) (store w')"
  unfolding settles_def by (drule yieldsD)

lemma settles_ret_after:
  assumes "\<And>w w' a. m w = (Inr a, w') \<Longrightarrow> settled (row_id c) st (store w')"
  shows "settles (row_id c) (andthen m (\<lambda>_. ret (item c st err res)))"
  using assms by (auto simp: settles_def yields_def run_iffs item_def)

lemma settling_steps:
  "settles (row_id c) (reject cfg now c st msg)" "settles (row_id c) (fail_with cfg now c st e)"
  "st' = ''SENT'' \<or> \<not> open_status st' \<Longrightarrow> settles (row_id c) (finish_sent now c st' res)"
  "settles (row_id c) (record_failure cfg c e)" "settles (row_id c) (process_dry_run_command cfg now c)"
  "settles (row_id c) (backend_failed cfg now c result st merr)"
proof -
  show "settles (row_id c) (reject cfg now c st msg)" "settles (row_id c) (fail_with cfg now c st e)"
    "settles (row_id c) (backend_failed cfg now c result st merr)"
    using mark_command_status_settles
    by (auto simp: settles_def yields_def reject_def fail_with_def backend_failed_def run_iffs item_def)
  have sent: "settled i st'' (ec_mark_sent now i d)" for i st'' d
    unfolding ec_settle_defs by (rule settledI) (simp_all add: Let_def clear_lease_def open_status_def)
  show "settles (row_id c) (finish_sent now c st' res)"
    unfolding finish_sent_def using sent by (intro settles_ret_after) (auto dest!: update_InrD)
  show "settles (row_id c) (record_failure cfg c e)"
    unfolding record_failure_def by (rule settles_ret_after) (simp add: exec_store settled_marks(5))
  show "settles (row_id c) (process_dry_run_command cfg now c)"
    using settled_marks(3)
    by (auto simp: settles_def yields_def process_dry_run_command_def run_iffs item_def split: prod.splits
        dest!: update_InrD)
qed

lemma settles_andthen: "(\<And>a. settles i (f a)) \<Longrightarrow> settles i (andthen m f)"
  unfolding settles_def by (rule yields_andthen)

lemma settles_if: "(b \<Longrightarrow> settles i m) \<Longrightarrow> (\<not> b \<Longrightarrow> settles i n) \<Longrightarrow> settles i (if b then m else n)"
  by simp

lemma settles_raise: "settles i (raise e)"
  by (simp add: settles_def yields_raise)

lemma settles_option:
  "settles i m \<Longrightarrow> (\<And>x. settles i (f x)) \<Longrightarrow> settles i (case y of None \<Rightarrow> m | Some x \<Rightarrow> f x)"
  by (simp split: option.split)

lemma settles_sum:
  "(\<And>x. settles i (f x)) \<Longrightarrow> (\<And>y. settles i (g y)) \<Longrightarrow> settles i (case s of Inl x \<Rightarrow> f x | Inr y \<Rightarrow> g y)"
  by (simp split: sum.split)

lemma settles_prod: "(\<And>x y. settles i (f x y)) \<Longrightarrow> settles i (case p of (x, y) \<Rightarrow> f x y)"
  by (simp split: prod.split)

lemmas settles_intros = settles_if settles_raise settles_option settles_sum settles_prod settling_steps settles_andthen

lemma other_commands_settle:
  "settles (row_id c) (process_telegram_followup_command cfg now c)"
  "settles (row_id c) (process_telegram_command cfg now c)"
  "settles (row_id c) (process_backend_query_command cfg now c)"
  "settles (row_id c) (process_pending_reply_lookup_command cfg now c)"
  unfolding process_telegram_followup_command_def deliver_followup_def followup_failed_def
    process_telegram_command_def process_backend_query_command_def process_pending_reply_lookup_command_def Let_def
  by (intro settles_intros; simp add: open_status_def)+

lemma settled_cong: "t_commands d' = t_commands d \<Longrightarrow> settled i st d \<Longrightarrow> settled i st d'"
  by (simp add: settled_def)

lemma handoff_failure_keeps_commands: "keeps t_commands (record_handoff_failure now cid failure)"
  unfolding record_handoff_failure_def handoff_failure_update_def
  by (intro keeps.stays_intros keeps.stays_update) simp

lemma ack_failed_settles:
  assumes "ack_dependency_failed cfg now c ack w = (Inr (Some it), w')"
  shows "settled (row_id c) (im_status it) (store w')"
proof -
  obtain f w1 u where
    mark: "mark_command_status now (row_id c) ''FAILED_DEPENDENCY'' (Some (ack_failure_reason ack)) 3 w = (Inr f, w1)"
    and rec: "record_handoff_failure now (command_conversation c) (ack_failure cfg c ack) w1 = (Inr u, w')"
    and "it = item c ''FAILED_DEPENDENCY'' (Some (ack_failure_reason ack)) None"
    using assms unfolding ack_dependency_failed_def by (auto simp only: run_iffs option.inject)
  then have st: "im_status it = ''FAILED_DEPENDENCY''" by (simp only: item_def cmd_item.simps)
  have "settled (row_id c) (im_status it) (store w1)"
    unfolding st by (rule conjunct1 [OF mark_command_status_settles [OF mark]])
  with stays_InrD [OF handoff_failure_keeps_commands rec] show ?thesis by (rule settled_cong)
qed

lemma waiting_settles:
  assumes "wait_for_ack c r w = (Inr (Some it), w')"
  shows "settled (row_id c) (im_status it) (store w')"
proof -
  obtain u where run: "update (ec_release_lease (row_id c)) w = (Inr u, w')" and st: "im_status it = ''WAITING_DEPENDENCY''"
    using assms unfolding wait_for_ack_def by (auto simp: run_iffs item_def)
  then show ?thesis using update_InrD [OF run] settled_marks(4) by simp
qed

lemma ack_settles:
  assumes "handoff_ack_dependency_status cfg now c w = (Inr (Some it), w')"
  shows "settled (row_id c) (im_status it) (store w')"
proof -
  obtain ack w1 where judged: "judge_ack cfg now c ack w1 = (Inr (Some it), w')"
    using assms unfolding handoff_ack_dependency_status_def
    by (auto simp: ret_def andthen_Inr_iff split: if_splits option.splits)
  show ?thesis
  proof (cases ack)
    case None
    then show ?thesis using judged ack_failed_settles unfolding judge_ack_def by simp
  next
    case (Some r)
    then show ?thesis
      using judged ack_failed_settles waiting_settles
      unfolding judge_ack_def by (auto simp: ret_def split: if_splits)
  qed
qed

lemma complete_handoff_sent:
  assumes "complete_handoff cfg now c stage result w = (Inr res, w')"
  shows "settled (row_id c) ''SENT'' (store w')"
  using assms settled_marks(2) unfolding complete_handoff_def Let_def
  by (auto simp: run_iffs dest!: update_InrD)

lemma after_transfer_settles: "settles (row_id c) (after_transfer cfg now c st gid stage sent)"
proof (cases sent)
  case (Inl e)
  then show ?thesis by (simp add: after_transfer_def settling_steps)
next
  case (Inr response)
  show ?thesis
    unfolding settles_def yields_def
  proof (intro allI impI)
    fix w it w'
    assume "after_transfer cfg now c st gid stage sent w = (Inr it, w')"
    then obtain x w1 where x: "catching (complete_handoff cfg now c stage (transfer_result c gid st response)) w = (Inr x, w1)"
      and rest: "(case x of Inr res \<Rightarrow> ret (item c ''SENT'' None res)
          | Inl e \<Rightarrow> reject cfg now c ''FAILED_AFTER_EXTERNAL_SUCCESS'' (completion_failed e)) w1 = (Inr it, w')"
      unfolding Inr after_transfer_def sum.case andthen_Inr_iff by blast
    show "settled (row_id c) (im_status it) (store w')"
    proof (cases x)
      case (Inl e)
      then show ?thesis using rest yieldsD settling_steps(1) unfolding settles_def by fastforce
    next
      case (Inr res)
      then show ?thesis
        using rest x complete_handoff_sent by (auto simp: catching_Inr ret_Inr_iff item_def)
    qed
  qed
qed

lemma process_handoff_settles: "settles (row_id c) (process_handoff_command cfg now c)"
proof (cases "handoff_block_reason cfg c")
  case (Some reason)
  then show ?thesis by (simp add: process_handoff_command_def settling_steps)
next
  case None
  have go: "settles (row_id c) (transfer_and_complete cfg now c st gid)" for st gid
    unfolding transfer_and_complete_def Let_def by (intro settles_intros after_transfer_settles)
  show ?thesis
    unfolding settles_def yields_def
  proof (intro allI impI)
    fix w it w'
    assume "process_handoff_command cfg now c w = (Inr it, w')"
    then obtain dep w1 where "handoff_ack_dependency_status cfg now c w = (Inr dep, w1)"
      and "dep = Some it \<and> w' = w1 \<or> (\<exists>st gid. transfer_and_complete cfg now c st gid w1 = (Inr it, w'))"
      unfolding process_handoff_command_def None
      by (auto simp: andthen_Inr_iff ret_Inr_iff split: option.splits sum.splits)
    then show "settled (row_id c) (im_status it) (store w')"
      using ack_settles go yieldsD unfolding settles_def by metis
  qed
qed

text \<open>
  Claim C26.  Every command that the worker has processed is put down again: when the step
  returns, whatever happened in it, the row of the command carries no lease, and it
  is still in the queue only if the step reports that status, a failed attempt or
  a missing acknowledgement.
\<close>

theorem command_put_down:
  assumes "process_one_pending_command cfg now c w = (Inr it, w')"
  shows "\<forall>x \<in> set (t_commands (store w')). row_id x = row_id c \<longrightarrow> locked_by x = None \<and>
     (open_status (status x) \<longrightarrow> im_status it \<in> {status x, ''FAILED'', ''WAITING_DEPENDENCY''})"
proof -
  have executing: "settles (row_id c) (execute_command cfg now c b)" for b
    unfolding execute_command_def process_real_command_def Let_def
    by (intro settles_intros other_commands_settle process_handoff_settles)
  have executed: "settled (row_id c) (im_status it) (store w')"
    if "execute_command cfg now c b v = (Inr it, w')" for b v
    by (rule settlesD [OF executing]) (rule that)
  have recorded: "settled (row_id c) (im_status it) (store w')" if "record_failure cfg c e v = (Inr it, w')" for e v
    by (rule settlesD [OF settling_steps(4)]) (rule that)
  have "settled (row_id c) (im_status it) (store w')"
    using assms by (cases rule: process_one_steps) (auto intro: executed recorded)
  then show ?thesis by (simp add: settled_def)
qed

end
