(* ===== verification/Witnesses.thy ===== *)
theory Witnesses
  imports Command_Safety
begin

text \<open>
  Concrete runs that instantiate the properties of the component theories: a
  database, a sequence of calls, and the property applied to it.
\<close>

section \<open>Samples\<close>

definition fresh_world :: "db \<Rightarrow> service_call world" where
  "fresh_world d = \<lparr>store = d, faults = [], calls = []\<rparr>"

definition customer_event :: "nat \<Rightarrow> inbound_event" where
  "customer_event n = agent_reply\<lparr>ev_dedup_key := nat_str n, ev_sender_role := ''customer'',
     ev_payload := [(''text'', JStr ''hello'')], ev_ignored := False\<rparr>"

definition sample_command :: command_in where
  "sample_command = \<lparr>ci_tenant_id = None, ci_conversation_id = ''livechat:C1:T1'', ci_chat_id = Some ''C1'',
     ci_thread_id = Some ''T1'', ci_inbound_event_id = Some 1, ci_command_type = ''backend.query'',
     ci_payload = [(''platform'', JStr ''JG7'')], ci_status = None, ci_retry_count = 0,
     ci_last_error = None, ci_dedup_key = None\<rparr>"

definition sample_message :: message_in where
  "sample_message = \<lparr>mi_conversation_id = ''livechat:C1:T1'', mi_tenant_id = None, mi_channel_type = None,
     mi_chat_id = Some ''C1'', mi_thread_id = Some ''T1'', mi_inbound_event_id = Some 1,
     mi_outbound_message_id = None, mi_external_result_id = None, mi_sender_role = ''customer'',
     mi_message_type = Some ''text'', mi_text = Some ''hello'', mi_attachments = [],
     mi_source = ''livechat'', mi_occurred_at = None\<rparr>"

definition sample_reply :: outbound_in where
  "sample_reply = plain_reply\<lparr>oi_conversation_id := Some ''livechat:C1:T1'', oi_block_index := Some 0,
     oi_payload := [(''text'', JStr ''hi'')]\<rparr>"

lemma run_outcome: "\<not> isl (fst p) \<Longrightarrow> p = (Inr (projr (fst p)), snd p)"
  by (cases p) auto

lemma sum_outcome: "\<not> isl x \<Longrightarrow> x = Inr (fst (projr x), snd (projr x))"
  by (cases x) auto

section \<open>Queues and conversations\<close>

theorem mark_human_active_takes_over_witness:
  "human_taken (event_conversation_id agent_reply) (store (snd (mark_human_active 0 agent_reply (fresh_world empty_db))))"
proof -
  have "\<not> isl (fst (mark_human_active 0 agent_reply (fresh_world empty_db)))" by code_simp
  from mark_human_active_takes_over [OF run_outcome [OF this]]
  show ?thesis by blast
qed

definition two_events :: db where
  "two_events = snd (ib_insert_row 0 (customer_event 2) (snd (ib_insert_row 0 (customer_event 1) empty_db)))"

definition lease_one :: "db \<Rightarrow> inbound_row list \<times> db" where
  "lease_one = ib_lease_unprocessed 0 0 (\<lambda>_. False) 5 ''w'' 30"

definition first_done :: db where
  "first_done = ib_mark_processed 0 1 (snd (lease_one two_events))"

definition both_done :: db where
  "both_done = ib_mark_processed 0 2 (snd (lease_one first_done))"

lemma two_events_run: "inbound_run two_events 0 {}"
  unfolding two_events_def
  by (rule inbound_run.arrive [OF inbound_run.arrive [OF inbound_run.empty]])
    (auto simp: empty_db_def prod_eq_iff)

lemma lease_grants:
  assumes "inbound_run d 0 G" "map row_id (fst (lease_one d)) = [i]"
  shows "\<exists>G'. inbound_run (snd (lease_one d)) 0 G' \<and> (''w'', i, 30000000) \<in> G'"
proof (intro exI conjI)
  show "inbound_run (snd (lease_one d)) 0
     (G \<union> {(''w'', row_id r, add_seconds 0 30) | r. r \<in> set (fst (lease_one d))})"
    by (rule inbound_run.lease [OF assms(1)]) (simp_all add: lease_one_def prod_eq_iff)
  have "i \<in> row_id ` set (fst (lease_one d))"
    using assms(2) by (metis list.set_intros(1) list.set_map)
  then show "(''w'', i, 30000000) \<in>
     G \<union> {(''w'', row_id r, add_seconds 0 30) | r. r \<in> set (fst (lease_one d))}"
    by (auto simp: add_seconds_def)
qed

lemma first_leased: "\<exists>G. inbound_run (snd (lease_one two_events)) 0 G \<and> (''w'', 1, 30000000) \<in> G"
  by (rule lease_grants [OF two_events_run]) code_simp

lemma both_done_run: "\<exists>G. inbound_run both_done 0 G"
proof -
  obtain G where "inbound_run (snd (lease_one two_events)) 0 G" "(''w'', 1, 30000000) \<in> G"
    using first_leased by blast
  then obtain G' where "inbound_run first_done 0 G'"
    unfolding first_done_def by (blast intro: inbound_run.processed)
  then have "\<exists>H. inbound_run (snd (lease_one first_done)) 0 H \<and> (''w'', 2, 30000000) \<in> H"
    by (rule lease_grants) code_simp
  then obtain H where "inbound_run (snd (lease_one first_done)) 0 H" "(''w'', 2, 30000000) \<in> H"
    by blast
  then show ?thesis
    unfolding both_done_def by (blast intro: inbound_run.processed)
qed

theorem inbound_processed_in_order_witness:
  "map in_processed (t_inbound both_done) = [True, True] \<and> in_processed (t_inbound both_done ! 0)"
proof -
  obtain G where run: "inbound_run both_done 0 G" using both_done_run by blast
  have len: "0 < length (t_inbound both_done)" "1 < length (t_inbound both_done)" by code_simp+
  have "in_processed (t_inbound both_done ! 0)"
    by (rule inbound_processed_in_order [OF run nth_mem [OF len(2)] _ nth_mem [OF len(1)]]) code_simp+
  moreover have "map in_processed (t_inbound both_done) = [True, True]" by code_simp
  ultimately show ?thesis by blast
qed

theorem inbound_one_event_per_chat_witness:
  "\<exists>G r. inbound_run (snd (lease_one two_events)) 0 G \<and> (''w'', row_id r, 30000000) \<in> G \<and>
     r \<in> set (t_inbound (snd (lease_one two_events))) \<and> r = t_inbound (snd (lease_one two_events)) ! 0"
proof -
  let ?d = "snd (lease_one two_events)" let ?r = "t_inbound ?d ! 0"
  obtain G where run: "inbound_run ?d 0 G" "(''w'', 1, 30000000) \<in> G"
    using first_leased by blast
  have "0 < length (t_inbound ?d)" by code_simp
  then have mem: "?r \<in> set (t_inbound ?d)" by (rule nth_mem)
  have r: "row_id ?r = 1" "open_inbound ?r" by code_simp+
  then have g: "(''w'', row_id ?r, 30000000) \<in> G" using run(2) by simp
  have "?r = ?r" by (rule inbound_one_event_per_chat [OF run(1) g mem r(2) g mem r(2) refl])
  then show ?thesis using run(1) g mem by blast
qed

section \<open>Outbound messages\<close>

definition two_replies :: db where
  "two_replies = snd (projr (ob_insert_idempotent 0 (sample_reply\<lparr>oi_conversation_id := Some ''livechat:C2''\<rparr>)
     (snd (projr (ob_insert_idempotent 0 sample_reply empty_db)))))"

definition lease_env :: group_env where
  "lease_env = \<lparr>ge_held = (\<lambda>_. False), ge_held' = (\<lambda>_. False), ge_delay = 3, ge_max = 20\<rparr>"

definition reply_rows :: "outbound_row list" where
  "reply_rows = t_outbound two_replies"

definition one_leased :: "outbound_row list \<times> outbound_row list" where
  "one_leased = lease_outbound 10000000 10000000 lease_env 1 ''w'' 30 reply_rows"

theorem outbound_conversation_exclusive_witness:
  "\<exists>g. fst (lease_groups 20000000 20000000 lease_env 5 ''w2'' 30 (snd one_leased)) = [g] \<and>
     group_key (hd g) \<noteq> group_key (snd one_leased ! 0)"
proof -
  let ?G = "{} \<union> {(''w'', row_id r, add_seconds 10000000 30) | r. r \<in> set (fst one_leased)}"
  let ?second = "lease_groups 20000000 20000000 lease_env 5 ''w2'' 30 (snd one_leased)"
  have "distinct (map row_id reply_rows)" by code_simp
  then have "lease_run lease_outbound open_job (snd one_leased) 10000000 ?G"
    by (intro lease_run.lease [OF lease_run.start]) (simp_all add: one_leased_def)
  then have run: "lease_run lease_outbound open_job (snd one_leased) 20000000 ?G"
    by (rule lease_run.tick) simp
  have "1 \<in> row_id ` set (fst one_leased)" "row_id (snd one_leased ! 0) = 1" by code_simp+
  then have grant: "(''w'', row_id (snd one_leased ! 0), 40000000) \<in> ?G"
    by (auto simp: add_seconds_def)
  have one: "length (fst ?second) = 1" "hd (fst ?second) \<noteq> []" by code_simp+
  then obtain g where g: "fst ?second = [g]" by (cases "fst ?second") auto
  have "0 < length (snd one_leased)" by code_simp
  then have mem: "snd one_leased ! 0 \<in> set (snd one_leased)" by (rule nth_mem)
  have opn: "open_job (snd one_leased ! 0)" by code_simp
  have "group_key (hd g) \<noteq> group_key (snd one_leased ! 0)"
    by (rule outbound_conversation_exclusive [OF run grant _ mem opn prod.collapse [symmetric],
          where g = g and now' = 20000000 and env = lease_env and n = 5 and w' = "''w2''" and s = 30])
      (use g one in simp_all)
  with g show ?thesis by blast
qed

definition no_env :: "string \<Rightarrow> string option" where
  "no_env _ = None"

definition after_failure :: db where
  "after_failure = ob_mark_failed no_env 10000000 1 ''RETRYABLE'' ''HTTP 503'' True two_replies"

theorem retry_backs_off_witness:
  "map (map row_id) (fst (lease_groups 11000000 11000000 lease_env 5 ''w'' 30 (t_outbound after_failure))) = [[2]] \<and>
   backoff_seconds (outbound_retry_base_seconds no_env) (outbound_retry_max_seconds no_env) 1
     \<le> outbound_retry_max_seconds no_env"
proof -
  let ?r = "t_outbound two_replies ! 0"
  have ids: "distinct (map row_id (t_outbound two_replies))" by code_simp
  have "0 < length (t_outbound two_replies)" by code_simp
  then have mem: "?r \<in> set (t_outbound two_replies)" by (rule nth_mem)
  have r: "row_id ?r = 1" "retry_count ?r = 0" by code_simp+
  have soon: "11000000 \<le> add_seconds 10000000 (backoff_seconds (outbound_retry_base_seconds no_env)
      (outbound_retry_max_seconds no_env) (Suc (retry_count ?r)))"
    by code_simp
  from retry_backs_off [OF ids mem r(1) prod.collapse [symmetric] soon] r(2)
  have "backoff_seconds (outbound_retry_base_seconds no_env) (outbound_retry_max_seconds no_env) 1
     \<le> outbound_retry_max_seconds no_env"
    by (simp del: One_nat_def add: One_nat_def [symmetric])
  moreover have "map (map row_id) (fst (lease_groups 11000000 11000000 lease_env 5 ''w'' 30 (t_outbound after_failure))) = [[2]]"
    by code_simp
  ultimately show ?thesis by blast
qed

section \<open>Outbox\<close>

definition send_text_command :: "int \<Rightarrow> dict" where
  "send_text_command b = [(''type'', JStr ''livechat.send_text''), (''block_index'', JInt b),
     (''payload'', JObj [(''text'', JStr ''hi''), (''final_reply_exempt'', JInt 1)])]"

theorem block_keys_distinct_witness:
  "outbound_dedup_key (projr (build_command_outbox (Some ''C1'') None ''livechat:C1'' 1 (send_text_command 0))) \<noteq>
   outbound_dedup_key (projr (build_command_outbox (Some ''C1'') None ''livechat:C1'' 1 (send_text_command 1)))"
proof -
  let ?m = "\<lambda>b. build_command_outbox (Some ''C1'') None ''livechat:C1'' 1 (send_text_command b)"
  have "\<not> isl (?m 0)" "\<not> isl (?m 1)" by code_simp+
  then have m: "?m 0 = Inr (projr (?m 0))" "?m 1 = Inr (projr (?m 1))" by simp_all
  show ?thesis by (rule block_keys_distinct [OF m, of 0 1]) code_simp+
qed

section \<open>Platforms\<close>

definition no_telegram :: telegram_settings where
  "no_telegram = \<lparr>ts_test_group = Some ''-1'', ts_finance_group = Some ''-2'', ts_sop_target_chat_id = None,
     ts_sop_message_thread_id = None, ts_force_no_topic = False\<rparr>"

theorem test_cases_stay_in_test_group_witness:
  "tg_chat_id (resolve_telegram_target [(''platform'', JStr test_platform)] no_telegram) = Some ''-1''"
proof -
  have "tg_chat_id (resolve_telegram_target [(''platform'', JStr test_platform)] no_telegram) =
    (if text_true (ts_test_group no_telegram) then ts_test_group no_telegram else None) \<and>
    tg_message_thread_id (resolve_telegram_target [(''platform'', JStr test_platform)] no_telegram) = JNull"
    by (rule test_cases_stay_in_test_group) code_simp+
  then show ?thesis by (simp add: no_telegram_def)
qed

section \<open>Sender\<close>

text \<open>LiveChat accepts every call; the second configuration answers every call with an error.\<close>

definition accepting :: services where
  "accepting _ _ = Inr (JObj [(''event_id'', JStr ''E'')])"

definition refusing :: "int \<Rightarrow> services" where
  "refusing st _ _ = Inl (LiveChatError st [])"

definition sender_with :: "services \<Rightarrow> sender_config" where
  "sender_with srv = \<lparr>sc_env = no_env, sc_services = srv, sc_agent_email = None, sc_telegram_client = False,
     sc_menus = (\<lambda>_. Inl (ValueError ''menu'')), sc_image_label = ''image: ''\<rparr>"

definition leased_messages :: "outbound_msg list" where
  "leased_messages = map (joined two_replies) (t_outbound two_replies)"

theorem process_pending_message_agrees_witness:
  "row_agrees (hd leased_messages)
     (projr (fst (process_pending_message (sender_with accepting) 0 (hd leased_messages) (fresh_world two_replies))))
     (store (snd (process_pending_message (sender_with accepting) 0 (hd leased_messages) (fresh_world two_replies))))"
proof -
  have "\<not> isl (fst (process_pending_message (sender_with accepting) 0 (hd leased_messages) (fresh_world two_replies)))"
    by code_simp
  from process_pending_message_agrees [OF run_outcome [OF this]] show ?thesis by blast
qed

definition human_world :: "service_call world" where
  "human_world = fresh_world (store (snd (mark_human_active 0 (agent_reply\<lparr>ev_thread_id := None\<rparr>)
     (fresh_world (snd (projr (ob_insert_idempotent 0 plain_reply empty_db)))))))"

definition plain_message :: outbound_msg where
  "plain_message = joined (store human_world) (t_outbound (store human_world) ! 0)"

theorem human_active_not_sent_witness:
  "calls (snd (process_pending_message (sender_with accepting) 0 plain_message human_world)) = []"
proof -
  have "conversation_id (om_row plain_message) = Some ''livechat:C1''"
    "is_conversation_human_active ''livechat:C1'' (store human_world)" by code_simp+
  then have "\<exists>cid. conversation_id (om_row plain_message) = Some cid \<and> cid \<noteq> [] \<and>
      is_conversation_human_active cid (store human_world)"
    by simp
  from human_active_not_sent [OF prod.collapse [symmetric] disjI2 [OF this]]
  show ?thesis by (simp add: human_world_def fresh_world_def)
qed

theorem group_stops_at_failure_witness:
  "length (projr (fst (process_message_group (sender_with (refusing 503)) 0 leased_messages (fresh_world two_replies)))) = 1 \<and>
   locked_by (t_outbound (store (snd (process_message_group (sender_with (refusing 503)) 0 leased_messages (fresh_world two_replies)))) ! 1) = None"
proof -
  let ?run = "process_message_group (sender_with (refusing 503)) 0 leased_messages (fresh_world two_replies)"
  let ?second = "t_outbound (store (snd ?run)) ! 1"
  have ok: "\<not> isl (fst ?run)" and one: "length (projr (fst ?run)) = 1"
    and rest: "map (\<lambda>m. row_id (om_row m)) (drop 1 leased_messages) = [2]"
    and second: "row_id ?second = 2" "1 < length (t_outbound (store (snd ?run)))" by code_simp+
  have "row_id ?second \<in> (\<lambda>m. row_id (om_row m)) ` set (drop 1 leased_messages)"
    using arg_cong [OF rest, of set] second(1) by simp
  then show ?thesis
    using group_stops_at_failure [OF run_outcome [OF ok]] one nth_mem [OF second(2)] by simp
qed

section \<open>Telegram cases\<close>

definition created_result :: dict where
  "created_result = [(''telegram_message_id'', JInt 77), (''target_chat_id'', JStr ''-2'')]"

definition case_source :: case_source where
  "case_source = \<lparr>sr_tenant_id = None, sr_conversation_id = ''livechat:C1:T1'', sr_chat_id = ''C1'',
     sr_thread_id = Some ''T1'', sr_inbound_event_id = Some 1, sr_external_command_id = Some 1\<rparr>"

definition case_world :: "service_call world" where
  "case_world = snd (upsert_case_created 0 case_source created_result (fresh_world empty_db))"

definition reserve_sample :: "(exn + followup_row \<times> bool \<times> case_row) \<times> service_call world" where
  "reserve_sample = reserve_followup 1 1 ''livechat:C1:T2'' ''T2'' ''pending_follow_up'' ''under_review'' case_world"

theorem reserve_followup_numbering_witness:
  "fu_number (fst (projr (fst reserve_sample))) = 2 \<and> followups_ok (store (snd reserve_sample))"
proof -
  have none: "t_followups (store case_world) = []" by code_simp
  then have ok: "followups_ok (store case_world)"
    by (simp add: followups_ok_def followups_numbered_def case_numbers_def)
  have "\<not> isl (fst reserve_sample)" and new: "fst (snd (projr (fst reserve_sample))) = False" by code_simp+
  then have "reserve_followup 1 1 ''livechat:C1:T2'' ''T2'' ''pending_follow_up'' ''under_review'' case_world =
    (Inr (fst (projr (fst reserve_sample)), False, snd (snd (projr (fst reserve_sample)))), snd reserve_sample)"
    unfolding reserve_sample_def [symmetric]
    using run_outcome [of reserve_sample] by (metis prod.collapse)
  from reserve_followup_numbering [OF ok this] show ?thesis
    using none by (simp add: case_numbers_def)
qed

section \<open>Transactions\<close>

definition event_run :: "service_call world \<Rightarrow> (exn + tx_result) \<times> service_call world" where
  "event_run = process_event_transactionally id 0 1 (customer_event 1) (Some sample_message) [sample_reply]
     [sample_command] None []"

definition event_world :: "service_call world" where
  "event_world = fresh_world (snd (ib_insert_row 0 (customer_event 1) empty_db))"

lemma event_run_done: "\<not> isl (fst (event_run event_world))" "\<not> tx_skipped (projr (fst (event_run event_world)))"
  by code_simp+



definition plain_state :: graph_state where
  "plain_state = \<lparr>gs_status = Some ''AI_ACTIVE'', gs_active_workflow = None, gs_workflow_stage = None,
     gs_slot_memory = None, gs_handoff_state = None, gs_delete_keys = [], gs_case_update = None\<rparr>"

end
