(* ===== verification/Witnesses_Workers.thy ===== *)
theory Witnesses_Workers
  imports Witnesses
begin

text \<open>
  Concrete runs of the workers: the properties of \<open>Command_Safety\<close> applied to a
  command that hands a chat over to a human.
\<close>

section \<open>Samples\<close>

definition worker_sample_settings :: worker_settings where
  "worker_sample_settings = \<lparr>ws_handoff_enabled = True, ws_handoff_group = Some 7, ws_ignore_agents = False,
     ws_ignore_requester = False, ws_telegram_enabled = False, ws_bot_token = None,
     ws_backend_enabled = False, ws_telegram = no_telegram\<rparr>"

definition handoff_config :: "services \<Rightarrow> worker_config" where
  "handoff_config srv = \<lparr>wc_services = srv, wc_sha = id, wc_settings = Some worker_sample_settings,
     wc_dry_run = False, wc_emit = True, wc_handoff = True, wc_telegram = False, wc_backend = False,
     wc_pending = False, wc_max_retries = 3, wc_mock_results = (\<lambda>t. (t, [])), wc_case_card = (\<lambda>_ _. []),
     wc_case_append = (\<lambda>_ _ _. []), wc_is_followup_text = (\<lambda>_. True), wc_customer_update = (\<lambda>_ t. t),
     wc_followup = (\<lambda>_ _ _ _. []), wc_recorded_at = ''now''\<rparr>"

definition handoff_command_in :: command_in where
  "handoff_command_in = sample_command\<lparr>ci_command_type := ''human_handoff.requested'',
     ci_payload := [(''handoff_ack_mode'', JStr ''direct_notice''), (''target_group_id'', JInt 7)]\<rparr>"

definition handoff_db :: db where
  "handoff_db = snd (projr (ec_insert_idempotent id 0 handoff_command_in empty_db))"

definition handoff_row :: command_row where
  "handoff_row = t_commands handoff_db ! 0"

definition handoff_run :: "(exn + cmd_item) \<times> service_call world" where
  "handoff_run = process_one_pending_command (handoff_config accepting) 0 handoff_row (fresh_world handoff_db)"

section \<open>The command worker\<close>

theorem human_active_command_skipped_witness:
  "calls (snd (process_one_pending_command (handoff_config accepting) 0
     (handoff_row\<lparr>conversation_id := Some ''livechat:C1''\<rparr>) human_world)) = []"
proof -
  have found: "find_conversation ''livechat:C1'' (store human_world) =
      Some (the (find_conversation ''livechat:C1'' (store human_world)))"
    and active: "str_upper (cs_status (the (find_conversation ''livechat:C1'' (store human_world)))) = ''HUMAN_ACTIVE''"
    by code_simp+
  from human_active_command_skipped [OF prod.collapse [symmetric] _ _ found active]
  show ?thesis by (simp add: human_world_def fresh_world_def)
qed


theorem command_put_down_witness:
  "status (t_commands (store (snd handoff_run)) ! 0) = ''SENT'' \<and>
   locked_by (t_commands (store (snd handoff_run)) ! 0) = None"
proof -
  have ok: "\<not> isl (fst handoff_run)" and sent: "status (t_commands (store (snd handoff_run)) ! 0) = ''SENT''"
    and id: "row_id (t_commands (store (snd handoff_run)) ! 0) = row_id handoff_row"
    and len: "0 < length (t_commands (store (snd handoff_run)))" by code_simp+
  from command_put_down [OF run_outcome [OF ok, unfolded handoff_run_def]]
  have "locked_by (t_commands (store (snd handoff_run)) ! 0) = None"
    using nth_mem [OF len] id unfolding handoff_run_def by blast
  with sent show ?thesis by blast
qed

end
