(* ===== verification/Calendar.thy ===== *)
theory Calendar
  imports Prelude
begin

text \<open>
  Naive \<open>datetime\<close> values as the workers write them into JSON: \<open>_format_datetime\<close>
  (\<open>value.isoformat(sep=" ")\<close>) and \<open>_parse_datetime\<close> (\<open>datetime.fromisoformat\<close>) of
  \<open>src/app/workers/livechat_idle_timer.py\<close> and \<open>src/app/workers/gateway_consumer.py\<close>,
  over the proleptic Gregorian calendar of the standard library.  A point in time
  counts microseconds from 0001-01-01 00:00:00, the least \<open>datetime\<close>.

  \<open>fromisoformat\<close> accepts further forms (a date alone, other separators in the
  time, week dates); what it makes of those is an argument of \<open>parse_datetime\<close>.
  A \<open>datetime\<close> with a time zone is outside the model.
\<close>

section \<open>Days\<close>

definition leap_year :: "nat \<Rightarrow> bool" where
  "leap_year y \<longleftrightarrow> y mod 4 = 0 \<and> (y mod 100 \<noteq> 0 \<or> y mod 400 = 0)"

definition year_length :: "nat \<Rightarrow> nat" where
  "year_length y = (if leap_year y then 366 else 365)"

definition days_in_month :: "nat \<Rightarrow> nat \<Rightarrow> nat" where
  "days_in_month y m =
     (if m = 2 then if leap_year y then 29 else 28 else if m \<in> {4, 6, 9, 11} then 30 else 31)"

text \<open>The days before a year and before a month of a year.\<close>

fun days_before_year :: "nat \<Rightarrow> nat" where
  "days_before_year 0 = 0"
| "days_before_year (Suc y) = days_before_year y + (if y = 0 then 0 else year_length y)"

fun days_before_month :: "nat \<Rightarrow> nat \<Rightarrow> nat" where
  "days_before_month y 0 = 0"
| "days_before_month y (Suc m) = days_before_month y m + (if m = 0 then 0 else days_in_month y m)"

text \<open>The year, from a start on, that a day falls into, and the month within a year.\<close>

function find_year :: "nat \<Rightarrow> nat \<Rightarrow> nat \<times> nat" where
  "find_year y n = (if n < year_length y then (y, n) else find_year (Suc y) (n - year_length y))"
  by auto
termination by (relation "measure snd") (auto simp: year_length_def)

function find_month :: "nat \<Rightarrow> nat \<Rightarrow> nat \<Rightarrow> nat \<times> nat" where
  "find_month y m n =
     (if 12 \<le> m \<or> n < days_in_month y m then (m, n) else find_month y (Suc m) (n - days_in_month y m))"
  by auto
termination by (relation "measure (\<lambda>(y, m, n). 12 - m)") auto

declare find_year.simps [simp del] find_month.simps [simp del]

lemma find_year_sound:
  "find_year y n = (y', r) \<Longrightarrow> 0 < y \<Longrightarrow>
   y \<le> y' \<and> days_before_year y' + r = days_before_year y + n \<and> r < year_length y'"
proof (induction y n rule: find_year.induct)
  case (1 y n)
  show ?case
  proof (cases "n < year_length y")
    case True
    then show ?thesis using "1.prems" by (simp add: find_year.simps [of y n])
  next
    case False
    then have "find_year (Suc y) (n - year_length y) = (y', r)"
      using "1.prems" by (simp add: find_year.simps [of y n])
    from "1.IH" [OF False this] False "1.prems"(2) show ?thesis by simp
  qed
qed

lemma days_before_first: "days_before_year 1 = 0" "days_before_month y 1 = 0"
  by (simp_all add: One_nat_def)

lemma year_length_months: "year_length y = days_before_month y 12 + days_in_month y 12"
  by (simp add: eval_nat_numeral year_length_def days_in_month_def)

lemma find_month_sound:
  "find_month y m n = (m', r) \<Longrightarrow> 0 < m \<Longrightarrow> m \<le> 12 \<Longrightarrow> days_before_month y m + n < year_length y \<Longrightarrow>
   m \<le> m' \<and> m' \<le> 12 \<and> days_before_month y m' + r = days_before_month y m + n \<and> r < days_in_month y m'"
proof (induction y m n rule: find_month.induct)
  case (1 y m n)
  show ?case
  proof (cases "12 \<le> m \<or> n < days_in_month y m")
    case True
    have "m' = m" "r = n" using "1.prems"(1) True by (simp_all add: find_month.simps [of y m n])
    moreover have "n < days_in_month y m"
      using True "1.prems"(3,4) year_length_months [of y] by (cases "m = 12") auto
    ultimately show ?thesis using "1.prems"(2,3) by simp
  next
    case False
    then have step: "find_month y (Suc m) (n - days_in_month y m) = (m', r)"
      using "1.prems" by (simp add: find_month.simps [of y m n])
    have "Suc m \<le> m' \<and> m' \<le> 12 \<and>
        days_before_month y m' + r = days_before_month y (Suc m) + (n - days_in_month y m) \<and> r < days_in_month y m'"
      by (rule "1.IH" [OF False step]) (use "1.prems" False in auto)
    then show ?thesis using False "1.prems"(2) by auto
  qed
qed

text \<open>A date, and the number of its day.\<close>

definition date_of_days :: "nat \<Rightarrow> nat \<times> nat \<times> nat" where
  "date_of_days n = (case find_year 1 n of (y, r) \<Rightarrow>
     (case find_month y 1 r of (m, d) \<Rightarrow> (y, m, Suc d)))"

definition days_of_date :: "nat \<Rightarrow> nat \<Rightarrow> nat \<Rightarrow> nat" where
  "days_of_date y m d = days_before_year y + days_before_month y m + (d - 1)"

definition date_ok :: "nat \<Rightarrow> nat \<Rightarrow> nat \<Rightarrow> bool" where
  "date_ok y m d \<longleftrightarrow> 1 \<le> y \<and> y \<le> 9999 \<and> 1 \<le> m \<and> m \<le> 12 \<and> 1 \<le> d \<and> d \<le> days_in_month y m"

lemma days_before_year_mono: "y \<le> z \<Longrightarrow> days_before_year y \<le> days_before_year z"
  by (rule lift_Suc_mono_le [of days_before_year]) simp_all

lemma date_of_days:
  assumes "date_of_days n = (y, m, d)" "n < days_before_year 10000"
  shows "date_ok y m d" "days_of_date y m d = n"
proof -
  obtain r where year: "find_year 1 n = (y, r)" and month: "find_month y 1 r = (m, d - 1)" and d: "1 \<le> d"
    using assms(1) unfolding date_of_days_def by (auto split: prod.splits)
  have y: "1 \<le> y" "days_before_year y + r = n" "r < year_length y"
    using find_year_sound [OF year] days_before_first by simp_all
  have "\<not> 10000 \<le> y"
    using days_before_year_mono [of 10000 y] y(2) assms(2) by auto
  moreover have "1 \<le> m \<and> m \<le> 12 \<and> days_before_month y m + (d - 1) = r \<and> d - 1 < days_in_month y m"
    using find_month_sound [OF month] y(3) days_before_first by simp
  ultimately show "date_ok y m d" "days_of_date y m d = n"
    using y d by (auto simp: date_ok_def days_of_date_def)
qed

text \<open>The rule of the calendar in closed form, and the day after the last \<open>datetime\<close>.\<close>

lemma leap_day_count:
  "Suc y div 4 + Suc y div 400 + y div 100 + (if leap_year (Suc y) then 0 else 1) =
     y div 4 + y div 400 + Suc y div 100 + 1"
proof -
  define a b c where "a \<longleftrightarrow> Suc y mod 4 = 0" and "b \<longleftrightarrow> Suc y mod 100 = 0" and "c \<longleftrightarrow> Suc y mod 400 = 0"
  have "b \<longrightarrow> a" "c \<longrightarrow> b" unfolding a_def b_def c_def by presburger+
  moreover have "Suc y div 4 = (if a then Suc (y div 4) else y div 4)"
    "Suc y div 100 = (if b then Suc (y div 100) else y div 100)"
    "Suc y div 400 = (if c then Suc (y div 400) else y div 400)"
    unfolding a_def b_def c_def by (rule div_Suc)+
  moreover have "leap_year (Suc y) \<longleftrightarrow> a \<and> (\<not> b \<or> c)" by (simp add: leap_year_def a_def b_def c_def)
  ultimately show ?thesis by (cases a; cases b; cases c) simp_all
qed

lemma days_before_year_closed:
  "days_before_year (Suc y) + y div 100 = 365 * y + y div 4 + y div 400"
proof (induction y)
  case (Suc y)
  have "days_before_year (Suc (Suc y)) = days_before_year (Suc y) + (if leap_year (Suc y) then 366 else 365)"
    by (simp add: year_length_def)
  moreover have "(if leap_year (Suc y) then 366 else 365) + (if leap_year (Suc y) then 0 else 1) = (366 :: nat)" by simp
  moreover have "D' = D + l \<Longrightarrow> l + e = 366 \<Longrightarrow> D + p = 365 * n + q + r \<Longrightarrow> s + t + p + e = q + r + v + 1 \<Longrightarrow>
      D' + v = 365 * Suc n + s + t" for D D' l e p n q r s t v :: nat
    by presburger
  ultimately show ?case using Suc.IH leap_day_count [of y] by blast
qed simp

lemma days_before_end: "days_before_year 10000 = 3652059"
  using days_before_year_closed [of 9999] by (simp del: days_before_year.simps)

section \<open>Digits\<close>

text \<open>\<open>"%0*d"\<close> and its inverse.\<close>

fun padded :: "nat \<Rightarrow> nat \<Rightarrow> string" where
  "padded 0 n = []"
| "padded (Suc k) n = padded k (n div 10) @ [char_of (48 + n mod 10)]"

fun read_digits :: "nat \<Rightarrow> string \<Rightarrow> nat option" where
  "read_digits acc [] = Some acc"
| "read_digits acc (c # cs) = (case digit_of c of None \<Rightarrow> None | Some d \<Rightarrow> read_digits (acc * 10 + d) cs)"

lemma length_padded [simp]: "length (padded k n) = k"
  by (induction k arbitrary: n) auto

lemma two_elements: "length xs = 2 \<Longrightarrow> \<exists>a b. xs = [a, b]"
  by (auto simp: eval_nat_numeral length_Suc_conv)

lemma four_elements: "length xs = 4 \<Longrightarrow> \<exists>a b c d. xs = [a, b, c, d]"
  by (auto simp: eval_nat_numeral length_Suc_conv)

lemma read_digits_append:
  "read_digits acc (xs @ ys) = (case read_digits acc xs of None \<Rightarrow> None | Some a \<Rightarrow> read_digits a ys)"
  by (induction xs arbitrary: acc) (auto split: option.split)

lemma digit_of_digit: "digit_of (char_of (48 + n mod 10 :: nat)) = Some (n mod 10)"
  by (simp add: digit_of_def Let_def)

lemma read_padded: "n < 10 ^ k \<Longrightarrow> read_digits 0 (padded k n) = Some n"
proof (induction k arbitrary: n)
  case 0
  then show ?case by simp
next
  case (Suc k)
  then have "read_digits 0 (padded k (n div 10)) = Some (n div 10)"
    by (intro Suc.IH) (simp add: less_mult_imp_div_less)
  then show ?case by (simp add: read_digits_append digit_of_digit)
qed

section \<open>ISO format\<close>

definition day_micros :: int where
  "day_micros = 86400000000"

text \<open>\<open>datetime.max\<close> is the last microsecond before this one.\<close>

definition time_end :: int where
  "time_end = 3652059 * day_micros"

definition datetime_ok :: "time \<Rightarrow> bool" where
  "datetime_ok t \<longleftrightarrow> 0 \<le> t \<and> t < time_end"

text \<open>\<open>isoformat\<close> leaves out a fraction of zero, \<open>strftime("%Y-%m-%d %H:%M:%S.%f")\<close> writes it.\<close>

definition format_time_of_day :: "bool \<Rightarrow> int \<Rightarrow> string" where
  "format_time_of_day full u =
     (let s = nat (u div 1000000); f = nat (u mod 1000000) in
      padded 2 (s div 3600) @ '':'' @ padded 2 (s div 60 mod 60) @ '':'' @ padded 2 (s mod 60)
      @ (if f = 0 \<and> \<not> full then [] else ''.'' @ padded 6 f))"

definition datetime_text :: "bool \<Rightarrow> time \<Rightarrow> string" where
  "datetime_text full t =
     (case date_of_days (nat (t div day_micros)) of (y, m, d) \<Rightarrow>
        padded 4 y @ ''-'' @ padded 2 m @ ''-'' @ padded 2 d @ '' '' @ format_time_of_day full (t mod day_micros))"

definition format_datetime :: "time \<Rightarrow> string" where
  "format_datetime = datetime_text False"

definition parse_time_of_day :: "string \<Rightarrow> int option" where
  "parse_time_of_day s =
     (case (read_digits 0 (take 2 s), read_digits 0 (take 2 (drop 3 s)), read_digits 0 (take 2 (drop 6 s))) of
        (Some h, Some mi, Some se) \<Rightarrow>
          (let rest = drop 8 s;
               micros = (if rest = [] then Some 0
                         else if length rest = 7 \<and> hd rest = CHR ''.'' then read_digits 0 (tl rest) else None) in
           if 8 \<le> length s \<and> s ! 2 = CHR '':'' \<and> s ! 5 = CHR '':'' \<and> h < 24 \<and> mi < 60 \<and> se < 60
           then map_option (\<lambda>f. int ((h * 60 + mi) * 60 + se) * 1000000 + int f) micros else None)
      | _ \<Rightarrow> None)"

definition parse_isoformat :: "string \<Rightarrow> time option" where
  "parse_isoformat s =
     (case (read_digits 0 (take 4 s), read_digits 0 (take 2 (drop 5 s)), read_digits 0 (take 2 (drop 8 s))) of
        (Some y, Some m, Some d) \<Rightarrow>
          if 11 \<le> length s \<and> s ! 4 = CHR ''-'' \<and> s ! 7 = CHR ''-'' \<and> date_ok y m d
          then map_option (\<lambda>u. int (days_of_date y m d) * day_micros + u) (parse_time_of_day (drop 11 s))
          else None
      | _ \<Rightarrow> None)"

text \<open>
  \<open>_parse_datetime\<close> of a stored JSON value: a false value has no date, any other
  is read from its text; a \<open>ValueError\<close> is no date either.
\<close>

definition parse_datetime :: "(string \<Rightarrow> time option) \<Rightarrow> json \<Rightarrow> time option" where
  "parse_datetime other j =
     (if \<not> truthy j then None
      else case parse_isoformat (py_str j) of Some t \<Rightarrow> Some t | None \<Rightarrow> other (py_str j))"

lemma parse_format_time_of_day:
  assumes "0 \<le> u" "u < day_micros"
  shows "parse_time_of_day (format_time_of_day full u) = Some u"
proof -
  define s where "s = nat (u div 1000000)"
  define f where "f = nat (u mod 1000000)"
  have s: "s div 3600 < 24" using assms by (simp add: s_def day_micros_def less_mult_imp_div_less)
  have f: "f < 10 ^ 6" by (simp add: f_def nat_less_iff)
  have u: "u = int s * 1000000 + int f" using assms(1) by (simp add: s_def f_def pos_imp_zdiv_nonneg_iff)
  have h: "s div 3600 < 24" "s div 60 mod 60 < 60" "s mod 60 < 60" by (simp_all add: s)
  then have r: "read_digits 0 (padded 2 (s div 3600)) = Some (s div 3600)"
    "read_digits 0 (padded 2 (s div 60 mod 60)) = Some (s div 60 mod 60)"
    "read_digits 0 (padded 2 (s mod 60)) = Some (s mod 60)"
    by (simp_all add: read_padded)
  have sum: "((s div 3600 * 60 + s div 60 mod 60) * 60 + s mod 60) = s"
  proof -
    have "s div 3600 = s div 60 div 60" by (simp add: div_mult2_eq [symmetric])
    then show ?thesis by simp
  qed
  obtain a b where hh: "padded 2 (s div 3600) = [a, b]"
    using two_elements [OF length_padded] by blast
  obtain c d where mm: "padded 2 (s div 60 mod 60) = [c, d]"
    using two_elements [OF length_padded] by blast
  obtain e g where ss: "padded 2 (s mod 60) = [e, g]"
    using two_elements [OF length_padded] by blast
  have fmt: "format_time_of_day full u = [a, b] @ '':'' @ [c, d] @ '':'' @ [e, g] @
      (if f = 0 \<and> \<not> full then [] else ''.'' @ padded 6 f)"
    by (simp add: format_time_of_day_def Let_def s_def [symmetric] f_def [symmetric] hh mm ss)
  show ?thesis
    using r h sum f read_padded [OF f]
    unfolding fmt parse_time_of_day_def hh mm ss by (simp add: Let_def u nth_Cons')
qed

lemma parse_datetime_text:
  assumes "datetime_ok t"
  shows "parse_isoformat (datetime_text full t) = Some t"
proof -
  let ?n = "nat (t div day_micros)"
  obtain y m d where date: "date_of_days ?n = (y, m, d)" by (cases "date_of_days ?n")
  have "t div day_micros < 3652059"
    using assms unfolding datetime_ok_def time_end_def day_micros_def by linarith
  then have "?n < days_before_year 10000" by (simp add: days_before_end nat_less_iff)
  note ok = date_of_days [OF date this]
  have "days_in_month y m \<le> 31" by (simp add: days_in_month_def)
  then have "y < 10 ^ 4" "m < 10 ^ 2" "d < 10 ^ 2" using ok(1) by (auto simp: date_ok_def)
  then have r: "read_digits 0 (padded 4 y) = Some y" "read_digits 0 (padded 2 m) = Some m"
    "read_digits 0 (padded 2 d) = Some d"
    by (simp_all only: read_padded)
  obtain y1 y2 y3 y4 where yy: "padded 4 y = [y1, y2, y3, y4]"
    using four_elements [OF length_padded] by blast
  obtain m1 m2 where mm: "padded 2 m = [m1, m2]"
    using two_elements [OF length_padded] by blast
  obtain d1 d2 where dd: "padded 2 d = [d1, d2]"
    using two_elements [OF length_padded] by blast
  have tod: "parse_time_of_day (format_time_of_day full (t mod day_micros)) = Some (t mod day_micros)"
    by (rule parse_format_time_of_day) (simp_all add: day_micros_def)
  have "int (days_of_date y m d) * day_micros + t mod day_micros = t"
    using ok(2) assms by (simp add: datetime_ok_def day_micros_def)
  then show ?thesis
    using r ok(1) tod unfolding datetime_text_def parse_isoformat_def Let_def date prod.case yy mm dd
    by (simp add: nth_Cons')
qed

lemma format_datetime_nonempty: "format_datetime t \<noteq> []"
  unfolding format_datetime_def datetime_text_def Let_def by (simp split: prod.split)

lemma stored_time_read: "datetime_ok t \<Longrightarrow> parse_datetime other (JStr (format_datetime t)) = Some t"
  using parse_datetime_text [of t False] format_datetime_nonempty
  by (simp add: parse_datetime_def py_str_def format_datetime_def)

text \<open>
  Claim C31.  A time that a worker writes into the slot memory of a conversation is the
  time it reads back later, to the microsecond, for every value a
  \<open>datetime\<close> can take.
\<close>

theorem datetime_roundtrip:
  assumes "datetime_ok t"
  shows "parse_datetime other (JStr (format_datetime t)) = Some t"
  using assms by (rule stored_time_read)

text \<open>\<open>_seconds_between\<close> (the difference in microseconds).\<close>

definition micros_between :: "(string \<Rightarrow> time option) \<Rightarrow> json \<Rightarrow> json \<Rightarrow> int option" where
  "micros_between other a b =
     (case (parse_datetime other a, parse_datetime other b) of
        (Some s, Some e) \<Rightarrow> Some (e - s) | _ \<Rightarrow> None)"

section \<open>Timestamps of LiveChat\<close>

text \<open>
  \<open>parse_rfc3339_to_mysql\<close> (\<open>src/app/channels/livechat/normalizer.py\<close>): the instant of a
  timestamp with an offset, as a text in UTC.  What Python makes of the other
  forms (fractions that are not microseconds, no offset, years before 1000) is an
  argument, as above.
\<close>

definition replace_z :: "string \<Rightarrow> string" where
  "replace_z s = concat (map (\<lambda>c. if c = CHR ''Z'' then ''+00:00'' else [c]) s)"

definition parse_offset :: "string \<Rightarrow> int option" where
  "parse_offset s =
     (case (read_digits 0 (take 2 (drop 1 s)), read_digits 0 (drop 4 s)) of
        (Some h, Some m) \<Rightarrow>
          if length s = 6 \<and> s ! 3 = CHR '':'' \<and> h < 24 \<and> m < 60
          then (let off = int (h * 60 + m) * 60000000 in
                if hd s = CHR ''+'' then Some off else if hd s = CHR ''-'' then Some (- off) else None)
          else None
      | _ \<Rightarrow> None)"

definition parse_aware :: "string \<Rightarrow> time option" where
  "parse_aware s =
     (let k = length s - 6 in
      case (parse_isoformat (take k s), parse_offset (drop k s)) of
        (Some t, Some off) \<Rightarrow> Some (t - off) | _ \<Rightarrow> None)"

definition parse_rfc3339_to_mysql :: "(string \<Rightarrow> exn + string) \<Rightarrow> string option \<Rightarrow> exn + string option" where
  "parse_rfc3339_to_mysql other v =
     (if \<not> text_true v then Inr None
      else let s = replace_z (text_or [] v) in
           case parse_aware s of
             Some t \<Rightarrow> if datetime_ok t \<and> 31525372800000000 \<le> t then Inr (Some (datetime_text True t))
                       else map_sum id Some (other s)
           | None \<Rightarrow> map_sum id Some (other s))"

lemma rfc3339_instant:
  assumes "parse_aware (replace_z s) = Some t" "s \<noteq> []" "datetime_ok t" "31525372800000000 \<le> t"
  shows "\<exists>r. parse_rfc3339_to_mysql other (Some s) = Inr (Some r) \<and> parse_isoformat r = Some t"
  using assms parse_datetime_text [of t True] by (simp add: parse_rfc3339_to_mysql_def Let_def)

end
