(* ===== verification/Idle_Timer.thy ===== *)
theory Idle_Timer
  imports Sender Calendar
begin

text \<open>
  The idle timer (\<open>src/app/workers/livechat_idle_timer.py\<close>): a customer who does not
  answer the assistant is asked once whether they are still there, and the chat
  is closed when no answer comes.

  The state of the timer lives in the slot memory of the conversation, under the
  \<open>idle_\<close> keys.  Arguments of the model (\<open>idle_config\<close>): LiveChat, the two texts,
  the composed reply of the language model (\<open>finalize_user_visible_text\<close>) and what
  other workers commit while it is composed, the handoff notice, and the
  \<open>DATETIME\<close> that MySQL stores for a text.  One reading of the clock serves a
  batch, as in the code.  The branch for a message without \<open>created_at\<close>, a
  \<open>NOT NULL\<close> column, and those for repositories that lack a method are left out.
\<close>

section \<open>Configuration\<close>

record finalized =
  fz_text :: string
  fz_result :: dict
  fz_language :: json

record idle_config =
  it_services :: services
  it_email :: "string option"
  it_sha :: "string \<Rightarrow> string"
  it_followup_text :: string
  it_close_text :: string
  it_compose :: "conversation_row \<Rightarrow> dict \<Rightarrow> string \<Rightarrow> string \<Rightarrow> finalized"
  it_meanwhile :: "db \<Rightarrow> db"
  it_notice :: "json \<Rightarrow> string"
  it_other_times :: "string \<Rightarrow> time option"
  it_stored_time :: "string \<Rightarrow> time"
  it_followup_seconds :: int
  it_close_seconds :: int

record idle_result =
  ir_status :: string
  ir_error :: "string option"
  ir_message_id :: "nat option"

definition idle_result :: "string \<Rightarrow> idle_result" where
  "idle_result st = \<lparr>ir_status = st, ir_error = None, ir_message_id = None\<rparr>"

definition idle_error :: "string \<Rightarrow> exn \<Rightarrow> idle_result" where
  "idle_error st e = \<lparr>ir_status = st, ir_error = Some (exn_text e), ir_message_id = None\<rparr>"

definition idle_slot_keys :: "string list" where
  "idle_slot_keys = [''idle_followup_sent_at'', ''idle_followup_failed_at'', ''idle_followup_last_error'',
     ''idle_close_sent_at'', ''idle_closed_at'', ''idle_base_assistant_message_id'',
     ''idle_base_assistant_created_at'', ''idle_followup_message_id'', ''idle_close_message_id'',
     ''idle_close_failed_at'', ''idle_close_last_error'', ''idle_last_failed_at'']"

definition slots_of :: "conversation_row \<Rightarrow> dict" where
  "slots_of c = or_empty (cs_slot_memory c)"

lemma slots_of_simps [simp]:
  "slots_of (c\<lparr>cs_slot_memory := Some slots\<rparr>) = slots"
  "slots_of (c\<lparr>cs_status := st\<rparr>) = slots_of c"
  by (simp_all add: slots_of_def or_empty_def)

abbreviation stamp :: "time \<Rightarrow> json" where
  "stamp t \<equiv> JStr (format_datetime t)"

section \<open>The repository\<close>

definition latest_message :: "string \<Rightarrow> db \<Rightarrow> message_row option" where
  "latest_message cid d =
     (case newest_first (filter (\<lambda>m. cm_conversation_id m = cid) (t_messages d)) of [] \<Rightarrow> None | m # _ \<Rightarrow> Some m)"

definition message_created_at :: "string \<Rightarrow> int \<Rightarrow> db \<Rightarrow> time option" where
  "message_created_at cid i d =
     map_option cm_created_at (find (\<lambda>m. cm_conversation_id m = cid \<and> int (cm_id m) = i) (t_messages d))"

definition has_unfinished_work :: "string \<Rightarrow> db \<Rightarrow> bool" where
  "has_unfinished_work cid d \<longleftrightarrow>
     (\<exists>r \<in> set (t_commands d). conversation_id r = Some cid \<and> open_job r) \<or>
     (\<exists>r \<in> set (t_results d). conversation_id r = Some cid \<and> open_job r) \<or>
     (\<exists>r \<in> set (t_outbound d). conversation_id r = Some cid \<and> open_job r)"

text \<open>\<open>effective_activity_at\<close>, a generated column: \<open>COALESCE(occurred_at, created_at)\<close>.\<close>

definition activity_time :: "idle_config \<Rightarrow> inbound_row \<Rightarrow> time" where
  "activity_time cfg r = (case in_occurred_at r of None \<Rightarrow> created_at r | Some s \<Rightarrow> it_stored_time cfg s)"

definition customer_event_of :: "conversation_row \<Rightarrow> inbound_row \<Rightarrow> bool" where
  "customer_event_of c r \<longleftrightarrow> in_chat_id r = Some (cs_chat_id c) \<and> \<not> in_ignored r \<and>
     in_sender_role r \<in> {''external'', ''customer''}"

definition has_customer_activity_after :: "idle_config \<Rightarrow> conversation_row \<Rightarrow> time \<Rightarrow> db \<Rightarrow> bool" where
  "has_customer_activity_after cfg c t d \<longleftrightarrow>
     (\<exists>r \<in> set (t_inbound d). customer_event_of c r \<and> t < activity_time cfg r)"

definition idle_eligible :: "db \<Rightarrow> conversation_row \<Rightarrow> message_row \<Rightarrow> bool" where
  "idle_eligible d c m \<longleftrightarrow> cs_channel_type c = ''livechat'' \<and>
     cs_status c \<in> {''AI_ACTIVE'', ''WAITING_EXTERNAL''} \<and>
     cs_active_workflow c \<noteq> Some ''human_handoff'' \<and> cm_sender_role m = ''assistant'' \<and>
     (cs_status c \<noteq> ''WAITING_EXTERNAL'' \<or> \<not> has_unfinished_work (cs_conversation_id c) d)"

definition with_latest :: "db \<Rightarrow> conversation_row \<Rightarrow> (conversation_row \<times> message_row) list" where
  "with_latest d c = (case latest_message (cs_conversation_id c) d of None \<Rightarrow> [] | Some m \<Rightarrow> [(c, m)])"

definition idle_rows :: "nat \<Rightarrow> db \<Rightarrow> conversation_row list" where
  "idle_rows limit d =
     (let l = (if limit = 0 then 20 else limit) in
      map fst (take (max (l * 5) l) (sort_key (\<lambda>(c, m). cm_created_at m) (sort_key (\<lambda>(c, m). cm_id m)
        (filter (\<lambda>(c, m). idle_eligible d c m) (concat (map (with_latest d) (t_conversations d))))))))"

definition idle_failure_backoff_active :: "idle_config \<Rightarrow> time \<Rightarrow> dict \<Rightarrow> bool" where
  "idle_failure_backoff_active cfg now slots =
     (case parse_datetime (it_other_times cfg) (dget slots ''idle_last_failed_at'') of
        None \<Rightarrow> False | Some t \<Rightarrow> now < add_seconds t 600)"

text \<open>The loop that drops rows in backoff and stops at the limit; \<open>k\<close> rows were kept.\<close>

fun keep_candidates :: "(conversation_row \<Rightarrow> bool) \<Rightarrow> nat \<Rightarrow> nat \<Rightarrow> conversation_row list \<Rightarrow> conversation_row list" where
  "keep_candidates skip limit k [] = []"
| "keep_candidates skip limit k (c # cs) =
     (if skip c then keep_candidates skip limit k cs
      else c # (if limit \<le> Suc k then [] else keep_candidates skip limit (Suc k) cs))"

definition fetch_candidates :: "idle_config \<Rightarrow> time \<Rightarrow> nat \<Rightarrow> db \<Rightarrow> conversation_row list" where
  "fetch_candidates cfg now limit d =
     keep_candidates (\<lambda>c. idle_failure_backoff_active cfg now (slots_of c)) limit 0 (idle_rows limit d)"

definition insert_assistant_message :: "time \<Rightarrow> conversation_row \<Rightarrow> string \<Rightarrow> db \<Rightarrow> nat \<times> db" where
  "insert_assistant_message now c txt d =
     (let i = fresh_id (map cm_id (t_messages d)) in
      (i, d\<lparr>t_messages := t_messages d @
        [\<lparr>cm_id = i, cm_conversation_id = cs_conversation_id c,
          cm_tenant_id = text_or ''default'' (Some (cs_tenant_id c)),
          cm_channel_type = text_or ''livechat'' (Some (cs_channel_type c)),
          cm_chat_id = Some (cs_chat_id c), cm_thread_id = cs_thread_id c, cm_inbound_event_id = None,
          cm_outbound_message_id = None, cm_external_result_id = None, cm_sender_role = ''assistant'',
          cm_message_type = ''text'', cm_text = Some txt, cm_attachments = [],
          cm_source = ''livechat_idle_timer'', cm_occurred_at = Some (format_datetime now),
          cm_created_at = now\<rparr>]\<rparr>))"

definition set_conversation :: "time \<Rightarrow> string \<Rightarrow> (conversation_row \<Rightarrow> conversation_row) \<Rightarrow> db \<Rightarrow> db" where
  "set_conversation now cid f d =
     d\<lparr>t_conversations := update_where (\<lambda>r. cs_conversation_id r = cid) (\<lambda>r. touch now r (f r)) (t_conversations d)\<rparr>"

definition update_slot_memory :: "time \<Rightarrow> string \<Rightarrow> dict \<Rightarrow> db \<Rightarrow> db" where
  "update_slot_memory now cid slots = set_conversation now cid (\<lambda>r. r\<lparr>cs_slot_memory := Some slots\<rparr>)"

definition mark_closed :: "time \<Rightarrow> string \<Rightarrow> dict \<Rightarrow> db \<Rightarrow> db" where
  "mark_closed now cid slots =
     set_conversation now cid (\<lambda>r. r\<lparr>cs_status := ''CLOSED'', cs_slot_memory := Some slots\<rparr>)"

definition failure_slots :: "time \<Rightarrow> string \<Rightarrow> dict \<Rightarrow> dict" where
  "failure_slots now reason slots =
     dput (dput (dput slots ''ai_service_failure_handoff_at'' (stamp now))
       ''ai_service_failure_reason'' (JStr reason)) ''ai_service_failure_source'' (JStr ''livechat_idle_timer'')"

definition ai_failure_command :: "idle_config \<Rightarrow> conversation_row \<Rightarrow> string \<Rightarrow> command_in" where
  "ai_failure_command cfg c reason =
     (let tenant = text_or ''default'' (Some (cs_tenant_id c)) in
      \<lparr>ci_tenant_id = Some tenant, ci_conversation_id = cs_conversation_id c, ci_chat_id = Some (cs_chat_id c),
       ci_thread_id = cs_thread_id c, ci_inbound_event_id = None, ci_command_type = ''human_handoff.requested'',
       ci_payload = [(''reason'', JStr ''ai_service_failure''), (''source'', JStr ''livechat_idle_timer''),
         (''failure_reason'', JStr reason), (''operation'', JStr ''livechat_idle_ai_failure_handoff''),
         (''handoff_ack_mode'', JStr ''direct_notice'')],
       ci_status = Some ''PENDING'', ci_retry_count = 0, ci_last_error = None,
       ci_dedup_key = Some (build_external_command_dedup_key (it_sha cfg) tenant (cs_conversation_id c) None
         ''human_handoff.requested'' [(''operation'', JStr ''livechat_idle_ai_failure_handoff'')])\<rparr>)"

definition ai_failure_eligible :: "conversation_row option \<Rightarrow> bool" where
  "ai_failure_eligible row =
     (case row of None \<Rightarrow> False
      | Some r \<Rightarrow> str_upper (cs_status r) \<in> {''AI_ACTIVE'', ''WAITING_EXTERNAL''} \<and>
                  str_lower (text_or [] (cs_active_workflow r)) \<noteq> ''human_handoff'')"

definition requested_row :: "time \<Rightarrow> string \<Rightarrow> conversation_row \<Rightarrow> conversation_row \<Rightarrow> conversation_row" where
  "requested_row now reason row r =
     r\<lparr>cs_status := ''HANDOFF_REQUESTED'', cs_active_workflow := Some ''human_handoff'',
       cs_workflow_stage := Some ''handoff_requested'', cs_slot_memory := Some (failure_slots now reason (slots_of row))\<rparr>"

definition request_ai_failure_handoff :: "idle_config \<Rightarrow> time \<Rightarrow> conversation_row \<Rightarrow> string \<Rightarrow> bool job" where
  "request_ai_failure_handoff cfg now c reason =
     transaction (andthen (query (find_conversation (cs_conversation_id c))) (\<lambda>row.
       if \<not> ai_failure_eligible row then ret False
       else andthen (update (set_conversation now (cs_conversation_id c) (requested_row now reason (the row)))) (\<lambda>_.
            andthen (stmt (ec_insert_idempotent (it_sha cfg) now (ai_failure_command cfg c reason))) (\<lambda>_.
            ret True))))"

section \<open>Errors of LiveChat and of the language model\<close>

definition closed_markers :: "string list" where
  "closed_markers = [''chat is closed'', ''chat closed'', ''chat not active'', ''not active'', ''no active chat thread'']"

text \<open>A reply whose \<open>error\<close> is no object makes the check itself fail.\<close>

definition is_already_closed_error :: "exn \<Rightarrow> exn + bool" where
  "is_already_closed_error e =
     (case e of
        LiveChatError st d \<Rightarrow>
          if st \<notin> {400, 404, 422} then Inr False
          else (case (if truthy (dget d ''error'') then dget d ''error'' else JObj []) of
                  JObj err \<Rightarrow> Inr (str_lower (str_or [] (dget err ''type'')) = ''chat_inactive'' \<or>
                    (\<exists>m \<in> set closed_markers. str_contains m (str_lower (exn_text e))))
                | _ \<Rightarrow> Inl (OtherError ''AttributeError''))
      | _ \<Rightarrow> Inr False)"

text \<open>\<open>terminal_ai_failure_reason\<close> (\<open>src/app/services/ai_failure_policy.py\<close>)\<close>

definition terminal_ai_failure_reason :: "dict \<Rightarrow> string option" where
  "terminal_ai_failure_reason d =
     (if dget d ''status'' \<noteq> JStr ''fallback'' then None
      else let reason = str_or [] (dget d ''fallback_reason'') in
           if reason \<in> {''timeout'', ''exception'', ''provider_failure''} then Some reason else None)"

section \<open>One conversation\<close>

definition clear_idle_slots :: "dict \<Rightarrow> dict" where
  "clear_idle_slots slots = foldl dpop slots idle_slot_keys"

definition clear_idle_state :: "time \<Rightarrow> conversation_row \<Rightarrow> dict \<Rightarrow> dict job" where
  "clear_idle_state now c slots =
     andthen (update (update_slot_memory now (cs_conversation_id c) (clear_idle_slots slots))) (\<lambda>_.
     ret (clear_idle_slots slots))"

text \<open>The check that repeats before every call to LiveChat.\<close>

definition unless_customer_wrote ::
  "idle_config \<Rightarrow> conversation_row \<Rightarrow> time \<Rightarrow> string \<Rightarrow> idle_result job \<Rightarrow> idle_result job" where
  "unless_customer_wrote cfg c cutoff st go =
     andthen (catching (query (has_customer_activity_after cfg c cutoff))) (\<lambda>found.
     case found of
       Inl e \<Rightarrow> ret (idle_error ''SKIPPED_CUSTOMER_ACTIVITY_CHECK_FAILED'' e)
     | Inr True \<Rightarrow> ret (idle_result st)
     | Inr False \<Rightarrow> go)"

definition closed_slots :: "time \<Rightarrow> dict \<Rightarrow> dict" where
  "closed_slots now slots = dpop (dput slots ''idle_closed_at'' (stamp now)) ''idle_close_last_error''"

definition close_failed :: "time \<Rightarrow> conversation_row \<Rightarrow> dict \<Rightarrow> exn \<Rightarrow> idle_result job" where
  "close_failed now c slots e =
     andthen (lift (is_already_closed_error e)) (\<lambda>closed.
     if closed
     then andthen (update (mark_closed now (cs_conversation_id c) (closed_slots now slots))) (\<lambda>_.
          ret (idle_result ''CLOSED_ALREADY_IN_LIVECHAT''))
     else andthen (update (update_slot_memory now (cs_conversation_id c)
              (dput slots ''idle_close_last_error'' (JStr (exn_text e))))) (\<lambda>_.
          ret (idle_error ''FAILED_CLOSE_CHAT'' e)))"

definition close_chat :: "idle_config \<Rightarrow> time \<Rightarrow> conversation_row \<Rightarrow> dict \<Rightarrow> time \<Rightarrow> idle_result job" where
  "close_chat cfg now c slots cutoff =
     unless_customer_wrote cfg c cutoff ''SKIPPED_CUSTOMER_ACTIVITY''
       (andthen (catching (deactivate_chat (it_services cfg) (cs_chat_id c))) (\<lambda>done.
        case done of
          Inl e \<Rightarrow> close_failed now c slots e
        | Inr _ \<Rightarrow> andthen (update (mark_closed now (cs_conversation_id c) (closed_slots now slots))) (\<lambda>_.
                   ret (idle_result ''CLOSED''))))"

text \<open>What differs between the question and the last text.\<close>

record idle_text =
  tx_text :: string
  tx_template :: string
  tx_sent_key :: string
  tx_id_key :: string
  tx_closing :: bool

definition followup_message :: "idle_config \<Rightarrow> idle_text" where
  "followup_message cfg = \<lparr>tx_text = it_followup_text cfg, tx_template = ''idle_followup'',
     tx_sent_key = ''idle_followup_sent_at'', tx_id_key = ''idle_followup_message_id'', tx_closing = False\<rparr>"

definition close_message :: "idle_config \<Rightarrow> idle_text" where
  "close_message cfg = \<lparr>tx_text = it_close_text cfg, tx_template = ''idle_close'',
     tx_sent_key = ''idle_close_sent_at'', tx_id_key = ''idle_close_message_id'', tx_closing = True\<rparr>"

definition compose :: "idle_config \<Rightarrow> conversation_row \<Rightarrow> dict \<Rightarrow> idle_text \<Rightarrow> finalized job" where
  "compose cfg c slots t w =
     (Inr (it_compose cfg c slots (tx_template t) (tx_text t)), w\<lparr>store := it_meanwhile cfg (store w)\<rparr>)"

definition hand_over :: "idle_config \<Rightarrow> time \<Rightarrow> conversation_row \<Rightarrow> finalized \<Rightarrow> string \<Rightarrow> idle_result job" where
  "hand_over cfg now c fz reason =
     andthen (request_ai_failure_handoff cfg now c reason) (\<lambda>requested.
     if \<not> requested then ret (idle_result ''SKIPPED_TERMINAL_STATE'')
     else andthen (catching (send_text (it_services cfg) (it_email cfg) (cs_chat_id c)
              (JStr (it_notice cfg (fz_language fz))) None)) (\<lambda>done.
       case done of
         Inl e \<Rightarrow> ret (idle_error ''FAILED_HANDOFF_NOTICE'' e)
       | Inr _ \<Rightarrow> ret (idle_result ''AI_FAILURE_HANDOFF_REQUESTED'')))"

definition send_failed :: "time \<Rightarrow> conversation_row \<Rightarrow> dict \<Rightarrow> idle_text \<Rightarrow> exn \<Rightarrow> idle_result job" where
  "send_failed now c slots t e =
     andthen (lift (is_already_closed_error e)) (\<lambda>closed.
     if closed
     then andthen (update (mark_closed now (cs_conversation_id c)
              (dpop (dpop (closed_slots now slots) ''idle_followup_last_error'') ''idle_last_failed_at''))) (\<lambda>_.
          ret (idle_error ''CLOSED_ALREADY_IN_LIVECHAT'' e))
     else andthen (update (update_slot_memory now (cs_conversation_id c)
              (dput (dput (dput slots
                (if tx_closing t then ''idle_close_last_error'' else ''idle_followup_last_error'') (JStr (exn_text e)))
                (if tx_closing t then ''idle_close_failed_at'' else ''idle_followup_failed_at'') (stamp now))
                ''idle_last_failed_at'' (stamp now)))) (\<lambda>_.
          ret (idle_error ''FAILED_SEND_TEXT'' e)))"

definition sent_slots :: "time \<Rightarrow> nat \<Rightarrow> dict \<Rightarrow> idle_text \<Rightarrow> dict" where
  "sent_slots now i slots t =
     dpop (dput (dput slots (tx_sent_key t) (stamp now)) (tx_id_key t) (JInt (int i))) ''idle_close_last_error''"

text \<open>
  \<open>_send_idle_text\<close>; \<open>after\<close> is what the caller does once the text is out and
  recorded, with the slots as they are then.
\<close>

definition send_idle_text ::
  "idle_config \<Rightarrow> time \<Rightarrow> conversation_row \<Rightarrow> dict \<Rightarrow> idle_text \<Rightarrow> time
     \<Rightarrow> (nat \<Rightarrow> dict \<Rightarrow> idle_result job) \<Rightarrow> idle_result job" where
  "send_idle_text cfg now c slots t cutoff after =
     andthen (compose cfg c slots t) (\<lambda>fz.
     let txt = (if fz_text fz = [] then tx_text t else fz_text fz) in
     unless_customer_wrote cfg c cutoff ''SKIPPED_CUSTOMER_ACTIVITY''
       (case terminal_ai_failure_reason (fz_result fz) of
          Some reason \<Rightarrow> hand_over cfg now c fz reason
        | None \<Rightarrow>
            andthen (catching (send_text (it_services cfg) (it_email cfg) (cs_chat_id c) (JStr txt) None)) (\<lambda>done.
            case done of
              Inl e \<Rightarrow> send_failed now c slots t e
            | Inr _ \<Rightarrow>
                andthen (exec (insert_assistant_message now c txt)) (\<lambda>i.
                andthen (update (update_slot_memory now (cs_conversation_id c) (sent_slots now i slots t))) (\<lambda>_.
                after i (sent_slots now i slots t))))))"

text \<open>\<open>_resolve_idle_cycle_cutoff\<close>: the time of the assistant's message that started the cycle.\<close>

definition recover_cutoff :: "time \<Rightarrow> conversation_row \<Rightarrow> dict \<Rightarrow> (time \<times> dict) option job" where
  "recover_cutoff now c slots =
     andthen (lift (py_int_of (dget slots ''idle_base_assistant_message_id''))) (\<lambda>i.
     andthen (query (message_created_at (cs_conversation_id c) i)) (\<lambda>found.
     case found of
       None \<Rightarrow> ret None
     | Some t \<Rightarrow>
         (let slots' = dput slots ''idle_base_assistant_created_at'' (stamp t) in
          andthen (update (update_slot_memory now (cs_conversation_id c) slots')) (\<lambda>_. ret (Some (t, slots'))))))"

definition resolve_idle_cycle_cutoff ::
  "idle_config \<Rightarrow> time \<Rightarrow> conversation_row \<Rightarrow> dict \<Rightarrow> (exn + (time \<times> dict) option) job" where
  "resolve_idle_cycle_cutoff cfg now c slots =
     (case parse_datetime (it_other_times cfg) (dget slots ''idle_base_assistant_created_at'') of
        Some t \<Rightarrow> ret (Inr (Some (t, slots)))
      | None \<Rightarrow> if dget slots ''idle_base_assistant_message_id'' = JNull then ret (Inr None)
                else catching (recover_cutoff now c slots))"

definition cycle_slots :: "message_row \<Rightarrow> dict \<Rightarrow> dict" where
  "cycle_slots m slots =
     dput (dput slots ''idle_base_assistant_message_id'' (JInt (int (cm_id m))))
       ''idle_base_assistant_created_at'' (stamp (cm_created_at m))"

definition followup_sent :: "nat \<Rightarrow> dict \<Rightarrow> idle_result job" where
  "followup_sent i slots = ret ((idle_result ''FOLLOWUP_SENT'')\<lparr>ir_message_id := Some i\<rparr>)"

definition ask_followup :: "idle_config \<Rightarrow> time \<Rightarrow> conversation_row \<Rightarrow> dict \<Rightarrow> message_row \<Rightarrow> idle_result job" where
  "ask_followup cfg now c slots m =
     (let t = cm_created_at m in
      unless_customer_wrote cfg c t ''SKIPPED_PENDING_INBOUND_CUSTOMER_REPLY''
        (if add_seconds t 1800 < now
         then andthen (update (mark_closed now (cs_conversation_id c)
                 (dput (dput slots ''idle_closed_at'' (stamp now)) ''idle_close_reason'' (JStr ''stale_idle_backlog'')))) (\<lambda>_.
              ret (idle_result ''CLOSED_STALE_BACKLOG''))
         else if now < add_seconds t (it_followup_seconds cfg) then ret (idle_result ''WAITING_FOR_FOLLOWUP_TIMER'')
         else send_idle_text cfg now c (cycle_slots m slots) (followup_message cfg) t followup_sent))"

text \<open>A cycle that has begun: the last text went out, or only the question did.\<close>

definition continue_cycle ::
  "idle_config \<Rightarrow> time \<Rightarrow> conversation_row \<Rightarrow> dict \<Rightarrow> time \<Rightarrow> time option \<Rightarrow> bool \<Rightarrow> idle_result job" where
  "continue_cycle cfg now c slots cutoff followup close_sent =
     (if close_sent
      then unless_customer_wrote cfg c cutoff ''SKIPPED_PENDING_INBOUND_CUSTOMER_REPLY''
             (close_chat cfg now c slots cutoff)
      else if (case followup of None \<Rightarrow> False | Some t \<Rightarrow> now < add_seconds t (it_close_seconds cfg))
      then ret (idle_result ''WAITING_FOR_CLOSE_TIMER'')
      else unless_customer_wrote cfg c cutoff ''SKIPPED_PENDING_INBOUND_CUSTOMER_REPLY''
             (send_idle_text cfg now c slots (close_message cfg) cutoff
                (\<lambda>i slots'. close_chat cfg now c slots' cutoff)))"

definition idle_cycle ::
  "idle_config \<Rightarrow> time \<Rightarrow> conversation_row \<Rightarrow> message_row \<Rightarrow> dict \<Rightarrow> time option \<Rightarrow> bool \<Rightarrow> idle_result job" where
  "idle_cycle cfg now c m slots followup close_sent =
     (if followup = None \<and> \<not> close_sent then ask_followup cfg now c slots m
      else andthen (resolve_idle_cycle_cutoff cfg now c slots) (\<lambda>found.
           case found of
             Inl e \<Rightarrow> ret (idle_error ''SKIPPED_MISSING_IDLE_CYCLE_CUTOFF'' e)
           | Inr None \<Rightarrow> ret (idle_result ''SKIPPED_MISSING_IDLE_CYCLE_CUTOFF'')
           | Inr (Some (cutoff, slots')) \<Rightarrow> continue_cycle cfg now c slots' cutoff followup close_sent))"

definition idle_timers :: "idle_config \<Rightarrow> time \<Rightarrow> conversation_row \<Rightarrow> message_row \<Rightarrow> idle_result job" where
  "idle_timers cfg now c m =
     (let slots = slots_of c;
          close_sent = parse_datetime (it_other_times cfg) (dget slots ''idle_close_sent_at'') \<noteq> None in
      case parse_datetime (it_other_times cfg) (dget slots ''idle_followup_sent_at'') of
        None \<Rightarrow> idle_cycle cfg now c m slots None close_sent
      | Some t \<Rightarrow>
          andthen (catching (query (has_customer_activity_after cfg c t))) (\<lambda>found.
          case found of
            Inl e \<Rightarrow> ret (idle_error ''SKIPPED_CUSTOMER_ACTIVITY_CHECK_FAILED'' e)
          | Inr True \<Rightarrow> andthen (clear_idle_state now c slots) (\<lambda>slots'. idle_cycle cfg now c m slots' None False)
          | Inr False \<Rightarrow> idle_cycle cfg now c m slots (Some t) close_sent))"

definition customer_is_back :: "time \<Rightarrow> conversation_row \<Rightarrow> idle_result job" where
  "customer_is_back now c =
     (if truthy (dget (slots_of c) ''idle_followup_sent_at'')
      then andthen (clear_idle_state now c (slots_of c)) (\<lambda>_. ret (idle_result ''RESET_BY_CUSTOMER''))
      else ret (idle_result ''SKIPPED_LATEST_NOT_ASSISTANT''))"

definition process_idle_conversation :: "idle_config \<Rightarrow> time \<Rightarrow> conversation_row \<Rightarrow> idle_result job" where
  "process_idle_conversation cfg now c =
     andthen (query (latest_message (cs_conversation_id c))) (\<lambda>latest.
     case latest of
       Some m \<Rightarrow>
         if cm_sender_role m \<noteq> ''assistant'' then customer_is_back now c
         else if truthy (dget (slots_of c) ''idle_closed_at'') then ret (idle_result ''SKIPPED_ALREADY_CLOSED'')
         else if truthy (dget (slots_of c) ''ai_service_failure_handoff_at'')
         then ret (idle_result ''SKIPPED_AI_FAILURE_HANDOFF'')
         else andthen (if str_upper (cs_status c) = ''WAITING_EXTERNAL''
                       then query (has_unfinished_work (cs_conversation_id c)) else ret False) (\<lambda>busy.
              if busy then ret (idle_result ''SKIPPED_PENDING_WORK'') else idle_timers cfg now c m)
     | None \<Rightarrow> customer_is_back now c)"

definition process_idle_conversations :: "idle_config \<Rightarrow> time \<Rightarrow> nat \<Rightarrow> idle_result list job" where
  "process_idle_conversations cfg now limit =
     andthen (query (fetch_candidates cfg now limit)) (\<lambda>cs. each (process_idle_conversation cfg now) cs)"

end
