(* ===== verification/Idle_Safety.thy ===== *)
theory Idle_Safety
  imports Idle_Timer Service_Calls
begin

text \<open>
  What the idle timer guarantees: a silent customer is asked and then let go
  (progress), a customer who writes is never interrupted, and a conversation
  that a human holds is not handed over again.
\<close>

section \<open>Runs without failures\<close>

definition livechat_accepts :: "services \<Rightarrow> bool" where
  "livechat_accepts srv \<longleftrightarrow> (\<forall>cs path body. \<exists>r. srv cs (LiveChat path body) = Inr r)"

text \<open>The computation returns and leaves everything but the log of calls.\<close>

definition only_calls :: "'a job \<Rightarrow> service_call world \<Rightarrow> bool" where
  "only_calls m w \<longleftrightarrow> (\<exists>a cs. m w = (Inr a, w\<lparr>calls := cs\<rparr>))"

lemma post_json_accepted:
  assumes "livechat_accepts srv"
  shows "\<exists>r. post_json srv path body w = (Inr r, w\<lparr>calls := calls w @ [LiveChat path body]\<rparr>)"
proof -
  obtain r where "srv (calls w) (LiveChat path body) = Inr r"
    using assms unfolding livechat_accepts_def by blast
  then show ?thesis
    by (simp add: post_json_def call_def andthen_def try_except_def ret_def)
qed

lemma only_calls_post: "livechat_accepts srv \<Longrightarrow> only_calls (post_json srv path body) w"
  using post_json_accepted unfolding only_calls_def by fast

lemma only_calls_ret: "only_calls (ret a) w"
  unfolding only_calls_def ret_def by (intro exI [of _ a] exI [of _ "calls w"]) simp

lemma only_calls_andthen:
  assumes "only_calls m w" "\<And>a cs. only_calls (f a) (w\<lparr>calls := cs\<rparr>)"
  shows "only_calls (andthen m f) w"
proof -
  obtain a cs where "m w = (Inr a, w\<lparr>calls := cs\<rparr>)" using assms(1) unfolding only_calls_def by blast
  then show ?thesis using assms(2) [of a cs] by (simp add: only_calls_def andthen_def)
qed

lemma only_calls_try:
  assumes "only_calls m w"
  shows "only_calls (try_except m h) w"
  using assms by (auto simp: only_calls_def try_except_def)

lemma send_text_accepted: "livechat_accepts srv \<Longrightarrow> only_calls (send_text srv email chat txt cid) w"
  unfolding send_text_def ensure_agent_added_before_send_def add_user_to_chat_def send_event_def
  by (intro only_calls_andthen only_calls_try only_calls_post)
    (auto intro: only_calls_ret only_calls_try only_calls_post)

lemma catching_accepted:
  assumes "only_calls m w"
  shows "\<exists>a cs. catching m w = (Inr (Inr a), w\<lparr>calls := cs\<rparr>)"
  using assms by (auto simp: only_calls_def catching_def try_except_def andthen_def ret_def)

lemma catching_query: "faults w = [] \<Longrightarrow> catching (query f) w = (Inr (Inr (f (store w))), w)"
  by (simp add: catching_def try_except_def andthen_def query_ok ret_def)

lemma unless_quiet:
  assumes "faults w = []" "\<not> has_customer_activity_after cfg c t (store w)"
  shows "unless_customer_wrote cfg c t st go w = go w"
  using assms by (simp add: unless_customer_wrote_def andthen_def catching_query ret_def)

lemma activity_mono:
  "has_customer_activity_after cfg c t d \<Longrightarrow> s \<le> t \<Longrightarrow> has_customer_activity_after cfg c s d"
  unfolding has_customer_activity_after_def by fastforce

section \<open>The latest message\<close>

lemma insort_key_snoc: "f a \<le> f x \<Longrightarrow> insort_key f a (ys @ [x]) = insort_key f a ys @ [x]"
  by (induction ys) auto

lemma sort_key_snoc: "(\<And>y. y \<in> set ys \<Longrightarrow> f y \<le> f x) \<Longrightarrow> sort_key f (ys @ [x]) = sort_key f ys @ [x]"
  by (induction ys) (auto simp: insort_key_snoc)

lemma newest_first_snoc:
  assumes "\<And>m. m \<in> set ms \<Longrightarrow> cm_created_at m \<le> cm_created_at x \<and> cm_id m \<le> cm_id x"
  shows "newest_first (ms @ [x]) = x # newest_first ms"
proof -
  have "sort_key cm_id (ms @ [x]) = sort_key cm_id ms @ [x]"
    using assms by (intro sort_key_snoc) blast
  moreover have "sort_key cm_created_at (sort_key cm_id ms @ [x]) = sort_key cm_created_at (sort_key cm_id ms) @ [x]"
    using assms by (intro sort_key_snoc) simp
  ultimately show ?thesis by (simp add: newest_first_def)
qed

lemma newest_first_hd:
  assumes "newest_first ms = m # rest" "x \<in> set ms"
  shows "cm_created_at x \<le> cm_created_at m"
proof -
  have "sort_key cm_created_at (sort_key cm_id ms) = rev rest @ [m]"
    using assms(1) unfolding newest_first_def by (metis rev.simps(2) rev_swap)
  moreover have "sorted (map cm_created_at (sort_key cm_created_at (sort_key cm_id ms)))" by simp
  ultimately have "sorted (map cm_created_at (rev rest) @ [cm_created_at m])" by simp
  moreover have "x \<in> set rest \<or> x = m"
    using assms unfolding newest_first_def by (metis set_ConsD set_rev set_sort)
  ultimately show ?thesis by (auto simp: sorted_append)
qed

lemma latest_after_insert:
  assumes "latest_message (cs_conversation_id c) d = Some m" "cm_created_at m \<le> now"
  shows "latest_message (cs_conversation_id c) (snd (insert_assistant_message now c txt d)) =
     Some (last (t_messages (snd (insert_assistant_message now c txt d))))"
proof -
  define x where "x = last (t_messages (snd (insert_assistant_message now c txt d)))"
  define ms where "ms = filter (\<lambda>m. cm_conversation_id m = cs_conversation_id c) (t_messages d)"
  obtain rest where rest: "newest_first ms = m # rest"
    using assms(1) unfolding latest_message_def ms_def by (auto split: list.splits)
  have x: "cm_conversation_id x = cs_conversation_id c" "cm_created_at x = now"
    "cm_id x = fresh_id (map cm_id (t_messages d))"
    by (simp_all add: x_def insert_assistant_message_def Let_def)
  have t: "t_messages (snd (insert_assistant_message now c txt d)) = t_messages d @ [x]"
    by (simp add: x_def insert_assistant_message_def Let_def)
  have "cm_created_at y \<le> cm_created_at x \<and> cm_id y \<le> cm_id x" if "y \<in> set ms" for y
  proof
    show "cm_created_at y \<le> cm_created_at x"
      using newest_first_hd [OF rest that] assms(2) x(2) by simp
    show "cm_id y \<le> cm_id x"
      using that fresh_id_gt [of "cm_id y" "map cm_id (t_messages d)"] by (auto simp: ms_def x(3))
  qed
  then have "newest_first (ms @ [x]) = x # newest_first ms" by (rule newest_first_snoc)
  then show ?thesis
    unfolding latest_message_def t using x(1) by (simp add: ms_def)
qed

section \<open>Progress\<close>

text \<open>
  A conversation of the table that waits for its customer: the assistant spoke
  last, and no customer event is newer than that.
\<close>

definition waits_for_customer :: "idle_config \<Rightarrow> conversation_row \<Rightarrow> message_row \<Rightarrow> db \<Rightarrow> bool" where
  "waits_for_customer cfg c m d \<longleftrightarrow>
     find_conversation (cs_conversation_id c) d = Some c \<and>
     latest_message (cs_conversation_id c) d = Some m \<and> cm_sender_role m = ''assistant'' \<and>
     \<not> has_customer_activity_after cfg c (cm_created_at m) d"

definition idle_free :: "dict \<Rightarrow> bool" where
  "idle_free slots \<longleftrightarrow> (\<forall>k \<in> {''idle_closed_at'', ''ai_service_failure_handoff_at'', ''idle_followup_sent_at'',
     ''idle_close_sent_at''}. \<not> truthy (dget slots k))"

lemma idle_freeD:
  assumes "idle_free slots"
  shows "\<not> truthy (dget slots ''idle_closed_at'')" "\<not> truthy (dget slots ''ai_service_failure_handoff_at'')"
    "parse_datetime other (dget slots ''idle_followup_sent_at'') = None"
    "parse_datetime other (dget slots ''idle_close_sent_at'') = None"
  using assms by (simp_all add: idle_free_def parse_datetime_def)

lemma step_to_timers:
  assumes "faults w = []" "latest_message (cs_conversation_id c) (store w) = Some m" "cm_sender_role m = ''assistant''"
    and "str_upper (cs_status c) \<noteq> ''WAITING_EXTERNAL''"
    and "\<not> truthy (dget (slots_of c) ''idle_closed_at'')"
    and "\<not> truthy (dget (slots_of c) ''ai_service_failure_handoff_at'')"
  shows "process_idle_conversation cfg now c w = idle_timers cfg now c m w"
  using assms by (simp add: process_idle_conversation_def andthen_def query_ok ret_def)

lemma send_idle_sent:
  assumes "faults w = []" "livechat_accepts (it_services cfg)" "it_meanwhile cfg (store w) = store w"
    and "\<not> has_customer_activity_after cfg c cutoff (store w)"
    and "terminal_ai_failure_reason (fz_result (it_compose cfg c slots (tx_template t) (tx_text t))) = None"
  shows "\<exists>msg cs i d. insert_assistant_message now c msg (store w) = (i, d) \<and>
     send_idle_text cfg now c slots t cutoff after w =
      after i (sent_slots now i slots t)
        (w\<lparr>calls := cs, store := update_slot_memory now (cs_conversation_id c) (sent_slots now i slots t) d\<rparr>)"
proof -
  let ?fz = "it_compose cfg c slots (tx_template t) (tx_text t)"
  let ?txt = "if fz_text ?fz = [] then tx_text t else fz_text ?fz"
  obtain a cs where sent: "catching (send_text (it_services cfg) (it_email cfg) (cs_chat_id c) (JStr ?txt) None) w =
      (Inr (Inr a), w\<lparr>calls := cs\<rparr>)"
    using catching_accepted [OF send_text_accepted [OF assms(2)]] by blast
  obtain i d where ins: "insert_assistant_message now c ?txt (store w) = (i, d)" by fastforce
  then have "send_idle_text cfg now c slots t cutoff after w =
      after i (sent_slots now i slots t)
        (w\<lparr>calls := cs, store := update_slot_memory now (cs_conversation_id c) (sent_slots now i slots t) d\<rparr>)"
    unfolding send_idle_text_def andthen_def [of "compose cfg c slots t"] compose_def
    using assms(1,3) sent
    by (simp add: unless_quiet assms(4) assms(5) andthen_def exec_ok update_ok Let_def split del: if_split)
  with ins show ?thesis by blast
qed

lemma ask_followup_sends:
  assumes "faults w = []" "livechat_accepts (it_services cfg)" "it_meanwhile cfg (store w) = store w"
    and quiet: "\<not> has_customer_activity_after cfg c (cm_created_at m) (store w)"
    and "\<And>s k x. terminal_ai_failure_reason (fz_result (it_compose cfg c s k x)) = None"
    and "add_seconds (cm_created_at m) (it_followup_seconds cfg) \<le> now" "now \<le> add_seconds (cm_created_at m) 1800"
  shows "\<exists>msg cs i d. insert_assistant_message now c msg (store w) = (i, d) \<and>
     ask_followup cfg now c slots m w =
      followup_sent i (sent_slots now i (cycle_slots m slots) (followup_message cfg))
       (w\<lparr>calls := cs, store := update_slot_memory now (cs_conversation_id c)
          (sent_slots now i (cycle_slots m slots) (followup_message cfg)) d\<rparr>)"
proof -
  have "ask_followup cfg now c slots m w =
      send_idle_text cfg now c (cycle_slots m slots) (followup_message cfg) (cm_created_at m) followup_sent w"
    using assms(6,7) by (simp add: ask_followup_def Let_def unless_quiet [OF assms(1) quiet])
  then show ?thesis using send_idle_sent [OF assms(1-3) quiet assms(5)] by simp
qed

lemma close_chat_closes:
  assumes "faults w = []" "livechat_accepts (it_services cfg)" "\<not> has_customer_activity_after cfg c cutoff (store w)"
  shows "\<exists>cs. close_chat cfg now c slots cutoff w = (Inr (idle_result ''CLOSED''),
     w\<lparr>calls := cs, store := mark_closed now (cs_conversation_id c) (closed_slots now slots) (store w)\<rparr>)"
proof -
  have "only_calls (deactivate_chat (it_services cfg) (cs_chat_id c)) w"
    unfolding deactivate_chat_def by (rule only_calls_post [OF assms(2)])
  from catching_accepted [OF this] assms(1) show ?thesis
    by (auto simp: close_chat_def unless_quiet [OF assms(1,3)] andthen_def update_ok ret_def)
qed

lemma touch_fields [simp]:
  "cs_conversation_id (touch now r x) = cs_conversation_id x"
  "cs_status (touch now r x) = cs_status x"
  "cs_chat_id (touch now r x) = cs_chat_id x"
  "slots_of (touch now r x) = slots_of x"
  by (simp_all add: touch_def slots_of_def)

lemma find_set_conversation:
  assumes "find_conversation cid d = Some c" "\<And>r. cs_conversation_id (f r) = cs_conversation_id r"
  shows "find_conversation cid (set_conversation now cid f d) = Some (touch now c (f c))"
proof -
  have "find (\<lambda>r. cs_conversation_id r = cid) (t_conversations d) = Some c"
    using assms(1) by (simp add: find_conversation_def)
  moreover from find_Some_iff_mem [OF this] have "cs_conversation_id c = cid" by simp
  ultimately show ?thesis
    unfolding find_conversation_def set_conversation_def
    by (simp add: find_update_where assms(2))
qed

lemma idle_updates_simps [simp]:
  "t_messages (set_conversation now cid f d) = t_messages d"
  "t_inbound (set_conversation now cid f d) = t_inbound d"
  "t_inbound (snd (insert_assistant_message now c txt d)) = t_inbound d"
  "find_conversation cid' (snd (insert_assistant_message now c txt d)) = find_conversation cid' d"
  by (simp_all add: set_conversation_def insert_assistant_message_def Let_def find_conversation_def)

lemma activity_cong:
  "t_inbound d' = t_inbound d \<Longrightarrow> cs_chat_id c' = cs_chat_id c \<Longrightarrow>
   has_customer_activity_after cfg c' t d' = has_customer_activity_after cfg c t d"
  by (simp add: has_customer_activity_after_def customer_event_of_def)

text \<open>The timer's second visit, after the question.\<close>

lemma silent_after_question:
  assumes ok: "faults w = []" "livechat_accepts (it_services cfg)" "it_meanwhile cfg = (\<lambda>d. d)"
    and composes: "\<And>c s k x. terminal_ai_failure_reason (fz_result (it_compose cfg c s k x)) = None"
    and latest: "latest_message (cs_conversation_id c) (store w) = Some m" "cm_sender_role m = ''assistant''"
    and found: "find_conversation (cs_conversation_id c) (store w) = Some c"
    and status: "str_upper (cs_status c) \<noteq> ''WAITING_EXTERNAL''"
    and fresh: "\<not> truthy (dget (slots_of c) ''idle_closed_at'')"
      "\<not> truthy (dget (slots_of c) ''ai_service_failure_handoff_at'')"
      "\<not> truthy (dget (slots_of c) ''idle_close_sent_at'')"
    and asked: "parse_datetime (it_other_times cfg) (dget (slots_of c) ''idle_followup_sent_at'') = Some t1"
    and base: "parse_datetime (it_other_times cfg) (dget (slots_of c) ''idle_base_assistant_created_at'') = Some t0"
    and quiet: "\<not> has_customer_activity_after cfg c t0 (store w)" "t0 \<le> t1"
    and due: "add_seconds t1 (it_close_seconds cfg) \<le> now"
  shows "\<exists>w2 r. process_idle_conversation cfg now c w = (Inr (idle_result ''CLOSED''), w2) \<and>
     find_conversation (cs_conversation_id c) (store w2) = Some r \<and> cs_status r = ''CLOSED''"
proof -
  have none: "parse_datetime (it_other_times cfg) (dget (slots_of c) ''idle_close_sent_at'') = None"
    using fresh(3) by (simp add: parse_datetime_def)
  have quiet1: "\<not> has_customer_activity_after cfg c t1 (store w)"
    using activity_mono quiet by blast
  have "process_idle_conversation cfg now c w = idle_timers cfg now c m w"
    by (rule step_to_timers [OF ok(1) latest status fresh(1,2)])
  also have "\<dots> = idle_cycle cfg now c m (slots_of c) (Some t1) False w"
    using ok(1) quiet1 by (simp add: idle_timers_def Let_def asked none andthen_def catching_query)
  also have "\<dots> = continue_cycle cfg now c (slots_of c) t0 (Some t1) False w"
    by (simp add: idle_cycle_def resolve_idle_cycle_cutoff_def base)
  also have "\<dots> = send_idle_text cfg now c (slots_of c) (close_message cfg) t0
      (\<lambda>i slots'. close_chat cfg now c slots' t0) w"
    using due by (simp add: continue_cycle_def unless_quiet [OF ok(1) quiet(1)])
  finally have to_send: "process_idle_conversation cfg now c w = send_idle_text cfg now c (slots_of c) (close_message cfg) t0
      (\<lambda>i slots'. close_chat cfg now c slots' t0) w" .
  have same: "it_meanwhile cfg (store w) = store w" using ok(3) by simp
  obtain msg cs i d where ins: "insert_assistant_message now c msg (store w) = (i, d)"
    and run: "process_idle_conversation cfg now c w = close_chat cfg now c (sent_slots now i (slots_of c) (close_message cfg)) t0
      (w\<lparr>calls := cs, store := update_slot_memory now (cs_conversation_id c) (sent_slots now i (slots_of c) (close_message cfg)) d\<rparr>)"
    using send_idle_sent [OF ok(1,2) same quiet(1) composes, of now "slots_of c" "close_message cfg"
        "\<lambda>i slots'. close_chat cfg now c slots' t0"]
    unfolding to_send by blast
  let ?slots = "sent_slots now i (slots_of c) (close_message cfg)"
  let ?w = "w\<lparr>calls := cs, store := update_slot_memory now (cs_conversation_id c) ?slots d\<rparr>"
  have d: "d = snd (insert_assistant_message now c msg (store w))" using ins by simp
  have "\<not> has_customer_activity_after cfg c t0 (store ?w)"
    using quiet(1) activity_cong [of "store ?w" "store w" c c cfg t0] by (simp add: update_slot_memory_def d)
  from close_chat_closes [OF _ ok(2) this] ok(1) obtain cs' where
    closed: "process_idle_conversation cfg now c w = (Inr (idle_result ''CLOSED''),
      ?w\<lparr>calls := cs', store := mark_closed now (cs_conversation_id c) (closed_slots now ?slots) (store ?w)\<rparr>)"
    unfolding run by auto
  have "find_conversation (cs_conversation_id c) (store ?w) =
      Some (touch now c (c\<lparr>cs_slot_memory := Some ?slots\<rparr>))"
    unfolding update_slot_memory_def using found by (simp add: find_set_conversation d)
  from find_set_conversation [OF this, where f = "\<lambda>r. r\<lparr>cs_status := ''CLOSED'', cs_slot_memory := Some (closed_slots now ?slots)\<rparr>"]
  have "\<exists>r. find_conversation (cs_conversation_id c)
      (mark_closed now (cs_conversation_id c) (closed_slots now ?slots) (store ?w)) = Some r \<and> cs_status r = ''CLOSED''"
    unfolding mark_closed_def by (simp split: if_splits)
  then show ?thesis unfolding closed by simp
qed


section \<open>A customer who writes\<close>

text \<open>The check stops the step as long as the customer's event is in the database.\<close>

lemma quiet_unless:
  assumes "\<And>d. P d \<Longrightarrow> has_customer_activity_after cfg c t d"
  shows "quiet P anything (unless_customer_wrote cfg c t st go)"
proof -
  have "quiet P (\<lambda>x. case x of Inl _ \<Rightarrow> True | Inr b \<Rightarrow> b) (catching (query (has_customer_activity_after cfg c t)))"
    by (intro quiet_catching quiet_query assms)
  then show ?thesis
    unfolding unless_customer_wrote_def by (rule quiet_andthen) (auto intro: quiet_ret split: sum.splits)
qed

text \<open>
  The times a visit measures the customer's silence from: the latest message, and
  the recorded or recovered start of the cycle.
\<close>

definition silence_starts :: "idle_config \<Rightarrow> conversation_row \<Rightarrow> message_row list \<Rightarrow> time set" where
  "silence_starts cfg c ms =
     {cm_created_at m | m. m \<in> set ms \<and> cm_conversation_id m = cs_conversation_id c} \<union>
     {t. parse_datetime (it_other_times cfg) (dget (slots_of c) ''idle_base_assistant_created_at'') = Some t}"

definition customer_wrote :: "idle_config \<Rightarrow> conversation_row \<Rightarrow> message_row list \<Rightarrow> db \<Rightarrow> bool" where
  "customer_wrote cfg c ms d \<longleftrightarrow> t_messages d = ms \<and>
     (\<exists>r \<in> set (t_inbound d). customer_event_of c r \<and> (\<forall>t \<in> silence_starts cfg c ms. t < activity_time cfg r))"

lemma customer_wrote_updates:
  "customer_wrote cfg c ms d \<Longrightarrow> customer_wrote cfg c ms (update_slot_memory now cid slots d)"
  by (simp add: customer_wrote_def update_slot_memory_def)

lemma customer_wrote_activity:
  "t \<in> silence_starts cfg c ms \<Longrightarrow> customer_wrote cfg c ms d \<Longrightarrow> has_customer_activity_after cfg c t d"
  unfolding customer_wrote_def has_customer_activity_after_def by blast

lemma latest_starts:
  assumes "latest_message (cs_conversation_id c) d = Some m" "customer_wrote cfg c ms d"
  shows "cm_created_at m \<in> silence_starts cfg c ms"
proof -
  obtain rest where "newest_first (filter (\<lambda>m. cm_conversation_id m = cs_conversation_id c) (t_messages d)) = m # rest"
    using assms(1) unfolding latest_message_def by (auto split: list.splits)
  from arg_cong [OF this, of set]
  have "m \<in> set (filter (\<lambda>m. cm_conversation_id m = cs_conversation_id c) (t_messages d))"
    by (simp add: newest_first_def)
  then have "m \<in> set (t_messages d)" "cm_conversation_id m = cs_conversation_id c"
    by simp_all
  then show ?thesis
    using assms(2) by (auto simp: silence_starts_def customer_wrote_def)
qed

lemma recovered_starts:
  assumes "message_created_at (cs_conversation_id c) i d = Some t" "customer_wrote cfg c ms d"
  shows "t \<in> silence_starts cfg c ms"
  using assms by (auto simp: message_created_at_def silence_starts_def customer_wrote_def dest: find_Some_iff_mem)

lemma quiet_clear:
  "quiet (customer_wrote cfg c ms) anything (clear_idle_state now c' slots)"
  unfolding clear_idle_state_def by (rule quiet_andthen [OF quiet_update]) (simp_all add: customer_wrote_updates quiet_ret)

lemma quiet_ask:
  assumes "cm_created_at m \<in> silence_starts cfg c ms"
  shows "quiet (customer_wrote cfg c ms) anything (ask_followup cfg now c slots m)"
  unfolding ask_followup_def Let_def
  by (rule quiet_unless, rule customer_wrote_activity [OF assms])

lemma quiet_continue:
  assumes "cutoff \<in> silence_starts cfg c ms"
  shows "quiet (customer_wrote cfg c ms) anything (continue_cycle cfg now c slots cutoff followup close_sent)"
  unfolding continue_cycle_def
  by (intro quiet_if quiet_unless customer_wrote_activity [OF assms] quiet_ret TrueI)

definition starts_cycle :: "idle_config \<Rightarrow> conversation_row \<Rightarrow> message_row list \<Rightarrow> (time \<times> dict) option \<Rightarrow> bool" where
  "starts_cycle cfg c ms x \<longleftrightarrow> (\<forall>t slots. x = Some (t, slots) \<longrightarrow> t \<in> silence_starts cfg c ms)"

lemma quiet_recover:
  "quiet (customer_wrote cfg c ms) (starts_cycle cfg c ms)
     (recover_cutoff now c slots)"
  unfolding recover_cutoff_def
proof (rule quiet_andthen [OF quiet_lift])
  fix i
  have "quiet (customer_wrote cfg c ms) (\<lambda>x. case x of None \<Rightarrow> True | Some t \<Rightarrow> t \<in> silence_starts cfg c ms)
      (query (message_created_at (cs_conversation_id c) i))"
    by (rule quiet_query) (simp add: recovered_starts split: option.split)
  then show "quiet (customer_wrote cfg c ms) (starts_cycle cfg c ms)
     (andthen (query (message_created_at (cs_conversation_id c) i)) (\<lambda>found. case found of None \<Rightarrow> ret None
     | Some t \<Rightarrow>
         (let slots' = dput slots ''idle_base_assistant_created_at'' (stamp t) in
          andthen (update (update_slot_memory now (cs_conversation_id c) slots')) (\<lambda>_. ret (Some (t, slots'))))))"
    by (rule quiet_andthen)
      (auto simp: Let_def starts_cycle_def split: option.splits intro!: quiet_ret quiet_andthen [OF quiet_update] customer_wrote_updates)
qed

lemma quiet_cycle:
  assumes "cm_created_at m \<in> silence_starts cfg c ms"
    and "followup = None \<and> \<not> close_sent \<or> slots = slots_of c"
  shows "quiet (customer_wrote cfg c ms) anything (idle_cycle cfg now c m slots followup close_sent)"
proof (cases "followup = None \<and> \<not> close_sent")
  case True
  then show ?thesis unfolding idle_cycle_def by (simp only: if_True quiet_ask [OF assms(1)] simp_thms)
next
  case False
  then have slots: "slots = slots_of c" using assms(2) by blast
  have "quiet (customer_wrote cfg c ms)
      (\<lambda>x. case x of Inl _ \<Rightarrow> True | Inr y \<Rightarrow> starts_cycle cfg c ms y)
      (resolve_idle_cycle_cutoff cfg now c slots)"
    unfolding resolve_idle_cycle_cutoff_def
    by (auto split: option.split intro!: quiet_ret quiet_catching [OF quiet_recover]
        simp: slots starts_cycle_def silence_starts_def)
  then have "quiet (customer_wrote cfg c ms) anything (andthen (resolve_idle_cycle_cutoff cfg now c slots) (\<lambda>found.
           case found of
             Inl e \<Rightarrow> ret (idle_error ''SKIPPED_MISSING_IDLE_CYCLE_CUTOFF'' e)
           | Inr None \<Rightarrow> ret (idle_result ''SKIPPED_MISSING_IDLE_CYCLE_CUTOFF'')
           | Inr (Some (cutoff, slots')) \<Rightarrow> continue_cycle cfg now c slots' cutoff followup close_sent))"
    by (rule quiet_andthen) (auto simp: starts_cycle_def split: sum.splits option.splits prod.splits intro: quiet_ret quiet_continue)
  then show ?thesis unfolding idle_cycle_def if_not_P [OF False] .
qed


section \<open>Handing over after a failure of the language model\<close>

lemma handoff_request_run:
  assumes "request_ai_failure_handoff cfg now c reason w = (Inr b, w')"
  shows "b = ai_failure_eligible (find_conversation (cs_conversation_id c) (store w)) \<and>
    (if b then \<exists>row res. find_conversation (cs_conversation_id c) (store w) = Some row \<and>
        ec_insert_idempotent (it_sha cfg) now (ai_failure_command cfg c reason)
          (set_conversation now (cs_conversation_id c) (requested_row now reason row) (store w)) = Inr (res, store w')
     else store w' = store w)"
proof -
  obtain w1 w2 :: "service_call world" where "store w1 = store w" and fin: "store w' = store w2"
    and body: "andthen (query (find_conversation (cs_conversation_id c))) (\<lambda>row.
       if \<not> ai_failure_eligible row then ret False
       else andthen (update (set_conversation now (cs_conversation_id c) (requested_row now reason (the row)))) (\<lambda>_.
            andthen (stmt (ec_insert_idempotent (it_sha cfg) now (ai_failure_command cfg c reason))) (\<lambda>_.
            ret True))) w1 = (Inr b, w2)"
    using assms unfolding request_ai_failure_handoff_def
    by (rule transaction_commit) (rule that, assumption+)
  then show ?thesis
    by (cases "find_conversation (cs_conversation_id c) (store w)")
      (auto simp: run_iffs ai_failure_eligible_def split: if_splits dest!: query_InrD update_InrD stmt_InrD)
qed

lemma requested_status:
  assumes "find_conversation cid d = Some row"
    and "ec_insert_idempotent sha now' cmd (set_conversation now cid (requested_row now reason row) d) = Inr (res, d')"
  shows "map_option cs_status (find_conversation cid d') = Some ''HANDOFF_REQUESTED''"
proof -
  have "find_conversation cid (set_conversation now cid (requested_row now reason row) d) =
      Some (touch now row (requested_row now reason row row))"
    by (rule find_set_conversation [OF assms(1)]) (simp add: requested_row_def)
  moreover have "t_conversations d' = t_conversations (set_conversation now cid (requested_row now reason row) d)"
    using assms(2) by (auto simp: ec_insert_idempotent_def split: option.splits prod.splits)
  ultimately show ?thesis by (simp add: find_conversation_def requested_row_def)
qed

text \<open>
  When the language model fails while the timer composes a text, the
  conversation is handed over in one transaction: either nothing is written, or
  the conversation is marked as waiting for a human and a handoff command for it
  is in the queue.  A conversation that a human already has, or that is closed, is
  left alone.
\<close>

theorem ai_failure_handoff_outcome:
  assumes "request_ai_failure_handoff cfg now c reason w = (r, w')"
  shows "if r = Inr True
     then ai_failure_eligible (find_conversation (cs_conversation_id c) (store w)) \<and>
       map_option cs_status (find_conversation (cs_conversation_id c) (store w')) = Some ''HANDOFF_REQUESTED'' \<and>
       ec_known (it_sha cfg) (ai_failure_command cfg c reason) (store w')
     else store w' = store w"
proof (cases r)
  case (Inl e)
  then show ?thesis using transaction_rollback assms unfolding request_ai_failure_handoff_def by auto
next
  case (Inr b)
  note run = handoff_request_run [OF assms [unfolded Inr]]
  show ?thesis
  proof (cases b)
    case True
    then obtain row res where row: "find_conversation (cs_conversation_id c) (store w) = Some row"
      and ins: "ec_insert_idempotent (it_sha cfg) now (ai_failure_command cfg c reason)
          (set_conversation now (cs_conversation_id c) (requested_row now reason row) (store w)) = Inr (res, store w')"
      using run by auto
    then show ?thesis using True Inr run ec_insert_makes_known [OF ins] requested_status [OF row ins] by simp
  qed (use Inr run in simp)
qed

text \<open>
  The deduplication key names the conversation and the operation only: a second
  failure in a conversation whose first handoff is over marks it as waiting for a
  human again, and adds no command that would bring one.
\<close>

lemma second_handoff_has_no_command:
  assumes "ec_known (it_sha cfg) (ai_failure_command cfg c earlier) (store w)"
    and "request_ai_failure_handoff cfg now c reason w = (Inr True, w')"
  shows "t_commands (store w') = t_commands (store w) \<and>
     map_option cs_status (find_conversation (cs_conversation_id c) (store w')) = Some ''HANDOFF_REQUESTED''"
proof
  have key: "command_dedup_key (it_sha cfg) (ai_failure_command cfg c reason) =
      command_dedup_key (it_sha cfg) (ai_failure_command cfg c earlier)"
    by (simp add: command_dedup_key_def ai_failure_command_def Let_def build_external_command_dedup_key_def)
  obtain row res where
    ins: "ec_insert_idempotent (it_sha cfg) now (ai_failure_command cfg c reason)
        (set_conversation now (cs_conversation_id c) (requested_row now reason row) (store w)) = Inr (res, store w')"
    using handoff_request_run [OF assms(2)] by auto
  have known: "ec_known (it_sha cfg) (ai_failure_command cfg c reason)
      (set_conversation now (cs_conversation_id c) (requested_row now reason row) (store w))"
    using assms(1) by (simp add: ec_known_def key set_conversation_def)
  have "ci_chat_id (ai_failure_command cfg c reason) = Some (cs_chat_id c)"
    by (simp add: ai_failure_command_def Let_def)
  from ins [unfolded ec_insert_known [OF this known]]
  have "store w' = set_conversation now (cs_conversation_id c) (requested_row now reason row) (store w)" by simp
  then show "t_commands (store w') = t_commands (store w)" by (simp add: set_conversation_def)
  show "map_option cs_status (find_conversation (cs_conversation_id c) (store w')) = Some ''HANDOFF_REQUESTED''"
  proof -
    obtain row' res' where row: "find_conversation (cs_conversation_id c) (store w) = Some row'"
      and ins': "ec_insert_idempotent (it_sha cfg) now (ai_failure_command cfg c reason)
        (set_conversation now (cs_conversation_id c) (requested_row now reason row') (store w)) = Inr (res', store w')"
      using handoff_request_run [OF assms(2)] by auto
    show ?thesis by (rule requested_status [OF row ins'])
  qed
qed

end
