(* ===== verification/Polling.thy ===== *)
theory Polling
  imports Inbound Platforms LiveChat_Client Calendar
begin

text \<open>
  Receiving LiveChat events by polling: \<open>src/app/channels/livechat/normalizer.py\<close> and
  \<open>src/app/channels/livechat/polling_receiver.py\<close>.

  The chats, threads, events and users of LiveChat's replies are objects where its
  API documents objects: a value of another kind in their place counts as an
  empty one, where the code would raise an \<open>AttributeError\<close>.  A Python set of group
  numbers is an ascending list without repetitions.
\<close>

section \<open>LiveChat's objects\<close>

definition int_set :: "int list \<Rightarrow> int list" where
  "int_set xs = sort (remdups xs)"

definition group_number :: "json \<Rightarrow> int option" where
  "group_number v = (let t = str_strip (py_str v) in if is_decimal t then py_int t else None)"

definition chat_group_ids :: "dict \<Rightarrow> int list" where
  "chat_group_ids chat =
     (let routing = dget (dict_of (dget chat ''routing_status'')) ''group_id'';
          vals = items_of (dget (dict_of (dget chat ''access'')) ''group_ids'') @ items_of (dget chat ''group_ids'')
            @ (if routing = JNull then [] else [routing])
            @ (if dget chat ''group_id'' = JNull then [] else [dget chat ''group_id''])
      in int_set (List.map_filter group_number vals))"

definition chat_matches_allowed_groups :: "dict \<Rightarrow> int list \<Rightarrow> bool" where
  "chat_matches_allowed_groups chat allowed \<longleftrightarrow> allowed = [] \<or>
     (\<exists>g \<in> set (chat_group_ids chat). g \<in> set allowed \<and> text_true (platform_for_livechat_group_id (JInt g)))"

text \<open>\<open>{str(user["id"]): user ...}\<close>: the last user of an identifier counts.\<close>

definition find_user :: "dict list \<Rightarrow> json \<Rightarrow> dict option" where
  "find_user users author =
     find (\<lambda>u. dget u ''id'' \<noteq> JNull \<and> py_str (dget u ''id'') = py_str author) (rev users)"

definition content_types :: "json list" where
  "content_types = [JStr ''message'', JStr ''file'']"

definition is_content :: "dict \<Rightarrow> bool" where
  "is_content ev \<longleftrightarrow> dget ev ''type'' \<in> set content_types"

definition is_agent :: "dict option \<Rightarrow> bool" where
  "is_agent u = (case u of None \<Rightarrow> False | Some d \<Rightarrow> d \<noteq> [] \<and> dget d ''type'' = JStr ''agent'')"

section \<open>Normalizing a polled event\<close>

record polling_env =
  pe_services :: services
  pe_sha :: "string \<Rightarrow> string"
  pe_other_times :: "string \<Rightarrow> exn + string"
  pe_self_ids :: "string list"
  pe_allowed :: "int list"

text \<open>A field that the event schema declares \<open>str | None\<close>.\<close>

definition text_field :: "json \<Rightarrow> exn + string option" where
  "text_field j = (case j of JNull \<Rightarrow> Inr None | JStr s \<Rightarrow> Inr (Some s) | _ \<Rightarrow> Inl (ValueError ''validation''))"

definition sender_role_from_author :: "string option \<Rightarrow> string list \<Rightarrow> string" where
  "sender_role_from_author author self_ids =
     (if \<not> text_true author then ''system''
      else if text_or [] author \<in> set self_ids then ''self_agent'' else ''external'')"

definition author_type_from_payload :: "dict \<Rightarrow> json \<Rightarrow> string option" where
  "author_type_from_payload payload author =
     (if \<not> truthy author then None
      else case find (\<lambda>u. py_str (dget u ''id'') = py_str author) (dicts_of (dget payload ''chat_users'')) of
             None \<Rightarrow> None | Some u \<Rightarrow> opt_text (dget u ''type''))"

definition standard_event_from_type :: "json \<Rightarrow> string" where
  "standard_event_from_type t =
     (if t = JStr ''message'' then ''MESSAGE_CREATED'' else if t = JStr ''file'' then ''FILE_RECEIVED''
      else if t = JStr ''chat_started'' then ''CHAT_STARTED''
      else if t = JStr ''thread_started'' then ''THREAD_STARTED'' else ''UNSUPPORTED'')"

definition make_dedup_key ::
  "(string \<Rightarrow> string) \<Rightarrow> string option \<Rightarrow> string option \<Rightarrow> string option \<Rightarrow> dict \<Rightarrow> string" where
  "make_dedup_key sha chat thread event payload =
     (if text_true chat \<and> text_true thread \<and> text_true event
      then ''livechat_polling:'' @ text_or [] chat @ '':'' @ text_or [] thread @ '':'' @ text_or [] event
      else ''livechat_polling:'' @ text_or ''-'' chat @ '':'' @ text_or ''-'' thread @ '':''
             @ sha (json_dumps_sorted (JObj payload)))"

fun platform_from_groups :: "int list \<Rightarrow> (int \<times> string) option" where
  "platform_from_groups [] = None"
| "platform_from_groups (g # gs) =
     (case platform_for_livechat_group_id (JInt g) of
        Some p \<Rightarrow> if p = [] then platform_from_groups gs else Some (g, p)
      | None \<Rightarrow> platform_from_groups gs)"

definition polled_payload :: "dict \<Rightarrow> dict" where
  "polled_payload p =
     (let found = platform_from_groups (int_set (List.map_filter group_number (items_of (dget p ''group_ids'')))) in
      dmerge p
        [(''ingress_source'', or_json (dget p ''ingress_source'') (JStr ''polling'')),
         (''group_ids'', or_json (dget p ''group_ids'') (JArr [])),
         (''platform'', or_json (dget p ''platform'') (opt_json (map_option snd found))),
         (''livechat_group_id'', or_json (dget p ''livechat_group_id'') (case found of None \<Rightarrow> JNull | Some (g, _) \<Rightarrow> JInt g)),
         (''allowed_platform'', JBool (case map_of p ''allowed_platform'' of Some v \<Rightarrow> truthy v | None \<Rightarrow> found \<noteq> None)),
         (''chat_users'', or_json (dget p ''chat_users'') (JArr [])),
         (''polling_source'', or_json (dget p ''polling_source'') (JStr ''unknown'')),
         (''last_thread_summary'', or_json (dget p ''last_thread_summary'') (JObj []))])"

text \<open>\<open>value.replace\<close> of a \<open>created_at\<close> that is no text fails.\<close>

definition occurred_text :: "(string \<Rightarrow> exn + string) \<Rightarrow> json \<Rightarrow> exn + string option" where
  "occurred_text other j =
     (if \<not> truthy j then Inr None
      else case j of JStr s \<Rightarrow> parse_rfc3339_to_mysql other (Some s) | _ \<Rightarrow> Inl (OtherError ''AttributeError''))"

definition normalize_polling_event :: "polling_env \<Rightarrow> dict \<Rightarrow> exn + inbound_event" where
  "normalize_polling_event env p =
     (let ev = dict_of (dget p ''event'') in
      case occurred_text (pe_other_times env) (dget ev ''created_at'') of
        Inl e \<Rightarrow> Inl e
      | Inr occurred \<Rightarrow>
          (case all_ok (map text_field [dget p ''organization_id'', dget p ''chat_id'', dget p ''thread_id'',
                  dget ev ''id'', dget ev ''type'', dget ev ''author_id'']) of
             Inr [org, chat, thread, event, etype, author] \<Rightarrow>
               (let role = sender_role_from_author author (pe_self_ids env);
                    ign = (role = ''self_agent'') in
                Inr \<lparr>ev_source = ''polling_fallback'', ev_raw_action = ''polling.event'', ev_organization_id = org,
                     ev_chat_id = chat, ev_thread_id = thread, ev_event_id = event, ev_event_type = etype,
                     ev_standard_event_type = standard_event_from_type (dget ev ''type''), ev_author_id = author,
                     ev_sender_role = role, ev_occurred_at = occurred,
                     ev_dedup_key = make_dedup_key (pe_sha env) chat thread event (polled_payload p),
                     ev_payload = polled_payload p, ev_ignored = ign,
                     ev_ignore_reason = (if ign then Some ''self_message'' else None)\<rparr>)
           | Inl e \<Rightarrow> Inl e
           | _ \<Rightarrow> Inl (ValueError ''validation'')))"

text \<open>\<open>normalize_ingress_event\<close>: the reason why an event is dropped, or the event.\<close>

definition normalize_ingress_event :: "polling_env \<Rightarrow> dict \<Rightarrow> exn + (string + inbound_event)" where
  "normalize_ingress_event env p =
     (let author = dget (dict_of (dget p ''event'')) ''author_id'' in
      if truthy author \<and> py_str author \<in> set (pe_self_ids env) then Inr (Inl ''self_message'')
      else if author_type_from_payload p author = Some ''agent'' then Inr (Inl ''agent_message'')
      else map_sum id Inr (normalize_polling_event env p))"

section \<open>The events of a chat\<close>

definition summarize_thread :: "dict \<Rightarrow> dict" where
  "summarize_thread thread =
     dput (filter (\<lambda>(k, v). k \<noteq> ''events'') thread) ''event_count''
       (JInt (int (length (items_of (dget thread ''events'')))))"

definition thread_has_human :: "dict \<Rightarrow> dict list \<Rightarrow> string list \<Rightarrow> bool" where
  "thread_has_human thread users self_ids \<longleftrightarrow>
     (\<exists>ev \<in> set (dicts_of (dget thread ''events'')). is_content ev \<and>
        (let author = str_or [] (dget ev ''author_id'') in
         is_agent (find_user users (JStr author)) \<and> author \<notin> set self_ids))"

definition thread_has_rich_message :: "dict \<Rightarrow> bool" where
  "thread_has_rich_message thread \<longleftrightarrow>
     (\<exists>ev \<in> set (dicts_of (dget thread ''events'')). dget ev ''type'' = JStr ''rich_message'')"

definition chat_threads :: "dict \<Rightarrow> dict list" where
  "chat_threads chat =
     map dict_of (filter truthy [dget chat ''thread'', dget chat ''active_thread''] @ items_of (dget chat ''threads''))"

definition polled :: "int list \<Rightarrow> json \<Rightarrow> string \<Rightarrow> dict \<Rightarrow> json \<Rightarrow> json \<Rightarrow> json \<Rightarrow> dict" where
  "polled groups users src summary chat thread event =
     [(''ingress_source'', JStr ''polling''), (''group_ids'', JArr (map JInt groups)), (''chat_users'', users),
      (''polling_source'', JStr src), (''last_thread_summary'', JObj summary), (''chat_id'', chat),
      (''thread_id'', thread), (''event'', event)]"

definition thread_payloads :: "bool \<Rightarrow> string list \<Rightarrow> dict \<Rightarrow> dict \<Rightarrow> dict list" where
  "thread_payloads include_agents self_ids chat thread =
     (let groups = chat_group_ids chat;
          users = or_json (dget chat ''users'') (JArr []);
          tid = or_json (dget thread ''id'') (dget thread ''thread_id'');
          mk = polled groups users ''get_chat'' (summarize_thread thread) (dget chat ''id'') tid in
      (if truthy tid \<and> \<not> thread_has_human thread (dicts_of users) self_ids \<and> \<not> thread_has_rich_message thread
       then [mk (JObj [(''id'', JStr (''intro:'' @ py_str (dget chat ''id'') @ '':'' @ py_str tid)),
                       (''type'', JStr ''thread_started''), (''author_id'', JNull),
                       (''created_at'', or_json (dget thread ''created_at'') (dget chat ''created_at''))])]
       else [])
      @ map (\<lambda>ev. mk (JObj ev)) (filter (\<lambda>ev. is_content ev \<and>
          \<not> (is_agent (find_user (dicts_of users) (dget ev ''author_id'')) \<and> \<not> include_agents))
          (dicts_of (dget thread ''events''))))"

definition extract_from_chat_detail :: "bool \<Rightarrow> string list \<Rightarrow> dict \<Rightarrow> dict list" where
  "extract_from_chat_detail include_agents self_ids chat =
     concat (map (thread_payloads include_agents self_ids chat) (chat_threads chat))"

definition extract_thread_started :: "string list \<Rightarrow> dict \<Rightarrow> dict list" where
  "extract_thread_started self_ids summary =
     (let threads = filter truthy [dget summary ''thread'', dget summary ''active_thread''] in
      if threads = [] then []
      else extract_from_chat_detail False self_ids
        [(''id'', dget summary ''id''), (''access'', or_json (dget summary ''access'') (JObj [])),
         (''group_ids'', or_json (dget summary ''group_ids'') (JArr [])),
         (''routing_status'', or_json (dget summary ''routing_status'') (JObj [])),
         (''group_id'', dget summary ''group_id''), (''users'', or_json (dget summary ''users'') (JArr [])),
         (''threads'', JArr threads)])"

definition extract_from_chat_summary :: "bool \<Rightarrow> dict \<Rightarrow> dict list" where
  "extract_from_chat_summary include_agents summary =
     (let users = or_json (dget summary ''users'') (JArr []) in
      concat (map (\<lambda>(k, entry). case entry of
          JObj en \<Rightarrow>
            (let ev = dict_of (dget en ''event'') in
             if (is_agent (find_user (dicts_of users) (dget ev ''author_id'')) \<and> \<not> include_agents) \<or> \<not> is_content ev then []
             else [polled (chat_group_ids summary) users ''list_chats_summary_fallback''
                     (filter (\<lambda>(k, v). k \<noteq> ''event'') en) (dget summary ''id'')
                     (or_json (dget en ''thread_id'') (dget ev ''thread_id'')) (JObj ev)])
        | _ \<Rightarrow> []) (dict_of (dget summary ''last_event_per_type''))))"

section \<open>One polling cycle\<close>

text \<open>
  The receiver remembers the events it inserted; the counters are those of
  \<open>empty_polling_stats\<close>.
\<close>

record receiver =
  rc_created_at :: "string option"
  rc_seen :: "string list"
  rc_inserted :: nat
  rc_duplicates :: nat
  rc_ignored :: nat
  rc_ignored_self :: nat
  rc_ignored_agent :: nat
  rc_ignored_group :: nat
  rc_matched_group :: nat
  rc_events :: "inbound_event list"

definition count_ignored :: "string \<Rightarrow> receiver \<Rightarrow> receiver" where
  "count_ignored reason r =
     (let r1 = r\<lparr>rc_ignored := rc_ignored r + 1\<rparr> in
      if reason = ''self_message'' then r1\<lparr>rc_ignored_self := rc_ignored_self r1 + 1\<rparr>
      else if reason = ''agent_message'' then r1\<lparr>rc_ignored_agent := rc_ignored_agent r1 + 1\<rparr> else r1)"

definition note_inserted :: "inbound_event \<Rightarrow> receiver \<Rightarrow> receiver" where
  "note_inserted ev r =
     r\<lparr>rc_inserted := rc_inserted r + 1, rc_events := rc_events r @ [ev],
       rc_seen := (if text_true (ev_event_id ev) then text_or [] (ev_event_id ev) # rc_seen r else rc_seen r),
       rc_created_at := (if text_true (ev_occurred_at ev) then ev_occurred_at ev else rc_created_at r)\<rparr>"

definition seen_before :: "inbound_event \<Rightarrow> receiver \<Rightarrow> bool" where
  "seen_before ev r \<longleftrightarrow> text_true (ev_event_id ev) \<and> text_or [] (ev_event_id ev) \<in> set (rc_seen r)"

definition ingest :: "polling_env \<Rightarrow> time \<Rightarrow> dict \<Rightarrow> receiver \<Rightarrow> receiver job" where
  "ingest env now p r =
     andthen (lift (normalize_ingress_event env p)) (\<lambda>norm.
     case norm of
       Inl reason \<Rightarrow> ret (count_ignored reason r)
     | Inr ev \<Rightarrow>
         if seen_before ev r then ret (r\<lparr>rc_duplicates := rc_duplicates r + 1\<rparr>)
         else andthen (ib_insert now ev) (\<lambda>inserted.
              ret (if inserted then note_inserted ev r else r\<lparr>rc_duplicates := rc_duplicates r + 1\<rparr>)))"

fun ingest_all :: "polling_env \<Rightarrow> time \<Rightarrow> dict list \<Rightarrow> receiver \<Rightarrow> receiver job" where
  "ingest_all env now [] r = ret r"
| "ingest_all env now (p # ps) r = andthen (ingest env now p r) (\<lambda>r'. ingest_all env now ps r')"

text \<open>A chat whose detail is forbidden is read from the summary.\<close>

definition poll_detail :: "polling_env \<Rightarrow> dict \<Rightarrow> dict list option job" where
  "poll_detail env summary =
     try_except
       (andthen (case map_of summary ''id'' of
            None \<Rightarrow> raise (KeyError ''id'') | Some i \<Rightarrow> get_chat (pe_services env) (py_str i)) (\<lambda>chat.
        ret (if \<not> chat_matches_allowed_groups chat (pe_allowed env) then None
             else Some (extract_from_chat_detail True (pe_self_ids env) chat))))
       (\<lambda>e. case e of
          LiveChatError st d \<Rightarrow> if st \<noteq> 403 then raise e else ret (Some (extract_from_chat_summary True summary))
        | _ \<Rightarrow> raise e)"

definition poll_chat :: "polling_env \<Rightarrow> time \<Rightarrow> dict \<Rightarrow> receiver \<Rightarrow> receiver job" where
  "poll_chat env now summary r =
     (if \<not> chat_matches_allowed_groups summary (pe_allowed env)
      then ret (r\<lparr>rc_ignored_group := rc_ignored_group r + 1\<rparr>)
      else andthen (ingest_all env now (extract_thread_started (pe_self_ids env) summary)
               (r\<lparr>rc_matched_group := rc_matched_group r + 1\<rparr>)) (\<lambda>r1.
        if rc_inserted r < rc_inserted r1 then ret r1
        else andthen (poll_detail env summary) (\<lambda>found.
             case found of
               None \<Rightarrow> ret (r1\<lparr>rc_ignored_group := rc_ignored_group r1 + 1\<rparr>)
             | Some ps \<Rightarrow> ingest_all env now ps r1)))"

fun poll_chats :: "polling_env \<Rightarrow> time \<Rightarrow> dict list \<Rightarrow> receiver \<Rightarrow> receiver job" where
  "poll_chats env now [] r = ret r"
| "poll_chats env now (c # cs) r = andthen (poll_chat env now c r) (\<lambda>r'. poll_chats env now cs r')"

definition receive_once :: "polling_env \<Rightarrow> time \<Rightarrow> int \<Rightarrow> receiver \<Rightarrow> receiver job" where
  "receive_once env now limit r =
     andthen (list_chats (pe_services env) limit) (\<lambda>listed. poll_chats env now (map dict_of listed)
       (r\<lparr>rc_inserted := 0, rc_duplicates := 0, rc_ignored := 0, rc_ignored_self := 0, rc_ignored_agent := 0,
          rc_ignored_group := 0, rc_matched_group := 0, rc_events := []\<rparr>))"

section \<open>What polling puts into the queue\<close>

text \<open>Rows that are new satisfy a condition.\<close>

interpretation new_inbound: db_preorder "\<lambda>d d'. \<forall>r \<in> set (t_inbound d') - set (t_inbound d). G r" for G :: "inbound_row \<Rightarrow> bool"
  by unfold_locales auto

abbreviation adds_inbound :: "(inbound_row \<Rightarrow> bool) \<Rightarrow> 'a job \<Rightarrow> bool" where
  "adds_inbound G \<equiv> stays (\<lambda>d d'. \<forall>r \<in> set (t_inbound d') - set (t_inbound d). G r)"

lemma adds_inbound_same: "keeps t_inbound m \<Longrightarrow> adds_inbound G m"
  by (simp add: stays_def)

lemma no_db_keeps: "no_db m \<Longrightarrow> keeps g m"
  by (simp add: stays_def no_db_def)

lemma mark_human_active_keeps_inbound: "keeps t_inbound (mark_human_active now ev)"
  unfolding mark_human_active_def Let_def human_active_update_def upsert_conversation_def
  by (intro keeps.stays_intros keeps.stays_update) simp_all

lemma adds_inbound_insert:
  assumes "\<And>i. G (new_inbound_row now ev i)"
  shows "adds_inbound G (ib_insert now ev)"
proof -
  have "adds_inbound G (exec (ib_insert_row now ev))"
    by (rule new_inbound.stays_exec)
      (auto simp: ib_insert_row_def insert_new_def Let_def assms split: if_splits)
  then show ?thesis
    unfolding ib_insert_def
    by (intro new_inbound.stays_intros adds_inbound_same [OF mark_human_active_keeps_inbound])
qed

lemma all_ok_Inr_iff:
  "all_ok [] = Inr ys \<longleftrightarrow> ys = []"
  "all_ok (x # xs) = Inr ys \<longleftrightarrow> (\<exists>y zs. x = Inr y \<and> all_ok xs = Inr zs \<and> ys = y # zs)"
  by (cases x; auto split: sum.splits)+

lemma text_field_Inr: "text_field j = Inr x \<Longrightarrow> x = None \<and> j = JNull \<or> (\<exists>s. x = Some s \<and> j = JStr s)"
  by (auto simp: text_field_def split: json.splits)

lemma normalized_event:
  assumes "normalize_polling_event env p = Inr ev"
  shows "ev_source ev = ''polling_fallback'' \<and>
    ev_sender_role ev = sender_role_from_author (ev_author_id ev) (pe_self_ids env) \<and>
    ev_ignored ev = (ev_sender_role ev = ''self_agent'') \<and>
    text_field (dget (dict_of (dget p ''event'')) ''author_id'') = Inr (ev_author_id ev) \<and>
    ev_dedup_key ev = make_dedup_key (pe_sha env) (ev_chat_id ev) (ev_thread_id ev) (ev_event_id ev) (polled_payload p)"
  using assms unfolding normalize_polling_event_def Let_def
  by (auto simp: all_ok_Inr_iff split: sum.splits list.splits)

definition admissible :: "polling_env \<Rightarrow> inbound_row \<Rightarrow> bool" where
  "admissible env r \<longleftrightarrow> in_source r = ''polling_fallback'' \<and> \<not> in_ignored r \<and>
     in_sender_role r \<in> {''external'', ''system''} \<and> text_or [] (in_author_id r) \<notin> set (pe_self_ids env) - {[]}"

lemma ingress_admissible:
  assumes "normalize_ingress_event env p = Inr (Inr ev)"
  shows "admissible env (new_inbound_row now ev i)"
proof -
  let ?author = "dget (dict_of (dget p ''event'')) ''author_id''"
  have ev: "normalize_polling_event env p = Inr ev" and other: "\<not> (truthy ?author \<and> py_str ?author \<in> set (pe_self_ids env))"
    using assms unfolding normalize_ingress_event_def Let_def
    by (cases "normalize_polling_event env p"; auto split: if_splits)+
  note n = normalized_event [OF ev]
  have "text_true (ev_author_id ev) \<Longrightarrow> text_or [] (ev_author_id ev) \<notin> set (pe_self_ids env)"
    using other n text_field_Inr [of ?author "ev_author_id ev"] by (auto simp: py_str_def)
  moreover have "\<not> text_true (ev_author_id ev) \<Longrightarrow> text_or [] (ev_author_id ev) = []"
    by (cases "ev_author_id ev") simp_all
  ultimately show ?thesis
    using n by (auto simp: admissible_def new_inbound_row_def sender_role_from_author_def)
qed

lemma ingest_adds: "adds_inbound (admissible env) (ingest env now p r)"
proof (cases "normalize_ingress_event env p")
  case (Inl e)
  then have "ingest env now p r = raise e"
    by (simp add: ingest_def fun_eq_iff andthen_def lift_def raise_def)
  then show ?thesis by (simp add: new_inbound.stays_raise)
next
  case (Inr norm)
  then have run: "ingest env now p r = (case norm of
       Inl reason \<Rightarrow> ret (count_ignored reason r)
     | Inr ev \<Rightarrow>
         if seen_before ev r then ret (r\<lparr>rc_duplicates := rc_duplicates r + 1\<rparr>)
         else andthen (ib_insert now ev) (\<lambda>inserted.
              ret (if inserted then note_inserted ev r else r\<lparr>rc_duplicates := rc_duplicates r + 1\<rparr>)))"
    by (simp add: ingest_def fun_eq_iff andthen_def lift_def)
  show ?thesis
  proof (cases norm)
    case (Inl reason)
    then show ?thesis by (simp add: run new_inbound.stays_ret)
  next
    case (Inr ev)
    then have "admissible env (new_inbound_row now ev i)" for i
      using ingress_admissible \<open>normalize_ingress_event env p = Inr norm\<close> by simp
    then show ?thesis
      unfolding run Inr sum.case by (intro new_inbound.stays_intros adds_inbound_insert)
  qed
qed

lemma ingest_all_adds: "adds_inbound (admissible env) (ingest_all env now ps r)"
  by (induction ps arbitrary: r) (auto intro: new_inbound.stays_ret new_inbound.stays_andthen ingest_adds)

lemma poll_detail_keeps: "keeps t_inbound (poll_detail env summary)"
  unfolding poll_detail_def
  by (intro keeps.stays_try_except keeps.stays_andthen keeps.stays_option)
    (auto split: exn.split intro: keeps.stays_raise keeps.stays_ret no_db_keeps client_no_db)

lemma poll_chat_adds: "adds_inbound (admissible env) (poll_chat env now summary r)"
  unfolding poll_chat_def
  by (intro new_inbound.stays_intros ingest_all_adds adds_inbound_same [OF poll_detail_keeps])

lemma poll_chats_adds: "adds_inbound (admissible env) (poll_chats env now cs r)"
  by (induction cs arbitrary: r) (auto intro: new_inbound.stays_ret new_inbound.stays_andthen poll_chat_adds)

text \<open>
  Polling never queues what the bot itself wrote: whatever LiveChat returns
  and whatever fails, every event that a polling cycle adds to the queue is from
  a customer or from the system, is not ignored, and its author is none of the
  bot's own identities.
\<close>

theorem polling_skips_own_messages:
  "set (t_inbound (store (snd (receive_once env now limit rc w)))) - set (t_inbound (store w)) \<subseteq> {r. admissible env r}"
proof -
  have listed: "keeps t_inbound (list_chats srv n)" for srv n
    unfolding list_chats_def by (intro keeps.stays_intros no_db_keeps post_json_no_db)
  have "adds_inbound (admissible env) (receive_once env now limit rc)"
    unfolding receive_once_def by (intro new_inbound.stays_intros poll_chats_adds adds_inbound_same [OF listed])
  from staysD [OF this] show ?thesis by blast
qed

text \<open>
  A LiveChat event is stored once, however often and through whichever
  reply of LiveChat (the list of chats, the detail, the summary) polling meets
  it: two payloads that carry the same chat, thread and event make the second
  insert a duplicate that changes nothing.
\<close>

theorem polled_event_stored_once:
  assumes "normalize_polling_event env p = Inr ev" "normalize_polling_event env p' = Inr ev'"
    and "ev_chat_id ev' = ev_chat_id ev" "ev_thread_id ev' = ev_thread_id ev" "ev_event_id ev' = ev_event_id ev"
    and "text_true (ev_chat_id ev)" "text_true (ev_thread_id ev)" "text_true (ev_event_id ev)"
    and "ib_insert_row now ev d = (res, d')"
  shows "ib_insert_row now' ev' d' = (None, d')"
proof -
  have "ev_dedup_key ev' = ev_dedup_key ev"
    using normalized_event [OF assms(1)] normalized_event [OF assms(2)] assms(3-8) by (simp add: make_dedup_key_def)
  moreover have "event_known ev d'"
    using assms(9) by (cases "event_known ev d") (auto simp: ib_insert_row_known ib_insert_row_new,
      auto simp: event_known_def new_inbound_row_def)
  ultimately have "event_known ev' d'" by (simp add: event_known_def)
  then show ?thesis by (rule ib_insert_row_known)
qed

end
