(* ===== verification/Webhook.thy ===== *)
theory Webhook
  imports Polling Service_Calls
begin

text \<open>
  Receiving LiveChat events by webhook: \<open>src/app/channels/livechat/webhook_normalizer.py\<close>
  and the handler \<open>src/app/api/livechat_webhook.py\<close>.

  As in \<open>Polling\<close>, LiveChat's nested objects are objects; the checks of the body
  itself, which comes from the network, are modelled with every outcome.  An
  unhandled exception is answered with status 500 by the framework.  Two entries of
  one reply are different Python objects, so the removal of identical ones in
  \<open>_threads\<close> has no effect and is left out.  The log messages are not modelled.
\<close>

section \<open>Configuration\<close>

record webhook_env =
  we_polling :: polling_env
  we_secret :: "string option"
  we_other_secret :: "string option"
  we_exn_name :: "exn \<Rightarrow> string"

abbreviation we_self_ids :: "webhook_env \<Rightarrow> string list" where
  "we_self_ids env \<equiv> pe_self_ids (we_polling env)"

abbreviation we_allowed :: "webhook_env \<Rightarrow> int list" where
  "we_allowed env \<equiv> pe_allowed (we_polling env)"

text \<open>\<open>WebhookAuthError\<close>, \<open>WebhookPayloadError\<close> and the other exceptions.\<close>

datatype refusal = AuthError string | PayloadError string | Failed exn

section \<open>Checking the body\<close>

definition validate_body :: "json \<Rightarrow> refusal + dict" where
  "validate_body b =
     (case b of
        JObj body \<Rightarrow>
          if str_strip (str_or [] (dget body ''action'')) = [] then Inl (PayloadError ''webhook action is required'')
          else (case map_of body ''payload'' of
                  Some (JObj _) \<Rightarrow> Inr body | Some JNull \<Rightarrow> Inr body | None \<Rightarrow> Inr body
                | _ \<Rightarrow> Inl (PayloadError ''webhook payload must be an object''))
      | _ \<Rightarrow> Inl (PayloadError ''webhook body must be a JSON object''))"

definition expected_secret :: "webhook_env \<Rightarrow> string" where
  "expected_secret env = text_or (text_or [] (we_other_secret env)) (we_secret env)"

definition is_ascii :: "string \<Rightarrow> bool" where
  "is_ascii s \<longleftrightarrow> list_all (\<lambda>c. (of_char c :: nat) < 128) s"

text \<open>\<open>hmac.compare_digest\<close> refuses texts that are not ASCII.\<close>

definition validate_secret :: "webhook_env \<Rightarrow> dict \<Rightarrow> refusal + unit" where
  "validate_secret env body =
     (let expected = expected_secret env; actual = dget body ''secret_key'' in
      if expected = [] then Inl (AuthError ''livechat webhook secret is not configured'')
      else if actual = JNull \<or> py_str actual = [] then Inl (AuthError ''webhook secret_key is missing'')
      else if \<not> is_ascii (py_str actual) \<or> \<not> is_ascii expected then Inl (Failed (TypeError ''compare_digest''))
      else if py_str actual \<noteq> expected then Inl (AuthError ''webhook secret_key does not match'')
      else Inr ())"

section \<open>Parts of the payload\<close>

definition payload_of :: "dict \<Rightarrow> dict" where
  "payload_of body = dict_of (dget body ''payload'')"

definition is_dict :: "json \<Rightarrow> bool" where
  "is_dict j = (case j of JObj _ \<Rightarrow> True | _ \<Rightarrow> False)"

definition webhook_threads :: "dict \<Rightarrow> dict list" where
  "webhook_threads chat =
     map dict_of (filter is_dict [dget chat ''thread'', dget chat ''active_thread''])
     @ map dict_of (filter is_dict (items_of (dget chat ''threads'')))"

definition primary_thread :: "dict \<Rightarrow> dict" where
  "primary_thread chat =
     (if is_dict (dget chat ''thread'') then dict_of (dget chat ''thread'')
      else if is_dict (dget chat ''active_thread'') then dict_of (dget chat ''active_thread'')
      else case items_of (dget chat ''threads'') of t # _ \<Rightarrow> dict_of t | [] \<Rightarrow> [])"

definition extract_thread :: "dict \<Rightarrow> dict \<Rightarrow> dict" where
  "extract_thread payload chat =
     (if is_dict (dget payload ''thread'') then dict_of (dget payload ''thread'')
      else if chat \<noteq> [] then primary_thread chat else [])"

definition extract_event :: "dict \<Rightarrow> dict" where
  "extract_event payload =
     (if is_dict (dget payload ''event'') then dict_of (dget payload ''event'') else dict_of (dget payload ''postback''))"

definition extract_postback :: "dict \<Rightarrow> dict \<Rightarrow> dict" where
  "extract_postback payload event =
     (if is_dict (dget payload ''postback'') then dict_of (dget payload ''postback'') else dict_of (dget event ''postback''))"

definition extract_group_ids_from_payload :: "dict \<Rightarrow> int list" where
  "extract_group_ids_from_payload payload =
     (let chat = dict_of (dget payload ''chat'') in
      int_set (concat (chat_group_ids payload # chat_group_ids chat
        # map chat_group_ids (if is_dict (dget payload ''chat'') then webhook_threads chat else [])
        @ [chat_group_ids (dict_of (dget payload ''thread''))])))"

definition collect_group_ids :: "dict \<Rightarrow> dict \<Rightarrow> dict option \<Rightarrow> int list" where
  "collect_group_ids payload chat lookup =
     int_set (extract_group_ids_from_payload payload @ chat_group_ids chat
       @ (case lookup of None \<Rightarrow> [] | Some l \<Rightarrow> chat_group_ids l))"

text \<open>The platform of the least group that is allowed and has one.\<close>

definition webhook_platform :: "webhook_env \<Rightarrow> dict \<Rightarrow> dict \<Rightarrow> dict option \<Rightarrow> (int \<times> string) option" where
  "webhook_platform env payload chat lookup =
     platform_from_groups (filter (\<lambda>g. we_allowed env = [] \<or> g \<in> set (we_allowed env))
       (collect_group_ids payload chat lookup))"

definition platform_context :: "(int \<times> string) option \<Rightarrow> dict" where
  "platform_context found =
     [(''platform'', opt_json (map_option snd found)),
      (''livechat_group_id'', case found of None \<Rightarrow> JNull | Some (g, _) \<Rightarrow> JInt g),
      (''allowed_platform'', JBool (found \<noteq> None))]"

definition users_of :: "dict \<Rightarrow> dict list" where
  "users_of d = dicts_of (or_json (dget d ''users'') (dget d ''chat_users''))"

definition webhook_author_type :: "dict \<Rightarrow> dict \<Rightarrow> string option \<Rightarrow> dict option \<Rightarrow> string option" where
  "webhook_author_type chat payload author lookup =
     (if \<not> text_true author then None
      else case first_text [dget payload ''author_type'', dget (extract_event payload) ''author_type''] of
             Some t \<Rightarrow> Some t
           | None \<Rightarrow>
               (case find (\<lambda>u. py_str (dget u ''id'') = text_or [] author)
                       (users_of payload @ users_of chat @ (case lookup of None \<Rightarrow> [] | Some l \<Rightarrow> users_of l)) of
                  None \<Rightarrow> None | Some u \<Rightarrow> opt_text (dget u ''type'')))"

section \<open>The event\<close>

definition webhook_dedup_key ::
  "(string \<Rightarrow> string) \<Rightarrow> string \<Rightarrow> string option \<Rightarrow> string option \<Rightarrow> string option \<Rightarrow> dict \<Rightarrow> string" where
  "webhook_dedup_key sha action chat thread event body =
     (if text_true chat \<and> text_true thread \<and> text_true event
      then ''livechat_webhook:'' @ action @ '':'' @ text_or [] chat @ '':'' @ text_or [] thread @ '':'' @ text_or [] event
      else ''livechat_webhook:'' @ action @ '':'' @ text_or ''-'' chat @ '':'' @ text_or ''-'' thread @ '':''
             @ sha (json_dumps_sorted (JObj body)))"

text \<open>
  What \<open>_build_event\<close> is given: the standard type, the type, the reason to ignore,
  and the chat, thread and event where the caller has found them.
\<close>

record event_parts =
  ep_payload :: dict
  ep_standard :: string
  ep_type :: json
  ep_ignore :: "string option"
  ep_chat :: dict
  ep_thread :: dict
  ep_event :: dict

record lookup =
  lk_chat :: "dict option"
  lk_error :: "dict option"

fun first_dict :: "dict list \<Rightarrow> dict" where
  "first_dict [] = []"
| "first_dict (d # ds) = (if d \<noteq> [] then d else first_dict ds)"

definition is_self :: "webhook_env \<Rightarrow> string option \<Rightarrow> bool" where
  "is_self env author \<longleftrightarrow> text_true author \<and> text_or [] author \<in> set (we_self_ids env)"

definition human_public_reply :: "webhook_env \<Rightarrow> string option \<Rightarrow> string option \<Rightarrow> dict \<Rightarrow> bool" where
  "human_public_reply env atype author event \<longleftrightarrow> atype = Some ''agent'' \<and> \<not> is_self env author \<and>
     str_lower (str_or ''all'' (dget event ''visibility'')) \<noteq> ''internal''"

definition event_payload :: "dict \<Rightarrow> dict \<Rightarrow> lookup \<Rightarrow> dict \<Rightarrow> bool \<Rightarrow> string option \<Rightarrow> string option \<Rightarrow> dict" where
  "event_payload payload body lk context human author event =
     (let r = dmerge (dput payload ''webhook_body'' (JObj body)) context;
          r1 = (if human then dput (dput (dput r ''human_agent_public_reply'' (JBool True))
                   ''human_agent_id'' (opt_json (if text_true author then author else None)))
                   ''human_agent_event_id'' (opt_json event) else r);
          r2 = (case lk_chat lk of None \<Rightarrow> r1 | Some l \<Rightarrow> dput r1 ''chat_lookup'' (JObj l))
      in case lk_error lk of None \<Rightarrow> r2 | Some e \<Rightarrow> dput r2 ''chat_lookup_error'' (JObj e))"

definition ignore_reason ::
  "webhook_env \<Rightarrow> dict \<Rightarrow> event_parts \<Rightarrow> lookup \<Rightarrow> dict \<Rightarrow> string option \<Rightarrow> string option \<Rightarrow> string option" where
  "ignore_reason env body ep lk chat author atype =
     (if webhook_platform env (ep_payload ep) chat (lk_chat lk) = None
      then Some (if dget body ''action'' = JStr ''incoming_event'' \<and> we_allowed env \<noteq> [] \<and>
                    collect_group_ids (ep_payload ep) chat (lk_chat lk) = [] \<and> lk_error lk \<noteq> None
                 then ''group_lookup_failed'' else ''group_not_allowed'')
      else if is_self env author then Some (text_or ''self_message'' (ep_ignore ep))
      else if atype = Some ''agent'' then Some (text_or ''agent_message'' (ep_ignore ep))
      else ep_ignore ep)"

definition build_event :: "webhook_env \<Rightarrow> dict \<Rightarrow> lookup \<Rightarrow> event_parts \<Rightarrow> exn + inbound_event" where
  "build_event env body lk ep =
     (let payload = ep_payload ep;
          action = str_or [] (dget body ''action'');
          chat = first_dict [ep_chat ep, dict_of (dget payload ''chat''), or_empty (lk_chat lk)];
          thread = first_dict [ep_thread ep, extract_thread payload chat];
          event = first_dict [ep_event ep, extract_event payload];
          author = first_text [dget event ''author_id'', dget payload ''author_id''];
          atype = webhook_author_type chat payload author (lk_chat lk);
          chat_id = first_text [dget payload ''chat_id'', dget chat ''id'', dget chat ''chat_id''];
          thread_id = first_text [dget payload ''thread_id'', dget thread ''id'', dget event ''thread_id''];
          event_id = first_text [dget event ''id'', dget payload ''event_id'', dget body ''webhook_id''];
          reason = ignore_reason env body ep lk chat author atype
      in case parse_rfc3339_to_mysql (pe_other_times (we_polling env)) (first_text [dget event ''created_at'',
                dget payload ''created_at'', dget thread ''created_at'', dget chat ''created_at'']) of
           Inl e \<Rightarrow> Inl e
         | Inr occurred \<Rightarrow>
             (case (text_field (dget body ''organization_id''), text_field (ep_type ep)) of
                (Inr org, Inr etype) \<Rightarrow>
                  Inr \<lparr>ev_source = ''livechat_webhook'', ev_raw_action = action, ev_organization_id = org,
                       ev_chat_id = chat_id, ev_thread_id = thread_id, ev_event_id = event_id, ev_event_type = etype,
                       ev_standard_event_type = ep_standard ep, ev_author_id = author,
                       ev_sender_role = sender_role_from_author author (we_self_ids env), ev_occurred_at = occurred,
                       ev_dedup_key = webhook_dedup_key (pe_sha (we_polling env)) action chat_id thread_id event_id body,
                       ev_payload = event_payload payload body lk
                         (platform_context (webhook_platform env payload chat (lk_chat lk)))
                         (human_public_reply env atype author event) author event_id,
                       ev_ignored = (reason \<noteq> None), ev_ignore_reason = reason\<rparr>
              | _ \<Rightarrow> Inl (ValueError ''validation'')))"

section \<open>The actions\<close>

definition webhook_standard_type :: "json \<Rightarrow> string" where
  "webhook_standard_type t =
     (if t = JStr ''message'' then ''MESSAGE_CREATED'' else if t = JStr ''file'' then ''FILE_RECEIVED''
      else ''UNSUPPORTED'')"

definition plain_parts :: "dict \<Rightarrow> string \<Rightarrow> json \<Rightarrow> event_parts" where
  "plain_parts payload standard etype =
     \<lparr>ep_payload = payload, ep_standard = standard, ep_type = etype, ep_ignore = None,
      ep_chat = [], ep_thread = [], ep_event = []\<rparr>"

text \<open>
  The greeting of a new chat is left to the AI unless a human agent has written
  and no customer has: the loop returns at the first event of a customer.
\<close>

fun no_human_first :: "webhook_env \<Rightarrow> dict list \<Rightarrow> bool \<Rightarrow> dict list \<Rightarrow> bool" where
  "no_human_first env users human [] = (\<not> human)"
| "no_human_first env users human (ev # evs) =
     (let author = str_or [] (dget ev ''author_id'') in
      if author \<in> set (we_self_ids env) then no_human_first env users human evs
      else if (case find_user users (JStr author) of None \<Rightarrow> False
               | Some u \<Rightarrow> u \<noteq> [] \<and> str_lower (str_or [] (dget u ''type'')) = ''agent'')
      then no_human_first env users True evs
      else False)"

definition should_emit_chat_started_intro :: "webhook_env \<Rightarrow> dict \<Rightarrow> bool" where
  "should_emit_chat_started_intro env chat =
     (let evs = concat (map (\<lambda>t. map dict_of (filter (\<lambda>j. is_dict j \<and> is_content (dict_of j)) (items_of (dget t ''events''))))
                  (webhook_threads chat)) in
      if evs = [] then True else no_human_first env (users_of chat) False evs)"

definition chat_started_event :: "dict \<Rightarrow> dict \<Rightarrow> dict \<Rightarrow> dict" where
  "chat_started_event payload chat thread =
     [(''id'', JStr (''chat_started:''
         @ text_or ''-'' (first_text [dget payload ''chat_id'', dget chat ''id'', dget chat ''chat_id'']) @ '':''
         @ text_or ''-'' (first_text [dget payload ''thread_id'', dget thread ''id'', dget thread ''thread_id'']))),
      (''type'', JStr ''chat_started''),
      (''created_at'', or_json (dget chat ''created_at'') (dget thread ''created_at'')), (''author_id'', JNull)]"

definition incoming_chat_parts :: "webhook_env \<Rightarrow> dict \<Rightarrow> event_parts list" where
  "incoming_chat_parts env payload =
     (let chat = (if is_dict (dget payload ''chat'') then dict_of (dget payload ''chat'') else payload);
          thread = primary_thread chat;
          started = chat_started_event payload chat thread in
      (if should_emit_chat_started_intro env chat
       then [(plain_parts (dput payload ''event'' (JObj started)) ''CHAT_STARTED'' (JStr ''chat_started''))
               \<lparr>ep_chat := chat, ep_thread := thread, ep_event := started\<rparr>]
       else [])
      @ concat (map (\<lambda>t. map (\<lambda>j. (plain_parts (dput payload ''event'' j)
             (webhook_standard_type (dget (dict_of j) ''type'')) (dget (dict_of j) ''type''))
               \<lparr>ep_chat := chat, ep_thread := t, ep_event := dict_of j\<rparr>)
           (filter (\<lambda>j. is_dict j \<and> is_content (dict_of j)) (items_of (dget t ''events'')))) (webhook_threads chat)))"

definition incoming_event_parts :: "dict \<Rightarrow> event_parts" where
  "incoming_event_parts payload =
     (let event = extract_event payload; etype = dget event ''type'' in
      (plain_parts payload (webhook_standard_type etype) etype)
        \<lparr>ep_event := event, ep_ignore := (if is_content event then None else Some ''unsupported_event_type'')\<rparr>)"

definition postback_parts :: "dict \<Rightarrow> dict \<Rightarrow> event_parts" where
  "postback_parts body payload =
     (let event = extract_event payload;
          postback = extract_postback payload event;
          button = first_text [dget payload ''button_id'', dget payload ''postback_id'', dget event ''button_id'',
            dget event ''postback_id'', dget postback ''id''];
          event' = dput (dput (dput (dput event ''type'' (or_json (dget event ''type'') (JStr ''message'')))
            ''button_id'' (opt_json button))
            ''postback_id'' (opt_json (first_text [dget event ''postback_id'', dget payload ''postback_id'', opt_json button])))
            ''postback'' (JObj postback);
          payload' = dput (dput (dput (dput (dput payload ''button_id'' (opt_json button))
            ''postback_id'' (opt_json (first_text [dget payload ''postback_id'', dget event ''postback_id'', opt_json button])))
            ''postback'' (JObj postback)) ''event'' (JObj event')) ''webhook_body'' (JObj body) in
      (plain_parts payload' ''MESSAGE_CREATED'' (JStr ''rich_message_postback''))\<lparr>ep_event := event'\<rparr>)"

definition webhook_parts :: "webhook_env \<Rightarrow> dict \<Rightarrow> event_parts list" where
  "webhook_parts env body =
     (let payload = payload_of body; action = str_or [] (dget body ''action'') in
      if action = ''incoming_chat'' then incoming_chat_parts env payload
      else if action = ''incoming_event'' then [incoming_event_parts payload]
      else if action = ''incoming_rich_message_postback'' then [postback_parts body payload]
      else if action = ''chat_deactivated'' then [plain_parts payload ''CHAT_DEACTIVATED'' (JStr action)]
      else if action = ''chat_transferred'' then [plain_parts payload ''CHAT_TRANSFERRED'' (JStr action)]
      else if action = ''user_removed_from_chat'' then [plain_parts payload ''USER_REMOVED'' (JStr action)]
      else [(plain_parts payload ''UNSUPPORTED'' JNull)\<lparr>ep_ignore := Some ''unsupported_action''\<rparr>])"

definition normalize_webhook :: "webhook_env \<Rightarrow> dict \<Rightarrow> lookup \<Rightarrow> exn + inbound_event list" where
  "normalize_webhook env body lk = all_ok (map (build_event env body lk) (webhook_parts env body))"

section \<open>Looking the chat up\<close>

definition needs_chat_lookup :: "webhook_env \<Rightarrow> dict \<Rightarrow> bool" where
  "needs_chat_lookup env body \<longleftrightarrow> dget body ''action'' = JStr ''incoming_event'' \<and> we_allowed env \<noteq> [] \<and>
     extract_group_ids_from_payload (payload_of body) = []"

definition needs_author_lookup :: "dict \<Rightarrow> dict option \<Rightarrow> bool" where
  "needs_author_lookup body lookup \<longleftrightarrow>
     (let payload = payload_of body; event = extract_event payload in
      dget body ''action'' = JStr ''incoming_event'' \<and>
      first_text [dget event ''author_id'', dget payload ''author_id''] \<noteq> None \<and>
      first_text [dget payload ''author_type'', dget event ''author_type''] = None \<and>
      \<not> (\<exists>src \<in> set ([payload, dict_of (dget payload ''chat''), or_empty lookup]).
          truthy (dget src ''users'') \<or> truthy (dget src ''chat_users'')))"

definition webhook_chat_id :: "dict \<Rightarrow> string option" where
  "webhook_chat_id payload =
     (let chat = dict_of (dget payload ''chat'') in
      first_text [dget payload ''chat_id'', dget chat ''id'', dget chat ''chat_id''])"

text \<open>\<open>_recent_livechat_group_lookup\<close>\<close>

definition recent_groups_lookup :: "string \<Rightarrow> dict option job" where
  "recent_groups_lookup chat =
     andthen (query (ib_fetch_recent_livechat_group_ids (Some chat) 20)) (\<lambda>groups.
     ret (if groups = {} then None
          else Some [(''id'', JStr chat),
            (''access'', JObj [(''group_ids'', JArr (map JInt (sorted_list_of_set groups)))]),
            (''lookup_source'', JStr ''recent_inbound_events'')]))"

definition lookup_error :: "webhook_env \<Rightarrow> exn \<Rightarrow> dict" where
  "lookup_error env e = [(''type'', JStr (we_exn_name env e)), (''message'', JStr (exn_text e))]"

definition lookup_groups :: "webhook_env \<Rightarrow> string \<Rightarrow> lookup job" where
  "lookup_groups env chat =
     andthen (recent_groups_lookup chat) (\<lambda>found.
     case found of
       Some l \<Rightarrow> ret \<lparr>lk_chat = Some l, lk_error = None\<rparr>
     | None \<Rightarrow>
         andthen (catching (get_chat (pe_services (we_polling env)) chat)) (\<lambda>r. ret
           (case r of Inr l \<Rightarrow> \<lparr>lk_chat = Some l, lk_error = None\<rparr>
            | Inl e \<Rightarrow> \<lparr>lk_chat = None, lk_error = Some (lookup_error env e)\<rparr>)))"

definition lookup_author :: "webhook_env \<Rightarrow> string \<Rightarrow> lookup \<Rightarrow> lookup job" where
  "lookup_author env chat lk =
     andthen (catching (get_chat (pe_services (we_polling env)) chat)) (\<lambda>r. ret
       (case r of
          Inr l \<Rightarrow> lk\<lparr>lk_chat := Some (case lk_chat lk of None \<Rightarrow> l | Some old \<Rightarrow> dmerge old l)\<rparr>
        | Inl e \<Rightarrow> lk\<lparr>lk_error := Some (lookup_error env e)\<rparr>))"

text \<open>
  \<open>with_client\<close> says whether the handler has a LiveChat client and a resolver, which
  it makes when \<open>_needs_livechat_client\<close> asks for them.
\<close>

definition webhook_lookup :: "webhook_env \<Rightarrow> bool \<Rightarrow> dict \<Rightarrow> lookup job" where
  "webhook_lookup env with_client body =
     (let none = \<lparr>lk_chat = None, lk_error = None\<rparr> in
      case (if with_client then webhook_chat_id (payload_of body) else None) of
        None \<Rightarrow> ret none
      | Some chat \<Rightarrow>
          andthen (if needs_chat_lookup env body then lookup_groups env chat else ret none) (\<lambda>lk.
          if needs_author_lookup body (lk_chat lk) then lookup_author env chat lk else ret lk))"

section \<open>The handler\<close>

text \<open>
  \<open>_needs_livechat_client\<close> runs before the body is checked: it fails on a payload
  that is not an object.
\<close>

definition needs_livechat_client :: "webhook_env \<Rightarrow> json \<Rightarrow> exn + bool" where
  "needs_livechat_client env b =
     (case b of
        JObj body \<Rightarrow>
          if dget body ''action'' \<noteq> JStr ''incoming_event'' then Inr False
          else if truthy (dget body ''payload'') \<and> \<not> is_dict (dget body ''payload'')
          then Inl (OtherError ''AttributeError'')
          else (let p = payload_of body; ev = dict_of (dget p ''event'');
                    text = (\<lambda>k. str_strip (str_or [] (or_json (dget ev k) (dget p k))));
                    access = dict_of (dget p ''access''); routing = dict_of (dget p ''routing_status'');
                    chat_access = dict_of (dget (dict_of (dget p ''chat'')) ''access'') in
                Inr (if text ''author_id'' \<noteq> [] \<and> text ''author_type'' = [] \<and>
                        \<not> (truthy (dget p ''users'') \<or> truthy (dget p ''chat_users''))
                     then True
                     else we_allowed env \<noteq> [] \<and> \<not> (\<exists>v \<in> set [dget p ''group_id'', dget p ''group_ids'',
                            dget access ''group_ids'', dget routing ''group_id'', dget chat_access ''group_ids'']. truthy v)))
      | _ \<Rightarrow> Inr False)"

definition normalize_body :: "webhook_env \<Rightarrow> bool \<Rightarrow> json \<Rightarrow> (refusal + inbound_event list) job" where
  "normalize_body env with_client b =
     (case validate_body b of
        Inl r \<Rightarrow> ret (Inl r)
      | Inr body \<Rightarrow>
          (case validate_secret env body of
             Inl r \<Rightarrow> ret (Inl r)
           | Inr _ \<Rightarrow>
               andthen (catching (andthen (webhook_lookup env with_client body) (\<lambda>lk.
                  lift (normalize_webhook env body lk)))) (\<lambda>r.
               ret (case r of Inl e \<Rightarrow> Inl (Failed e) | Inr evs \<Rightarrow> Inr evs))))"

record webhook_reply =
  wr_status :: int
  wr_detail :: string
  wr_counts :: "(nat \<times> nat \<times> nat \<times> nat) option"

definition refusal_reply :: "refusal \<Rightarrow> webhook_reply" where
  "refusal_reply r =
     (case r of
        AuthError s \<Rightarrow> \<lparr>wr_status = 401, wr_detail = s, wr_counts = None\<rparr>
      | PayloadError s \<Rightarrow> \<lparr>wr_status = 400, wr_detail = s, wr_counts = None\<rparr>
      | Failed (ValueError s) \<Rightarrow> \<lparr>wr_status = 400, wr_detail = ''malformed webhook payload'', wr_counts = None\<rparr>
      | Failed e \<Rightarrow> \<lparr>wr_status = 500, wr_detail = ''failed to process webhook'', wr_counts = None\<rparr>)"

definition refusal_error :: "webhook_env \<Rightarrow> refusal \<Rightarrow> string \<times> string" where
  "refusal_error env r =
     (case r of AuthError s \<Rightarrow> (''WebhookAuthError'', s) | PayloadError s \<Rightarrow> (''WebhookPayloadError'', s)
      | Failed e \<Rightarrow> (we_exn_name env e, exn_text e))"

text \<open>The audit is best effort: its failures are logged and forgotten.\<close>

definition audit :: "(nat \<Rightarrow> db \<Rightarrow> db) \<Rightarrow> nat option \<Rightarrow> unit job" where
  "audit f i = (case i of None \<Rightarrow> ret () | Some k \<Rightarrow> andthen (catching (update (f k))) (\<lambda>_. ret ()))"

definition refuse :: "webhook_env \<Rightarrow> nat option \<Rightarrow> refusal \<Rightarrow> webhook_reply job" where
  "refuse env i r =
     andthen (audit (\<lambda>k. wa_mark_failed k (wr_status (refusal_reply r)) (refusal_error env r)) i) (\<lambda>_.
     ret (refusal_reply r))"

definition store_events :: "webhook_env \<Rightarrow> time \<Rightarrow> nat option \<Rightarrow> inbound_event list \<Rightarrow> webhook_reply job" where
  "store_events env now i evs =
     andthen (catching (each (ib_insert now) evs)) (\<lambda>r.
     case r of
       Inl e \<Rightarrow>
         andthen (audit (\<lambda>k. wa_mark_failed k 500 (we_exn_name env e, exn_text e)) i) (\<lambda>_.
         ret \<lparr>wr_status = 500, wr_detail = ''failed to process webhook'', wr_counts = None\<rparr>)
     | Inr flags \<Rightarrow>
         (let n = length evs; ins = length (filter (\<lambda>b. b) flags); dup = length (filter Not flags);
              ign = length (filter ev_ignored evs) in
          andthen (audit (\<lambda>k. wa_mark_completed k 202 (int n) (int ins) (int dup) (int ign)) i) (\<lambda>_.
          ret \<lparr>wr_status = 202, wr_detail = [], wr_counts = Some (n, ins, dup, ign)\<rparr>)))"

text \<open>
  \<open>receive_livechat_webhook\<close>; \<open>None\<close> is a body that is no JSON.  The exception of
  \<open>_needs_livechat_client\<close> leaves the handler.
\<close>

definition receive_webhook :: "webhook_env \<Rightarrow> time \<Rightarrow> json option \<Rightarrow> webhook_reply job" where
  "receive_webhook env now b =
     (case b of
        None \<Rightarrow> ret \<lparr>wr_status = 400, wr_detail = ''malformed JSON body'', wr_counts = None\<rparr>
      | Some body \<Rightarrow>
          andthen (catching (exec (wa_insert_received body))) (\<lambda>received.
          let i = (case received of Inl _ \<Rightarrow> None | Inr k \<Rightarrow> Some k) in
          andthen (lift (needs_livechat_client env body)) (\<lambda>with_client.
          andthen (normalize_body env with_client body) (\<lambda>norm.
          case norm of Inl r \<Rightarrow> refuse env i r | Inr evs \<Rightarrow> store_events env now i evs))))"

section \<open>Who may add events\<close>

lemma unauthenticated:
  assumes "expected_secret env = [] \<or> dget (dict_of b) ''secret_key'' = JNull \<or>
     py_str (dget (dict_of b) ''secret_key'') \<noteq> expected_secret env"
  shows "\<exists>r. \<forall>c. normalize_body env c b = ret (Inl r)"
proof (cases "validate_body b")
  case (Inl r)
  then show ?thesis by (intro exI [of _ r]) (simp add: normalize_body_def)
next
  case (Inr body)
  then have "b = JObj body" unfolding validate_body_def by (auto split: json.splits if_splits option.splits)
  then have "isl (validate_secret env body)"
    using assms unfolding validate_secret_def Let_def by (auto simp: dict_of_def)
  then obtain r where "validate_secret env body = Inl r" by (cases "validate_secret env body") simp_all
  with Inr show ?thesis by (intro exI [of _ r]) (simp add: normalize_body_def)
qed

text \<open>Everything but the audit.\<close>

definition besides_audit :: "db \<Rightarrow> db" where
  "besides_audit d = d\<lparr>t_audit := []\<rparr>"

lemma audit_besides:
  "keeps besides_audit (audit (\<lambda>k. wa_mark_failed k st err) i)"
  "keeps besides_audit (audit (\<lambda>k. wa_mark_completed k st n1 n2 n3 n4) i)"
  unfolding audit_def
  by (intro keeps.stays_intros keeps_catching keeps.stays_update;
      simp add: wa_mark_failed_def wa_mark_completed_def wa_update_def besides_audit_def)+

lemma audit_avoids: "avoids P (audit f i)"
  unfolding audit_def by (intro avoids_intros)

lemma received_besides: "keeps besides_audit (catching (exec (wa_insert_received b)))"
  by (intro keeps_catching keeps.stays_exec) (simp add: wa_insert_received_def besides_audit_def Let_def)

text \<open>
  Claim C29.  Only who knows the webhook's secret can reach the queue: a body without the
  configured secret, or any body when none is configured, is answered with an
  error status, no service is called for it, and of the whole database only the
  audit changes.
\<close>

theorem unauthenticated_webhook_rejected:
  assumes "expected_secret env = [] \<or> dget (dict_of b) ''secret_key'' = JNull \<or>
     py_str (dget (dict_of b) ''secret_key'') \<noteq> expected_secret env"
    and "receive_webhook env now (Some b) w = (r, w')"
  shows "calls w' = calls w \<and> besides_audit (store w') = besides_audit (store w) \<and>
    (case r of Inl e \<Rightarrow> e = OtherError ''AttributeError'' | Inr reply \<Rightarrow> wr_status reply \<in> {400, 401, 500})"
proof -
  obtain x where norm: "normalize_body env c b = ret (Inl x)" for c
    using unauthenticated [OF assms(1)] by blast
  have refused: "avoids P (refuse env i y)" "keeps besides_audit (refuse env i y)" for P i y
    unfolding refuse_def by (intro avoids_intros audit_avoids, intro keeps.stays_andthen keeps.stays_ret audit_besides)
  have "avoids P (receive_webhook env now (Some b))" for P
    unfolding receive_webhook_def Let_def norm option.case ret_andthen sum.case
    by (intro avoids_intros refused)
  moreover have "keeps besides_audit (receive_webhook env now (Some b))"
    unfolding receive_webhook_def Let_def norm option.case ret_andthen sum.case
    by (intro keeps.stays_andthen received_besides keeps_lift refused)
  moreover have "case r of Inl e \<Rightarrow> e = OtherError ''AttributeError'' | Inr reply \<Rightarrow> wr_status reply \<in> {400, 401, 500}"
  proof -
    have status: "wr_status (refusal_reply y) \<in> {400, 401, 500}" for y
      by (simp add: refusal_reply_def split: refusal.split exn.split)
    have outcome: "case fst (refuse env j y v) of Inl e \<Rightarrow> False | Inr reply \<Rightarrow> reply = refusal_reply y" for j y v
      by (simp add: refuse_def audit_def catching_def update_def andthen_def try_except_def ret_def stmt_def
          split: option.split list.split bool.split)
    have received: "\<not> isl (fst (catching (exec (wa_insert_received b)) v))" for v :: "service_call world"
      by (simp add: catching_def exec_def andthen_def try_except_def ret_def stmt_def
          split: list.split bool.split prod.split)
    obtain i w1 where received: "catching (exec (wa_insert_received b)) w = (Inr i, w1)"
      using received [of w] by (cases "catching (exec (wa_insert_received b)) w"; cases "fst (catching (exec (wa_insert_received b)) w)") auto
    have run: "(case needs_livechat_client env b of Inl e \<Rightarrow> (Inl e, w1)
        | Inr _ \<Rightarrow> refuse env (case i of Inl _ \<Rightarrow> None | Inr k \<Rightarrow> Some k) x w1) = (r, w')"
      using assms(2) received unfolding receive_webhook_def Let_def norm option.case ret_andthen sum.case
      by (simp add: andthen_def lift_def split: sum.splits)
    show ?thesis
    proof (cases "needs_livechat_client env b")
      case (Inl e)
      then show ?thesis using run
        by (auto simp: needs_livechat_client_def Let_def split: json.splits if_splits)
    next
      case (Inr c)
      then have "refuse env (case i of Inl _ \<Rightarrow> None | Inr k \<Rightarrow> Some k) x w1 = (r, w')" using run by simp
      from outcome [where j = "case i of Inl _ \<Rightarrow> None | Inr k \<Rightarrow> Some k" and y = x and v = w1, unfolded this] status show ?thesis by (auto split: sum.splits)
    qed
  qed
  ultimately show ?thesis
    using avoids_allD [where m = "receive_webhook env now (Some b)" and w = w and r = r and w' = w']
      staysD [of _ "receive_webhook env now (Some b)" w] assms(2) by simp
qed

section \<open>What is queued for the AI\<close>

definition for_the_ai :: "webhook_env \<Rightarrow> inbound_row \<Rightarrow> bool" where
  "for_the_ai env r \<longleftrightarrow> in_source r = ''livechat_webhook'' \<and>
     (in_ignored r \<or>
      dget (in_payload r) ''allowed_platform'' = JBool True \<and>
      (\<exists>g. dget (in_payload r) ''livechat_group_id'' = JInt g \<and> (we_allowed env = [] \<or> g \<in> set (we_allowed env))) \<and>
      in_sender_role r \<in> {''external'', ''system''})"

lemma platform_from_groups_mem: "platform_from_groups gs = Some (g, p) \<Longrightarrow> g \<in> set gs"
  by (induction gs) (auto split: option.splits if_splits)

lemma event_payload_context:
  assumes "distinct (map fst context)" "map_of context k = Some v"
    and "k \<notin> {''human_agent_public_reply'', ''human_agent_id'', ''human_agent_event_id'', ''chat_lookup'', ''chat_lookup_error''}"
  shows "dget (event_payload payload body lk context human author event) k = v"
proof -
  have "dget (dmerge (dput payload ''webhook_body'' (JObj body)) context) k = v"
    using assms(1,2) by (simp add: dget_def map_of_dmerge map_add_def)
  then show ?thesis
    using assms(3) by (simp add: event_payload_def Let_def split: option.split)
qed

lemma built_event_for_the_ai:
  assumes "build_event env body lk ep = Inr ev"
  shows "for_the_ai env (new_inbound_row now ev i)"
proof -
  obtain chat event author human where
    reason: "ev_ignore_reason ev = ignore_reason env body ep lk chat author (webhook_author_type chat (ep_payload ep) author (lk_chat lk))"
    and ign: "ev_ignored ev = (ev_ignore_reason ev \<noteq> None)" and src: "ev_source ev = ''livechat_webhook''"
    and role: "ev_sender_role ev = sender_role_from_author author (we_self_ids env)"
    and payload: "ev_payload ev = event_payload (ep_payload ep) body lk
          (platform_context (webhook_platform env (ep_payload ep) chat (lk_chat lk))) human author event"
    using assms unfolding build_event_def Let_def by (auto split: sum.splits)
  show ?thesis
  proof (cases "ev_ignored ev")
    case True
    then show ?thesis by (simp add: for_the_ai_def new_inbound_row_def src)
  next
    case False
    then have none: "ignore_reason env body ep lk chat author (webhook_author_type chat (ep_payload ep) author (lk_chat lk)) = None"
      using reason ign by simp
    then obtain g p where found: "webhook_platform env (ep_payload ep) chat (lk_chat lk) = Some (g, p)"
      and self: "\<not> is_self env author"
      unfolding ignore_reason_def by (auto split: if_splits)
    have "we_allowed env = [] \<or> g \<in> set (we_allowed env)"
      using platform_from_groups_mem [OF found [unfolded webhook_platform_def]] by auto
    moreover have "dget (ev_payload ev) ''allowed_platform'' = JBool True" "dget (ev_payload ev) ''livechat_group_id'' = JInt g"
      unfolding payload found by (simp_all add: event_payload_context platform_context_def)
    moreover have "ev_sender_role ev \<in> {''external'', ''system''}"
      using self by (auto simp: role sender_role_from_author_def is_self_def)
    ultimately show ?thesis by (simp add: for_the_ai_def new_inbound_row_def src)
  qed
qed

lemma all_ok_map: "all_ok (map f xs) = Inr ys \<Longrightarrow> y \<in> set ys \<Longrightarrow> \<exists>x \<in> set xs. f x = Inr y"
  by (induction xs arbitrary: ys) (auto simp: all_ok_Inr_iff)

lemma yields_catching: "yields (\<lambda>a _. Q a) m \<Longrightarrow> yields (\<lambda>x _. case x of Inl _ \<Rightarrow> True | Inr a \<Rightarrow> Q a) (catching m)"
  unfolding yields_def by (auto simp: catching_Inr split: sum.splits)

lemma yields_then:
  "yields (\<lambda>a _. Q a) m \<Longrightarrow> (\<And>a. Q a \<Longrightarrow> yields P (f a)) \<Longrightarrow> yields P (andthen m f)"
  unfolding yields_def by (fastforce simp: andthen_Inr_iff)

lemma yields_ret: "Q a \<Longrightarrow> yields (\<lambda>a _. Q a) (ret a)"
  by (simp add: yields_def ret_def)

text \<open>The events of a body that passes the checks come out of \<open>build_event\<close>.\<close>

definition built_from :: "webhook_env \<Rightarrow> json \<Rightarrow> inbound_event list \<Rightarrow> bool" where
  "built_from env b evs \<longleftrightarrow> (\<exists>body lk. b = JObj body \<and> validate_secret env body = Inr () \<and>
     normalize_webhook env body lk = Inr evs)"

lemma normalized_body_built:
  "yields (\<lambda>x _. case x of Inl _ \<Rightarrow> True | Inr evs \<Rightarrow> built_from env b evs) (normalize_body env c b)"
proof (cases "validate_body b")
  case (Inl r)
  then show ?thesis by (simp add: normalize_body_def yields_ret)
next
  case (Inr body)
  then have b: "b = JObj body" unfolding validate_body_def by (auto split: json.splits if_splits option.splits)
  show ?thesis
  proof (cases "validate_secret env body")
    case (Inl r)
    with Inr show ?thesis by (simp add: normalize_body_def yields_ret)
  next
    case (Inr u)
    then have ok: "validate_secret env body = Inr ()" by simp
    have "yields (\<lambda>evs _. built_from env b evs) (lift (normalize_webhook env body lk))" for lk
      using b ok by (auto simp: yields_def lift_def built_from_def)
    then have "yields (\<lambda>evs _. built_from env b evs)
        (andthen (webhook_lookup env c body) (\<lambda>lk. lift (normalize_webhook env body lk)))"
      by (rule yields_andthen)
    then have run: "yields (\<lambda>x _. case x of Inl _ \<Rightarrow> True | Inr evs \<Rightarrow> built_from env b evs)
        (catching (andthen (webhook_lookup env c body) (\<lambda>lk. lift (normalize_webhook env body lk))))"
      by (rule yields_catching)
    show ?thesis
      unfolding normalize_body_def \<open>validate_body b = Inr body\<close> ok sum.case
      by (rule yields_then [OF run]) (auto intro: yields_ret split: sum.splits)
  qed
qed

lemma built_for_the_ai:
  assumes "built_from env b evs" "ev \<in> set evs"
  shows "for_the_ai env (new_inbound_row now ev i)"
proof -
  obtain body lk where "all_ok (map (build_event env body lk) (webhook_parts env body)) = Inr evs"
    using assms(1) unfolding built_from_def normalize_webhook_def by blast
  from all_ok_map [OF this assms(2)] obtain ep where "build_event env body lk ep = Inr ev" by (elim bexE)
  then show ?thesis by (rule built_event_for_the_ai)
qed

lemma each_adds: "(\<And>x. x \<in> set xs \<Longrightarrow> adds_inbound G (f x)) \<Longrightarrow> adds_inbound G (each f xs)"
  by (induction xs) (auto intro: new_inbound.stays_ret new_inbound.stays_andthen)

lemma adds_catching: "adds_inbound G m \<Longrightarrow> adds_inbound G (catching m)"
  unfolding catching_def by (intro new_inbound.stays_intros)

lemma webhook_lookup_keeps: "keeps g (webhook_lookup env c body)"
  unfolding webhook_lookup_def Let_def lookup_groups_def recent_groups_lookup_def lookup_author_def
  by (intro keeps.stays_intros keeps_catching no_db_keeps client_no_db)

lemma normalize_body_keeps: "keeps g (normalize_body env c b)"
  unfolding normalize_body_def
  by (auto split: sum.split intro!: keeps.stays_andthen keeps.stays_ret keeps_catching webhook_lookup_keeps keeps_lift)

lemma besides_inbound: "keeps besides_audit m \<Longrightarrow> keeps t_inbound m"
proof -
  have "t_inbound d = t_inbound (besides_audit d)" for d by (simp add: besides_audit_def)
  moreover assume "keeps besides_audit m"
  ultimately show ?thesis unfolding stays_def by metis
qed


section \<open>What an answer promises\<close>

lemma ib_insert_known:
  assumes "ib_insert now ev w = (Inr b, w')"
  shows "event_known ev (store w') \<and> set (t_inbound (store w)) \<subseteq> set (t_inbound (store w'))"
proof -
  obtain res d where ins: "ib_insert_row now ev (store w) = (res, d)"
    and rest: "t_inbound (store w') = t_inbound d"
    using assms stays_InrD [OF mark_human_active_keeps_inbound]
    unfolding ib_insert_def by (fastforce simp: run_iffs split: if_splits dest!: exec_InrD)
  have "event_known ev d \<and> set (t_inbound (store w)) \<subseteq> set (t_inbound d)"
    using ins by (cases "event_known ev (store w)")
      (auto simp: ib_insert_row_known ib_insert_row_new event_known_def new_inbound_row_def)
  then show ?thesis by (simp add: event_known_def rest)
qed

lemma each_insert_known:
  assumes "each (ib_insert now) evs w = (Inr flags, w')"
  shows "length flags = length evs \<and> (\<forall>ev \<in> set evs. event_known ev (store w')) \<and>
    set (t_inbound (store w)) \<subseteq> set (t_inbound (store w'))"
  using assms
proof (induction evs arbitrary: w flags)
  case Nil
  then show ?case by (simp add: ret_Inr_iff)
next
  case (Cons ev evs)
  then obtain b w1 bs where 1: "ib_insert now ev w = (Inr b, w1)" and 2: "each (ib_insert now) evs w1 = (Inr bs, w')"
    and flags: "flags = b # bs"
    by (auto simp: run_iffs)
  from ib_insert_known [OF 1] Cons.IH [OF 2] show ?case
    unfolding flags event_known_def by auto
qed

lemma store_events_accepted:
  assumes "store_events env now i evs w = (Inr reply, w')" "wr_status reply = 202"
  obtains flags w1 where "each (ib_insert now) evs w = (Inr flags, w1)"
    and "wr_counts reply = Some (length evs, length (filter (\<lambda>b. b) flags), length (filter Not flags),
        length (filter ev_ignored evs))"
    and "besides_audit (store w') = besides_audit (store w1)"
proof -
  obtain r w1 where caught: "catching (each (ib_insert now) evs) w = (Inr r, w1)"
    using assms(1) unfolding store_events_def by (auto simp: run_iffs)
  show thesis
  proof (cases r)
    case (Inl e)
    then show ?thesis using assms caught unfolding store_events_def Let_def by (auto simp: andthen_Inr_iff ret_Inr_iff)
  next
    case (Inr flags)
    then obtain n1 n2 n3 n4 where marked: "audit (\<lambda>k. wa_mark_completed k 202 n1 n2 n3 n4) i w1 = (Inr (), w')"
      and "wr_counts reply = Some (length evs, length (filter (\<lambda>b. b) flags), length (filter Not flags),
        length (filter ev_ignored evs))"
      using assms(1) caught unfolding store_events_def Let_def by (auto simp: andthen_Inr_iff ret_Inr_iff)
    moreover have "each (ib_insert now) evs w = (Inr flags, w1)" using caught Inr by (simp add: catching_Inr)
    ultimately show ?thesis using stays_InrD [OF audit_besides(2) marked] that by blast
  qed
qed

text \<open>
  An accepted webhook is a stored one: when the answer has status 202, every
  event that the body stands for is in the queue, and the counts of the answer add
  up: each event was inserted or was there already.
\<close>

theorem webhook_accepted_stored:
  assumes "receive_webhook env now (Some b) w = (Inr reply, w')" "wr_status reply = 202"
  shows "\<exists>evs ins dup ign. built_from env b evs \<and> (\<forall>ev \<in> set evs. event_known ev (store w')) \<and>
    wr_counts reply = Some (length evs, ins, dup, ign) \<and> ins + dup = length evs"
proof -
  obtain i c norm w1 w2 where norm: "normalize_body env c b w1 = (Inr norm, w2)"
    and rest: "(case norm of Inl r \<Rightarrow> refuse env i r | Inr evs \<Rightarrow> store_events env now i evs) w2 = (Inr reply, w')"
    using assms(1) unfolding receive_webhook_def Let_def option.case by (auto simp: run_iffs)
  have "wr_status (refusal_reply r) \<noteq> 202" for r
    by (simp add: refusal_reply_def split: refusal.split exn.split)
  then obtain evs where evs: "norm = Inr evs" and st: "store_events env now i evs w2 = (Inr reply, w')"
    using rest assms(2) by (cases norm) (auto simp: refuse_def run_iffs)
  obtain flags w3 where ins: "each (ib_insert now) evs w2 = (Inr flags, w3)"
    and reply: "wr_counts reply = Some (length evs, length (filter (\<lambda>b. b) flags), length (filter Not flags),
        length (filter ev_ignored evs))"
    and same: "besides_audit (store w') = besides_audit (store w3)"
    using st assms(2) by (rule store_events_accepted)
  have "t_inbound (store w') = t_inbound (besides_audit (store w'))" by (simp add: besides_audit_def)
  also have "\<dots> = t_inbound (store w3)" unfolding same by (simp add: besides_audit_def)
  finally have kept: "t_inbound (store w') = t_inbound (store w3)" .
  have "length (filter (\<lambda>b. b) flags) + length (filter Not flags) = length flags"
    by (rule sum_length_filter_compl)
  with each_insert_known [OF ins] reply yieldsD [OF normalized_body_built norm] evs show ?thesis
    by (auto simp: event_known_def kept)
qed

section \<open>Bodies the checks come too late for\<close>

text \<open>
  A payload that is no object is meant to be answered with 400 (\<open>_validate_body\<close>);
  for an incoming event the handler fails before the body is checked.
\<close>

lemma malformed_payload_escapes:
  assumes "dget body ''action'' = JStr ''incoming_event''" "truthy (dget body ''payload'')"
    "\<not> is_dict (dget body ''payload'')"
  shows "validate_body (JObj body) = Inl (PayloadError ''webhook payload must be an object'') \<and>
    isl (fst (receive_webhook env now (Some (JObj body)) w))"
proof
  show "validate_body (JObj body) = Inl (PayloadError ''webhook payload must be an object'')"
    using assms by (auto simp: validate_body_def str_or_def py_str_def str_strip_def is_space_def is_dict_def dget_def
        split: option.splits json.splits)
  have "needs_livechat_client env (JObj body) = Inl (OtherError ''AttributeError'')"
    using assms by (simp add: needs_livechat_client_def)
  then show "isl (fst (receive_webhook env now (Some (JObj body)) w))"
    by (simp add: receive_webhook_def Let_def andthen_def lift_def split: prod.split sum.split)
qed

end
