(* ===== verification/Witnesses_Ingress.thy ===== *)
theory Witnesses_Ingress
  imports Witnesses_Workers Idle_Safety Webhook
begin

text \<open>
  Concrete runs of the idle timer, of the polling receiver and of the webhook: the
  properties of \<open>Calendar\<close>, \<open>Idle_Safety\<close>, \<open>Polling\<close> and \<open>Webhook\<close> at samples.
\<close>

section \<open>Times\<close>

theorem datetime_roundtrip_witness:
  "parse_datetime (\<lambda>_. None) (JStr (format_datetime 951782400000000)) = Some 951782400000000"
proof -
  have "datetime_ok 951782400000000" by code_simp
  from datetime_roundtrip [OF this] show ?thesis .
qed

section \<open>The idle timer\<close>

definition idle_sample_config :: idle_config where
  "idle_sample_config = \<lparr>it_services = accepting, it_email = None, it_sha = id,
     it_followup_text = ''there?'', it_close_text = ''bye'',
     it_compose = (\<lambda>_ _ _ t. \<lparr>fz_text = t, fz_result = [], fz_language = JNull\<rparr>),
     it_meanwhile = (\<lambda>d. d), it_notice = (\<lambda>_. ''one moment''), it_other_times = (\<lambda>_. None),
     it_stored_time = (\<lambda>_. 0), it_followup_seconds = 120, it_close_seconds = 60\<rparr>"

definition idle_conversation :: conversation_row where
  "idle_conversation = \<lparr>cs_id = 1, cs_conversation_id = ''livechat:C1'', cs_tenant_id = ''default'',
     cs_channel_type = ''livechat'', cs_chat_id = ''C1'', cs_thread_id = Some ''T1'', cs_status = ''AI_ACTIVE'',
     cs_active_workflow = None, cs_workflow_stage = None, cs_slot_memory = None, cs_handoff_state = None,
     cs_updated_at = 0\<rparr>"

definition idle_answer :: message_row where
  "idle_answer = \<lparr>cm_id = 1, cm_conversation_id = ''livechat:C1'', cm_tenant_id = ''default'',
     cm_channel_type = ''livechat'', cm_chat_id = Some ''C1'', cm_thread_id = Some ''T1'', cm_inbound_event_id = None,
     cm_outbound_message_id = None, cm_external_result_id = None, cm_sender_role = ''assistant'',
     cm_message_type = ''text'', cm_text = Some ''done'', cm_attachments = [], cm_source = ''sender'',
     cm_occurred_at = None, cm_created_at = 1000000\<rparr>"

definition idle_db :: db where
  "idle_db = empty_db\<lparr>t_conversations := [idle_conversation], t_messages := [idle_answer]\<rparr>"

abbreviation first_visit :: "(exn + idle_result) \<times> service_call world" where
  "first_visit \<equiv> process_idle_conversation idle_sample_config 130000000 idle_conversation (fresh_world idle_db)"

abbreviation second_visit :: "(exn + idle_result) \<times> service_call world" where
  "second_visit \<equiv> process_idle_conversation idle_sample_config 200000000
     (the (find_conversation ''livechat:C1'' (store (snd first_visit)))) (snd first_visit)"

lemma accepting_accepts: "livechat_accepts accepting"
  by (simp add: livechat_accepts_def accepting_def)


definition answered_db :: db where
  "answered_db = snd (ib_insert_row 5000000 (customer_event 1) idle_db)"


theorem ai_failure_handoff_outcome_witness:
  "map_option cs_status (find_conversation ''livechat:C1''
     (store (snd (request_ai_failure_handoff idle_sample_config 0 idle_conversation ''timeout'' (fresh_world idle_db)))))
   = Some ''HANDOFF_REQUESTED''"
proof -
  have "fst (request_ai_failure_handoff idle_sample_config 0 idle_conversation ''timeout'' (fresh_world idle_db)) = Inr True"
    and id: "cs_conversation_id idle_conversation = ''livechat:C1''"
    by code_simp+
  with ai_failure_handoff_outcome [OF prod.collapse [symmetric], of idle_sample_config 0 idle_conversation "''timeout''"
      "fresh_world idle_db"] show ?thesis by simp
qed

section \<open>Polling and webhook\<close>

definition polling_sample :: polling_env where
  "polling_sample = \<lparr>pe_services = accepting, pe_sha = id, pe_other_times = (\<lambda>_. Inl (ValueError ''time'')),
     pe_self_ids = [''bot''], pe_allowed = [12]\<rparr>"

definition polled_sample :: "string \<Rightarrow> dict" where
  "polled_sample src = [(''chat_id'', JStr ''C1''), (''thread_id'', JStr ''T1''), (''polling_source'', JStr src),
     (''event'', JObj [(''id'', JStr ''E1''), (''type'', JStr ''message''), (''author_id'', JStr ''customer'')])]"

definition polled_event :: "string \<Rightarrow> inbound_event" where
  "polled_event src = projr (normalize_polling_event polling_sample (polled_sample src))"

theorem polled_event_stored_once_witness:
  "length (t_inbound (snd (ib_insert_row 9 (polled_event ''summary'')
     (snd (ib_insert_row 0 (polled_event ''detail'') empty_db))))) = 1"
proof -
  have "\<not> isl (normalize_polling_event polling_sample (polled_sample ''detail''))"
    "\<not> isl (normalize_polling_event polling_sample (polled_sample ''summary''))" by code_simp+
  then have a: "normalize_polling_event polling_sample (polled_sample ''detail'') = Inr (polled_event ''detail'')"
    "normalize_polling_event polling_sample (polled_sample ''summary'') = Inr (polled_event ''summary'')"
    unfolding polled_event_def by (simp_all add: isl_def sum.expand)
  have b: "ev_chat_id (polled_event ''summary'') = ev_chat_id (polled_event ''detail'')"
    "ev_thread_id (polled_event ''summary'') = ev_thread_id (polled_event ''detail'')"
    "ev_event_id (polled_event ''summary'') = ev_event_id (polled_event ''detail'')"
    "text_true (ev_chat_id (polled_event ''detail''))" "text_true (ev_thread_id (polled_event ''detail''))"
    "text_true (ev_event_id (polled_event ''detail''))" by code_simp+
  have one: "length (t_inbound (snd (ib_insert_row 0 (polled_event ''detail'') empty_db))) = 1" by code_simp
  from polled_event_stored_once [OF a b prod.collapse [symmetric]] one show ?thesis by simp
qed

definition webhook_sample :: webhook_env where
  "webhook_sample = \<lparr>we_polling = polling_sample, we_secret = Some ''key'', we_other_secret = None,
     we_exn_name = (\<lambda>_. ''Error'')\<rparr>"

definition webhook_body :: "string \<Rightarrow> json" where
  "webhook_body key = JObj [(''action'', JStr ''incoming_event''), (''secret_key'', JStr key),
     (''payload'', JObj [(''chat_id'', JStr ''C1''), (''thread_id'', JStr ''T1''), (''group_ids'', JArr [JInt 12]),
        (''author_type'', JStr ''customer''),
        (''event'', JObj [(''id'', JStr ''E1''), (''type'', JStr ''message''), (''author_id'', JStr ''customer'')])])]"

abbreviation webhook_run :: "string \<Rightarrow> (exn + webhook_reply) \<times> service_call world" where
  "webhook_run key \<equiv> receive_webhook webhook_sample 0 (Some (webhook_body key)) (fresh_world empty_db)"

theorem unauthenticated_webhook_rejected_witness:
  "t_inbound (store (snd (webhook_run ''guess''))) = []"
proof -
  have "py_str (dget (dict_of (webhook_body ''guess'')) ''secret_key'') \<noteq> expected_secret webhook_sample" by code_simp
  then have "besides_audit (store (snd (webhook_run ''guess''))) = besides_audit (store (fresh_world empty_db))"
    using unauthenticated_webhook_rejected [OF _ prod.collapse [symmetric], of webhook_sample "webhook_body ''guess''" 0
        "fresh_world empty_db"] by blast
  then have "t_inbound (besides_audit (store (snd (webhook_run ''guess'')))) = []"
    by (simp add: besides_audit_def fresh_world_def empty_db_def)
  then show ?thesis by (simp add: besides_audit_def)
qed


theorem webhook_accepted_stored_witness:
  "wr_counts (projr (fst (webhook_run ''key''))) = Some (1, 1, 0, 0) \<and> t_inbound (store (snd (webhook_run ''key''))) \<noteq> []"
proof -
  have ok: "\<not> isl (fst (webhook_run ''key''))" and st: "wr_status (projr (fst (webhook_run ''key''))) = 202"
    and n: "wr_counts (projr (fst (webhook_run ''key''))) = Some (1, 1, 0, 0)" by code_simp+
  obtain evs ins dup ign where known: "\<forall>ev \<in> set evs. event_known ev (store (snd (webhook_run ''key'')))"
    and "wr_counts (projr (fst (webhook_run ''key''))) = Some (length evs, ins, dup, ign)"
    using webhook_accepted_stored [OF run_outcome [OF ok] st] by blast
  with n have "length evs = 1" by simp
  then obtain ev where "evs = [ev]" by (auto simp: length_Suc_conv)
  with known have "event_known ev (store (snd (webhook_run ''key'')))" by simp
  then have "t_inbound (store (snd (webhook_run ''key''))) \<noteq> []" by (auto simp: event_known_def)
  with n show ?thesis by blast
qed

end
