(* ===== verification/Menus.thy ===== *)
theory Menus
  imports Outbox Calendar Platforms "HOL-Library.Char_ord" "HOL-Library.List_Lexorder"
begin

text \<open>
  The menus of buttons: \<open>src/app/services/livechat_menus.py\<close>, the memory of where a
  customer is in them (the menu functions of \<open>src/app/services/gateway.py\<close>), and the
  codes of languages (\<open>src/app/services/language_policy.py\<close>).

  Every menu has the same buttons in each of its four languages.  The titles and
  labels, which use characters outside the model's, are an argument: \<open>texts menu
  language\<close> gives the title and the labels in the order of the buttons.
\<close>

section \<open>Languages\<close>

definition supported_language_codes :: "string list" where
  "supported_language_codes = [''zh-Hans'', ''zh-Hant'', ''en'', ''es'', ''tl'', ''th'', ''my'', ''ms'', ''unknown'']"

definition language_aliases :: "(string \<times> string) list" where
  "language_aliases = [(''zh'', ''zh-Hans''), (''cn'', ''zh-Hans''), (''zh_cn'', ''zh-Hans''), (''zh-cn'', ''zh-Hans''),
     (''zh_hans'', ''zh-Hans''), (''simplified'', ''zh-Hans''), (''zh-tw'', ''zh-Hant''), (''zh_tw'', ''zh-Hant''),
     (''tw'', ''zh-Hant''), (''traditional'', ''zh-Hant''), (''zh_hant'', ''zh-Hant''), (''tagalog'', ''tl''),
     (''fil'', ''tl''), (''filipino'', ''tl''), (''burmese'', ''my''), (''mm'', ''my''), (''myanmar'', ''my''),
     (''malay'', ''ms''), (''thai'', ''th'')]"

definition normalize_language_code :: "json \<Rightarrow> string" where
  "normalize_language_code v =
     (let raw = str_strip (str_or [] v) in
      if raw = [] then ''unknown''
      else if raw \<in> set supported_language_codes then raw
      else case map_of language_aliases (map (\<lambda>c. if c = CHR '' '' then CHR ''_'' else c) (str_lower raw)) of
             Some code \<Rightarrow> code | None \<Rightarrow> ''unknown'')"

text \<open>\<open>parse_supported_languages\<close> of a list of items.\<close>

fun add_languages :: "string list \<Rightarrow> string list \<Rightarrow> string list" where
  "add_languages acc [] = acc"
| "add_languages acc (x # xs) =
     (let code = normalize_language_code (JStr x) in
      add_languages (if code \<noteq> ''unknown'' \<and> code \<notin> set acc then acc @ [code] else acc) xs)"

definition parse_supported_languages :: "string list \<Rightarrow> string list" where
  "parse_supported_languages items = (let l = add_languages [] items in if l = [] then [''es''] else l)"

text \<open>\<open>normalize_language\<close> of the menus.\<close>

definition menu_language :: "json \<Rightarrow> string" where
  "menu_language v =
     (let s = str_lower (str_strip (str_or [] v)) in
      if starts_with ''zh-hant'' s \<or> starts_with ''zh-tw'' s \<or> starts_with ''zh-hk'' s then ''zh-Hant''
      else if starts_with ''zh'' s then ''zh-Hans''
      else if starts_with ''en'' s then ''en''
      else ''es'')"

section \<open>The catalogue\<close>

definition menu_buttons :: "(string \<times> string list) list" where
  "menu_buttons =
     [(''main'', [''deposit_menu'', ''withdrawal_menu'', ''main_pending_reply'', ''other_menu'']),
      (''deposit'', [''main_deposito'', ''deposit_howto'']),
      (''withdrawal'', [''main_retiro'', ''withdrawal_blocked'', ''withdrawal_howto'', ''global_human'']),
      (''other'', [''forgot_password'', ''global_human'']),
      (''main_recovery'', [''route_previous'', ''route_main'', ''global_human'']),
      (''deposit_recovery'', [''route_previous'', ''route_main'', ''global_human'']),
      (''withdrawal_recovery'', [''route_previous'', ''route_main'', ''global_human'']),
      (''other_recovery'', [''route_previous'', ''route_main'', ''global_human''])]"

definition menu_by_nav_button :: "(string \<times> string) list" where
  "menu_by_nav_button = [(''deposit_menu'', ''deposit''), (''withdrawal_menu'', ''withdrawal''), (''other_menu'', ''other'')]"

definition sop_route :: "string \<Rightarrow> dict" where
  "sop_route name = [(''intent'', JStr name), (''route'', JStr ''sop''), (''sop_name'', JStr name)]"

definition faq_route :: "string \<Rightarrow> string \<Rightarrow> dict" where
  "faq_route intent q = [(''intent'', JStr intent), (''route'', JStr ''faq''), (''faq_query'', JStr q)]"

definition business_button_routes :: "(string \<times> dict) list" where
  "business_button_routes =
     [(''main_deposito'', sop_route ''deposit_missing''), (''main_retiro'', sop_route ''withdrawal_missing''),
      (''withdrawal_blocked'', sop_route ''withdrawal_blocked_or_rollover''),
      (''main_pending_reply'', sop_route ''pending_reply_lookup''),
      (''deposit_howto'', faq_route ''deposit_howto'' ''how to deposit''),
      (''withdrawal_howto'', faq_route ''withdrawal_howto'' ''how to withdraw''),
      (''forgot_password'', faq_route ''forgot_password_howto'' ''forgot password''),
      (''global_human'', [(''intent'', JStr ''explicit_human_request''), (''route'', JStr ''human_handoff'')])]"

definition fast_nav_button_ids :: "string list" where
  "fast_nav_button_ids = map fst menu_by_nav_button @ [''route_main'', ''route_previous'']"

type_synonym menu_texts = "string \<Rightarrow> string \<Rightarrow> string \<times> string list"

record menu =
  mn_key :: string
  mn_title :: string
  mn_buttons :: "(string \<times> string) list"
  mn_language :: string

definition get_menu :: "menu_texts \<Rightarrow> json \<Rightarrow> json \<Rightarrow> exn + menu" where
  "get_menu texts key lang =
     (let k = str_strip (str_or [] key);
          k' = (case map_of menu_by_nav_button k of Some m \<Rightarrow> m | None \<Rightarrow> k) in
      case map_of menu_buttons k' of
        None \<Rightarrow> Inl (KeyError (''unknown livechat menu_key: '' @ py_str key))
      | Some ids \<Rightarrow>
          (let l = menu_language lang; t = texts k' l in
           Inr \<lparr>mn_key = k', mn_title = fst t, mn_buttons = zip (snd t) ids, mn_language = l\<rparr>))"

definition build_quick_replies_event :: "menu \<Rightarrow> dict" where
  "build_quick_replies_event m =
     [(''type'', JStr ''rich_message''), (''template_id'', JStr ''quick_replies''),
      (''elements'', JArr [JObj [(''title'', JStr (mn_title m)),
         (''buttons'', JArr (map (\<lambda>(label, i). JObj [(''type'', JStr ''message''), (''text'', JStr label),
            (''value'', JStr label), (''postback_id'', JStr i), (''user_ids'', JArr [])]) (mn_buttons m)))]])]"

definition fallback_text :: "menu \<Rightarrow> string" where
  "fallback_text m =
     str_strip (join_with [CHR 0x0A] ([mn_title m, []] @
       map (\<lambda>(n, label, i). nat_str n @ ''. '' @ label) (zip [1..<Suc (length (mn_buttons m))] (mn_buttons m))))"

text \<open>What the sender makes of the payload of a menu.\<close>

definition render_menu :: "menu_texts \<Rightarrow> dict \<Rightarrow> exn + dict \<times> string \<times> string" where
  "render_menu texts payload =
     map_sum id (\<lambda>m. (build_quick_replies_event m, fallback_text m, mn_key m))
       (get_menu texts (dget payload ''menu_key'') (dget payload ''language''))"

section \<open>Which button a text stands for\<close>

text \<open>\<open>^(\d+)[\.\)\s]?$\<close> on a text without blanks around it.\<close>

definition numeric_choice :: "string \<Rightarrow> nat option" where
  "numeric_choice raw =
     (let digits = takeWhile (\<lambda>c. digit_of c \<noteq> None) raw; rest = dropWhile (\<lambda>c. digit_of c \<noteq> None) raw in
      if digits \<noteq> [] \<and> rest \<in> {[], ''.'', '')''} then read_digits 0 digits else None)"

fun detect_in_menus :: "menu_texts \<Rightarrow> string \<Rightarrow> json \<Rightarrow> json list \<Rightarrow> string option" where
  "detect_in_menus texts raw lang [] = None"
| "detect_in_menus texts raw lang (m # ms) =
     (case get_menu texts (JStr (py_str m)) lang of
        Inl e \<Rightarrow> detect_in_menus texts raw lang ms
      | Inr menu \<Rightarrow>
          (case (case numeric_choice raw of None \<Rightarrow> None
                 | Some n \<Rightarrow> if 1 \<le> n \<and> n \<le> length (mn_buttons menu) then Some (snd (mn_buttons menu ! (n - 1))) else None) of
             Some i \<Rightarrow> Some i
           | None \<Rightarrow>
               (case find (\<lambda>(label, i). str_strip label = raw) (mn_buttons menu) of
                  Some (label, i) \<Rightarrow> Some i
                | None \<Rightarrow> detect_in_menus texts raw lang ms)))"

definition detect_visible_menu_button_label :: "menu_texts \<Rightarrow> string \<Rightarrow> json \<Rightarrow> json \<Rightarrow> string option" where
  "detect_visible_menu_button_label texts raw ctx lang =
     detect_in_menus texts raw lang
       (if truthy ctx then [ctx] else [JStr ''main'', JStr ''deposit'', JStr ''withdrawal'', JStr ''other''])"

section \<open>Where the customer is\<close>

definition preserved_intro :: "dict \<Rightarrow> dict" where
  "preserved_intro lm =
     concat (map (\<lambda>k. case map_of lm k of None \<Rightarrow> [] | Some v \<Rightarrow> [(k, v)])
       [''intro_sent'', ''intro_thread_id'', ''intro_sent_threads''])"

definition intro_flag :: "dict \<Rightarrow> json" where
  "intro_flag lm = (case map_of lm ''intro_sent'' of None \<Rightarrow> JBool True | Some v \<Rightarrow> v)"

definition navigation_menu_key :: "string \<Rightarrow> dict \<Rightarrow> string" where
  "navigation_menu_key button lm =
     (case map_of menu_by_nav_button button of
        Some m \<Rightarrow> m
      | None \<Rightarrow> if button = ''route_main'' then ''main''
                else if button = ''route_previous'' then str_or ''main'' (dget lm ''previous_context'')
                else ''main'')"

definition next_fast_menu_memory :: "dict \<Rightarrow> string \<Rightarrow> string \<Rightarrow> dict" where
  "next_fast_menu_memory lm context button =
     (let at = (\<lambda>c p. dmerge (preserved_intro lm) [(''context'', JStr c), (''previous_context'', JStr p),
                 (''intro_sent'', intro_flag lm)]) in
      case map_of menu_by_nav_button button of
        Some m \<Rightarrow> at m context
      | None \<Rightarrow> if button = ''route_main'' then at ''main'' context
                else if button = ''route_previous'' then at (str_or ''main'' (dget lm ''previous_context'')) ''main''
                else dmerge lm [(''context'', JStr context), (''intro_sent'', intro_flag lm)])"

definition business_contexts :: "(string \<times> string) list" where
  "business_contexts = [(''main_deposito'', ''deposit''), (''deposit_howto'', ''deposit''), (''main_retiro'', ''withdrawal''),
     (''withdrawal_blocked'', ''withdrawal''), (''withdrawal_howto'', ''withdrawal''),
     (''main_pending_reply'', ''main''), (''forgot_password'', ''other'')]"

definition business_button_menu_memory :: "dict \<Rightarrow> string \<Rightarrow> dict" where
  "business_button_menu_memory lm button =
     (let current = str_or ''main'' (dget lm ''context'') in
      dmerge (preserved_intro lm)
        [(''context'', JStr (case map_of business_contexts button of Some c \<Rightarrow> c | None \<Rightarrow> current)),
         (''previous_context'', JStr current), (''intro_sent'', intro_flag lm)])"

text \<open>A set of texts, sorted.\<close>

definition string_set :: "string list \<Rightarrow> string list" where
  "string_set xs = sort (remdups xs)"

definition mark_intro_sent :: "dict \<Rightarrow> string option \<Rightarrow> dict" where
  "mark_intro_sent lm thread =
     (let t = text_or [] thread;
          sent = map py_str (filter (\<lambda>v. str_strip (str_or [] v) \<noteq> []) (items_of (dget lm ''intro_sent_threads''))) in
      dmerge lm [(''intro_sent'', JBool True),
        (''intro_thread_id'', if t \<noteq> [] then JStr t else dget lm ''intro_thread_id''),
        (''intro_sent_threads'', JArr (map JStr (string_set (sent @ (if t \<noteq> [] then [t] else [])))))])"

section \<open>Menus lead to menus\<close>

lemma catalogue_handled:
  "list_all (\<lambda>(m, ids). list_all (\<lambda>i. i \<in> set fast_nav_button_ids \<or> i \<in> set (map fst business_button_routes)) ids)
     menu_buttons"
  by code_simp

definition menu_key_ok :: "string \<Rightarrow> bool" where
  "menu_key_ok k \<longleftrightarrow> k \<in> set (map fst menu_buttons)"

lemma menu_keys_ok: "list_all menu_key_ok [''main'', ''deposit'', ''withdrawal'', ''other'']"
  by code_simp

lemma nav_keys_ok: "map_of menu_by_nav_button b = Some m \<Longrightarrow> menu_key_ok m"
  by (auto simp: menu_by_nav_button_def menu_key_ok_def menu_buttons_def split: if_splits)

text \<open>The memory of a customer: the contexts it names, if any, are menus.\<close>

definition menu_memory_ok :: "dict \<Rightarrow> bool" where
  "menu_memory_ok lm \<longleftrightarrow> menu_key_ok (str_or ''main'' (dget lm ''context'')) \<and>
     menu_key_ok (str_or ''main'' (dget lm ''previous_context''))"

lemma menu_memory_initial: "menu_memory_ok []"
  using menu_keys_ok by (simp add: menu_memory_ok_def dget_def str_or_def)

lemma dget_dmerge:
  "distinct (map fst b) \<Longrightarrow> dget (dmerge a b) k = (case map_of b k of None \<Rightarrow> dget a k | Some v \<Rightarrow> v)"
  by (simp add: dget_def map_of_dmerge map_add_def split: option.split)

lemma menu_key_nonempty: "menu_key_ok k \<Longrightarrow> k \<noteq> []"
  by (auto simp: menu_key_ok_def menu_buttons_def)

lemma at_ok: "menu_key_ok c \<Longrightarrow> menu_key_ok p \<Longrightarrow>
  menu_memory_ok (dmerge d [(''context'', JStr c), (''previous_context'', JStr p), (''intro_sent'', f)])"
  by (simp add: menu_memory_ok_def dget_dmerge str_or_def py_str_def menu_key_nonempty)

lemma menus_are_stripped: "menu_key_ok k \<Longrightarrow> str_strip k = k \<and> map_of menu_by_nav_button k = None"
proof -
  have "list_all (\<lambda>k. str_strip k = k \<and> map_of menu_by_nav_button k = None) (map fst menu_buttons)" by code_simp
  then show "menu_key_ok k \<Longrightarrow> str_strip k = k \<and> map_of menu_by_nav_button k = None"
    by (auto simp: menu_key_ok_def list_all_iff)
qed

lemma render_menu_ok:
  assumes "menu_key_ok k"
  shows "\<exists>ids event text. map_of menu_buttons k = Some ids \<and>
    render_menu texts [(''menu_key'', JStr k), (''language'', lang)] = Inr (event, text, k)"
proof -
  obtain ids where ids: "map_of menu_buttons k = Some ids"
    using assms unfolding menu_key_ok_def by (metis map_of_eq_None_iff not_None_eq set_map)
  note k = menus_are_stripped [OF assms] menu_key_nonempty [OF assms]
  have "get_menu texts (JStr k) lang = Inr \<lparr>mn_key = k, mn_title = fst (texts k (menu_language lang)),
      mn_buttons = zip (snd (texts k (menu_language lang))) ids, mn_language = menu_language lang\<rparr>"
    using k ids by (simp add: get_menu_def str_or_def py_str_def Let_def)
  with ids show ?thesis by (simp add: render_menu_def dget_def)
qed

lemma kept_previous: "menu_memory_ok lm \<Longrightarrow> menu_key_ok c \<Longrightarrow>
  menu_memory_ok (dmerge lm [(''context'', JStr c), (''intro_sent'', f)])"
  by (simp add: menu_memory_ok_def dget_dmerge str_or_def py_str_def menu_key_nonempty)

lemma navigation_stays:
  assumes "menu_memory_ok lm" "context = str_or ''main'' (dget lm ''context'')"
  shows "menu_memory_ok (next_fast_menu_memory lm context button)" "menu_key_ok (navigation_menu_key button lm)"
proof -
  have main: "menu_key_ok ''main''" using menu_keys_ok by simp
  have old: "menu_key_ok context" "menu_key_ok (str_or ''main'' (dget lm ''previous_context''))"
    using assms by (simp_all add: menu_memory_ok_def)
  show "menu_key_ok (navigation_menu_key button lm)"
    using main old nav_keys_ok by (auto simp: navigation_menu_key_def split: option.split)
  show "menu_memory_ok (next_fast_menu_memory lm context button)"
    unfolding next_fast_menu_memory_def Let_def
    using main old nav_keys_ok assms(1)
    by (auto simp: at_ok kept_previous split: option.split)
qed

lemma business_stays:
  assumes "menu_memory_ok lm"
  shows "menu_memory_ok (business_button_menu_memory lm button)"
proof -
  have "menu_key_ok c" if "map_of business_contexts button = Some c" for c
    using that by (auto simp: business_contexts_def menu_key_ok_def menu_buttons_def split: if_splits)
  then show ?thesis
    unfolding business_button_menu_memory_def Let_def using assms
    by (intro at_ok) (auto simp: menu_memory_ok_def split: option.split)
qed

end
