(* ===== verification/Gateway.thy ===== *)
theory Gateway
  imports Menus Idle_Timer
begin

text \<open>
  The gateway service (\<open>src/app/services/gateway.py\<close>): one inbound event, from the
  conversation it belongs to over the reply that is composed for it to the
  transaction that stores everything.  The model is \<open>process_event\<close> with a
  transactional repository, the only way the workers use it.

  The graph state is a JSON object, as in the code; \<open>graph_state_of\<close> is the part of
  it the repositories read.  Arguments of the model (\<open>gateway_config\<close>): the workflow
  graph and the SOP handlers, the language model, the retrieval of FAQ texts, the
  image analysis, and the texts and tests on texts that need characters outside
  the model's.  \<open>gw_meanwhile\<close> is what other workers commit while the graph or the
  language model runs.  The rows that record runs and errors of the graph are read by
  nobody and left out; so are the log messages.
\<close>

section \<open>Configuration\<close>

record gateway_config =
  gw_services :: services
  gw_sha :: "string \<Rightarrow> string"
  gw_menus :: menu_texts
  gw_persona_language :: string
  gw_fallback_language :: string
  gw_supported :: "string list"
  gw_handoff_text :: string
  gw_failure_notice :: "string \<Rightarrow> string"
  gw_reply_plan :: "string \<Rightarrow> string \<Rightarrow> json"
  gw_node_facts :: "string \<Rightarrow> string \<Rightarrow> json"
  gw_claims_query :: "string \<Rightarrow> bool"
  gw_graph :: "db \<Rightarrow> nat \<Rightarrow> inbound_event \<Rightarrow> conversation \<Rightarrow> message_row list \<Rightarrow> (message_row \<times> dict) list \<Rightarrow> exn + dict"
  gw_meanwhile :: "db \<Rightarrow> db"
  gw_compose :: "(dict \<Rightarrow> exn + dict) option"
  gw_final_reply_enabled :: bool
  gw_run_sop :: "dict \<Rightarrow> exn + dict"
  gw_retrieve :: "dict \<Rightarrow> exn + json"
  gw_retrieve_default :: "dict \<Rightarrow> exn + json"
  gw_prepare_faq :: "json \<Rightarrow> dict \<Rightarrow> json"
  gw_faq_answer :: "dict \<Rightarrow> dict"
  gw_faq_rows :: "dict \<Rightarrow> inbound_event \<Rightarrow> string \<Rightarrow> nat \<Rightarrow> exn + outbound_in list"
  gw_adapt_script :: "string \<Rightarrow> string \<Rightarrow> string"
  gw_script_mismatch :: "string \<Rightarrow> string \<Rightarrow> bool"
  gw_has_cjk :: "string \<Rightarrow> bool"
  gw_translation_notice :: "string \<Rightarrow> string"
  gw_analyze :: "(dict \<Rightarrow> conversation \<Rightarrow> exn + json) option"
  gw_stream :: "(dict \<Rightarrow> dict job) option"
  gw_streaming_enabled :: bool
  gw_preview_enabled :: bool
  gw_preview_min_chars :: nat
  gw_typing_enabled :: bool
  gw_thinking_enabled :: bool
  gw_recent_limit :: nat

definition default_reply_language :: "gateway_config \<Rightarrow> string" where
  "default_reply_language cfg =
     (case find (\<lambda>l. l \<noteq> ''unknown'' \<and> l \<in> set (gw_supported cfg))
             (map (\<lambda>c. normalize_language_code (JStr c)) [gw_persona_language cfg, gw_fallback_language cfg]) of
        Some l \<Rightarrow> l
      | None \<Rightarrow> (case gw_supported cfg of l # _ \<Rightarrow> l | [] \<Rightarrow> ''es''))"

section \<open>The graph state\<close>

definition text_of :: "json \<Rightarrow> string option" where
  "text_of j = (case j of JStr s \<Rightarrow> Some s | _ \<Rightarrow> None)"

text \<open>
  A case update names the case by a number and a status.
\<close>

definition case_update_of :: "json \<Rightarrow> (nat \<times> string) option" where
  "case_update_of j =
     (case j of
        JObj u \<Rightarrow> if u = [] then None
                  else (case int_of_json (dget u ''telegram_case_id'') of
                          Some i \<Rightarrow> Some (nat i, py_str (dget u ''status'')) | None \<Rightarrow> None)
      | _ \<Rightarrow> None)"

definition graph_state_of :: "dict \<Rightarrow> graph_state" where
  "graph_state_of d =
     \<lparr>gs_status = text_of (dget d ''status''), gs_active_workflow = text_of (dget d ''active_workflow''),
      gs_workflow_stage = text_of (dget d ''workflow_stage''),
      gs_slot_memory = map_option dict_of (map_of d ''slot_memory''),
      gs_handoff_state = (case dget d ''handoff_state'' of JObj h \<Rightarrow> Some h | _ \<Rightarrow> None),
      gs_delete_keys = map py_str (items_of (dget d ''delete_slot_memory_keys'')),
      gs_case_update = case_update_of (dget d ''telegram_case_update'')\<rparr>"

definition graph_commands :: "dict \<Rightarrow> dict list" where
  "graph_commands gs = dicts_of (dget gs ''commands'')"

definition command_is :: "string \<Rightarrow> dict \<Rightarrow> bool" where
  "command_is t c \<longleftrightarrow> py_str (dget c ''type'') = t"

definition command_payload :: "dict \<Rightarrow> dict" where
  "command_payload c = dict_of (dget c ''payload'')"

definition livechat_command_types :: "string list" where
  "livechat_command_types = [''livechat.send_text'', ''livechat.send_image'', ''livechat.send_buttons'']"

definition external_command_types :: "string list" where
  "external_command_types = [''telegram.send_case_card'', ''telegram.append_to_case'', ''telegram.remind_case'',
     ''backend.query'', ''pending_reply.lookup'', ''human_handoff.requested'', ''rag.placeholder'']"

section \<open>Guards\<close>

definition should_enqueue_reply :: "inbound_event \<Rightarrow> bool" where
  "should_enqueue_reply ev \<longleftrightarrow> ev_standard_event_type ev = ''MESSAGE_CREATED'' \<and> \<not> ev_ignored ev"

definition is_automation_suspended :: "conversation \<Rightarrow> bool" where
  "is_automation_suspended conv \<longleftrightarrow> str_upper (cv_status conv) \<in> {''HANDOFF_REQUESTED'', ''HUMAN_ACTIVE''}"

definition is_human_agent_public_reply :: "inbound_event \<Rightarrow> bool" where
  "is_human_agent_public_reply ev \<longleftrightarrow> truthy (dget (ev_payload ev) ''human_agent_public_reply'')"

definition is_content_event :: "inbound_event \<Rightarrow> bool" where
  "is_content_event ev \<longleftrightarrow> ev_standard_event_type ev \<in> {''MESSAGE_CREATED'', ''FILE_RECEIVED''}"

definition reopen_closed_conversation :: "conversation \<Rightarrow> inbound_event \<Rightarrow> conversation" where
  "reopen_closed_conversation conv ev =
     (if str_upper (cv_status conv) = ''CLOSED'' \<and> is_content_event ev \<and> \<not> ev_ignored ev
      then conv\<lparr>cv_status := ''AI_ACTIVE''\<rparr> else conv)"

definition build_human_active_state :: "inbound_event \<Rightarrow> conversation \<Rightarrow> dict" where
  "build_human_active_state ev conv =
     (let p = ev_payload ev;
          handoff = dmerge (or_empty (cv_handoff_state conv))
            [(''human_agent_detected'', JBool True),
             (''agent_id'', or_json (dget p ''human_agent_id'') (opt_json (ev_author_id ev))),
             (''first_agent_event_id'', or_json (dget p ''human_agent_event_id'') (opt_json (ev_event_id ev))),
             (''detected_at'', opt_json (ev_occurred_at ev)),
             (''source'', JStr ''livechat_agent_public_reply'')] in
      [(''status'', JStr ''HUMAN_ACTIVE''), (''active_workflow'', opt_json (cv_active_workflow conv)),
       (''workflow_stage'', JStr ''human_active''), (''slot_memory'', JObj (or_empty (cv_slot_memory conv))),
       (''handoff_state'', JObj handoff)])"

section \<open>States built without the graph\<close>

definition event_text :: "inbound_event \<Rightarrow> string" where
  "event_text ev =
     str_strip (str_or [] (or_json (dget (ev_payload ev) ''text'') (dget (dict_of (dget (ev_payload ev) ''event'')) ''text'')))"

definition fast_menu_language :: "gateway_config \<Rightarrow> dict \<Rightarrow> string" where
  "fast_menu_language cfg slots =
     (case find (\<lambda>l. l \<noteq> ''unknown'') (map normalize_language_code
             [dget slots ''last_reply_language'', JStr (default_reply_language cfg)]) of
        Some l \<Rightarrow> l | None \<Rightarrow> ''es'')"

definition base_pre_graph_state :: "inbound_event \<Rightarrow> conversation \<Rightarrow> dict \<Rightarrow> string \<Rightarrow> dict" where
  "base_pre_graph_state ev conv slots lang =
     (let p = ev_payload ev; raw = JStr (event_text ev); l = JStr lang; src = JStr ''livechat_fast_path'';
          s1 = (if truthy (dget p ''platform'') then dput slots ''platform'' (dget p ''platform'') else slots);
          s2 = (if dget p ''livechat_group_id'' \<noteq> JNull
                then dput s1 ''livechat_group_id'' (dget p ''livechat_group_id'') else s1) in
      [(''conversation_id'', JStr (cv_conversation_id conv)),
       (''tenant_id'', JStr (text_or ''default'' (Some (cv_tenant_id conv)))),
       (''channel_type'', JStr (text_or ''livechat'' (Some (cv_channel_type conv)))),
       (''chat_id'', opt_json (ev_chat_id ev)), (''thread_id'', opt_json (ev_thread_id ev)),
       (''event_type'', JStr (ev_standard_event_type ev)), (''payload_json'', JObj p),
       (''raw_user_input'', raw), (''rewritten_question'', raw), (''attachments'', JArr []), (''recent_messages'', JArr []),
       (''active_workflow'', opt_json (cv_active_workflow conv)), (''workflow_stage'', opt_json (cv_workflow_stage conv)),
       (''slot_memory'', JObj s2), (''detected_language'', l), (''conversation_language'', l), (''reply_language'', l),
       (''language_result'', JObj [(''detected_language'', l), (''conversation_language'', l), (''reply_language'', l),
          (''language_source'', src)]),
       (''rewrite_result'', JObj [(''rewritten_question'', raw), (''language'', l), (''detected_language'', l),
          (''language_confidence'', JInt 1), (''language_source'', src), (''mentioned_entities'', JObj []), (''notes'', JArr [])]),
       (''rewrite_source'', src), (''route_locked'', JBool True), (''final_reply_result'', JNull), (''commands'', JArr [])])"

definition menu_slot :: "conversation \<Rightarrow> dict" where
  "menu_slot conv = dict_of (dget (or_empty (cv_slot_memory conv)) ''livechat_menu'')"

definition with_menu :: "conversation \<Rightarrow> dict \<Rightarrow> dict" where
  "with_menu conv lm = dput (or_empty (cv_slot_memory conv)) ''livechat_menu'' (JObj lm)"

definition with_language :: "dict \<Rightarrow> string \<Rightarrow> dict" where
  "with_language slots lang = dput slots ''last_reply_language'' (JStr lang)"

text \<open>The reply of a navigation: the buttons of a menu.\<close>

definition menu_state :: "dict \<Rightarrow> string \<Rightarrow> string \<Rightarrow> string \<Rightarrow> string \<Rightarrow> dict" where
  "menu_state base src reason key lang =
     dmerge base
       [(''route'', JStr ''final_reply''), (''route_source'', JStr src),
        (''intent_result'', JObj [(''intent'', JStr ''menu_navigation''), (''route'', JStr ''final_reply''),
           (''confidence'', JInt 1), (''reason'', JStr reason), (''menu_key'', JStr key)]),
        (''commands'', JArr [JObj [(''type'', JStr ''livechat.send_buttons''),
           (''payload'', JObj [(''menu_key'', JStr key), (''language'', JStr lang)])]])]"

definition build_intro_menu_state :: "gateway_config \<Rightarrow> inbound_event \<Rightarrow> conversation \<Rightarrow> dict" where
  "build_intro_menu_state cfg ev conv =
     (let lm = dput (mark_intro_sent (menu_slot conv) (ev_thread_id ev)) ''context'' (JStr ''main'');
          slots = with_menu conv lm; lang = fast_menu_language cfg slots in
      menu_state (base_pre_graph_state ev conv (with_language slots lang) lang) ''livechat_intro''
        ''LiveChat thread started; send intro menu.'' ''main'' lang)"

definition build_nav_button_state :: "gateway_config \<Rightarrow> inbound_event \<Rightarrow> conversation \<Rightarrow> string \<Rightarrow> dict" where
  "build_nav_button_state cfg ev conv button =
     (let lm = menu_slot conv; context = str_or ''main'' (dget lm ''context'');
          slots = with_menu conv (next_fast_menu_memory lm context button); lang = fast_menu_language cfg slots in
      menu_state (base_pre_graph_state ev conv (with_language slots lang) lang) ''livechat_button''
        (''LiveChat menu navigation button '' @ button @ ''.'') (navigation_menu_key button lm) lang)"

text \<open>The commands of a handoff: tell the customer, then ask for a human.\<close>

definition handoff_commands :: "string \<Rightarrow> string \<Rightarrow> json" where
  "handoff_commands txt reason =
     JArr [JObj [(''type'', JStr ''livechat.send_text''),
                 (''payload'', JObj [(''text'', JStr txt), (''handoff_ack'', JBool True)])],
           JObj [(''type'', JStr ''human_handoff.requested''), (''payload'', JObj [(''reason'', JStr reason)])]]"

definition build_fast_handoff_state :: "gateway_config \<Rightarrow> inbound_event \<Rightarrow> conversation \<Rightarrow> string \<Rightarrow> dict" where
  "build_fast_handoff_state cfg ev conv button =
     (let slots = or_empty (cv_slot_memory conv); lang = fast_menu_language cfg slots; txt = gw_handoff_text cfg in
      dmerge (base_pre_graph_state ev conv slots lang)
        [(''status'', JStr ''HANDOFF_REQUESTED''), (''active_workflow'', JStr ''human_handoff''),
         (''workflow_stage'', JStr ''handoff_requested''), (''route'', JStr ''human_handoff''),
         (''route_source'', JStr ''livechat_button''), (''response_text'', JStr txt), (''response_text_fallback'', JStr txt),
         (''node_reply_template'', JStr ''human_handoff''),
         (''node_facts'', gw_node_facts cfg ''explicit_human_request'' txt),
         (''reply_plan'', gw_reply_plan cfg ''human_handoff'' txt),
         (''intent_result'', JObj [(''intent'', JStr ''explicit_human_request''), (''route'', JStr ''human_handoff''),
            (''confidence'', JInt 1), (''reason'', JStr (''LiveChat button '' @ button @ ''.''))]),
         (''commands'', handoff_commands txt ''explicit_human_request'')])"

definition business_button_intent_result :: "string \<Rightarrow> dict \<Rightarrow> conversation \<Rightarrow> dict" where
  "business_button_intent_result button route conv =
     (let again = (dget route ''route'' = JStr ''sop'' \<and> opt_json (cv_active_workflow conv) = dget route ''intent'' \<and>
                   cv_workflow_stage conv = Some ''collecting_slots'') in
      [(''intent'', dget route ''intent''), (''route'', dget route ''route''), (''confidence'', JInt 1),
       (''reason'', JStr (if again then ''Repeated LiveChat button '' @ button @ '' for active SOP.''
          else ''LiveChat button '' @ button @ '' handled by gateway fast path.'')),
       (''sop_name'', dget route ''sop_name''), (''faq_query'', dget route ''faq_query'')]
      @ (if dget route ''route'' = JStr ''faq'' then [(''faq_trigger_source'', JStr ''livechat_button'')] else [])
      @ (if again then [(''workflow_relation'', JStr ''current_workflow_supplement''),
                        (''preserve_active_workflow'', JBool True)] else []))"

definition with_fast_path_text_command :: "dict \<Rightarrow> dict" where
  "with_fast_path_text_command gs =
     (let txt = str_strip (str_or [] (or_json (dget gs ''response_text'') (dget gs ''response_text_fallback''))) in
      if (\<exists>c \<in> set (graph_commands gs). py_str (dget c ''type'') \<in> set livechat_command_types) \<or> txt = [] then gs
      else dput gs ''commands'' (JArr (items_of (dget gs ''commands'') @
        [JObj [(''type'', JStr ''livechat.send_text''),
               (''payload'', JObj [(''text'', JStr txt), (''final_reply_target'', JBool True)])]])))"

definition build_business_button_faq_state :: "gateway_config \<Rightarrow> dict \<Rightarrow> exn + dict" where
  "build_business_button_faq_state cfg state =
     (case (case gw_retrieve cfg state of Inr c \<Rightarrow> Inr c | Inl _ \<Rightarrow> gw_retrieve_default cfg state) of
        Inl e \<Rightarrow> Inl e
      | Inr found \<Rightarrow>
          (let state1 = dput state ''rag_context'' (gw_prepare_faq cfg found state);
               res = gw_faq_answer cfg state1; answer = dget res ''answer'';
               intent = dget (dict_of (dget state1 ''intent_result'')) ''intent'';
               next = (if intent = JStr ''forgot_password_howto''
                       then dmerge state1 [(''active_workflow'', JStr ''forgot_password_howto''),
                              (''workflow_stage'', JStr ''awaiting_password_reset_result'')]
                       else if truthy (dget state1 ''active_workflow'')
                       then dmerge state1 [(''active_workflow'', JNull), (''workflow_stage'', JNull)]
                       else state1) in
           Inr (dmerge next
             [(''rag_result'', JObj res), (''node_reply_template'', JStr ''faq_answer''),
              (''node_facts'', JObj [(''answer'', answer), (''matched'', dget res ''matched''), (''source'', dget res ''source''),
                 (''query'', dget res ''query''), (''fallback_reason'', dget res ''fallback_reason''),
                 (''documents'', dget res ''documents''), (''faq_intent'', intent)]),
              (''response_text'', answer), (''response_text_fallback'', answer),
              (''reply_plan'', gw_reply_plan cfg ''faq_answer'' (str_or [] answer)), (''commands'', JArr [])])))"

definition build_business_button_state ::
  "gateway_config \<Rightarrow> inbound_event \<Rightarrow> conversation \<Rightarrow> string \<Rightarrow> exn + dict option" where
  "build_business_button_state cfg ev conv button =
     (case map_of business_button_routes button of
        None \<Rightarrow> Inr None
      | Some route \<Rightarrow>
          if dget route ''route'' = JStr ''human_handoff'' then Inr (Some (build_fast_handoff_state cfg ev conv button))
          else (let slots = with_menu conv (business_button_menu_memory (menu_slot conv) button);
                    lang = fast_menu_language cfg slots;
                    state = dmerge (base_pre_graph_state ev conv (with_language slots lang) lang)
                      [(''route'', dget route ''route''), (''route_source'', JStr ''livechat_button_fast_path''),
                       (''intent_result'', JObj (business_button_intent_result button route conv))] in
                map_sum id Some
                  (if dget route ''route'' = JStr ''sop'' then map_sum id with_fast_path_text_command (gw_run_sop cfg state)
                   else if dget route ''route'' = JStr ''faq'' then build_business_button_faq_state cfg state
                   else Inr state)))"

definition extract_livechat_button_id :: "gateway_config \<Rightarrow> inbound_event \<Rightarrow> conversation \<Rightarrow> string option" where
  "extract_livechat_button_id cfg ev conv =
     (let p = ev_payload ev; e = dict_of (dget p ''event'');
          candidates = filter (\<lambda>s. s \<noteq> []) (map (\<lambda>j. str_strip (str_or [] j))
            [dget p ''button_id'', dget p ''postback_id'', dget e ''button_id'', dget e ''postback_id'',
             dget (dict_of (dget e ''postback'')) ''id'']);
          slots = or_empty (cv_slot_memory conv);
          raw = str_strip (str_or [] (dget e ''text'')) in
      case candidates of
        c # _ \<Rightarrow> Some c
      | [] \<Rightarrow> if raw = [] then None
              else detect_visible_menu_button_label (gw_menus cfg) raw (dget (menu_slot conv) ''context'')
                     (or_json (dget slots ''last_reply_language'') (JStr (default_reply_language cfg))))"

definition build_pre_graph_state :: "gateway_config \<Rightarrow> inbound_event \<Rightarrow> conversation \<Rightarrow> exn + dict option" where
  "build_pre_graph_state cfg ev conv =
     (if ev_standard_event_type ev \<in> {''CHAT_STARTED'', ''THREAD_STARTED''}
      then Inr (Some (build_intro_menu_state cfg ev conv))
      else if ev_standard_event_type ev \<noteq> ''MESSAGE_CREATED'' then Inr None
      else case extract_livechat_button_id cfg ev conv of
             None \<Rightarrow> Inr None
           | Some b \<Rightarrow>
               if b \<in> set fast_nav_button_ids then Inr (Some (build_nav_button_state cfg ev conv b))
               else if b = ''global_human'' then Inr (Some (build_fast_handoff_state cfg ev conv b))
               else build_business_button_state cfg ev conv b)"
section \<open>The final reply\<close>

text \<open>A call of the language model, while which other workers go on.\<close>

definition composing :: "gateway_config \<Rightarrow> (dict \<Rightarrow> exn + dict) \<Rightarrow> dict \<Rightarrow> dict job" where
  "composing cfg composer gs w = (composer gs, w\<lparr>store := gw_meanwhile cfg (store w)\<rparr>)"

definition is_sop_missing_slot_reply :: "dict \<Rightarrow> bool" where
  "is_sop_missing_slot_reply gs \<longleftrightarrow> dget gs ''node_reply_template'' = JStr ''sop_missing_slots'' \<and>
     truthy (or_json (dget (dict_of (dget gs ''node_facts'')) ''missing_slots'') (dget gs ''missing_slots''))"

definition guard_final_reply_state :: "gateway_config \<Rightarrow> dict \<Rightarrow> dict \<Rightarrow> dict" where
  "guard_final_reply_state cfg composed original =
     (let final = str_strip (str_or [] (dget composed ''final_response_text''));
          result = dict_of (dget composed ''final_reply_result'') in
      if \<not> is_sop_missing_slot_reply original \<or> final = [] \<or> \<not> gw_claims_query cfg final then composed
      else if dget result ''status'' = JStr ''fallback''
      then dmerge original
        [(''response_text_fallback'', or_json (dget composed ''response_text_fallback'') (dget original ''response_text_fallback'')),
         (''final_response_text'', JNull), (''final_reply_result'', JObj result)]
      else dmerge original
        [(''final_response_text'', JNull),
         (''final_reply_result'', JObj [(''status'', JStr ''fallback''),
            (''fallback_reason'', JStr ''sop_missing_slots_final_reply_guard'')])])"

definition should_handoff_for_final_reply_failure :: "dict \<Rightarrow> bool" where
  "should_handoff_for_final_reply_failure gs \<longleftrightarrow> dget gs ''channel_type'' = JStr ''livechat'' \<and>
     terminal_ai_failure_reason (dict_of (dget gs ''final_reply_result'')) \<noteq> None"

definition build_ai_service_failure_handoff_state :: "gateway_config \<Rightarrow> dict \<Rightarrow> dict" where
  "build_ai_service_failure_handoff_state cfg gs =
     (let lang = or_json (or_json (dget gs ''reply_language'') (dget gs ''last_reply_language''))
                   (JStr (default_reply_language cfg));
          txt = gw_failure_notice cfg (str_or ''es'' lang);
          result = dict_of (dget gs ''final_reply_result'');
          slots = dmerge (dict_of (dget gs ''slot_memory''))
            [(''ai_service_failure_handoff_at'',
                or_json (or_json (dget gs ''occurred_at'') (dget gs ''created_at'')) (JStr ''now'')),
             (''ai_service_failure_reason'', or_json (dget result ''fallback_reason'') (JStr ''final_reply_failure'')),
             (''ai_service_failure_source'', JStr ''final_reply'')] in
      dmerge gs
        [(''status'', JStr ''HANDOFF_REQUESTED''), (''active_workflow'', JStr ''human_handoff''),
         (''workflow_stage'', JStr ''handoff_requested''), (''route'', JStr ''human_handoff''),
         (''route_source'', JStr ''ai_service_failure''), (''response_text'', JStr txt), (''response_text_fallback'', JStr txt),
         (''final_response_text'', JStr txt), (''slot_memory'', JObj slots), (''node_reply_template'', JStr ''human_handoff''),
         (''node_facts'', gw_node_facts cfg ''ai_service_failure'' txt),
         (''reply_plan'', gw_reply_plan cfg ''human_handoff'' txt),
         (''intent_result'', JObj (dmerge (dict_of (dget gs ''intent_result''))
            [(''route'', JStr ''human_handoff''), (''intent'', JStr ''ai_service_failure''), (''requires_human'', JBool True),
             (''reason'', JStr ''Final reply LLM failed; request human handoff.'')])),
         (''commands'', handoff_commands txt ''ai_service_failure'')])"

definition apply_final_reply_failure_handoff :: "gateway_config \<Rightarrow> dict \<Rightarrow> dict" where
  "apply_final_reply_failure_handoff cfg gs =
     (if should_handoff_for_final_reply_failure gs then build_ai_service_failure_handoff_state cfg gs else gs)"

definition run_final_reply :: "gateway_config \<Rightarrow> dict \<Rightarrow> dict job" where
  "run_final_reply cfg gs =
     (if gs = [] \<or> \<not> truthy (dget gs ''response_text'') then ret gs
      else case gw_compose cfg of
        Some composer \<Rightarrow> andthen (composing cfg composer gs) (\<lambda>composed.
          ret (apply_final_reply_failure_handoff cfg (guard_final_reply_state cfg composed gs)))
      | None \<Rightarrow>
          ret (if \<not> gw_final_reply_enabled cfg then gs
               else dmerge gs
                 [(''response_text_fallback'', or_json (dget gs ''response_text_fallback'') (dget gs ''response_text'')),
                  (''final_response_text'', dget gs ''response_text''),
                  (''final_reply_result'', JObj [(''status'', JStr ''fallback''),
                     (''fallback_reason'', JStr ''missing_service'')])]))"

section \<open>Previews\<close>

definition optional_call :: "dict job \<Rightarrow> unit job" where
  "optional_call m = andthen (catching m) (\<lambda>_. ret ())"

definition send_optional_typing_indicator :: "gateway_config \<Rightarrow> string \<Rightarrow> bool \<Rightarrow> unit job" where
  "send_optional_typing_indicator cfg chat typing =
     (if gw_typing_enabled cfg then optional_call (send_typing_indicator (gw_services cfg) chat typing) else ret ())"

text \<open>The texts of the indicator are Chinese; the body carries its identifier.\<close>

definition send_thinking_indicator :: "services \<Rightarrow> string \<Rightarrow> string \<Rightarrow> dict job" where
  "send_thinking_indicator srv chat custom_id =
     post_json srv ''/agent/action/send_thinking_indicator''
       [(''chat_id'', JStr chat), (''visibility'', JStr ''all''), (''custom_id'', JStr custom_id)]"

definition send_optional_preview_indicators :: "gateway_config \<Rightarrow> string \<Rightarrow> nat \<Rightarrow> unit job" where
  "send_optional_preview_indicators cfg chat i =
     andthen (send_optional_typing_indicator cfg chat True) (\<lambda>_.
     if gw_thinking_enabled cfg
     then optional_call (send_thinking_indicator (gw_services cfg) chat (''thinking:'' @ nat_str i)) else ret ())"

definition preview_blocked_intents :: "string list" where
  "preview_blocked_intents = [''deposit_missing'', ''withdrawal_missing'', ''withdrawal_blocked_or_rollover'',
     ''explicit_human_request'', ''service_frustration'', ''abusive_or_emotional'']"

definition preview_blocked_commands :: "string list" where
  "preview_blocked_commands = [''backend.query'', ''telegram.send_case_card'', ''telegram.remind_case'',
     ''human_handoff.requested'']"

definition should_preview_stream_final_reply :: "gateway_config \<Rightarrow> dict \<Rightarrow> bool" where
  "should_preview_stream_final_reply cfg gs \<longleftrightarrow>
     (let intent = dict_of (dget gs ''intent_result'') in
      gw_preview_enabled cfg \<and> dget gs ''channel_type'' = JStr ''livechat'' \<and>
      dget gs ''route'' \<in> {JStr ''faq'', JStr ''final_reply''} \<and>
      gw_preview_min_chars cfg \<le>
        length (str_strip (str_or [] (or_json (dget gs ''response_text'') (dget gs ''response_text_fallback'')))) \<and>
      dget gs ''active_workflow'' \<noteq> JStr ''human_handoff'' \<and>
      dget gs ''workflow_stage'' \<notin> {JStr ''backend_querying'', JStr ''waiting_backend'', JStr ''handoff_requested''} \<and>
      dget intent ''intent'' \<notin> set (map JStr preview_blocked_intents) \<and>
      dget gs ''requires_backend'' \<noteq> JBool True \<and> dget intent ''requires_backend'' \<noteq> JBool True \<and>
      \<not> (\<exists>c \<in> set (graph_commands gs). py_str (dget c ''type'') \<in> set preview_blocked_commands))"

text \<open>The streaming itself is a computation of its own; \<open>finally\<close> ends the indicator.\<close>

definition stream_with_indicators :: "gateway_config \<Rightarrow> string \<Rightarrow> nat \<Rightarrow> dict job \<Rightarrow> (exn + dict) job" where
  "stream_with_indicators cfg chat i m =
     andthen (send_optional_preview_indicators cfg chat i) (\<lambda>_.
     andthen (catching m) (\<lambda>r.
     andthen (send_optional_typing_indicator cfg chat False) (\<lambda>_. ret r)))"

definition maybe_stream_final_reply_preview :: "gateway_config \<Rightarrow> nat \<Rightarrow> inbound_event \<Rightarrow> dict \<Rightarrow> dict job" where
  "maybe_stream_final_reply_preview cfg i ev gs =
     (let chat = text_or (str_or [] (dget gs ''chat_id'')) (ev_chat_id ev) in
      case gw_stream cfg of
        None \<Rightarrow> ret gs
      | Some stream \<Rightarrow>
          if gw_streaming_enabled cfg \<or> \<not> should_preview_stream_final_reply cfg gs \<or> chat = [] then ret gs
          else andthen (stream_with_indicators cfg chat i (stream gs)) (\<lambda>r. lift r))"

text \<open>
  \<open>_maybe_stream_official_livechat_text\<close>: the texts it could stream are those of the
  outbound messages, and it returns at once when there are any.
\<close>

definition is_text_message :: "outbound_in \<Rightarrow> bool" where
  "is_text_message m \<longleftrightarrow> oi_message_type m = ''text'' \<and> str_strip (str_or [] (dget (oi_payload m) ''text'')) \<noteq> []"

definition set_text :: "string \<Rightarrow> outbound_in \<Rightarrow> outbound_in" where
  "set_text t m = m\<lparr>oi_payload := dput (oi_payload m) ''text'' (JStr t)\<rparr>"

definition maybe_stream_official_livechat_text ::
  "gateway_config \<Rightarrow> nat \<Rightarrow> inbound_event \<Rightarrow> dict option \<Rightarrow> outbound_in list \<Rightarrow> (dict option \<times> outbound_in list) job" where
  "maybe_stream_official_livechat_text cfg i ev gs outs =
     (case (gs, gw_stream cfg) of
        (Some g, Some stream) \<Rightarrow>
          (let chat = text_or (str_or [] (dget g ''chat_id'')) (ev_chat_id ev) in
           if \<not> gw_streaming_enabled cfg \<or> g = [] \<or> dget g ''channel_type'' \<noteq> JStr ''livechat'' \<or> outs \<noteq> [] \<or> chat = []
           then ret (gs, outs)
           else (case filter is_text_message outs of
                   [m] \<Rightarrow>
                     (let txt = str_strip (str_or [] (dget (oi_payload m) ''text'')) in
                      andthen (stream_with_indicators cfg chat i (stream (dmerge g
                         [(''response_text'', JStr txt),
                          (''response_text_fallback'', or_json (dget g ''response_text_fallback'') (JStr txt)),
                          (''final_response_text'', JNull)]))) (\<lambda>r.
                      ret (case r of
                             Inl _ \<Rightarrow> (gs, outs)
                           | Inr streamed \<Rightarrow>
                               (let final = str_strip (str_or [] (dget streamed ''final_response_text'')) in
                                if final = [] then (gs, outs)
                                else (Some streamed, map (\<lambda>x. if is_text_message x
                                  then (set_text final x)\<lparr>oi_payload := dpop (oi_payload (set_text final x)) ''custom_id''\<rparr>
                                  else x) outs)))))
                 | _ \<Rightarrow> ret (gs, outs)))
      | _ \<Rightarrow> ret (gs, outs))"

section \<open>Image analysis\<close>

definition image_attachment_for_analysis :: "json \<Rightarrow> dict option" where
  "image_attachment_for_analysis item =
     (case item of
        JObj it \<Rightarrow>
          (let url = first_truthy [dget it ''url'', dget it ''content_url'', dget it ''thumbnail_url''];
               ctype = or_json (dget it ''content_type'') (dget it ''mime_type'') in
           if \<not> truthy url \<or> \<not> starts_with ''image/'' (str_or [] ctype) then None
           else Some [(''url'', url), (''name'', or_json (dget it ''name'') (dget it ''filename'')),
                  (''filename'', or_json (dget it ''filename'') (dget it ''name'')),
                  (''mime_type'', ctype), (''content_type'', ctype)])
      | _ \<Rightarrow> None)"

definition file_payload :: "dict \<Rightarrow> json" where
  "file_payload event = (case dget event ''file'' of JObj f \<Rightarrow> JObj f | _ \<Rightarrow> JObj event)"

definition analyzed :: "json \<Rightarrow> json \<Rightarrow> json" where
  "analyzed a item =
     (case item of
        JObj it \<Rightarrow> JObj (dput (dput it ''image_analysis'' a) ''image_analysis_status'' (JStr ''analyzed''))
      | _ \<Rightarrow> item)"

text \<open>An attachment of the list (\<open>Some\<close> its index), or the file of the event.\<close>

definition image_analysis_targets :: "dict \<Rightarrow> (nat option \<times> dict) list" where
  "image_analysis_targets p =
     List.map_filter (\<lambda>(n, a). map_option (\<lambda>x. (Some n, x)) (image_attachment_for_analysis a))
       (zip [0..<length (items_of (dget p ''attachments''))] (items_of (dget p ''attachments'')))
     @ (case image_attachment_for_analysis (file_payload (dict_of (dget p ''event''))) of
          Some x \<Rightarrow> [(None, x)] | None \<Rightarrow> [])"

definition write_image_analysis :: "dict \<Rightarrow> nat option \<Rightarrow> json \<Rightarrow> dict" where
  "write_image_analysis p at a =
     (case at of
        Some n \<Rightarrow>
          (case dget p ''attachments'' of
             JArr xs \<Rightarrow> if n < length xs then dput p ''attachments'' (JArr (xs[n := analyzed a (xs ! n)])) else p
           | _ \<Rightarrow> p)
      | None \<Rightarrow>
          (case dget p ''event'' of
             JObj e \<Rightarrow>
               dput p ''event'' (case dget e ''file'' of
                   JObj f \<Rightarrow> JObj (dput e ''file'' (analyzed a (JObj f)))
                 | _ \<Rightarrow> analyzed a (JObj e))
           | _ \<Rightarrow> p))"

fun analyze_targets :: "(dict \<Rightarrow> exn + json) \<Rightarrow> (nat option \<times> dict) list \<Rightarrow> dict \<times> json option \<Rightarrow> dict \<times> json option" where
  "analyze_targets analyze [] acc = acc"
| "analyze_targets analyze ((at, x) # ts) (p, first) =
     (case analyze x of
        Inr (JObj a) \<Rightarrow>
          if a = [] then analyze_targets analyze ts (p, first)
          else analyze_targets analyze ts (write_image_analysis p at (JObj a),
                 (case first of None \<Rightarrow> Some (JObj a) | Some b \<Rightarrow> Some b))
      | _ \<Rightarrow> analyze_targets analyze ts (p, first))"

definition event_with_image_analysis :: "gateway_config \<Rightarrow> inbound_event \<Rightarrow> conversation \<Rightarrow> inbound_event" where
  "event_with_image_analysis cfg ev conv =
     (case gw_analyze cfg of
        None \<Rightarrow> ev
      | Some analyze \<Rightarrow>
          if ev_standard_event_type ev \<noteq> ''FILE_RECEIVED'' then ev
          else (case analyze_targets (\<lambda>x. analyze x conv) (image_analysis_targets (ev_payload ev)) (ev_payload ev, None) of
                  (_, None) \<Rightarrow> ev
                | (p, Some a) \<Rightarrow> ev\<lparr>ev_payload := dput p ''image_analysis'' a\<rparr>))"

section \<open>Outbound messages\<close>

definition reply_language_of :: "gateway_config \<Rightarrow> dict \<Rightarrow> json" where
  "reply_language_of cfg gs = or_json (dget gs ''reply_language'') (JStr (default_reply_language cfg))"

definition safe_faq_fallback_text :: "gateway_config \<Rightarrow> string \<Rightarrow> json \<Rightarrow> dict \<Rightarrow> string" where
  "safe_faq_fallback_text cfg txt lang result =
     (let l = normalize_language_code lang in
      if dget result ''fallback_reason'' = JStr ''language_guard'' \<or> gw_script_mismatch cfg txt l \<or>
         (l = ''unknown'' \<and> gw_has_cjk cfg txt)
      then gw_translation_notice cfg (str_or [] lang) else txt)"

definition faq_block_state :: "gateway_config \<Rightarrow> string \<Rightarrow> dict \<Rightarrow> outbound_in \<Rightarrow> dict" where
  "faq_block_state cfg txt gs row =
     dmerge gs
       [(''response_text'', JStr txt), (''response_text_fallback'', JStr txt), (''final_response_text'', JNull),
        (''final_reply_result'', JNull), (''node_reply_template'', JStr ''faq_answer''),
        (''node_facts'', JObj [(''answer'', JStr txt), (''matched'', JBool True), (''source'', JStr ''faq_answer_blocks''),
           (''faq_block_index'', case oi_block_index row of None \<Rightarrow> JNull | Some b \<Rightarrow> JInt b),
           (''message_kind'', opt_json (or_else (oi_message_kind row) (Some (oi_message_type row))))]),
        (''reply_plan'', gw_reply_plan cfg ''faq_answer'' txt)]"

definition finalize_faq_text_block :: "gateway_config \<Rightarrow> string \<Rightarrow> dict \<Rightarrow> outbound_in \<Rightarrow> string job" where
  "finalize_faq_text_block cfg txt gs row =
     (let lang = reply_language_of cfg gs; l = str_or [] lang;
          fallback = str_strip (gw_adapt_script cfg txt l) in
      case (gw_final_reply_enabled cfg, gw_compose cfg) of
        (True, Some composer) \<Rightarrow>
          andthen (catching (composing cfg composer (faq_block_state cfg fallback gs row))) (\<lambda>r.
          ret (case r of
                 Inl e \<Rightarrow> safe_faq_fallback_text cfg fallback lang []
               | Inr res \<Rightarrow>
                   (let meta = dict_of (dget res ''final_reply_result'');
                        final = str_strip (str_or [] (dget res ''final_response_text''));
                        adapted = str_strip (gw_adapt_script cfg (if final = [] then fallback else final) l) in
                    if dget meta ''status'' = JStr ''fallback'' then safe_faq_fallback_text cfg fallback lang meta
                    else if adapted = [] then fallback else adapted)))
      | _ \<Rightarrow> ret (safe_faq_fallback_text cfg fallback lang []))"

definition finalize_faq_text_rows :: "gateway_config \<Rightarrow> outbound_in list \<Rightarrow> dict \<Rightarrow> outbound_in list job" where
  "finalize_faq_text_rows cfg rows gs =
     (let lang = reply_language_of cfg gs;
          result = dict_of (dget gs ''final_reply_result'');
          final0 = str_strip (str_or [] (dget gs ''final_response_text''));
          final = (if dget result ''status'' = JStr ''fallback'' then safe_faq_fallback_text cfg final0 lang result else final0);
          adapted = str_strip (gw_adapt_script cfg final (str_or [] lang)) in
      if final \<noteq> [] \<and> length (filter is_text_message rows) = 1
      then ret (map (\<lambda>r. if is_text_message r then set_text (if adapted = [] then final else adapted) r else r) rows)
      else each (\<lambda>r.
             if is_text_message r
             then andthen (finalize_faq_text_block cfg (str_strip (str_or [] (dget (oi_payload r) ''text''))) gs r) (\<lambda>t.
                  ret (set_text t r))
             else ret r) rows)"

definition has_handoff_ack_command :: "dict \<Rightarrow> bool" where
  "has_handoff_ack_command gs \<longleftrightarrow>
     (\<exists>c \<in> set (graph_commands gs). command_is ''livechat.send_text'' c \<and>
        dget (command_payload c) ''handoff_ack'' = JBool True)"

definition command_with_final_text :: "gateway_config \<Rightarrow> dict \<Rightarrow> dict \<Rightarrow> dict" where
  "command_with_final_text cfg gs c =
     (let final = dget gs ''final_response_text''; payload = command_payload c;
          target = (\<exists>x \<in> set (graph_commands gs). command_is ''livechat.send_text'' x \<and>
             dget (command_payload x) ''final_reply_target'' = JBool True) in
      if is_sop_missing_slot_reply gs \<and> gw_claims_query cfg (str_strip (str_or [] final)) then c
      else if \<not> truthy final \<or> \<not> command_is ''livechat.send_text'' c then c
      else if target \<and> dget payload ''final_reply_target'' \<noteq> JBool True then c
      else if dget payload ''final_reply_exempt'' = JBool True then c
      else dput c ''payload'' (JObj (dput payload ''text'' final)))"

text \<open>\<open>[build(c) for c in commands if str(c["type"]) in types]\<close>\<close>

definition build_selected :: "string list \<Rightarrow> (dict \<Rightarrow> exn + 'a) \<Rightarrow> dict list \<Rightarrow> exn + 'a list" where
  "build_selected types build cs =
     map_sum id (List.map_filter id) (all_ok (map (\<lambda>c.
       case map_of c ''type'' of
         None \<Rightarrow> Inl (KeyError ''type'')
       | Some t \<Rightarrow> if py_str t \<in> set types then map_sum id Some (build c) else Inr None) cs))"

definition command_messages ::
  "gateway_config \<Rightarrow> nat \<Rightarrow> inbound_event \<Rightarrow> string \<Rightarrow> dict \<Rightarrow> exn + outbound_in list" where
  "command_messages cfg i ev cid gs =
     build_selected livechat_command_types
       (\<lambda>c. build_command_outbox (ev_chat_id ev) (ev_thread_id ev) cid i (command_with_final_text cfg gs c)) (graph_commands gs)"

definition build_outbound_messages ::
  "gateway_config \<Rightarrow> nat \<Rightarrow> inbound_event \<Rightarrow> string \<Rightarrow> dict option \<Rightarrow> outbound_in list job" where
  "build_outbound_messages cfg i ev cid state =
     (case state of
        None \<Rightarrow> ret []
      | Some gs \<Rightarrow>
          if gs = [] \<or> dget gs ''route'' = JStr ''human_handoff'' \<and> \<not> has_handoff_ack_command gs then ret []
          else if dget gs ''route'' = JStr ''faq'' \<and> truthy (dget gs ''rag_context'')
          then andthen (lift (gw_faq_rows cfg gs ev cid i)) (\<lambda>rows.
               if rows \<noteq> [] then finalize_faq_text_rows cfg rows gs else lift (command_messages cfg i ev cid gs))
          else lift (command_messages cfg i ev cid gs))"

section \<open>External commands\<close>

definition with_livechat_command_context :: "inbound_event \<Rightarrow> dict \<Rightarrow> dict" where
  "with_livechat_command_context ev c =
     (let t = py_str (dget c ''type''); g = dget (ev_payload ev) ''livechat_group_id''; p = dget (ev_payload ev) ''platform'' in
      if t \<notin> {''backend.query'', ''human_handoff.requested''} then c
      else if t \<noteq> ''backend.query'' \<and> g = JNull \<and> p = JNull then c
      else (let q = command_payload c;
                q1 = (if t = ''backend.query'' then dpop (dpop q ''livechat_group_id'') ''platform'' else q);
                q2 = (if g \<noteq> JNull then dput q1 ''livechat_group_id'' g else q1);
                q3 = (if p \<noteq> JNull then dput q2 ''platform'' p else q2)
            in dput c ''payload'' (JObj q3)))"

definition build_external_commands ::
  "nat \<Rightarrow> inbound_event \<Rightarrow> conversation \<Rightarrow> dict option \<Rightarrow> exn + command_in list" where
  "build_external_commands i ev conv state =
     (case state of
        None \<Rightarrow> Inr []
      | Some gs \<Rightarrow>
          if gs = [] \<or> truthy (dget gs ''image_candidate_only'') \<or> dget gs ''route_source'' = JStr ''image_analysis_candidate''
          then Inr []
          else build_selected external_command_types
            (\<lambda>c. build_external_command_record
               (str_or (text_or ''default'' (Some (cv_tenant_id conv))) (dget gs ''tenant_id''))
               (ev_chat_id ev) (ev_thread_id ev) (cv_conversation_id conv) i (with_livechat_command_context ev c))
            (graph_commands gs))"

section \<open>One event\<close>

text \<open>The graph, with the memory it is given; the errors of a run leave the service.\<close>

definition run_graph_with_boundary ::
  "gateway_config \<Rightarrow> nat \<Rightarrow> inbound_event \<Rightarrow> conversation \<Rightarrow> message_row list \<Rightarrow> (message_row \<times> dict) list \<Rightarrow> dict job" where
  "run_graph_with_boundary cfg i ev conv recent memory =
     andthen (\<lambda>w. (gw_graph cfg (store w) i ev conv recent memory, w\<lparr>store := gw_meanwhile cfg (store w)\<rparr>)) (\<lambda>gs.
     maybe_stream_final_reply_preview cfg i ev gs)"

record gateway_result =
  gr_conversation :: conversation
  gr_should_reply :: bool
  gr_graph_state :: "dict option"
  gr_outbound :: "outbound_in list"
  gr_commands :: "command_in list"
  gr_tx :: tx_result

text \<open>A public reply of a human agent: the conversation is theirs.\<close>

definition record_human_reply :: "gateway_config \<Rightarrow> time \<Rightarrow> nat \<Rightarrow> inbound_event \<Rightarrow> conversation \<Rightarrow> gateway_result job" where
  "record_human_reply cfg now i ev conv =
     (let gs = build_human_active_state ev conv in
      andthen (process_event_transactionally (gw_sha cfg) now i ev None [] [] (Some (graph_state_of gs)) []) (\<lambda>tx.
      ret \<lparr>gr_conversation = tx_conversation tx, gr_should_reply = False, gr_graph_state = Some gs,
           gr_outbound = [], gr_commands = [], gr_tx = tx\<rparr>))"

text \<open>The state of the reply: built at once, by the graph, or none.\<close>

definition reply_state :: "gateway_config \<Rightarrow> nat \<Rightarrow> inbound_event \<Rightarrow> inbound_event \<Rightarrow> conversation \<Rightarrow> dict option job" where
  "reply_state cfg i ev ev' conv =
     (if is_automation_suspended conv then ret None
      else andthen (lift (build_pre_graph_state cfg ev conv)) (\<lambda>fast.
        case fast of
          Some gs \<Rightarrow> andthen (run_final_reply cfg gs) (\<lambda>gs'. ret (Some gs'))
        | None \<Rightarrow>
            andthen (query (cm_fetch_recent_current_thread (cv_conversation_id conv) (cv_thread_id conv) (gw_recent_limit cfg))) (\<lambda>recent.
            andthen (query (cm_fetch_previous_thread_memory (Some (cv_chat_id conv)) (cv_thread_id conv)
               (min (gw_recent_limit cfg) 6))) (\<lambda>memory.
            if should_enqueue_reply ev \<or> ev_standard_event_type ev = ''FILE_RECEIVED''
            then andthen (run_graph_with_boundary cfg i ev' conv recent memory) (\<lambda>gs. ret (Some gs))
            else ret None))))"

definition customer_message_of :: "nat \<Rightarrow> inbound_event \<Rightarrow> conversation \<Rightarrow> exn + message_in option" where
  "customer_message_of i ev conv =
     (if \<not> ev_ignored ev \<and> is_content_event ev
      then map_sum id Some (build_customer_message_from_inbound ev conv i) else Inr None)"

definition process_customer_event ::
  "gateway_config \<Rightarrow> time \<Rightarrow> nat \<Rightarrow> inbound_event \<Rightarrow> conversation \<Rightarrow> gateway_result job" where
  "process_customer_event cfg now i ev conv =
     (let ev' = (if is_automation_suspended conv then ev else event_with_image_analysis cfg ev conv) in
      andthen (reply_state cfg i ev ev' conv) (\<lambda>gs0.
      let gs1 = map_option (apply_final_reply_failure_handoff cfg) gs0 in
      andthen (lift (customer_message_of i ev conv)) (\<lambda>customer.
      andthen (build_outbound_messages cfg i ev' (cv_conversation_id conv) gs1) (\<lambda>outs0.
      andthen (maybe_stream_official_livechat_text cfg i ev' gs1 outs0) (\<lambda>(gs, outs).
      andthen (lift (build_external_commands i ev conv gs)) (\<lambda>cmds.
      andthen (process_event_transactionally (gw_sha cfg) now i ev customer outs cmds (map_option graph_state_of gs) []) (\<lambda>tx.
      ret \<lparr>gr_conversation = tx_conversation tx, gr_should_reply = (\<exists>m \<in> set outs. oi_status m = ''PENDING''),
           gr_graph_state = gs, gr_outbound = outs, gr_commands = cmds, gr_tx = tx\<rparr>)))))))"

definition process_event :: "gateway_config \<Rightarrow> time \<Rightarrow> nat \<Rightarrow> inbound_event \<Rightarrow> gateway_result job" where
  "process_event cfg now i ev =
     andthen (get_or_create now (text_or ''unknown'' (ev_chat_id ev)) (ev_thread_id ev)) (\<lambda>(conv, _).
     if is_human_agent_public_reply ev then record_human_reply cfg now i ev conv
     else process_customer_event cfg now i ev (reopen_closed_conversation conv ev))"

end
