(* ===== verification/Gateway_Safety.thy ===== *)
theory Gateway_Safety
  imports Gateway Service_Calls
begin

text \<open>
  What the gateway does with an event, from the first read of the conversation to the
  commit: an event whose processing fails leaves nothing behind, one that is
  processed has all its output stored or belongs to a human; a conversation that
  was handed over is left alone; the menus lead to menus.
\<close>

section \<open>Running the parts\<close>

lemma suspended_iff: "is_automation_suspended conv \<longleftrightarrow> locked_status (str_upper (cv_status conv))"
  by (simp add: is_automation_suspended_def locked_status_def)

lemma reopen_locked:
  "locked_status (str_upper (cv_status conv)) \<Longrightarrow> reopen_closed_conversation conv ev = conv"
  by (auto simp: reopen_closed_conversation_def locked_status_def)

lemma reopen_id [simp]: "cv_conversation_id (reopen_closed_conversation conv ev) = cv_conversation_id conv"
  by (simp add: reopen_closed_conversation_def)

text \<open>
  The streaming of an official text is behind a test that no list of messages
  passes: with messages it returns, and without there is no text to stream.
\<close>

lemma official_stream_never_runs:
  "maybe_stream_official_livechat_text cfg i ev gs outs = ret (gs, outs)"
  by (cases gs; cases "gw_stream cfg"; cases outs) (simp_all add: maybe_stream_official_livechat_text_def Let_def)

text \<open>The event of a conversation that automation must leave alone.\<close>

definition suspended_event ::
  "(string \<Rightarrow> string) \<Rightarrow> time \<Rightarrow> nat \<Rightarrow> inbound_event \<Rightarrow> conversation \<Rightarrow> gateway_result job" where
  "suspended_event sha now i ev conv =
     andthen (lift (customer_message_of i ev conv)) (\<lambda>customer.
     andthen (process_event_transactionally sha now i ev customer [] [] None []) (\<lambda>tx.
     ret \<lparr>gr_conversation = tx_conversation tx, gr_should_reply = False, gr_graph_state = None,
          gr_outbound = [], gr_commands = [], gr_tx = tx\<rparr>))"

lemma suspended_run:
  assumes "is_automation_suspended conv"
  shows "process_customer_event cfg now i ev conv = suspended_event (gw_sha cfg) now i ev conv"
  using assms
  by (simp add: process_customer_event_def reply_state_def suspended_event_def build_outbound_messages_def
      build_external_commands_def official_stream_never_runs lift_def [abs_def] ret_def [abs_def] andthen_def [abs_def]
      cong: sum.case_cong)


lemma get_or_create_calls: "avoids P (get_or_create now chat thread)"
  unfolding get_or_create_def Let_def by (intro avoids_intros)

lemma transaction_calls: "avoids P (process_event_transactionally sha now i ev customer outs cmds gs ms)"
  unfolding process_event_transactionally_def process_event_body_def finish_skipped_def apply_graph_state_def
    write_event_def update_case_def update_workflow_state_def add_message_def add_outbound_def add_command_def
    add_optional_message_def Let_def
  by (intro avoids_intros get_or_create_calls)

text \<open>A transaction without output to send.\<close>

lemma silent_transaction: "keeps to_send (process_event_transactionally sha now i ev customer [] [] gs [])"
proof -
  have "keeps to_send (write_event sha now i conv customer [] [] [])" for conv
    unfolding write_event_def add_optional_message_def add_message_def Let_def each.simps
    by (intro keeps.stays_intros keeps.stays_update keeps.stays_exec keeps_to_send)
  then show ?thesis
    unfolding process_event_transactionally_def process_event_body_def
    by (intro keeps.stays_intros get_or_create_keeps finish_skipped_keeps apply_keeps)
qed

lemma suspended_event_silent:
  "keeps to_send (suspended_event sha now i ev conv)" "avoids P (suspended_event sha now i ev conv)"
  unfolding suspended_event_def
  by (intro keeps.stays_intros keeps_lift silent_transaction avoids_intros transaction_calls)+

lemma human_reply_silent:
  "keeps to_send (record_human_reply cfg now i ev conv)" "avoids P (record_human_reply cfg now i ev conv)"
  unfolding record_human_reply_def Let_def
  by (intro keeps.stays_intros silent_transaction avoids_intros transaction_calls)+

section \<open>A conversation that was handed over\<close>

text \<open>
  Claim C22.  An event of a conversation that a human has or was asked for reaches
  neither the graph nor a service: whatever the graph, the language model and the
  other arguments are, and whatever statement fails, the gateway does the same, makes
  no call and adds nothing to send.
\<close>

theorem handed_over_left_alone:
  fixes w :: "service_call world"
  assumes "handed_over (event_conversation_id ev) (store w)" "gw_sha cfg' = gw_sha cfg"
  shows "process_event cfg now i ev w = process_event cfg' now i ev w \<and>
    to_send (store (snd (process_event cfg now i ev w))) = to_send (store w) \<and>
    calls (snd (process_event cfg now i ev w)) = calls w"
proof -
  obtain r w1 where get: "get_or_create now (text_or ''unknown'' (ev_chat_id ev)) (ev_thread_id ev) w = (r, w1)"
    by fastforce
  have got: "to_send (store w1) = to_send (store w)" "calls w1 = calls w"
    using staysD [OF get_or_create_keeps, of now "text_or ''unknown'' (ev_chat_id ev)" "ev_thread_id ev" w] get
      avoids_allD [OF get_or_create_calls get] by simp_all
  show ?thesis
  proof (cases r)
    case (Inl e)
    with get got show ?thesis by (simp add: process_event_def andthen_run)
  next
    case (Inr x)
    then obtain conv prev where x: "r = Inr (conv, prev)" by (cases x) auto
    with get have "locked_status (str_upper (cv_status conv))"
      using get_or_create_outcome(2) [of now "text_or ''unknown'' (ev_chat_id ev)"] assms(1)
      by (simp add: event_conversation_id_def)
    then have susp: "is_automation_suspended (reopen_closed_conversation conv ev)"
      by (simp add: reopen_locked suspended_iff)
    define m where "m = (if is_human_agent_public_reply ev then record_human_reply cfg now i ev conv
        else suspended_event (gw_sha cfg) now i ev (reopen_closed_conversation conv ev))"
    have run: "process_event cfg now i ev w = m w1" "process_event cfg' now i ev w = m w1"
      using get x assms(2) suspended_run [OF susp]
      by (simp_all add: process_event_def andthen_run m_def record_human_reply_def)
    have "keeps to_send m" "avoids (\<lambda>_. True) m"
      unfolding m_def by (cases "is_human_agent_public_reply ev";
        simp only: if_True if_False simp_thms suspended_event_silent human_reply_silent)+
    from this(2) staysD [OF this(1), of w1] show ?thesis
      using run got by (simp add: avoids_def)
  qed
qed


section \<open>All or nothing\<close>

text \<open>
  What an attempt must not touch before its transaction, the other workers and the
  streaming of previews leave alone as well.
\<close>

definition others_keep :: "(db \<Rightarrow> 'x) \<Rightarrow> gateway_config \<Rightarrow> bool" where
  "others_keep f cfg \<longleftrightarrow> (\<forall>d. f (gw_meanwhile cfg d) = f d) \<and>
     (\<forall>stream gs. gw_stream cfg = Some stream \<longrightarrow> keeps f (stream gs))"

lemma keeps_meanwhile:
  "others_keep f cfg \<Longrightarrow> keeps f (\<lambda>w. (x (store w), w\<lparr>store := gw_meanwhile cfg (store w)\<rparr>))"
  by (simp add: stays_def others_keep_def)

lemma keeps_composing: "others_keep f cfg \<Longrightarrow> keeps f (composing cfg composer gs)"
  by (simp add: composing_def [abs_def] stays_def others_keep_def)

lemma keeps_post: "keeps f (post_json srv path body)"
proof -
  have "keeps f (case e of LiveChatError st d \<Rightarrow> raise (LiveChatError st (dput d ''path'' (JStr path))) | _ \<Rightarrow> raise e)"
    for e by (cases e) (simp_all add: keeps.stays_raise)
  then show ?thesis unfolding post_json_def by (intro keeps.stays_intros keeps_call)
qed

lemma keeps_indicators:
  "keeps f (send_optional_preview_indicators cfg chat i)" "keeps f (send_optional_typing_indicator cfg chat b)"
  unfolding send_optional_preview_indicators_def send_optional_typing_indicator_def optional_call_def
    send_typing_indicator_def send_thinking_indicator_def
  by (intro keeps.stays_intros keeps_catching keeps_post)+

lemma keeps_preview: "others_keep f cfg \<Longrightarrow> keeps f (maybe_stream_final_reply_preview cfg i ev gs)"
proof -
  assume others: "others_keep f cfg"
  then have stream: "keeps f (stream gs)" if "gw_stream cfg = Some stream" for stream
    using that by (simp add: others_keep_def)
  show ?thesis
  proof (cases "gw_stream cfg")
    case None
    then show ?thesis by (simp add: maybe_stream_final_reply_preview_def keeps.stays_ret)
  next
    case (Some st)
    have "keeps f (andthen (stream_with_indicators cfg chat i (st gs)) lift)" for chat
      unfolding stream_with_indicators_def
      by (intro keeps.stays_intros keeps_indicators keeps_catching keeps_lift stream Some)
    then show ?thesis
      by (simp add: maybe_stream_final_reply_preview_def Some Let_def keeps.stays_ret)
  qed
qed

lemma keeps_final_reply: "others_keep f cfg \<Longrightarrow> keeps f (run_final_reply cfg gs)"
  unfolding run_final_reply_def by (intro keeps.stays_intros keeps_composing)

lemma keeps_reply_state: "others_keep f cfg \<Longrightarrow> keeps f (reply_state cfg i ev ev' conv)"
  unfolding reply_state_def run_graph_with_boundary_def
  by (intro keeps.stays_intros keeps_lift keeps_final_reply keeps.stays_query keeps_preview
      keeps_meanwhile)

lemma keeps_faq_block: "others_keep f cfg \<Longrightarrow> keeps f (finalize_faq_text_block cfg txt gs row)"
  unfolding finalize_faq_text_block_def Let_def
  by (auto intro!: keeps.stays_intros keeps_catching keeps_composing split: bool.split option.split)

lemma keeps_outbound: "others_keep f cfg \<Longrightarrow> keeps f (build_outbound_messages cfg i ev cid gs)"
  unfolding build_outbound_messages_def finalize_faq_text_rows_def Let_def
  by (intro keeps.stays_intros keeps_lift keeps_faq_block)


abbreviation untouched :: "db \<Rightarrow> (outbound_row list \<times> command_row list) \<times> message_row list \<times> inbound_row list" where
  "untouched d \<equiv> (to_send d, t_messages d, t_inbound d)"

lemma get_or_create_untouched: "keeps untouched (get_or_create now chat thread)"
  unfolding get_or_create_def Let_def
  by (intro keeps.stays_intros keeps.stays_update) (simp add: upsert_conversation_def Let_def)

text \<open>
  \<open>ends_in_tx\<close>: a computation that touches nothing before the transaction of the
  event, which is its last step and stores what the result shows.
\<close>

definition customer_given :: "nat \<Rightarrow> inbound_event \<Rightarrow> message_in option \<Rightarrow> bool" where
  "customer_given i ev customer \<longleftrightarrow> is_human_agent_public_reply ev \<or> ev_ignored ev \<or> \<not> is_content_event ev \<or>
     (\<exists>conv m. build_customer_message_from_inbound ev conv i = Inr m \<and> customer = Some m)"

definition tx_outcome ::
  "gateway_config \<Rightarrow> time \<Rightarrow> nat \<Rightarrow> inbound_event \<Rightarrow> db \<Rightarrow> exn + gateway_result \<Rightarrow> service_call world \<Rightarrow> bool" where
  "tx_outcome cfg now i ev d r w' \<longleftrightarrow>
     (case r of
        Inl e \<Rightarrow> untouched (store w') = untouched d
      | Inr g \<Rightarrow> \<exists>v customer gs. untouched (store v) = untouched d \<and> customer_given i ev customer \<and>
          process_event_transactionally (gw_sha cfg) now i ev customer (gr_outbound g) (gr_commands g) gs [] v
            = (Inr (gr_tx g), w'))"

lemma tx_outcome_cong: "untouched d' = untouched d \<Longrightarrow> tx_outcome cfg now i ev d' = tx_outcome cfg now i ev d"
  unfolding tx_outcome_def [abs_def] by (simp only:)

definition ends_in_tx :: "gateway_config \<Rightarrow> time \<Rightarrow> nat \<Rightarrow> inbound_event \<Rightarrow> gateway_result job \<Rightarrow> bool" where
  "ends_in_tx cfg now i ev m \<longleftrightarrow> (\<forall>w r w'. m w = (r, w') \<longrightarrow> tx_outcome cfg now i ev (store w) r w')"

lemma ends_after:
  assumes "keeps untouched m" "\<And>a v v'. m v = (Inr a, v') \<Longrightarrow> ends_in_tx cfg now i ev (f a)"
  shows "ends_in_tx cfg now i ev (andthen m f)"
  unfolding ends_in_tx_def
proof (intro allI impI)
  fix w r w'
  assume run: "andthen m f w = (r, w')"
  obtain r1 w1 where m: "m w = (r1, w1)" by fastforce
  have same: "untouched (store w1) = untouched (store w)" using staysD [OF assms(1), of w] m by simp
  show "tx_outcome cfg now i ev (store w) r w'"
  proof (cases r1)
    case (Inl e)
    then show ?thesis using run m same by (auto simp: andthen_run tx_outcome_def)
  next
    case (Inr a)
    then have "tx_outcome cfg now i ev (store w1) r w'"
      using run m assms(2) [of w a w1] by (simp add: andthen_run ends_in_tx_def)
    then show ?thesis using tx_outcome_cong [OF same] by simp
  qed
qed

lemma ends_tx:
  assumes "customer_given i ev customer"
  shows "ends_in_tx cfg now i ev
    (andthen (process_event_transactionally (gw_sha cfg) now i ev customer outs cmds gs []) (\<lambda>tx.
     ret \<lparr>gr_conversation = tx_conversation tx, gr_should_reply = b, gr_graph_state = state,
          gr_outbound = outs, gr_commands = cmds, gr_tx = tx\<rparr>))"
  unfolding ends_in_tx_def
proof (intro allI impI)
  fix w w' :: "service_call world" and r
  let ?tx = "process_event_transactionally (gw_sha cfg) now i ev customer outs cmds gs []"
  assume run: "andthen ?tx (\<lambda>tx. ret \<lparr>gr_conversation = tx_conversation tx, gr_should_reply = b,
      gr_graph_state = state, gr_outbound = outs, gr_commands = cmds, gr_tx = tx\<rparr>) w = (r, w')"
  obtain r1 w1 where tx: "?tx w = (r1, w1)" by fastforce
  show "tx_outcome cfg now i ev (store w) r w'"
  proof (cases r1)
    case (Inl e)
    then have "store w1 = store w"
      using tx transaction_rollback unfolding process_event_transactionally_def by blast
    then show ?thesis using run tx Inl by (auto simp: andthen_run tx_outcome_def)
  next
    case (Inr t)
    then have r: "r = Inr \<lparr>gr_conversation = tx_conversation t, gr_should_reply = b, gr_graph_state = state,
        gr_outbound = outs, gr_commands = cmds, gr_tx = t\<rparr>" "w' = w1"
      using run tx by (auto simp: andthen_run ret_run)
    from tx Inr assms show ?thesis unfolding r tx_outcome_def by (simp only: sum.case gateway_result.simps) blast
  qed
qed

lemma process_event_ends:
  assumes "others_keep untouched cfg"
  shows "ends_in_tx cfg now i ev (process_event cfg now i ev)"
proof -
  have human: "ends_in_tx cfg now i ev (record_human_reply cfg now i ev conv)" if "is_human_agent_public_reply ev" for conv
    unfolding record_human_reply_def Let_def by (rule ends_tx) (simp add: customer_given_def that)
  have given: "customer_given i ev customer" if "customer_message_of i ev conv = Inr customer" for conv customer
    using that unfolding customer_message_of_def customer_given_def
    by (cases "build_customer_message_from_inbound ev conv i") (auto split: if_splits)
  have customer: "ends_in_tx cfg now i ev (process_customer_event cfg now i ev conv)" for conv
    unfolding process_customer_event_def Let_def official_stream_never_runs
    by (intro ends_after keeps_reply_state keeps_lift keeps_outbound keeps.stays_ret assms)
      (auto simp: lift_def ret_def intro!: ends_after keeps_lift ends_tx dest: given)
  show ?thesis
    unfolding process_event_def
    by (intro ends_after get_or_create_untouched) (auto intro: human customer)
qed


lemma customer_row:
  assumes "build_customer_message_from_inbound ev conv i = Inr m"
    and "output_known sha cid [m] outs cmds d"
  shows "\<exists>r \<in> set (t_messages d). cm_inbound_event_id r = Some i \<and> cm_sender_role r = ''customer''"
proof -
  have m: "mi_inbound_event_id m = Some i" "mi_outbound_message_id m = None" "mi_external_result_id m = None"
    "mi_sender_role m = ''customer''"
    using assms(1) by (auto simp: build_customer_message_from_inbound_def split: sum.splits)
  then have "mi_keyed m" by (simp add: mi_keyed_def)
  with assms(2) obtain r where "r \<in> set (t_messages d)" "cm_hits (m\<lparr>mi_conversation_id := cid\<rparr>) r"
    by (auto simp: output_known_def cm_known_def)
  with m show ?thesis
    by (intro bexI [of _ r]) (auto simp: cm_hits_def cm_clash_def new_message_row_def same_key_def)
qed



section \<open>Menus\<close>

definition state_menu :: "dict \<Rightarrow> dict" where
  "state_menu gs = dict_of (dget (dict_of (dget gs ''slot_memory'')) ''livechat_menu'')"

lemma dict_of_JObj [simp]: "dict_of (JObj d) = d"
  by (simp add: dict_of_def)

lemma base_state_memory:
  "state_menu (base_pre_graph_state ev conv (with_language (with_menu conv lm) l) l') = lm"
  by (simp add: state_menu_def base_pre_graph_state_def with_language_def with_menu_def Let_def)

lemma menu_state_memory: "state_menu (menu_state base src reason key lang) = state_menu base"
  by (simp add: state_menu_def menu_state_def dget_dmerge)

lemma menu_state_commands:
  "dget (menu_state base src reason key lang) ''commands'' =
     JArr [JObj [(''type'', JStr ''livechat.send_buttons''),
       (''payload'', JObj [(''menu_key'', JStr key), (''language'', JStr lang)])]]"
  by (simp add: menu_state_def dget_dmerge)

lemma intro_mark_ok:
  assumes "menu_memory_ok lm"
  shows "menu_memory_ok (dput (mark_intro_sent lm thread) ''context'' (JStr ''main''))"
proof -
  have "dget (mark_intro_sent lm thread) ''previous_context'' = dget lm ''previous_context''"
    by (simp add: mark_intro_sent_def Let_def dget_dmerge)
  then show ?thesis
    using assms menu_keys_ok by (simp add: menu_memory_ok_def str_or_def py_str_def)
qed


lemma buttons_message:
  assumes "menu_key_ok key"
    and "dget gs ''commands'' = JArr [JObj [(''type'', JStr ''livechat.send_buttons''),
       (''payload'', JObj [(''menu_key'', JStr key), (''language'', JStr lang)])]]"
  shows "\<exists>m. command_messages cfg i ev cid gs = Inr [m] \<and> oi_message_type m = ''buttons'' \<and>
    oi_payload m = [(''menu_key'', JStr key), (''language'', JStr lang)]"
proof -
  let ?c = "[(''type'', JStr ''livechat.send_buttons''),
       (''payload'', JObj [(''menu_key'', JStr key), (''language'', JStr lang)])]"
  have cs: "graph_commands gs = [?c]"
    using assms(2) by (simp add: graph_commands_def dicts_of_def items_of_def)
  have "command_with_final_text cfg gs ?c = ?c"
    by (simp add: command_with_final_text_def command_is_def py_str_def Let_def)
  moreover have "str_or [] (JStr key) = key"
    using menu_key_nonempty [OF assms(1)] by (simp add: str_or_def py_str_def)
  ultimately show ?thesis
    by (simp add: command_messages_def build_selected_def cs livechat_command_types_def py_str_def
        build_command_outbox_def Let_def with_command_metadata_def media_outbox_def dput_def
        strip_internal_payload_fields_def map_filter_simps)
qed

text \<open>The events that open or turn the pages of the menu.\<close>

definition menu_event :: "gateway_config \<Rightarrow> inbound_event \<Rightarrow> conversation \<Rightarrow> bool" where
  "menu_event cfg ev conv \<longleftrightarrow> ev_standard_event_type ev \<in> {''CHAT_STARTED'', ''THREAD_STARTED''} \<or>
     ev_standard_event_type ev = ''MESSAGE_CREATED'' \<and>
     (\<exists>b \<in> set fast_nav_button_ids. extract_livechat_button_id cfg ev conv = Some b)"

text \<open>
  Claim C32.  The memory of the menu is well-formed: the contexts it names are menus of
  the catalogue.  Opening the menu and every navigation button, also one pressed
  anew or from an old menu, keep it so, and their reply is exactly one message whose
  menu the sender finds in the catalogue: no button leads out of the menus.
\<close>

theorem menus_lead_to_menus:
  assumes "menu_memory_ok (menu_slot conv)" "menu_event cfg ev conv"
  shows "\<exists>gs m key rendered. build_pre_graph_state cfg ev conv = Inr (Some gs) \<and>
    menu_memory_ok (state_menu gs) \<and> command_messages cfg i ev cid gs = Inr [m] \<and>
    oi_message_type m = ''buttons'' \<and> menu_key_ok key \<and> render_menu texts (oi_payload m) = Inr rendered \<and>
    snd (snd rendered) = key"
proof -
  have render: ?thesis
    if gs: "build_pre_graph_state cfg ev conv = Inr (Some (menu_state base src reason key lang))"
      and ok: "menu_memory_ok (state_menu base)" "menu_key_ok key" for base src reason key lang
  proof -
    let ?gs = "menu_state base src reason key lang"
    obtain m where m: "command_messages cfg i ev cid ?gs = Inr [m]" "oi_message_type m = ''buttons''"
        "oi_payload m = [(''menu_key'', JStr key), (''language'', JStr lang)]"
      using buttons_message [OF ok(2) menu_state_commands] by blast
    obtain ids event t where "render_menu texts (oi_payload m) = Inr (event, t, key)"
      using render_menu_ok [OF ok(2)] m(3) by metis
    then show ?thesis
      using gs ok m menu_state_memory by (intro exI [of _ ?gs] exI [of _ m] exI [of _ key]) fastforce
  qed
  show ?thesis
  proof (cases "ev_standard_event_type ev \<in> {''CHAT_STARTED'', ''THREAD_STARTED''}")
    case True
    then have "build_pre_graph_state cfg ev conv = Inr (Some (build_intro_menu_state cfg ev conv))"
      by (auto simp: build_pre_graph_state_def)
    then show ?thesis
      unfolding build_intro_menu_state_def Let_def
      using menu_keys_ok by (elim render) (simp_all add: base_state_memory intro_mark_ok assms(1))
  next
    case False
    with assms(2) obtain b where b: "b \<in> set fast_nav_button_ids" "extract_livechat_button_id cfg ev conv = Some b"
        "ev_standard_event_type ev = ''MESSAGE_CREATED''"
      by (auto simp: menu_event_def)
    then have "build_pre_graph_state cfg ev conv = Inr (Some (build_nav_button_state cfg ev conv b))"
      by (simp add: build_pre_graph_state_def)
    then show ?thesis
      unfolding build_nav_button_state_def Let_def
      by (elim render) (simp_all add: base_state_memory navigation_stays assms(1))
  qed
qed

end
