(* ===== verification/Witnesses_Gateway.thy ===== *)
theory Witnesses_Gateway
  imports Witnesses_Ingress Gateway_Safety
begin

text \<open>Concrete runs of the gateway: the properties of \<open>Gateway_Safety\<close> at samples.\<close>

text \<open>A gateway whose graph answers ``hi''; a human takes over while the graph runs.\<close>

definition taken_while_thinking :: "db \<Rightarrow> db" where
  "taken_while_thinking d = d\<lparr>t_conversations := map (\<lambda>c. c\<lparr>cs_status := ''HUMAN_ACTIVE''\<rparr>) (t_conversations d)\<rparr>"

definition hello_state :: dict where
  "hello_state = [(''route'', JStr ''final_reply''), (''channel_type'', JStr ''livechat''),
     (''commands'', JArr [JObj [(''type'', JStr ''livechat.send_text''), (''payload'', JObj [(''text'', JStr ''hi'')])]])]"

definition gateway_sample :: gateway_config where
  "gateway_sample = \<lparr>gw_services = accepting, gw_sha = id, gw_menus = (\<lambda>_ _. (''t'', [''a'', ''b'', ''c'', ''d''])),
     gw_persona_language = ''en'', gw_fallback_language = ''en'', gw_supported = [''en''], gw_handoff_text = ''wait'',
     gw_failure_notice = (\<lambda>_. ''wait''), gw_reply_plan = (\<lambda>_ _. JNull), gw_node_facts = (\<lambda>_ _. JNull),
     gw_claims_query = (\<lambda>_. False), gw_graph = (\<lambda>_ _ _ _ _ _. Inr hello_state),
     gw_meanwhile = taken_while_thinking, gw_compose = None, gw_final_reply_enabled = False,
     gw_run_sop = Inr, gw_retrieve = (\<lambda>_. Inr JNull), gw_retrieve_default = (\<lambda>_. Inr JNull),
     gw_prepare_faq = (\<lambda>c _. c), gw_faq_answer = id, gw_faq_rows = (\<lambda>_ _ _ _. Inr []),
     gw_adapt_script = (\<lambda>t _. t), gw_script_mismatch = (\<lambda>_ _. False), gw_has_cjk = (\<lambda>_. False),
     gw_translation_notice = id, gw_analyze = None, gw_stream = None, gw_streaming_enabled = False,
     gw_preview_enabled = False, gw_preview_min_chars = 0, gw_typing_enabled = False,
     gw_thinking_enabled = False, gw_recent_limit = 5\<rparr>"

definition gateway_event :: inbound_event where
  "gateway_event = (customer_event 1)\<lparr>ev_standard_event_type := ''MESSAGE_CREATED''\<rparr>"

abbreviation gateway_run :: "(exn + gateway_result) \<times> service_call world" where
  "gateway_run \<equiv> process_event gateway_sample 0 1 gateway_event (fresh_world empty_db)"

lemma gateway_others: "others_keep untouched gateway_sample"
  by (simp add: others_keep_def gateway_sample_def taken_while_thinking_def)


definition handed_over_db :: db where
  "handed_over_db = empty_db\<lparr>t_conversations := [idle_conversation\<lparr>cs_conversation_id := event_conversation_id gateway_event,
     cs_status := ''HANDOFF_REQUESTED''\<rparr>]\<rparr>"

theorem handed_over_left_alone_witness:
  "to_send (store (snd (process_event gateway_sample 0 1 gateway_event (fresh_world handed_over_db)))) = ([], [])"
proof -
  have "handed_over (event_conversation_id gateway_event) (store (fresh_world handed_over_db))" by code_simp
  from handed_over_left_alone [OF this refl] show ?thesis
    by (simp add: fresh_world_def handed_over_db_def empty_db_def)
qed

definition menu_press :: inbound_event where
  "menu_press = gateway_event\<lparr>ev_payload := [(''button_id'', JStr ''route_previous'')]\<rparr>"

definition menu_conversation :: conversation where
  "menu_conversation = (conversation_of idle_conversation)\<lparr>cv_slot_memory := Some [(''livechat_menu'',
     JObj [(''context'', JStr ''withdrawal''), (''previous_context'', JStr ''deposit'')])]\<rparr>"

theorem menus_lead_to_menus_witness:
  "\<exists>gs. build_pre_graph_state gateway_sample menu_press menu_conversation = Inr (Some gs) \<and>
     menu_memory_ok (state_menu gs)"
proof -
  have "menu_memory_ok (menu_slot menu_conversation)" by code_simp
  moreover have "ev_standard_event_type menu_press = ''MESSAGE_CREATED''" "''route_previous'' \<in> set fast_nav_button_ids"
    "extract_livechat_button_id gateway_sample menu_press menu_conversation = Some ''route_previous''" by code_simp+
  then have "menu_event gateway_sample menu_press menu_conversation" unfolding menu_event_def by blast
  ultimately show ?thesis using menus_lead_to_menus by blast
qed

end
