(* ===== verification/Final_Reply.thy ===== *)
theory Final_Reply
  imports Menus
begin

text \<open>
  The text that the customer sees: \<open>src/app/services/final_reply_service.py\<close>
  composes it with the language model, \<open>src/app/services/user_visible_finalizer.py\<close>
  does so for fixed texts, the plan and the outcome of a reply are built in
  \<open>src/app/workflows/final_reply_policy.py\<close> and the facts given to the model in
  \<open>src/app/workflows/final_reply_templates.py\<close>.

  The language model with its prompts is an argument, and so are the tests and
  replacements on texts with characters outside the model's (\<open>fr_validate\<close>,
  \<open>fr_adapt\<close>, \<open>fr_sanitize\<close>, \<open>fr_render\<close>) and the reading of a confidence, a
  decimal number.
\<close>

section \<open>Plans and outcomes\<close>

definition normalize_text :: "json \<Rightarrow> string" where
  "normalize_text j = str_strip (str_or [] j)"

definition strings :: "string list \<Rightarrow> json" where
  "strings xs = JArr (map JStr xs)"

text \<open>The arguments that the modelled callers leave out are empty.\<close>

definition build_reply_plan ::
  "string \<Rightarrow> string \<Rightarrow> string list \<Rightarrow> string list \<Rightarrow> string list \<Rightarrow> dict \<Rightarrow> json" where
  "build_reply_plan kind fallback exact never facts metadata =
     JObj [(''kind'', JStr kind), (''fallback_text'', JStr fallback), (''must_say'', JArr []),
       (''must_say_exact'', strings exact), (''semantic_required_items'', JArr []),
       (''must_not_say'', strings never), (''missing_slots'', JArr []), (''allowed_facts'', strings facts),
       (''staff_reply_key_facts'', JArr []), (''metadata'', JObj metadata)]"

text \<open>\<open>error\<close> is the type and the text of the exception; \<open>str(error)[:1000]\<close>.\<close>

definition fallback_result :: "string \<Rightarrow> string list \<Rightarrow> (string \<times> string) option \<Rightarrow> dict" where
  "fallback_result reason violations error =
     [(''status'', JStr ''fallback''), (''fallback_reason'', JStr reason)]
     @ (if violations = [] then [] else [(''violations'', strings (string_set violations))])
     @ (case error of None \<Rightarrow> []
        | Some (t, msg) \<Rightarrow> [(''error_type'', JStr t), (''error_message'', JStr (take 1000 msg))])"

text \<open>\<open>list(x or [])\<close>\<close>

definition py_list :: "json \<Rightarrow> exn + json" where
  "py_list j =
     (if \<not> truthy j then Inr (JArr [])
      else case j of
        JArr xs \<Rightarrow> Inr (JArr xs)
      | JStr s \<Rightarrow> Inr (JArr (map (\<lambda>c. JStr [c]) s))
      | JObj d \<Rightarrow> Inr (JArr (map (\<lambda>(k, v). JStr k) d))
      | _ \<Rightarrow> Inl (TypeError ''not iterable''))"

definition accepted_result :: "dict \<Rightarrow> exn + dict" where
  "accepted_result output =
     (case py_list (dget output ''safety_flags'') of
        Inl e \<Rightarrow> Inl e
      | Inr flags \<Rightarrow>
     (case py_list (dget output ''used_facts'') of
        Inl e \<Rightarrow> Inl e
      | Inr facts \<Rightarrow>
          Inr [(''status'', JStr ''accepted''), (''language'', dget output ''language''), (''tone'', dget output ''tone''),
               (''confidence'', or_json (dget output ''confidence'') (JInt 0)), (''safety_flags'', flags),
               (''used_facts'', facts), (''reason'', dget output ''reason'')]))"

definition accepted_with_warnings_result :: "dict \<Rightarrow> string list \<Rightarrow> string \<Rightarrow> exn + dict" where
  "accepted_with_warnings_result output violations reason =
     map_sum id (\<lambda>r. dput (dput r ''status'' (JStr ''accepted_with_warnings'')) ''warning_reason'' (JStr reason)
       @ (if violations = [] then [] else [(''violations'', strings (string_set violations))]))
       (accepted_result output)"

section \<open>The facts given to the model\<close>

definition kind_to_template :: "(string \<times> string) list" where
  "kind_to_template = [(''faq_answer'', ''faq_answer''), (''ask_missing_slots'', ''sop_missing_slots''),
     (''backend_query_result'', ''backend_result''), (''telegram_staff_reply'', ''telegram_staff_reply''),
     (''human_handoff'', ''human_handoff''), (''backend_waiting'', ''backend_waiting''),
     (''send_backend_case'', ''backend_waiting''), (''append_backend_case'', ''backend_waiting''),
     (''casual_chat'', ''default_final_reply''), (''clarification'', ''clarification''),
     (''emotion_care'', ''emotion_care''), (''acknowledgement'', ''acknowledgement''),
     (''contextual_followup'', ''contextual_followup'')]"

definition resolve_node_reply_template_id :: "dict \<Rightarrow> string" where
  "resolve_node_reply_template_id state =
     (let explicit = normalize_text (dget state ''node_reply_template'');
          kind = normalize_text (dget (dict_of (dget state ''reply_plan'')) ''kind'');
          route = normalize_text (dget state ''route'');
          intent = normalize_text (dget (dict_of (dget state ''intent_result'')) ''intent'') in
      if explicit \<noteq> [] then explicit
      else case map_of kind_to_template kind of
        Some t \<Rightarrow> t
      | None \<Rightarrow>
          if route = ''human_handoff'' then ''human_handoff''
          else if route = ''emotion_care'' then ''emotion_care''
          else if route = ''faq'' then ''faq_answer''
          else if route = ''final_reply'' then
            (if intent = ''casual_chat'' then ''default_final_reply''
             else if intent = ''acknowledgement'' then ''acknowledgement''
             else if intent \<in> {''contextual_followup'', ''conversation_memory_lookup''} then ''contextual_followup''
             else ''clarification'')
          else ''default_final_reply'')"

definition build_node_facts :: "dict \<Rightarrow> json" where
  "build_node_facts state =
     (case dget state ''node_facts'' of
        JObj (f # fs) \<Rightarrow> JObj (f # fs)
      | _ \<Rightarrow>
          (let plan = dict_of (dget state ''reply_plan'') in
           JObj ([(''route'', dget state ''route''), (''intent'', dget (dict_of (dget state ''intent_result'')) ''intent''),
             (''active_workflow'', dget state ''active_workflow''), (''workflow_stage'', dget state ''workflow_stage''),
             (''fallback_text'', or_json (dget state ''response_text_fallback'') (dget state ''response_text'')),
             (''allowed_facts'', JArr (items_of (dget plan ''allowed_facts''))),
             (''missing_slots'', JArr (items_of (or_json (dget state ''missing_slots'') (dget plan ''missing_slots''))))]
             @ (case dget state ''rag_result'' of
                  JObj r \<Rightarrow> [(''faq'', JObj (map (\<lambda>k. (k, dget r k))
                    [''answer'', ''matched'', ''source'', ''query'', ''fallback_reason'', ''documents'']))]
                | _ \<Rightarrow> [])
             @ (case dget state ''backend_result'' of JObj b \<Rightarrow> [(''backend'', JObj b)] | _ \<Rightarrow> []))))"

section \<open>The service\<close>

record reply_service =
  fr_provider :: "(dict \<Rightarrow> exn + json) option"
  fr_failover :: "(dict \<Rightarrow> exn + json) option"
  fr_enabled :: bool
  fr_fallback_enabled :: bool
  fr_persona :: dict
  fr_supported :: "string list"
  fr_instruction :: "string \<Rightarrow> string"
  fr_adapt :: "string \<Rightarrow> string \<Rightarrow> string"
  fr_sanitize :: "string \<Rightarrow> string"
  fr_render :: "json \<Rightarrow> dict \<Rightarrow> json \<Rightarrow> string"
  fr_validate :: "dict \<Rightarrow> dict \<Rightarrow> string list"
  fr_low_confidence :: "json \<Rightarrow> exn + bool"
  fr_exn_name :: "exn \<Rightarrow> string"

definition target_reply_language :: "reply_service \<Rightarrow> dict \<Rightarrow> string" where
  "target_reply_language svc state =
     (let l = normalize_language_code (dget state ''reply_language'') in
      if l \<noteq> ''unknown'' then l else normalize_language_code (dget (fr_persona svc) ''default_language''))"

definition render_structured_fallback :: "reply_service \<Rightarrow> dict \<Rightarrow> json" where
  "render_structured_fallback svc state =
     (let reply = dict_of (dget state ''customer_reply'') in
      if \<not> truthy (dget reply ''intent'') then JNull
      else JStr (fr_render svc (dget reply ''intent'') (dict_of (dget reply ''facts''))
             (or_json (dget state ''reply_language'') (dget reply ''language''))))"

definition build_payload :: "reply_service \<Rightarrow> dict \<Rightarrow> string \<Rightarrow> dict" where
  "build_payload svc state fallback =
     (let template = resolve_node_reply_template_id state; copy = (\<lambda>k. (k, dget state k));
          list = (\<lambda>k. (k, JArr (items_of (dget state k)))); object = (\<lambda>k. (k, JObj (dict_of (dget state k)))) in
      map copy [''tenant_id'', ''channel_type'', ''conversation_id'', ''raw_user_input'', ''rewritten_question'']
      @ [list ''recent_messages'', list ''previous_thread_memory''] @ map copy [''route'', ''intent_result'',
         ''active_workflow'', ''workflow_stage'', ''status'']
      @ [object ''slot_memory'', list ''missing_slots''] @ map copy [''sop_action'', ''rag_result'', ''backend_result'']
      @ [(''node_reply_template'', JStr template), (''node_reply_instruction'', JStr (fr_instruction svc template)),
         (''node_facts'', build_node_facts state)]
      @ map copy [''detected_language'', ''language_confidence'', ''language_source'', ''conversation_language'',
         ''reply_language'', ''language_result'']
      @ [(''supported_languages'', (let l = items_of (dget state ''supported_languages'') in
            if l \<noteq> [] then JArr l else strings (fr_supported svc))),
         (''response_text_fallback'', JStr fallback), object ''reply_plan'', list ''commands'',
         (''tenant_persona'', JObj (fr_persona svc))])"

definition fallback_state :: "reply_service \<Rightarrow> dict \<Rightarrow> string \<Rightarrow> dict \<Rightarrow> dict" where
  "fallback_state svc state fallback result =
     dmerge state
       [(''response_text_fallback'', JStr fallback),
        (''final_response_text'', if fr_fallback_enabled svc then JStr fallback else JNull),
        (''final_reply_result'', JObj result)]"

definition is_timeout :: "exn \<Rightarrow> bool" where
  "is_timeout e = (case e of Timeout _ \<Rightarrow> True | _ \<Rightarrow> False)"

definition provider_metadata :: "dict \<Rightarrow> dict" where
  "provider_metadata output =
     (if truthy (dget output ''provider'') then [(''provider'', dget output ''provider'')] else [])"

definition exn_info :: "reply_service \<Rightarrow> exn \<Rightarrow> string \<times> string" where
  "exn_info svc e = (fr_exn_name svc e, exn_text e)"

text \<open>\<open>{**(x or {})}\<close>\<close>

definition unpack_dict :: "json \<Rightarrow> exn + dict" where
  "unpack_dict j = (if \<not> truthy j then Inr [] else
     case j of JObj d \<Rightarrow> Inr d | _ \<Rightarrow> Inl (TypeError ''not a mapping''))"

text \<open>The output of the model, or the outcome that stands for its failure.\<close>

definition ask_provider :: "reply_service \<Rightarrow> dict \<Rightarrow> (dict \<Rightarrow> exn + json) \<Rightarrow> dict + (exn + dict)" where
  "ask_provider svc payload provider =
     (case provider payload of
        Inr output \<Rightarrow> Inr (as_dict output)
      | Inl e \<Rightarrow>
          (case fr_failover svc of
             None \<Rightarrow> Inl (fallback_result (if is_timeout e then ''timeout'' else ''exception'') [] (Some (exn_info svc e)))
           | Some failover \<Rightarrow>
               (case (case failover payload of Inl e' \<Rightarrow> Inl e' | Inr j \<Rightarrow> unpack_dict j) of
                  Inr output \<Rightarrow> Inr (Inr (dput output ''provider'' (JStr ''failover'')))
                | Inl e' \<Rightarrow>
                    Inl (fallback_result (if is_timeout e \<or> is_timeout e' then ''timeout'' else ''provider_failure'') []
                           (Some (exn_info svc e))
                         @ [(''primary_error_type'', JStr (fr_exn_name svc e)),
                            (''failover_error_type'', JStr (fr_exn_name svc e')),
                            (''failover_error_message'', JStr (take 1000 (exn_text e')))]))))"

definition language_guards :: "string list" where
  "language_guards = [''language_mismatch'', ''language_script_mismatch'', ''assistant_identity_leak'']"

text \<open>What becomes of an output of the model.\<close>

definition judge_output :: "reply_service \<Rightarrow> dict \<Rightarrow> string \<Rightarrow> dict \<Rightarrow> exn + dict" where
  "judge_output svc state fallback output =
     (case fr_low_confidence svc (dget output ''confidence'') of
        Inl e \<Rightarrow> Inl e
      | Inr low \<Rightarrow>
          (let txt = normalize_text (dget output ''text''); violations = fr_validate svc state output;
               accept = (\<lambda>res. dmerge state [(''response_text_fallback'', JStr fallback),
                  (''final_response_text'', JStr txt), (''final_reply_result'', JObj res)]) in
           if txt = [] then Inr (fallback_state svc state fallback (fallback_result ''empty_model_text'' [] None))
           else if set violations \<inter> set language_guards \<noteq> {}
           then Inr (fallback_state svc state fallback
             (dmerge (fallback_result ''language_guard'' violations None)
               ([(''language_guard_violation'', JBool True),
                 (''requested_language'', JStr (target_reply_language svc state)),
                 (''output_language'', JStr (normalize_language_code (dget output ''language'')))] @ provider_metadata output)))
           else (let found = (if low then string_set (violations @ [''low_confidence'']) else violations) in
             if found \<noteq> []
             then map_sum id (\<lambda>r. accept (dmerge r (provider_metadata output)))
                    (accepted_with_warnings_result output found (if low then ''low_confidence'' else ''guardrail_audit''))
             else map_sum id (\<lambda>r. accept (dmerge r (provider_metadata output))) (accepted_result output))))"

text \<open>The text that is used when the model fails.\<close>

definition raw_fallback :: "reply_service \<Rightarrow> dict \<Rightarrow> string" where
  "raw_fallback svc state =
     normalize_text (or_json (or_json (dget state ''response_text_fallback'') (dget state ''response_text''))
       (render_structured_fallback svc state))"

definition fallback_of :: "reply_service \<Rightarrow> dict \<Rightarrow> string" where
  "fallback_of svc state =
     str_strip (fr_sanitize svc (fr_adapt svc (raw_fallback svc state) (target_reply_language svc state)))"

definition compose_reply :: "reply_service \<Rightarrow> dict \<Rightarrow> exn + dict" where
  "compose_reply svc state =
     (let fallback = fallback_of svc state; raw = raw_fallback svc state in
      if fallback = []
      then Inr (dmerge state [(''final_response_text'', JNull),
             (''final_reply_result'', JObj (fallback_result ''empty_fallback'' [] None))])
      else if \<not> fr_enabled svc then Inr (fallback_state svc state fallback (fallback_result ''disabled'' [] None))
      else case fr_provider svc of
        None \<Rightarrow> Inr (fallback_state svc state fallback (fallback_result ''missing_provider'' [] None))
      | Some provider \<Rightarrow>
          (case ask_provider svc
             (build_payload svc state (str_strip (fr_sanitize svc (if raw = [] then fallback else raw)))) provider of
             Inl result \<Rightarrow> Inr (fallback_state svc state fallback result)
           | Inr (Inl e) \<Rightarrow> Inl e
           | Inr (Inr output) \<Rightarrow> judge_output svc state fallback output))"

section \<open>Fixed texts\<close>

definition resolve_user_reply_language :: "json \<Rightarrow> json \<Rightarrow> json \<Rightarrow> dict \<Rightarrow> string" where
  "resolve_user_reply_language reply conversation detected memory =
     (case find (\<lambda>l. l \<noteq> ''unknown'') (map normalize_language_code
             [reply, dget memory ''last_reply_language'', conversation, detected, JStr ''es'']) of
        Some l \<Rightarrow> l | None \<Rightarrow> ''es'')"

text \<open>The arguments of \<open>finalize_user_visible_text\<close> besides the text.\<close>

record finalize_args =
  fa_tenant_id :: string
  fa_conversation_id :: json
  fa_chat_id :: json
  fa_thread_id :: json
  fa_raw_user_input :: json
  fa_recent_messages :: json
  fa_reply_language :: json
  fa_conversation_language :: json
  fa_detected_language :: json
  fa_slot_memory :: dict
  fa_active_workflow :: json
  fa_workflow_stage :: json
  fa_status :: json
  fa_route :: string
  fa_intent :: string
  fa_node_reply_template :: string
  fa_reply_plan_kind :: string
  fa_allowed_facts :: "string list"
  fa_metadata :: dict

definition finalize_state :: "finalize_args \<Rightarrow> string \<Rightarrow> dict" where
  "finalize_state a fallback =
     (let lang = resolve_user_reply_language (fa_reply_language a) (fa_conversation_language a)
            (fa_detected_language a) (fa_slot_memory a);
          language = (\<lambda>j. JStr (if truthy j then normalize_language_code j else lang));
          facts = (if fa_allowed_facts a = [] then [fallback] else fa_allowed_facts a);
          raw = or_json (fa_raw_user_input a) (JStr fallback) in
      [(''tenant_id'', JStr (text_or ''default'' (Some (fa_tenant_id a)))), (''channel_type'', JStr ''livechat''),
       (''conversation_id'', fa_conversation_id a), (''chat_id'', fa_chat_id a), (''thread_id'', fa_thread_id a),
       (''raw_user_input'', raw), (''rewritten_question'', raw),
       (''recent_messages'', JArr (items_of (fa_recent_messages a))), (''route'', JStr (fa_route a)),
       (''intent_result'', JObj [(''intent'', JStr (fa_intent a)), (''route'', JStr (fa_route a))]),
       (''active_workflow'', fa_active_workflow a), (''workflow_stage'', fa_workflow_stage a),
       (''status'', fa_status a), (''slot_memory'', JObj (fa_slot_memory a)), (''missing_slots'', JArr []),
       (''sop_action'', JNull), (''rag_result'', JNull), (''backend_result'', JNull),
       (''node_reply_template'', JStr (fa_node_reply_template a)),
       (''node_facts'', JObj [(''fallback_text'', JStr fallback), (''allowed_facts'', strings facts)]),
       (''detected_language'', language (fa_detected_language a)),
       (''conversation_language'', language (fa_conversation_language a)), (''reply_language'', JStr lang),
       (''response_text'', JStr fallback), (''response_text_fallback'', JStr fallback),
       (''reply_plan'', build_reply_plan (fa_reply_plan_kind a) fallback [] [] facts (fa_metadata a)),
       (''commands'', JArr [])])"

definition finalize_failed :: "reply_service \<Rightarrow> dict \<Rightarrow> string \<Rightarrow> exn option \<Rightarrow> string \<times> dict" where
  "finalize_failed svc state fallback err =
     (fallback, dmerge state [(''final_response_text'', JStr fallback), (''final_reply_result'', JObj
        (case err of
           None \<Rightarrow> fallback_result ''disabled_or_missing_provider'' [] None
         | Some e \<Rightarrow> fallback_result ''exception'' [] (Some (exn_info svc e))))])"

text \<open>\<open>composer\<close> is the service, if there is one and it is enabled.\<close>

definition finalize_user_visible_text ::
  "reply_service \<Rightarrow> (dict \<Rightarrow> exn + dict) option \<Rightarrow> finalize_args \<Rightarrow> string \<Rightarrow> string \<times> dict" where
  "finalize_user_visible_text svc composer a txt =
     (let fallback = str_strip txt; state = finalize_state a fallback in
      if fallback = [] then ([], [(''final_response_text'', JNull)])
      else case composer of
        None \<Rightarrow> finalize_failed svc state fallback None
      | Some c \<Rightarrow>
          (case c state of
             Inl e \<Rightarrow> finalize_failed svc state fallback (Some e)
           | Inr composed \<Rightarrow>
               (let t = normalize_text (dget composed ''final_response_text''); final = (if t = [] then fallback else t) in
                (final, dmerge (dmerge state composed) [(''final_response_text'', JStr final)]))))"

section \<open>What a composed reply is\<close>

definition composed_keys :: "string list" where
  "composed_keys = [''response_text_fallback'', ''final_response_text'', ''final_reply_result'']"

definition reply_status :: "dict \<Rightarrow> json" where
  "reply_status state = dget (dict_of (dget state ''final_reply_result'')) ''status''"

text \<open>
  The state is as before but for the three keys of the reply.  The text is the
  fallback, or one of the model that passed the guards, or, where fallbacks are
  switched off, there is none and the status says so.
\<close>

definition reply_composed :: "reply_service \<Rightarrow> dict \<Rightarrow> dict \<Rightarrow> bool" where
  "reply_composed svc state composed \<longleftrightarrow>
     (\<forall>k. k \<notin> set composed_keys \<longrightarrow> dget composed k = dget state k) \<and>
     (if reply_status composed = JStr ''fallback''
      then dget composed ''final_response_text'' =
        (if fallback_of svc state \<noteq> [] \<and> fr_fallback_enabled svc then JStr (fallback_of svc state) else JNull)
      else fr_enabled svc \<and> (\<exists>output. normalize_text (dget output ''text'') \<noteq> [] \<and>
        set (fr_validate svc state output) \<inter> set language_guards = {} \<and>
        dget composed ''final_response_text'' = JStr (normalize_text (dget output ''text''))))"

lemma dict_of_object [simp]: "dict_of (JObj d) = d"
  by (simp add: dict_of_def)

lemma three_keys:
  "k \<notin> set composed_keys \<Longrightarrow>
   dget (dmerge state [(''response_text_fallback'', a), (''final_response_text'', b), (''final_reply_result'', c)]) k = dget state k"
  "dget (dmerge state [(''response_text_fallback'', a), (''final_response_text'', b), (''final_reply_result'', c)])
     ''final_response_text'' = b"
  "dget (dmerge state [(''response_text_fallback'', a), (''final_response_text'', b), (''final_reply_result'', c)])
     ''final_reply_result'' = c"
  by (simp_all add: dget_dmerge composed_keys_def)

lemma fallback_status: "dget (fallback_result reason violations err @ rest) ''status'' = JStr ''fallback''"
  by (simp add: fallback_result_def)

lemma fallback_composed:
  assumes "dget result ''status'' = JStr ''fallback''" "fallback_of svc state = fallback" "fallback \<noteq> []"
  shows "reply_composed svc state (fallback_state svc state fallback result)"
  using assms by (simp add: reply_composed_def fallback_state_def three_keys reply_status_def)

lemma provider_metadata_status [simp]: "dget (dmerge r (provider_metadata output)) ''status'' = dget r ''status''"
  by (simp add: provider_metadata_def dget_dmerge)

lemma accepted_status:
  "accepted_result output = Inr r \<Longrightarrow> dget r ''status'' = JStr ''accepted''"
  "accepted_with_warnings_result output vs reason = Inr r \<Longrightarrow> dget r ''status'' = JStr ''accepted_with_warnings''"
proof -
  show "dget r ''status'' = JStr ''accepted''" if "accepted_result output = Inr r" for r
    using that by (auto simp: accepted_result_def split: sum.splits)
  have append: "dget (d @ e) k = dget d k" if "dget d k \<noteq> JNull" for d e k
    using that by (auto simp: dget_def map_add_def split: option.splits)
  show "dget r ''status'' = JStr ''accepted_with_warnings''" if "accepted_with_warnings_result output vs reason = Inr r"
    using that by (cases "accepted_result output") (auto simp: accepted_with_warnings_result_def append)
qed

lemma judge_composed:
  assumes "judge_output svc state fallback output = Inr composed" "fr_enabled svc"
    and "fallback_of svc state = fallback" "fallback \<noteq> []"
  shows "reply_composed svc state composed"
proof -
  have guard: "dget (dmerge (fallback_result a v None) ([(''language_guard_violation'', x), (''requested_language'', y),
      (''output_language'', z)] @ provider_metadata output)) ''status'' = JStr ''fallback''" for a v x y z
    by (simp add: provider_metadata_def dget_dmerge fallback_result_def)
  have empty: "dget (fallback_result a v e) ''status'' = JStr ''fallback''" for a v e
    using fallback_status [of a v e "[]"] by simp
  have accepted: "reply_composed svc state (dmerge state [(''response_text_fallback'', JStr fallback),
      (''final_response_text'', JStr (normalize_text (dget output ''text''))),
      (''final_reply_result'', JObj (dmerge r (provider_metadata output)))])"
    if "dget r ''status'' \<noteq> JStr ''fallback''" "normalize_text (dget output ''text'') \<noteq> []"
      "set (fr_validate svc state output) \<inter> set language_guards = {}" for r
    using that assms(2) by (auto simp: reply_composed_def three_keys reply_status_def)
  show ?thesis
    using assms(1) accepted accepted_status fallback_composed [OF guard assms(3,4)] fallback_composed [OF empty assms(3,4)]
    unfolding judge_output_def Let_def
    by (auto split: sum.splits if_splits simp: map_sum_Inr_iff)
qed

lemma compose_reply_composed: "compose_reply svc state = Inr composed \<Longrightarrow> reply_composed svc state composed"
proof -
  assume run: "compose_reply svc state = Inr composed"
  have fb: "dget (fallback_result a v e) ''status'' = JStr ''fallback''" for a v e
    using fallback_status [of a v e "[]"] by simp
  have provider: "dget result ''status'' = JStr ''fallback''" if "ask_provider svc p q = Inl result" for p q result
    using that fb fallback_status by (auto simp: ask_provider_def split: sum.splits option.splits)
  have empty: "reply_composed svc state (dmerge state [(''final_response_text'', JNull),
      (''final_reply_result'', JObj (fallback_result ''empty_fallback'' [] None))])" if "fallback_of svc state = []"
    using that by (simp add: reply_composed_def dget_dmerge composed_keys_def reply_status_def fb)
  show ?thesis
    using run empty judge_composed [OF _ _ refl] fallback_composed [OF fb refl]
      fallback_composed [OF provider refl]
    unfolding compose_reply_def Let_def by (auto split: if_splits option.splits sum.splits)
qed


lemma finalized_text:
  "fst (finalize_user_visible_text svc composer a txt) = [] \<longleftrightarrow> str_strip txt = []"
  by (simp add: finalize_user_visible_text_def finalize_failed_def Let_def split: option.split sum.split)

end
