(* ===== verification/Handoff.thy ===== *)
theory Handoff
  imports Gateway_Safety Final_Reply
begin

text \<open>
  A human is asked for: what the gateway makes of the button for a human and of a
  reply that the language model failed to compose.  The gateway uses the final
  reply service through the interface \<open>reply_composer\<close>.
\<close>

section \<open>The interface of the final reply\<close>

locale reply_composer =
  fixes composer :: "dict \<Rightarrow> exn + dict"
  assumes composer_keeps: "composer s = Inr s' \<Longrightarrow> k \<notin> set composed_keys \<Longrightarrow> dget s' k = dget s k"

interpretation reply_service: reply_composer "compose_reply svc" for svc
  by unfold_locales (use compose_reply_composed in \<open>auto simp: reply_composed_def\<close>)

text \<open>The states that ask for a human: a message that says so and the command.\<close>

definition asks_for_human :: "dict \<Rightarrow> bool" where
  "asks_for_human gs \<longleftrightarrow> dget gs ''route'' = JStr ''human_handoff'' \<and>
     dget gs ''node_reply_template'' = JStr ''human_handoff'' \<and>
     dget gs ''status'' = JStr ''HANDOFF_REQUESTED'' \<and>
     dget gs ''route_source'' \<noteq> JStr ''image_analysis_candidate'' \<and>
     (\<exists>txt reason. dget gs ''commands'' = handoff_commands txt reason)"

lemma failure_state_asks: "asks_for_human (build_ai_service_failure_handoff_state cfg gs)"
proof -
  have "dget (build_ai_service_failure_handoff_state cfg gs) ''commands'' = handoff_commands (gw_failure_notice cfg
      (str_or ''es'' (or_json (or_json (dget gs ''reply_language'') (dget gs ''last_reply_language''))
        (JStr (default_reply_language cfg))))) ''ai_service_failure''"
    by (simp add: build_ai_service_failure_handoff_state_def Let_def dget_dmerge)
  moreover have "dget (build_ai_service_failure_handoff_state cfg gs) k = JStr v"
    if "(k, v) \<in> {(''route'', ''human_handoff''), (''node_reply_template'', ''human_handoff''),
      (''status'', ''HANDOFF_REQUESTED''), (''route_source'', ''ai_service_failure'')}" for k v
    using that by (elim insertE emptyE) (simp_all add: build_ai_service_failure_handoff_state_def Let_def dget_dmerge)
  ultimately show ?thesis by (auto simp: asks_for_human_def)
qed

lemma failure_state_keeps:
  "k \<in> {''image_candidate_only'', ''tenant_id''} \<Longrightarrow>
   dget (build_ai_service_failure_handoff_state cfg gs) k = dget gs k"
  by (elim insertE emptyE) (simp_all add: build_ai_service_failure_handoff_state_def Let_def dget_dmerge)

lemma button_state_asks:
  "asks_for_human (build_fast_handoff_state cfg ev conv button)"
  "dget (build_fast_handoff_state cfg ev conv button) ''image_candidate_only'' = JNull"
proof -
  have "dget (base_pre_graph_state ev conv slots lang) ''image_candidate_only'' = JNull" for slots lang
    by (simp add: base_pre_graph_state_def Let_def)
  then show "dget (build_fast_handoff_state cfg ev conv button) ''image_candidate_only'' = JNull"
    by (simp add: build_fast_handoff_state_def Let_def dget_dmerge)
  have "dget (build_fast_handoff_state cfg ev conv button) ''commands'' =
      handoff_commands (gw_handoff_text cfg) ''explicit_human_request''"
    by (simp add: build_fast_handoff_state_def Let_def dget_dmerge)
  moreover have "dget (build_fast_handoff_state cfg ev conv button) k = JStr v"
    if "(k, v) \<in> {(''route'', ''human_handoff''), (''node_reply_template'', ''human_handoff''),
      (''status'', ''HANDOFF_REQUESTED''), (''route_source'', ''livechat_button'')}" for k v
    using that by (elim insertE emptyE) (simp_all add: build_fast_handoff_state_def Let_def dget_dmerge)
  ultimately show "asks_for_human (build_fast_handoff_state cfg ev conv button)"
    by (auto simp: asks_for_human_def)
qed

context reply_composer
begin

lemma final_reply_asks:
  assumes "gw_compose cfg = Some composer" "run_final_reply cfg gs w = (Inr gs', w')"
    and "asks_for_human gs" "dget gs ''image_candidate_only'' = JNull"
  shows "asks_for_human gs' \<and> dget gs' ''image_candidate_only'' = JNull"
proof (cases "gs = [] \<or> \<not> truthy (dget gs ''response_text'')")
  case True
  then show ?thesis using assms by (simp add: run_final_reply_def ret_def)
next
  case False
  then obtain composed where c: "composer gs = Inr composed"
      "gs' = apply_final_reply_failure_handoff cfg (guard_final_reply_state cfg composed gs)"
    using assms(1,2) by (auto simp: run_final_reply_def composing_def run_iffs)
  have "\<not> is_sop_missing_slot_reply gs"
    using assms(3) by (simp add: asks_for_human_def is_sop_missing_slot_reply_def)
  then have "guard_final_reply_state cfg composed gs = composed"
    by (simp add: guard_final_reply_state_def Let_def)
  moreover have "asks_for_human composed" "dget composed ''image_candidate_only'' = JNull"
    using assms(3,4) composer_keeps [OF c(1)] by (simp_all add: asks_for_human_def composed_keys_def)
  ultimately show ?thesis
    using c(2) failure_state_asks failure_state_keeps [of "''image_candidate_only''"]
    by (simp add: apply_final_reply_failure_handoff_def)
qed

end

lemma no_composer_asks:
  assumes "gw_compose cfg = None" "run_final_reply cfg gs w = (Inr gs', w')"
    and "asks_for_human gs" "dget gs ''image_candidate_only'' = JNull"
  shows "asks_for_human gs' \<and> dget gs' ''image_candidate_only'' = JNull"
proof -
  have "dget gs' k = dget gs k" if "k \<notin> set composed_keys" for k
    using assms(1,2) three_keys(1) [OF that] by (auto simp: run_final_reply_def ret_def split: if_splits)
  then show ?thesis using assms(3,4) by (simp add: asks_for_human_def composed_keys_def)
qed

section \<open>What is sent\<close>

lemma asks_commands:
  assumes "asks_for_human gs"
  obtains t reason where "graph_commands gs =
    [[(''type'', JStr ''livechat.send_text''), (''payload'', JObj [(''text'', JStr t), (''handoff_ack'', JBool True)])],
     [(''type'', JStr ''human_handoff.requested''), (''payload'', JObj [(''reason'', JStr reason)])]]"
  using assms by (auto simp: asks_for_human_def handoff_commands_def graph_commands_def dicts_of_def items_of_def)

definition acknowledges :: "nat \<Rightarrow> string \<Rightarrow> outbound_in \<Rightarrow> bool" where
  "acknowledges i cid m \<longleftrightarrow> is_handoff_ack (oi_payload m) \<and> oi_message_type m = ''text'' \<and> oi_status m = ''PENDING'' \<and>
     oi_inbound_event_id m = Some i \<and> oi_conversation_id m = Some cid"

definition requests_human :: "nat \<Rightarrow> string \<Rightarrow> command_in \<Rightarrow> bool" where
  "requests_human i cid c \<longleftrightarrow> ci_command_type c = ''human_handoff.requested'' \<and> ci_status c = Some ''PENDING'' \<and>
     ci_inbound_event_id c = Some i \<and> ci_conversation_id c = cid"

lemma ack_payload:
  "is_handoff_ack (dmerge [(''type'', JStr ''message'')] (strip_internal_payload_fields
     [(''text'', x), (''handoff_ack'', JBool True)]))"
  by (simp add: is_handoff_ack_def dget_dmerge strip_internal_payload_fields_def)

lemma ack_command_outbox:
  "\<exists>m. build_command_outbox chat thread cid i
     [(''type'', JStr ''livechat.send_text''), (''payload'', JObj [(''text'', x), (''handoff_ack'', JBool True)])] = Inr m \<and>
     acknowledges i cid m"
  using ack_payload
  by (simp add: build_command_outbox_def py_str_def Let_def with_command_metadata_def build_text_outbox_def
      acknowledges_def dput_def)

lemma ack_with_final_text:
  "\<exists>x. command_with_final_text cfg gs
     [(''type'', JStr ''livechat.send_text''), (''payload'', JObj [(''text'', t), (''handoff_ack'', JBool True)])]
     = [(''type'', JStr ''livechat.send_text''), (''payload'', JObj [(''text'', x), (''handoff_ack'', JBool True)])]"
  by (auto simp: command_with_final_text_def command_payload_def dput_def Let_def)

lemma asks_outbound:
  assumes "asks_for_human gs"
  shows "\<exists>m. build_outbound_messages cfg i ev cid (Some gs) = lift (Inr [m]) \<and> acknowledges i cid m"
proof -
  obtain t reason where cs: "graph_commands gs =
    [[(''type'', JStr ''livechat.send_text''), (''payload'', JObj [(''text'', JStr t), (''handoff_ack'', JBool True)])],
     [(''type'', JStr ''human_handoff.requested''), (''payload'', JObj [(''reason'', JStr reason)])]]"
    using asks_commands [OF assms] .
  obtain x where x: "command_with_final_text cfg gs
     [(''type'', JStr ''livechat.send_text''), (''payload'', JObj [(''text'', JStr t), (''handoff_ack'', JBool True)])]
     = [(''type'', JStr ''livechat.send_text''), (''payload'', JObj [(''text'', x), (''handoff_ack'', JBool True)])]"
    using ack_with_final_text by blast
  obtain m where m: "build_command_outbox (ev_chat_id ev) (ev_thread_id ev) cid i
     [(''type'', JStr ''livechat.send_text''), (''payload'', JObj [(''text'', x), (''handoff_ack'', JBool True)])] = Inr m"
    "acknowledges i cid m" using ack_command_outbox by blast
  have "command_messages cfg i ev cid gs = Inr [m]"
    by (simp add: command_messages_def build_selected_def cs livechat_command_types_def py_str_def x m(1) map_filter_simps)
  moreover have "has_handoff_ack_command gs"
    by (simp add: has_handoff_ack_command_def cs command_is_def command_payload_def py_str_def)
  moreover have "gs \<noteq> []" "dget gs ''route'' = JStr ''human_handoff''"
    using assms by (auto simp: asks_for_human_def)
  ultimately have "build_outbound_messages cfg i ev cid (Some gs) = lift (Inr [m])"
    by (simp add: build_outbound_messages_def)
  with m(2) show ?thesis by blast
qed

lemma asks_external:
  assumes "asks_for_human gs" "\<not> truthy (dget gs ''image_candidate_only'')"
  shows "\<exists>c. build_external_commands i ev conv (Some gs) = Inr [c] \<and> requests_human i (cv_conversation_id conv) c"
proof -
  obtain t reason where cs: "graph_commands gs =
    [[(''type'', JStr ''livechat.send_text''), (''payload'', JObj [(''text'', JStr t), (''handoff_ack'', JBool True)])],
     [(''type'', JStr ''human_handoff.requested''), (''payload'', JObj [(''reason'', JStr reason)])]]"
    using asks_commands [OF assms(1)] .
  have kept: "\<exists>p. with_livechat_command_context ev
     [(''type'', JStr ''human_handoff.requested''), (''payload'', JObj [(''reason'', JStr reason)])]
     = [(''type'', JStr ''human_handoff.requested''), (''payload'', JObj p)]"
    by (auto simp: with_livechat_command_context_def py_str_def dput_def Let_def)
  then obtain p where p: "with_livechat_command_context ev
     [(''type'', JStr ''human_handoff.requested''), (''payload'', JObj [(''reason'', JStr reason)])]
     = [(''type'', JStr ''human_handoff.requested''), (''payload'', JObj p)]" by blast
  have "gs \<noteq> []" "dget gs ''route_source'' \<noteq> JStr ''image_analysis_candidate''"
    using assms by (auto simp: asks_for_human_def)
  then show ?thesis
    using assms(2) by (simp add: build_external_commands_def build_selected_def cs external_command_types_def py_str_def
        p map_filter_simps build_external_command_record_def requests_human_def)
qed

text \<open>
  A picture whose meaning the customer still has to confirm suppresses the external
  commands of its reply.  When the model fails to compose that reply, the customer is
  told that a human comes and the conversation waits for one, but no command asks.
\<close>

lemma failed_picture_reply_calls_nobody:
  assumes "truthy (dget gs ''image_candidate_only'')"
  shows "asks_for_human (build_ai_service_failure_handoff_state cfg gs)"
    and "build_external_commands i ev conv (Some (build_ai_service_failure_handoff_state cfg gs)) = Inr []"
  using failure_state_asks failure_state_keeps [of "''image_candidate_only''"] assms
  by (simp_all add: build_external_commands_def)

section \<open>The button for a human\<close>

definition human_button :: "inbound_event \<Rightarrow> bool" where
  "human_button ev \<longleftrightarrow> ev_standard_event_type ev = ''MESSAGE_CREATED'' \<and> \<not> is_human_agent_public_reply ev \<and>
     dget (ev_payload ev) ''button_id'' = JStr ''global_human''"

lemma human_button_state:
  assumes "human_button ev"
  shows "build_pre_graph_state cfg ev conv = Inr (Some (build_fast_handoff_state cfg ev conv ''global_human''))"
proof -
  have strip: "str_strip ''global_human'' = ''global_human''" by code_simp
  have "extract_livechat_button_id cfg ev conv = Some ''global_human''"
    using assms by (simp add: human_button_def extract_livechat_button_id_def str_or_def py_str_def strip Let_def)
  moreover have "''global_human'' \<notin> set fast_nav_button_ids" by code_simp
  ultimately show ?thesis using assms by (simp add: build_pre_graph_state_def human_button_def)
qed

lemma asked_reply_state:
  assumes "human_button ev" "reply_state cfg i ev ev' conv w = (Inr (Some gs), w')"
    and "gw_compose cfg = None \<or> gw_compose cfg = Some (compose_reply svc)"
  shows "asks_for_human gs \<and> dget gs ''image_candidate_only'' = JNull"
proof -
  have "\<not> is_automation_suspended conv"
    using assms(2) by (auto simp: reply_state_def ret_def)
  then have "run_final_reply cfg (build_fast_handoff_state cfg ev conv ''global_human'') w = (Inr gs, w')"
    using assms(2) by (simp add: reply_state_def human_button_state [OF assms(1)] run_iffs)
  then show ?thesis
    using assms(3) no_composer_asks [OF _ _ button_state_asks] reply_service.final_reply_asks [OF _ _ button_state_asks]
    by blast
qed

lemma asked_output:
  assumes "process_customer_event cfg now i ev conv w = (Inr g, w')" "gr_graph_state g \<noteq> None"
    and "human_button ev" "gw_compose cfg = None \<or> gw_compose cfg = Some (compose_reply svc)"
  shows "\<exists>m c. gr_outbound g = [m] \<and> acknowledges i (cv_conversation_id conv) m \<and>
    gr_commands g = [c] \<and> requests_human i (cv_conversation_id conv) c"
proof -
  define ev' where "ev' = (if is_automation_suspended conv then ev else event_with_image_analysis cfg ev conv)"
  obtain gs0 w1 customer outs cmds tx where
    run: "reply_state cfg i ev ev' conv w = (Inr gs0, w1)" "customer_message_of i ev conv = Inr customer"
    and outs: "\<exists>v v'. build_outbound_messages cfg i ev' (cv_conversation_id conv)
        (map_option (apply_final_reply_failure_handoff cfg) gs0) v = (Inr outs, v')"
    and cmds: "build_external_commands i ev conv (map_option (apply_final_reply_failure_handoff cfg) gs0) = Inr cmds"
    and g: "g = \<lparr>gr_conversation = tx_conversation tx, gr_should_reply = (\<exists>m \<in> set outs. oi_status m = ''PENDING''),
      gr_graph_state = map_option (apply_final_reply_failure_handoff cfg) gs0, gr_outbound = outs, gr_commands = cmds, gr_tx = tx\<rparr>"
    using assms(1) unfolding process_customer_event_def official_stream_never_runs Let_def ev'_def [symmetric]
      ret_andthen prod.case run_iffs by blast
  from assms(2) obtain gs where gs: "gs0 = Some gs" by (auto simp: g)
  have asks: "asks_for_human gs" "dget gs ''image_candidate_only'' = JNull"
    using asked_reply_state [OF assms(3) run(1) [unfolded gs] assms(4)] by blast+
  then have final: "asks_for_human (apply_final_reply_failure_handoff cfg gs)"
    "dget (apply_final_reply_failure_handoff cfg gs) ''image_candidate_only'' = JNull"
    using failure_state_asks failure_state_keeps [of "''image_candidate_only''"]
    by (simp_all add: apply_final_reply_failure_handoff_def)
  obtain m where "outs = [m]" "acknowledges i (cv_conversation_id conv) m"
    using asks_outbound [OF final(1), of cfg i ev' "cv_conversation_id conv"] outs by (auto simp: gs lift_def)
  moreover obtain c where "cmds = [c]" "requests_human i (cv_conversation_id conv) c"
    using asks_external [OF final(1), of i ev conv] final(2) cmds by (auto simp: gs)
  ultimately show ?thesis by (simp add: g)
qed

lemma event_output_known:
  assumes "others_keep untouched cfg" "process_event cfg now i ev w = (Inr g, w')" "\<not> tx_skipped (gr_tx g)"
  shows "output_known (gw_sha cfg) (event_conversation_id ev) [] (gr_outbound g) (gr_commands g) (store w')"
proof -
  have "tx_outcome cfg now i ev (store w) (Inr g) w'"
    using process_event_ends [OF assms(1)] assms(2) unfolding ends_in_tx_def by blast
  then obtain v customer gs where
    "process_event_transactionally (gw_sha cfg) now i ev customer (gr_outbound g) (gr_commands g) gs [] v = (Inr (gr_tx g), w')"
    unfolding tx_outcome_def sum.case by blast
  from process_event_committed [OF this] show ?thesis using assms(3) by (simp add: output_known_def)
qed


end
