(* ===== verification/Disputes.thy ===== *)
theory Disputes
  imports Outbox
begin

text \<open>
  Customers who doubt what the backend says about their account:
  \<open>src/app/workflows/backend_dispute_escalation.py\<close> and the routes that use it in
  \<open>src/app/graph/nodes.py\<close>.  The first doubt asks the backend again, the second one
  calls a human; a doubt that comes while the backend is being asked waits for the
  answer.  All of it is kept in the slot memory of the conversation.

  Whether a text doubts or accepts an answer is found with patterns over characters
  outside the model's; a message is modelled by the outcome of these tests.
\<close>

section \<open>The conclusion of the backend\<close>

definition authoritative_reply_intents :: "string list" where
  "authoritative_reply_intents = [''backend_turnover_remaining'', ''backend_turnover_met'']"

definition dispute_memory_keys :: "string list" where
  "dispute_memory_keys = [''backend_dispute_count'', ''backend_dispute_last_event_id'', ''backend_recheck_pending'',
     ''backend_recheck_origin_fingerprint'', ''backend_recheck_queued_dispute'', ''backend_recheck_queued_event_id'']"

definition recheck_keys :: "string list" where
  "recheck_keys = [''backend_recheck_pending'', ''backend_recheck_origin_fingerprint'',
     ''backend_recheck_queued_dispute'', ''backend_recheck_queued_event_id'']"

text \<open>\<open>at\<close> is the text of the time at which the result was created.\<close>

definition canonical_conclusion :: "dict \<Rightarrow> dict" where
  "canonical_conclusion result =
     [(''intent'', JStr (str_or [] (dget result ''intent''))),
      (''reply_intent'', JStr (str_or [] (dget result ''reply_intent''))),
      (''reply_facts'', JObj (dict_of (dget result ''reply_facts'')))]"

definition conclusion_fingerprint :: "(string \<Rightarrow> string) \<Rightarrow> dict \<Rightarrow> string" where
  "conclusion_fingerprint sha result = sha (json_dumps_sorted (JObj (canonical_conclusion result)))"

definition backend_conclusion_record :: "(string \<Rightarrow> string) \<Rightarrow> string \<Rightarrow> dict \<Rightarrow> dict" where
  "backend_conclusion_record sha at result =
     canonical_conclusion result @
       [(''fingerprint'', JStr (conclusion_fingerprint sha result)), (''recorded_at'', JStr at)]"

definition is_authoritative_result :: "dict \<Rightarrow> bool" where
  "is_authoritative_result result \<longleftrightarrow> dget result ''status'' = JStr ''success'' \<and>
     str_or [] (dget result ''reply_intent'') \<in> set authoritative_reply_intents \<and> truthy (dget result ''intent'')"

definition memory_fingerprint :: "dict \<Rightarrow> json" where
  "memory_fingerprint memory = dget (dict_of (dget memory ''backend_conclusion'')) ''fingerprint''"

text \<open>\<open>int(memory.get(key) or default)\<close>\<close>

definition memory_count :: "string \<Rightarrow> int \<Rightarrow> dict \<Rightarrow> exn + int" where
  "memory_count key dflt memory = py_int_of (or_json (dget memory key) (JInt dflt))"

definition apply_backend_conclusion :: "(string \<Rightarrow> string) \<Rightarrow> string \<Rightarrow> dict \<Rightarrow> dict \<Rightarrow> exn + dict" where
  "apply_backend_conclusion sha at memory result =
     (if \<not> is_authoritative_result result then Inr memory
      else (let record = backend_conclusion_record sha at result;
                updated = dput memory ''backend_conclusion'' (JObj record) in
            if memory_fingerprint memory = dget record ''fingerprint''
            then map_sum id (\<lambda>n. dput updated ''backend_dispute_count'' (JInt n)) (memory_count ''backend_dispute_count'' 0 updated)
            else Inr (dpop (dput updated ''backend_dispute_count'' (JInt 0)) ''backend_dispute_last_event_id'')))"

section \<open>A doubt\<close>

record dispute_evaluation =
  de_memory :: dict
  de_count :: int
  de_should_handoff :: bool
  de_waiting_for_recheck :: bool

text \<open>\<open>event\<close> is the identifier of the event, null when it has none.\<close>

definition evaluate_backend_dispute :: "dict \<Rightarrow> json \<Rightarrow> bool \<Rightarrow> exn + dispute_evaluation option" where
  "evaluate_backend_dispute memory event signal =
     (if \<not> truthy (memory_fingerprint memory) \<or> \<not> signal then Inr None
      else if truthy (dget memory ''backend_recheck_pending'')
      then (let queued = str_or [] (dget memory ''backend_recheck_queued_event_id'');
                m1 = (if event = JNull \<or> queued \<noteq> py_str event
                      then dput memory ''backend_recheck_queued_dispute'' (JBool True) else memory);
                m2 = (if event \<noteq> JNull \<and> queued \<noteq> py_str event
                      then dput m1 ''backend_recheck_queued_event_id'' event else m1) in
            map_sum id (\<lambda>n. Some \<lparr>de_memory = m2, de_count = n, de_should_handoff = False, de_waiting_for_recheck = True\<rparr>)
              (memory_count ''backend_dispute_count'' 1 m2))
      else (case memory_count ''backend_dispute_count'' 0 memory of
              Inl e \<Rightarrow> Inl e
            | Inr n \<Rightarrow>
                (if event \<noteq> JNull \<and> str_or [] (dget memory ''backend_dispute_last_event_id'') = py_str event
                 then Inr (Some \<lparr>de_memory = memory, de_count = n, de_should_handoff = n \<ge> 2, de_waiting_for_recheck = False\<rparr>)
                 else (let m1 = dput memory ''backend_dispute_count'' (JInt (n + 1));
                           m2 = (if event \<noteq> JNull then dput m1 ''backend_dispute_last_event_id'' event else m1) in
                       Inr (Some \<lparr>de_memory = m2, de_count = n + 1, de_should_handoff = n + 1 \<ge> 2,
                              de_waiting_for_recheck = False\<rparr>)))))"

definition mark_backend_recheck_pending :: "dict \<Rightarrow> dict" where
  "mark_backend_recheck_pending memory =
     dpop (dpop (dput (dput memory ''backend_recheck_pending'' (JBool True))
       ''backend_recheck_origin_fingerprint'' (memory_fingerprint memory))
       ''backend_recheck_queued_dispute'') ''backend_recheck_queued_event_id''"

section \<open>An answer\<close>

record recheck_resolution =
  rr_memory :: dict
  rr_same_conclusion :: bool
  rr_should_handoff :: bool

definition resolve_backend_recheck :: "(string \<Rightarrow> string) \<Rightarrow> string \<Rightarrow> dict \<Rightarrow> dict \<Rightarrow> exn + recheck_resolution" where
  "resolve_backend_recheck sha at previous result =
     (case apply_backend_conclusion sha at previous result of
        Inl e \<Rightarrow> Inl e
      | Inr updated \<Rightarrow>
          (let origin = dget previous ''backend_recheck_origin_fingerprint'';
               same = (truthy (dget previous ''backend_recheck_pending'') \<and> truthy origin \<and>
                 memory_fingerprint updated = origin);
               cleared = foldl dpop updated recheck_keys;
               handoff = (same \<and> truthy (dget previous ''backend_recheck_queued_dispute'')) in
           if handoff
           then map_sum id (\<lambda>n. \<lparr>rr_memory = dput cleared ''backend_dispute_count'' (JInt (max n 2)),
                    rr_same_conclusion = same, rr_should_handoff = True\<rparr>)
                  (memory_count ''backend_dispute_count'' 0 cleared)
           else Inr \<lparr>rr_memory = cleared, rr_same_conclusion = same, rr_should_handoff = False\<rparr>))"

definition clear_backend_dispute_memory :: "dict \<Rightarrow> dict" where
  "clear_backend_dispute_memory memory = foldl dpop memory dispute_memory_keys"

section \<open>The route of a message\<close>

text \<open>What a route to a handler of another intent makes of the memory (\<open>_with_route\<close>).\<close>

definition with_route_memory :: "dict \<Rightarrow> string \<Rightarrow> string \<Rightarrow> dict" where
  "with_route_memory memory intent route =
     (let ci = dget (dict_of (dget memory ''backend_conclusion'')) ''intent'' in
      if route \<noteq> ''human_handoff'' \<and> truthy ci \<and> py_str ci \<noteq> intent then clear_backend_dispute_memory memory else memory)"

text \<open>\<open>_recent_backend_result_dispute_route\<close>: the memory and the route, if the message is a doubt.\<close>

definition dispute_route :: "dict \<Rightarrow> json \<Rightarrow> bool \<Rightarrow> exn + (dict \<times> string) option" where
  "dispute_route memory event signal =
     map_sum id (map_option (\<lambda>ev.
       if de_should_handoff ev
       then (with_route_memory (de_memory ev) ''backend_conclusion_disputed_repeated'' ''human_handoff'', ''human_handoff'')
       else (let m = (if de_waiting_for_recheck ev then de_memory ev else mark_backend_recheck_pending (de_memory ev)) in
             (with_route_memory m (str_or ''withdrawal_blocked_or_rollover''
                (dget (dict_of (dget (de_memory ev) ''backend_conclusion'')) ''intent'')) ''sop'', ''sop''))))
       (evaluate_backend_dispute memory event signal)"

definition clear_on_acceptance :: "bool \<Rightarrow> dict \<Rightarrow> dict" where
  "clear_on_acceptance accepts memory = (if accepts then clear_backend_dispute_memory memory else memory)"


section \<open>How often the customer doubted\<close>

text \<open>
  \<open>doubted sha n m\<close>: the memory \<open>m\<close> is reached with \<open>n\<close> doubts since the conclusion
  was given, accepted or left behind by another subject.
\<close>

inductive doubted :: "(string \<Rightarrow> string) \<Rightarrow> nat \<Rightarrow> dict \<Rightarrow> bool" for sha where
  start: "(\<And>k. k \<in> set dispute_memory_keys \<Longrightarrow> dget m k = JNull) \<Longrightarrow> doubted sha 0 m"
| accepted: "doubted sha n m \<Longrightarrow> doubted sha 0 (clear_on_acceptance True m)"
| routed: "doubted sha n m \<Longrightarrow> m' = with_route_memory m intent route \<Longrightarrow> doubted sha (if m' = m then n else 0) m'"
| doubt: "doubted sha n m \<Longrightarrow> dispute_route m event True = Inr (Some (m', ''sop'')) \<Longrightarrow> doubted sha (Suc n) m'"
| answered: "doubted sha n m \<Longrightarrow> resolve_backend_recheck sha at m result = Inr r \<Longrightarrow> \<not> rr_should_handoff r \<Longrightarrow>
    doubted sha (if memory_fingerprint (rr_memory r) = memory_fingerprint m then n else 0) (rr_memory r)"

definition dispute_inv :: "nat \<Rightarrow> dict \<Rightarrow> bool" where
  "dispute_inv n m \<longleftrightarrow> (\<exists>c. memory_count ''backend_dispute_count'' 0 m = Inr c \<and> c \<le> int n) \<and>
     (truthy (dget m ''backend_recheck_pending'') \<longrightarrow> 1 \<le> n) \<and>
     (truthy (dget m ''backend_recheck_queued_dispute'') \<longrightarrow> 2 \<le> n)"

lemma memory_count_simps [simp]:
  "k' \<noteq> k \<Longrightarrow> memory_count k d (dput m k' v) = memory_count k d m"
  "k' \<noteq> k \<Longrightarrow> memory_count k d (dpop m k') = memory_count k d m"
  "memory_count k 0 (dput m k (JInt n)) = Inr n"
  by (simp_all add: memory_count_def or_json_def py_int_of_def int_of_json_def)

lemma memory_count_none: "dget m k = JNull \<Longrightarrow> memory_count k d m = Inr d"
  by (simp add: memory_count_def or_json_def py_int_of_def int_of_json_def)

lemma memory_fingerprint_simps [simp]:
  "k \<noteq> ''backend_conclusion'' \<Longrightarrow> memory_fingerprint (dput m k v) = memory_fingerprint m"
  "k \<noteq> ''backend_conclusion'' \<Longrightarrow> memory_fingerprint (dpop m k) = memory_fingerprint m"
  "memory_fingerprint (dput m ''backend_conclusion'' (JObj d)) = dget d ''fingerprint''"
  by (simp_all add: memory_fingerprint_def dict_of_def)

lemma record_fingerprint [simp]:
  "dget (backend_conclusion_record sha at result) ''fingerprint'' = JStr (conclusion_fingerprint sha result)"
  by (simp add: backend_conclusion_record_def canonical_conclusion_def)

lemma dget_pops: "dget (foldl dpop m ks) k = (if k \<in> set ks then JNull else dget m k)"
  by (induction ks arbitrary: m) auto

lemma cleared_inv: "(\<And>k. k \<in> set dispute_memory_keys \<Longrightarrow> dget m k = JNull) \<Longrightarrow> dispute_inv n m"
  by (simp add: dispute_inv_def dispute_memory_keys_def memory_count_none)

lemma clear_inv: "dispute_inv n (clear_backend_dispute_memory m)"
  by (rule cleared_inv) (simp add: clear_backend_dispute_memory_def dget_pops)


lemma mark_inv: "dispute_inv (Suc n) m \<Longrightarrow> dispute_inv (Suc n) (mark_backend_recheck_pending m)"
  by (simp add: dispute_inv_def mark_backend_recheck_pending_def)

lemma evaluate_inv:
  assumes "evaluate_backend_dispute m event True = Inr (Some ev)" "dispute_inv n m"
  shows "dispute_inv (Suc n) (de_memory ev) \<and> (de_should_handoff ev \<longrightarrow> 1 \<le> n) \<and>
    dget (de_memory ev) ''backend_conclusion'' = dget m ''backend_conclusion''"
proof -
  obtain c where c: "memory_count ''backend_dispute_count'' 0 m = Inr c" "c \<le> int n"
    using assms(2) by (auto simp: dispute_inv_def)
  show ?thesis
  proof (cases "truthy (dget m ''backend_recheck_pending'')")
    case True
    then show ?thesis
      using assms c by (auto simp: evaluate_backend_dispute_def dispute_inv_def Let_def map_sum_Inr_iff split: if_splits)
  next
    case False
    then show ?thesis
      using assms c by (auto simp: evaluate_backend_dispute_def dispute_inv_def Let_def split: if_splits)
  qed
qed

lemma with_route_same:
  "dget m ''backend_conclusion'' = dget m' ''backend_conclusion'' \<Longrightarrow>
   with_route_memory m (str_or d (dget (dict_of (dget m' ''backend_conclusion'')) ''intent'')) route = m"
  by (simp add: with_route_memory_def str_or_def Let_def)

lemma dispute_route_cases:
  assumes "dispute_route m event True = Inr (Some (m', r))"
  obtains ev where "evaluate_backend_dispute m event True = Inr (Some ev)"
    "r = (if de_should_handoff ev then ''human_handoff'' else ''sop'')"
    "m' = (if de_should_handoff ev \<or> de_waiting_for_recheck ev then de_memory ev
           else mark_backend_recheck_pending (de_memory ev))"
proof -
  obtain ev where ev: "evaluate_backend_dispute m event True = Inr (Some ev)"
    using assms by (auto simp: dispute_route_def map_sum_Inr_iff map_option_case split: option.splits)
  have mark: "dget (mark_backend_recheck_pending x) ''backend_conclusion'' = dget x ''backend_conclusion''" for x
    by (simp add: mark_backend_recheck_pending_def)
  have same: "with_route_memory x ''backend_conclusion_disputed_repeated'' ''human_handoff'' = x" for x
    by (simp add: with_route_memory_def Let_def)
  show thesis
  proof (rule that [OF ev])
    show "r = (if de_should_handoff ev then ''human_handoff'' else ''sop'')"
      using assms by (simp add: dispute_route_def ev Let_def split: if_splits)
    show "m' = (if de_should_handoff ev \<or> de_waiting_for_recheck ev
           then de_memory ev else mark_backend_recheck_pending (de_memory ev))"
      using assms by (cases "de_should_handoff ev"; cases "de_waiting_for_recheck ev")
        (simp_all add: dispute_route_def ev same Let_def with_route_same mark)
  qed
qed

lemma dispute_route_inv:
  assumes "dispute_route m event True = Inr (Some (m', r))" "dispute_inv n m"
  shows "(r = ''sop'' \<longrightarrow> dispute_inv (Suc n) m') \<and> (r = ''human_handoff'' \<longrightarrow> 1 \<le> n)"
proof -
  obtain ev where ev: "evaluate_backend_dispute m event True = Inr (Some ev)"
    "r = (if de_should_handoff ev then ''human_handoff'' else ''sop'')"
    "m' = (if de_should_handoff ev \<or> de_waiting_for_recheck ev
           then de_memory ev else mark_backend_recheck_pending (de_memory ev))"
    by (rule dispute_route_cases [OF assms(1)])
  show ?thesis
    using evaluate_inv [OF ev(1) assms(2)] mark_inv unfolding ev(2,3) by simp
qed

lemma apply_conclusion_cases:
  assumes "apply_backend_conclusion sha at m result = Inr m'"
  shows "dget m' ''backend_recheck_pending'' = dget m ''backend_recheck_pending''"
    and "dget m' ''backend_recheck_queued_dispute'' = dget m ''backend_recheck_queued_dispute''"
    and "if memory_fingerprint m' = memory_fingerprint m
         then memory_count ''backend_dispute_count'' 0 m' = memory_count ''backend_dispute_count'' 0 m
         else memory_count ''backend_dispute_count'' 0 m' = Inr 0"
    and "memory_fingerprint m' = memory_fingerprint m \<Longrightarrow>
         dget m' ''backend_dispute_last_event_id'' = dget m ''backend_dispute_last_event_id''"
  using assms by (auto simp: apply_backend_conclusion_def Let_def map_sum_Inr_iff split: if_splits)

lemma resolve_inv:
  assumes "resolve_backend_recheck sha at m result = Inr r" "dispute_inv n m"
  shows "(rr_should_handoff r \<longrightarrow> 2 \<le> n) \<and>
    (\<not> rr_should_handoff r \<longrightarrow>
     dispute_inv (if memory_fingerprint (rr_memory r) = memory_fingerprint m then n else 0) (rr_memory r))"
proof -
  obtain m' where m': "apply_backend_conclusion sha at m result = Inr m'"
    using assms(1) by (auto simp: resolve_backend_recheck_def split: sum.splits)
  define cl where "cl = foldl dpop m' recheck_keys"
  have cl: "dget cl ''backend_recheck_pending'' = JNull" "dget cl ''backend_recheck_queued_dispute'' = JNull"
    "memory_fingerprint cl = memory_fingerprint m'"
    "memory_count ''backend_dispute_count'' 0 cl = memory_count ''backend_dispute_count'' 0 m'"
    by (simp_all add: cl_def recheck_keys_def)
  note kept = apply_conclusion_cases [OF m']
  let ?same = "truthy (dget m ''backend_recheck_pending'') \<and> truthy (dget m ''backend_recheck_origin_fingerprint'') \<and>
    memory_fingerprint m' = dget m ''backend_recheck_origin_fingerprint''"
  have r: "rr_should_handoff r \<longleftrightarrow> ?same \<and> truthy (dget m ''backend_recheck_queued_dispute'')"
    "\<not> rr_should_handoff r \<Longrightarrow> rr_memory r = cl"
    using assms(1) unfolding resolve_backend_recheck_def m' sum.case Let_def cl_def [symmetric]
    by (simp_all add: map_sum_Inr_iff split: if_splits) force+
  have two: "truthy (dget m ''backend_recheck_queued_dispute'') \<longrightarrow> 2 \<le> n"
    using assms(2) by (simp add: dispute_inv_def)
  obtain c where c: "memory_count ''backend_dispute_count'' 0 m = Inr c" "c \<le> int n"
    using assms(2) by (auto simp: dispute_inv_def)
  have "dispute_inv (if memory_fingerprint cl = memory_fingerprint m then n else 0) cl"
    using kept(3) c cl by (simp add: dispute_inv_def split: if_splits)
  then show ?thesis using r two by simp
qed

lemma doubted_inv: "doubted sha n m \<Longrightarrow> dispute_inv n m"
proof (induction rule: doubted.induct)
  case (start m)
  then show ?case by (rule cleared_inv)
next
  case (accepted n m)
  then show ?case by (simp add: clear_on_acceptance_def clear_inv)
next
  case (routed n m m' intent route)
  then show ?case by (auto simp: with_route_memory_def Let_def clear_inv)
next
  case (doubt n m event m')
  then show ?case using dispute_route_inv by blast
next
  case (answered n m at result r)
  then show ?case using resolve_inv by blast
qed



lemma resolve_same:
  assumes "resolve_backend_recheck sha at m result = Inr r" "memory_fingerprint (rr_memory r) = memory_fingerprint m"
    and "truthy (dget m ''backend_recheck_pending'')" "truthy (memory_fingerprint m)"
    and "dget m ''backend_recheck_origin_fingerprint'' = memory_fingerprint m"
  shows "rr_should_handoff r \<longleftrightarrow> truthy (dget m ''backend_recheck_queued_dispute'')"
    and "\<not> rr_should_handoff r \<Longrightarrow>
      memory_count ''backend_dispute_count'' 0 (rr_memory r) = memory_count ''backend_dispute_count'' 0 m \<and>
      dget (rr_memory r) ''backend_dispute_last_event_id'' = dget m ''backend_dispute_last_event_id'' \<and>
      \<not> truthy (dget (rr_memory r) ''backend_recheck_pending'')"
proof -
  obtain m' where m': "apply_backend_conclusion sha at m result = Inr m'"
    using assms(1) by (auto simp: resolve_backend_recheck_def split: sum.splits)
  define cl where "cl = foldl dpop m' recheck_keys"
  have cl: "dget cl ''backend_recheck_pending'' = JNull"
    "dget cl ''backend_dispute_last_event_id'' = dget m' ''backend_dispute_last_event_id''"
    "memory_fingerprint cl = memory_fingerprint m'"
    "memory_count ''backend_dispute_count'' 0 cl = memory_count ''backend_dispute_count'' 0 m'"
    by (simp_all add: cl_def recheck_keys_def)
  note run = assms(1) [unfolded resolve_backend_recheck_def m' sum.case Let_def cl_def [symmetric]]
  have fp: "memory_fingerprint m' = memory_fingerprint m"
    using run assms(2) cl(3) by (auto simp: map_sum_Inr_iff split: if_splits)
  show "rr_should_handoff r \<longleftrightarrow> truthy (dget m ''backend_recheck_queued_dispute'')"
    using run assms(3-5) fp by (auto simp: map_sum_Inr_iff split: if_splits)
  show "memory_count ''backend_dispute_count'' 0 (rr_memory r) = memory_count ''backend_dispute_count'' 0 m \<and>
      dget (rr_memory r) ''backend_dispute_last_event_id'' = dget m ''backend_dispute_last_event_id'' \<and>
      \<not> truthy (dget (rr_memory r) ''backend_recheck_pending'')" if "\<not> rr_should_handoff r"
  proof -
    have "rr_memory r = cl" using run that by (auto simp: map_sum_Inr_iff split: if_splits)
    then show ?thesis using cl apply_conclusion_cases(3,4) [OF m'] fp by simp
  qed
qed

lemma new_doubt:
  assumes "truthy (memory_fingerprint m)" "\<not> truthy (dget m ''backend_recheck_pending'')"
    and "memory_count ''backend_dispute_count'' 0 m = Inr n"
    and "str_or [] (dget m ''backend_dispute_last_event_id'') \<noteq> e"
  shows "evaluate_backend_dispute m (JStr e) True = Inr (Some
    \<lparr>de_memory = dput (dput m ''backend_dispute_count'' (JInt (n + 1))) ''backend_dispute_last_event_id'' (JStr e),
     de_count = n + 1, de_should_handoff = n + 1 \<ge> 2, de_waiting_for_recheck = False\<rparr>)"
  using assms by (simp add: evaluate_backend_dispute_def py_str_def Let_def)


text \<open>A conclusion was given and not doubted yet.\<close>

definition fresh_conclusion :: "dict \<Rightarrow> bool" where
  "fresh_conclusion m \<longleftrightarrow> truthy (memory_fingerprint m) \<and> list_all (\<lambda>k. dget m k = JNull) dispute_memory_keys"

definition asked_again :: "dict \<Rightarrow> string \<Rightarrow> dict \<Rightarrow> bool" where
  "asked_again m a m1 \<longleftrightarrow> memory_fingerprint m1 = memory_fingerprint m \<and> truthy (memory_fingerprint m) \<and>
     truthy (dget m1 ''backend_recheck_pending'') \<and>
     dget m1 ''backend_recheck_origin_fingerprint'' = memory_fingerprint m \<and>
     dget m1 ''backend_recheck_queued_dispute'' = JNull \<and> dget m1 ''backend_recheck_queued_event_id'' = JNull \<and>
     dget m1 ''backend_dispute_last_event_id'' = JStr a \<and> dget m1 ''backend_dispute_count'' = JInt 1"

lemma dispute_routed:
  assumes "evaluate_backend_dispute x event True = Inr (Some ev)"
  shows "dispute_route x event True = Inr (Some (if de_should_handoff ev \<or> de_waiting_for_recheck ev then de_memory ev
           else mark_backend_recheck_pending (de_memory ev), if de_should_handoff ev then ''human_handoff'' else ''sop''))"
proof -
  have "\<exists>p. dispute_route x event True = Inr (Some p)" using assms by (simp add: dispute_route_def)
  then obtain y r where y: "dispute_route x event True = Inr (Some (y, r))" by (metis surj_pair)
  then show ?thesis by (rule dispute_route_cases) (use assms y in simp)
qed

lemma first_doubt:
  assumes "fresh_conclusion m" "a \<noteq> []"
  obtains m1 where "dispute_route m (JStr a) True = Inr (Some (m1, ''sop''))" "asked_again m a m1"
proof -
  have m: "truthy (memory_fingerprint m)" "dget m ''backend_recheck_pending'' = JNull"
    "dget m ''backend_dispute_last_event_id'' = JNull" "memory_count ''backend_dispute_count'' 0 m = Inr 0"
    using assms(1) by (simp_all add: fresh_conclusion_def dispute_memory_keys_def memory_count_none)
  let ?x = "dput (dput m ''backend_dispute_count'' (JInt 1)) ''backend_dispute_last_event_id'' (JStr a)"
  have "evaluate_backend_dispute m (JStr a) True = Inr (Some
      \<lparr>de_memory = ?x, de_count = 1, de_should_handoff = False, de_waiting_for_recheck = False\<rparr>)"
    using new_doubt [of m 0 a] m assms(2) by (simp add: str_or_def)
  from dispute_routed [OF this]
  have route: "dispute_route m (JStr a) True = Inr (Some (mark_backend_recheck_pending ?x, ''sop''))" by simp
  have "asked_again m a (mark_backend_recheck_pending ?x)"
    by (simp add: asked_again_def m mark_backend_recheck_pending_def)
  with route show thesis by (rule that)
qed

lemma doubt_after_answer:
  assumes "asked_again m a m1" "a \<noteq> []" "a \<noteq> b"
    and "resolve_backend_recheck sha at m1 result = Inr r" "memory_fingerprint (rr_memory r) = memory_fingerprint m"
  shows "\<exists>m2. dispute_route (rr_memory r) (JStr b) True = Inr (Some (m2, ''human_handoff''))"
proof -
  have count: "memory_count ''backend_dispute_count'' 0 m1 = Inr 1"
    using assms(1) by (simp add: asked_again_def memory_count_def or_json_def py_int_of_def int_of_json_def)
  have "\<not> rr_should_handoff r"
    using resolve_same(1) [OF assms(4)] assms(1,5) by (simp add: asked_again_def)
  then have r: "memory_count ''backend_dispute_count'' 0 (rr_memory r) = Inr 1"
      "dget (rr_memory r) ''backend_dispute_last_event_id'' = JStr a"
      "\<not> truthy (dget (rr_memory r) ''backend_recheck_pending'')"
    using resolve_same(2) [OF assms(4)] assms(1,5) count by (simp_all add: asked_again_def)
  have "evaluate_backend_dispute (rr_memory r) (JStr b) True = Inr (Some
      \<lparr>de_memory = dput (dput (rr_memory r) ''backend_dispute_count'' (JInt 2)) ''backend_dispute_last_event_id'' (JStr b),
       de_count = 2, de_should_handoff = True, de_waiting_for_recheck = False\<rparr>)"
    using new_doubt [of "rr_memory r" 1 b] r assms by (simp add: asked_again_def str_or_def py_str_def)
  from dispute_routed [OF this] show ?thesis by simp
qed

lemma doubt_before_answer:
  assumes "asked_again m a m1" "b \<noteq> []"
  obtains m2 where "dispute_route m1 (JStr b) True = Inr (Some (m2, ''sop''))"
    "\<And>sha at result r. resolve_backend_recheck sha at m2 result = Inr r \<Longrightarrow>
       memory_fingerprint (rr_memory r) = memory_fingerprint m \<Longrightarrow> rr_should_handoff r"
proof -
  let ?m2 = "dput (dput m1 ''backend_recheck_queued_dispute'' (JBool True)) ''backend_recheck_queued_event_id'' (JStr b)"
  have "memory_count ''backend_dispute_count'' 1 ?m2 = Inr 1"
    using assms(1) by (simp add: asked_again_def memory_count_def or_json_def py_int_of_def int_of_json_def)
  then have ev: "evaluate_backend_dispute m1 (JStr b) True = Inr (Some
      \<lparr>de_memory = ?m2, de_count = 1, de_should_handoff = False, de_waiting_for_recheck = True\<rparr>)"
    using assms by (simp add: asked_again_def evaluate_backend_dispute_def str_or_def py_str_def Let_def)
  have "rr_should_handoff r" if "resolve_backend_recheck sha at ?m2 result = Inr r"
    "memory_fingerprint (rr_memory r) = memory_fingerprint m" for sha at result r
    using resolve_same(1) [OF that(1)] that(2) assms(1) by (simp add: asked_again_def)
  then show thesis using dispute_routed [OF ev] by (intro that) simp_all
qed


end
