(* ===== verification/Result_Consumer.thy ===== *)
theory Result_Consumer
  imports Disputes Final_Reply Gateway
begin

text \<open>
  The consumer of the results of external commands
  (\<open>src/app/workers/external_result_consumer.py\<close>): one result becomes a reply, a new
  state of the conversation and, when looking up an account failed too often or the
  customer keeps doubting, a request for a human.

  Arguments of the model (\<open>result_config\<close>): the final reply service, the fixed
  texts with characters outside the model's by name, the decimal numbers of the backend
  and what other workers commit while the model composes.  The results of the
  services have the shape their workers give them: texts are strings.
\<close>

record result_config =
  rc_sha :: "string \<Rightarrow> string"
  rc_reply :: reply_service
  rc_composer :: "(dict \<Rightarrow> exn + dict) option"
  rc_llm_enabled :: bool
  rc_meanwhile :: "db \<Rightarrow> db"
  rc_text :: "string \<Rightarrow> string"
  rc_language_text :: "string \<Rightarrow> string \<Rightarrow> string"
  rc_must_not_say :: "string list"
  rc_positive :: "json \<Rightarrow> bool"
  rc_format_number :: "json \<Rightarrow> string"
  rc_messages :: "message_row list \<Rightarrow> json"
  rc_max_retries :: int

section \<open>Messages and commands of a result\<close>

definition result_conversation :: "result_row \<Rightarrow> string" where
  "result_conversation r = (case conversation_id r of None \<Rightarrow> [] | Some c \<Rightarrow> c)"

definition build_result_outbox :: "result_row \<Rightarrow> string \<Rightarrow> bool \<Rightarrow> outbound_in" where
  "build_result_outbox r t handoff_ack =
     (let m = build_text_outbox (Some (er_chat_id r)) (er_thread_id r) (result_conversation r) (er_inbound_event_id r) t;
          m1 = (if handoff_ack then m\<lparr>oi_payload := dput (oi_payload m) ''handoff_ack'' (JBool True)\<rparr> else m) in
      if er_result_type r = ''backend.query.result''
      then m1\<lparr>oi_dedup_key := Some (text_or ''default'' (Some (er_tenant_id r)) @ '':'' @ result_conversation r @ '':''
                @ nat_or_blank (er_inbound_event_id r) @ '':'' @ ''backend.query.result:'' @ nat_str (row_id r)),
              oi_message_kind := Some ''backend_answer'', oi_command_type := Some ''backend.query.result''\<rparr>
      else m1)"

definition result_handoff_command :: "result_row \<Rightarrow> dict \<Rightarrow> command_in" where
  "result_handoff_command r payload =
     \<lparr>ci_tenant_id = Some (text_or ''default'' (Some (er_tenant_id r))), ci_conversation_id = result_conversation r,
      ci_chat_id = Some (er_chat_id r), ci_thread_id = er_thread_id r, ci_inbound_event_id = er_inbound_event_id r,
      ci_command_type = ''human_handoff.requested'', ci_payload = payload, ci_status = Some ''PENDING'',
      ci_retry_count = 0, ci_last_error = None, ci_dedup_key = None\<rparr>"

section \<open>Lookups that fail again and again\<close>

definition backend_not_found_handoff_threshold :: int where
  "backend_not_found_handoff_threshold = 2"

definition stable_lookup_value_hash :: "(string \<Rightarrow> string) \<Rightarrow> json \<Rightarrow> json" where
  "stable_lookup_value_hash sha v =
     (let s = str_lower (normalize_text v) in if s = [] then JNull else JStr (sha s))"

record escalation =
  es_handoff :: bool
  es_slots :: dict
  es_commands :: "command_in list"

definition backend_lookup_reset :: escalation where
  "backend_lookup_reset = \<lparr>es_handoff = False,
     es_slots = [(''backend_not_found_count'', JInt 0), (''backend_not_found_last_value_hash'', JNull),
       (''backend_query_failed_count'', JInt 0), (''backend_query_failed_last_value_hash'', JNull),
       (''backend_not_found_handoff_requested'', JBool False)],
     es_commands = []\<rparr>"

text \<open>The counter, the hash and the reason of a handoff of each kind.\<close>

definition count_key :: "bool \<Rightarrow> string" where
  "count_key failed = (if failed then ''backend_query_failed_count'' else ''backend_not_found_count'')"

definition hash_key :: "bool \<Rightarrow> string" where
  "hash_key failed = (if failed then ''backend_query_failed_last_value_hash'' else ''backend_not_found_last_value_hash'')"

definition backend_lookup_escalation ::
  "(string \<Rightarrow> string) \<Rightarrow> result_row \<Rightarrow> dict \<Rightarrow> bool \<Rightarrow> json \<Rightarrow> json \<Rightarrow> exn + escalation" where
  "backend_lookup_escalation sha r slots failed v identity =
     (let threshold = backend_not_found_handoff_threshold in
      if \<not> failed \<and> identity \<notin> {JStr ''user_text'', JStr ''confirmed_by_user''}
      then Inr \<lparr>es_handoff = False,
             es_slots = concat (map (\<lambda>k. case map_of slots k of None \<Rightarrow> [] | Some x \<Rightarrow> [(k, x)])
               [count_key failed, hash_key failed, ''backend_not_found_handoff_requested'']),
             es_commands = []\<rparr>
      else (case memory_count (count_key failed) 0 slots of
              Inl e \<Rightarrow> Inl e
            | Inr existing \<Rightarrow>
                (let h = stable_lookup_value_hash sha v;
                     again = (\<not> failed \<and> truthy h \<and> dget slots (hash_key failed) = h);
                     count = (if again then existing else existing + 1);
                     handoff = (count \<ge> threshold \<and> \<not> truthy (dget slots ''backend_not_found_handoff_requested'')) in
                 Inr \<lparr>es_handoff = handoff,
                   es_slots = [(count_key failed, JInt count), (hash_key failed, h)]
                     @ (if handoff then [(''backend_not_found_handoff_requested'', JBool True)] else []),
                   es_commands = (if handoff then [result_handoff_command r
                     [(''reason'', JStr (if failed then ''backend_query_failed_repeated'' else ''backend_player_not_found_repeated'')),
                      (''trigger'', JStr (if failed then ''failed'' else ''not_found'')), (''threshold'', JInt threshold),
                      (''count'', JInt count)]] else [])\<rparr>)))"

section \<open>The reply to a result of the backend\<close>

definition resolve_backend_reply :: "result_config \<Rightarrow> dict \<Rightarrow> exn + string \<times> dict" where
  "resolve_backend_reply cfg result =
     (let query = dict_of (dget result ''query'') in
      if truthy (dget result ''reply_intent'')
      then Inr (py_str (dget result ''reply_intent''), dict_of (dget result ''reply_facts''))
      else if dget query ''player_found'' = JBool False then Inr (''backend_player_not_found'', [])
      else (case py_int_of (or_json (dget query ''active_requirements_count'') (JInt 0)) of
              Inl e \<Rightarrow> Inl e
            | Inr n \<Rightarrow>
                Inr (if n > 0 \<or> rc_positive cfg (dget query ''remaining_turnover'')
                     then (''backend_turnover_remaining'',
                           [(''remaining_turnover'', JStr (rc_format_number cfg (dget query ''remaining_turnover'')))])
                     else if dget query ''is_met'' = JBool True then (''backend_turnover_met'', [])
                     else (''backend_turnover_unknown'', []))))"

definition is_backend_player_not_found :: "dict \<Rightarrow> string \<Rightarrow> bool" where
  "is_backend_player_not_found result intent \<longleftrightarrow>
     (intent = ''backend_player_not_found'' \<or> dget result ''reply_intent'' = JStr ''backend_player_not_found'') \<and>
     dget (dict_of (dget result ''query'')) ''player_found'' = JBool False"

definition backend_reply_language :: "dict \<Rightarrow> json" where
  "backend_reply_language result =
     or_json (or_json (or_json (dget result ''reply_language'') (dget result ''conversation_language''))
       (dget result ''detected_language'')) (JStr ''es'')"

definition build_customer_reply :: "string \<Rightarrow> dict \<Rightarrow> json \<Rightarrow> string \<Rightarrow> json" where
  "build_customer_reply intent facts lang t =
     JObj [(''intent'', JStr intent), (''facts'', JObj facts), (''language'', lang), (''text'', JStr t)]"

text \<open>Texts for a language: \<open>rc_language_text name lower_case_language\<close>.\<close>

definition language_text :: "result_config \<Rightarrow> string \<Rightarrow> json \<Rightarrow> string" where
  "language_text cfg name lang = rc_language_text cfg name (str_lower (str_or [] lang))"

record result_handler =
  rh_text :: string
  rh_sender_role :: string
  rh_summary :: string
  rh_graph_state :: dict
  rh_commands :: "command_in list"

definition workflow_state :: "string \<Rightarrow> json \<Rightarrow> string \<Rightarrow> dict \<Rightarrow> dict" where
  "workflow_state st workflow stage slots =
     [(''status'', JStr st), (''active_workflow'', workflow), (''workflow_stage'', JStr stage), (''slot_memory'', JObj slots)]"

definition summary_sender_role :: "string \<Rightarrow> string" where
  "summary_sender_role t =
     (if starts_with ''telegram.'' t then ''telegram'' else if starts_with ''backend.'' t then ''backend''
      else if starts_with ''human_handoff.'' t then ''human'' else ''system'')"

definition backend_failed_handler :: "result_config \<Rightarrow> result_row \<Rightarrow> dict \<Rightarrow> exn + result_handler" where
  "backend_failed_handler cfg r slots =
     (let result = er_json r; lang = backend_reply_language result; intent = ''backend_query_failed'';
          code = or_json (dget result ''error_code'') (JStr ''UNKNOWN''); facts = [(''error_code'', code)] in
      case backend_lookup_escalation (rc_sha cfg) r slots True code JNull of
        Inl e \<Rightarrow> Inl e
      | Inr es \<Rightarrow>
          (let t = (if es_handoff es then language_text cfg ''failed_handoff'' lang
                    else fr_render (rc_reply cfg) (JStr intent) facts lang);
               h = es_handoff es in
           Inr \<lparr>rh_text = t, rh_sender_role = ''backend'',
             rh_summary = rc_text cfg (if h then ''failed_handoff_summary'' else ''failed_summary''),
             rh_graph_state = workflow_state (if h then ''HANDOFF_REQUESTED'' else ''WAITING_EXTERNAL'')
                 (JStr (if h then ''human_handoff'' else ''withdrawal_blocked_or_rollover''))
                 (if h then ''handoff_requested'' else ''backend_query_failed_waiting_manual'')
                 (dmerge [(''backend_query_status'', JStr ''failed''), (''backend_query_error_code'', code)] (es_slots es))
               @ [(''customer_reply'', build_customer_reply intent facts lang t)],
             rh_commands = es_commands es\<rparr>))"

definition backend_success_handler :: "result_config \<Rightarrow> result_row \<Rightarrow> dict \<Rightarrow> exn + result_handler" where
  "backend_success_handler cfg r slots =
     (let result = er_json r; lang = backend_reply_language result in
      case resolve_backend_reply cfg result of
        Inl e \<Rightarrow> Inl e
      | Inr (intent, facts) \<Rightarrow>
     (case (if is_backend_player_not_found result intent
            then backend_lookup_escalation (rc_sha cfg) r slots False
              (or_json (dget result ''account_or_phone'') (dget (dict_of (dget result ''query'')) ''account_or_phone''))
              (dget result ''identity_source'')
            else Inr backend_lookup_reset) of
        Inl e \<Rightarrow> Inl e
      | Inr es \<Rightarrow>
     (case resolve_backend_recheck (rc_sha cfg) (format_datetime (created_at r)) slots
             (dmerge result [(''reply_intent'', JStr intent), (''reply_facts'', JObj facts)]) of
        Inl e \<Rightarrow> Inl e
      | Inr rr \<Rightarrow>
          (let answer = normalize_text (dget result ''answer'');
               dispute = rr_should_handoff rr; h = (es_handoff es \<or> dispute);
               t = (if dispute then language_text cfg ''recheck_handoff'' lang
                    else if es_handoff es then language_text cfg ''not_found_handoff'' lang
                    else if answer \<noteq> [] then answer
                    else fr_render (rc_reply cfg) (JStr intent) facts lang) in
           Inr \<lparr>rh_text = t, rh_sender_role = ''backend'',
             rh_summary = rc_text cfg (if dispute then ''recheck_summary''
               else if es_handoff es then ''not_found_summary'' else ''success_summary''),
             rh_graph_state = workflow_state (if h then ''HANDOFF_REQUESTED'' else ''AI_ACTIVE'')
                 (if h then JStr ''human_handoff'' else JNull) (if h then ''handoff_requested'' else ''completed'')
                 (dmerge (dput (rr_memory rr) ''backend_query_status'' (JStr ''success'')) (es_slots es))
               @ [(''customer_reply'', build_customer_reply intent facts lang t)],
             rh_commands = es_commands es @ (if dispute then [result_handoff_command r
               [(''reason'', JStr ''backend_conclusion_disputed_after_recheck''), (''same_conclusion'', JBool True),
                (''queued_dispute'', JBool True)]] else [])\<rparr>))))"

section \<open>Other results\<close>

definition case_created_handler :: "result_config \<Rightarrow> dict \<Rightarrow> exn + result_handler" where
  "case_created_handler cfg result =
     (let case_id = dget result ''case_id'' in
      if \<not> truthy case_id then Inl (ValueError ''telegram.case.created result missing case_id'')
      else Inr \<lparr>rh_text = rc_text cfg ''case_created'', rh_sender_role = ''telegram'',
        rh_summary = rc_text cfg ''case_created_summary'' @ py_str case_id,
        rh_graph_state = workflow_state ''WAITING_EXTERNAL'' (or_json (dget result ''active_workflow'') (dget result ''intent''))
          ''waiting_backend''
          [(''telegram_case_id'', case_id), (''telegram_message_id'', dget result ''telegram_message_id''),
           (''telegram_target_chat_id'', dget result ''target_chat_id''),
           (''telegram_message_thread_id'', dget result ''message_thread_id''),
           (''telegram_case_card_text'', dget result ''card_text''), (''telegram_case_status'', JStr ''created'')],
        rh_commands = []\<rparr>)"

definition appended_handler :: "result_config \<Rightarrow> dict \<Rightarrow> exn + result_handler" where
  "appended_handler cfg result =
     (if dget result ''status'' \<notin> {JStr ''appended'', JStr ''edited'', JStr ''success'', JStr ''MOCKED''}
      then Inl (ValueError ''telegram.append_to_case.result failed'')
      else Inr \<lparr>rh_text = str_or (rc_text cfg ''appended'') (dget result ''message''), rh_sender_role = ''telegram'',
        rh_summary = str_or (rc_text cfg ''appended_summary'') (dget result ''message''),
        rh_graph_state = workflow_state ''WAITING_EXTERNAL'' (or_json (dget result ''active_workflow'') (dget result ''intent''))
          ''waiting_backend''
          [(''telegram_append_status'', dget result ''status''),
           (''last_telegram_append_message_id'', dget result ''telegram_message_id''),
           (''telegram_case_card_text'', dget result ''card_text'')],
        rh_commands = []\<rparr>)"

definition pending_reply_stages :: "(string \<times> string) list" where
  "pending_reply_stages = [(''found'', ''pending_reply_found''), (''waiting'', ''pending_reply_waiting''),
     (''human_handoff'', ''pending_reply_human_handoff''), (''not_found'', ''pending_reply_not_found'')]"

definition pending_reply_handler :: "result_config \<Rightarrow> dict \<Rightarrow> exn + result_handler" where
  "pending_reply_handler cfg result =
     (let t = normalize_text (dget result ''reply_text'') in
      case (case dget result ''status'' of JStr st \<Rightarrow> map_option (Pair st) (map_of pending_reply_stages st) | _ \<Rightarrow> None) of
        None \<Rightarrow> Inl (ValueError ''pending_reply.lookup.result invalid'')
      | Some (st, stage) \<Rightarrow>
          if t = [] then Inl (ValueError ''pending_reply.lookup.result invalid'')
          else (let waiting = st \<in> {''waiting'', ''human_handoff''} in
            Inr \<lparr>rh_text = t, rh_sender_role = ''system'', rh_summary = rc_text cfg ''pending_reply_summary'' @ st,
              rh_graph_state = workflow_state (if waiting then ''WAITING_EXTERNAL'' else ''AI_ACTIVE'')
                (if waiting then JStr ''pending_reply_lookup'' else JNull) stage
                [(''pending_reply_status'', JStr st), (''matched_conversation_id'', dget result ''matched_conversation_id''),
                 (''matched_chat_id'', dget result ''matched_chat_id''),
                 (''matched_telegram_case_id'', dget result ''telegram_case_id'')],
              rh_commands = []\<rparr>))"

text \<open>\<open>RESULT_HANDLERS\<close>: the results of dry runs.\<close>

definition mock_result_handlers :: "(string \<times> string option \<times> string \<times> string option) list" where
  "mock_result_handlers =
     [(''telegram.send_case_card.mock_result'', None, ''waiting_backend'', None),
      (''telegram.append_to_case.mock_result'', None, ''waiting_backend'', None),
      (''backend.query.mock_result'', None, ''backend_query_dry_run'', None),
      (''pending_reply.lookup.mock_result'', None, ''pending_reply_lookup_dry_run'', None),
      (''human_handoff.requested.mock_result'', Some ''human_handoff'', ''handoff_requested'', Some ''HANDOFF_REQUESTED''),
      (''rag.placeholder.mock_result'', None, ''rag_placeholder_dry_run'', None)]"

definition mock_handler :: "result_config \<Rightarrow> string \<Rightarrow> exn + result_handler" where
  "mock_handler cfg t =
     (case map_of mock_result_handlers t of
        None \<Rightarrow> Inl (ValueError (''unsupported result_type: '' @ t))
      | Some (workflow, stage, st) \<Rightarrow>
          Inr \<lparr>rh_text = rc_text cfg t, rh_sender_role = summary_sender_role t, rh_summary = rc_text cfg t,
            rh_graph_state = workflow_state (text_or ''WAITING_EXTERNAL'' st) (opt_json workflow) stage [], rh_commands = []\<rparr>)"

definition build_result_handler :: "result_config \<Rightarrow> result_row \<Rightarrow> conversation \<Rightarrow> exn + result_handler" where
  "build_result_handler cfg r conv =
     (let t = er_result_type r; result = er_json r; slots = or_empty (cv_slot_memory conv) in
      if t = ''telegram.case.created'' then case_created_handler cfg result
      else if t = ''telegram.append_to_case.result'' then appended_handler cfg result
      else if t = ''pending_reply.lookup.result'' then pending_reply_handler cfg result
      else if t = ''backend.query.result'' then
        (if dget result ''status'' = JStr ''failed'' then backend_failed_handler cfg r slots
         else if dget result ''status'' \<noteq> JStr ''success''
         then Inl (ValueError (str_strip (''backend.query.result failed: '' @ str_or ''UNKNOWN'' (dget result ''error_code'')
                @ '' '' @ str_or [] (dget result ''error_message''))))
         else backend_success_handler cfg r slots)
      else mock_handler cfg t)"

section \<open>The wording of the reply\<close>

definition with_reply :: "result_handler \<Rightarrow> string \<Rightarrow> string \<Rightarrow> json \<Rightarrow> result_handler" where
  "with_reply h fallback t res =
     h\<lparr>rh_text := t, rh_graph_state := dmerge (rh_graph_state h)
       [(''response_text_fallback'', JStr fallback), (''final_response_text'', JStr t), (''final_reply_result'', res)]\<rparr>"

definition has_human_handoff_command :: "result_handler \<Rightarrow> bool" where
  "has_human_handoff_command h \<longleftrightarrow> (\<exists>c \<in> set (rh_commands h). ci_command_type c = ''human_handoff.requested'')"

definition backend_result_context :: "dict \<Rightarrow> dict" where
  "backend_result_context result =
     (let query = dict_of (dget result ''query'') in
      map (\<lambda>k. (k, dget result k)) [''status'', ''answer'', ''reply_intent'']
      @ [(''reply_facts'', JObj (dict_of (dget result ''reply_facts'')))]
      @ map (\<lambda>k. (k, dget result k)) [''intent'', ''raw_user_input'', ''rewritten_question'', ''account_or_phone'', ''reply_language'']
      @ [(''query'', JObj (map (\<lambda>k. (k, dget query k)) [''player_found'', ''remaining_turnover'', ''required_turnover'',
           ''valid_turnover'', ''active_requirements_count'', ''records_count'', ''is_met'']))])"

definition backend_result_allowed_facts :: "result_config \<Rightarrow> dict \<Rightarrow> string list" where
  "backend_result_allowed_facts cfg result =
     (let answer = normalize_text (dget result ''answer''); intent = normalize_text (dget result ''reply_intent'');
          query = dict_of (dget result ''query''); fact = (\<lambda>k v. k @ ''='' @ rc_format_number cfg v) in
      (if answer = [] then [] else [answer]) @ (if intent = [] then [] else [''reply_intent='' @ intent])
      @ map (\<lambda>(k, v). fact k v) (dict_of (dget result ''reply_facts''))
      @ concat (map (\<lambda>k. case map_of query k of None \<Rightarrow> [] | Some v \<Rightarrow> [fact k v])
          [''player_found'', ''active_requirements_count'', ''remaining_turnover'', ''required_turnover'',
           ''valid_turnover'', ''is_met'', ''records_count'']))"

definition backend_result_must_say_exact :: "result_config \<Rightarrow> dict \<Rightarrow> string list" where
  "backend_result_must_say_exact cfg q =
     (if dget q ''remaining_turnover'' \<noteq> JNull then [rc_format_number cfg (dget q ''remaining_turnover'')] else [])"

definition build_backend_final_reply_state :: "result_config \<Rightarrow> result_row \<Rightarrow> result_handler \<Rightarrow> string \<Rightarrow> json \<Rightarrow> dict" where
  "build_backend_final_reply_state cfg r h fallback messages =
     (let result = er_json r; gs = rh_graph_state h; context = JObj (backend_result_context result) in
      [(''tenant_id'', JStr (text_or ''default'' (Some (er_tenant_id r)))), (''channel_type'', JStr ''livechat''),
       (''conversation_id'', opt_json (conversation_id r)), (''raw_user_input'', dget result ''raw_user_input''),
       (''rewritten_question'', dget result ''rewritten_question''), (''recent_messages'', messages),
       (''route'', JStr ''sop''), (''intent_result'', JObj [(''intent'', JStr ''withdrawal_blocked_or_rollover'')]),
       (''active_workflow'', JStr ''withdrawal_blocked_or_rollover''), (''workflow_stage'', dget gs ''workflow_stage''),
       (''status'', dget gs ''status''), (''slot_memory'', JObj (dict_of (dget gs ''slot_memory''))),
       (''missing_slots'', JArr []), (''sop_action'', JStr ''backend_query_result''), (''rag_result'', JNull),
       (''backend_result'', context), (''node_reply_template'', JStr ''backend_result''), (''node_facts'', context),
       (''detected_language'', dget result ''detected_language''), (''language_confidence'', JNull),
       (''language_source'', JStr ''backend_query_result''), (''conversation_language'', dget result ''conversation_language''),
       (''reply_language'', backend_reply_language result), (''response_text'', JStr fallback),
       (''response_text_fallback'', JStr fallback), (''customer_reply'', dget gs ''customer_reply''),
       (''reply_plan'', build_reply_plan ''backend_query_result'' fallback
          (backend_result_must_say_exact cfg (dict_of (dget result ''query''))) (rc_must_not_say cfg)
          (backend_result_allowed_facts cfg result) []),
       (''commands'', JArr [])])"

text \<open>A call of the composer; a failure becomes an outcome.\<close>

definition compose_or_fallback :: "result_config \<Rightarrow> dict \<Rightarrow> string \<Rightarrow> dict job" where
  "compose_or_fallback cfg state fallback w =
     (case rc_composer cfg of
        None \<Rightarrow> (Inr (dmerge state [(''final_response_text'', JStr fallback),
            (''final_reply_result'', JObj (fallback_result ''disabled_or_missing_provider'' [] None))]), w)
      | Some c \<Rightarrow>
          (Inr (case c state of
             Inr composed \<Rightarrow> composed
           | Inl e \<Rightarrow> dmerge state [(''final_response_text'', JStr fallback),
               (''final_reply_result'', JObj (fallback_result ''exception'' [] (Some (exn_info (rc_reply cfg) e))))]),
           w\<lparr>store := rc_meanwhile cfg (store w)\<rparr>))"

definition pending_reply_args :: "result_row \<Rightarrow> result_handler \<Rightarrow> json \<Rightarrow> string \<Rightarrow> finalize_args" where
  "pending_reply_args r h messages fallback =
     (let result = er_json r; gs = rh_graph_state h in
      \<lparr>fa_tenant_id = text_or ''default'' (Some (er_tenant_id r)), fa_conversation_id = opt_json (conversation_id r),
       fa_chat_id = JStr (er_chat_id r), fa_thread_id = opt_json (er_thread_id r),
       fa_raw_user_input = dget result ''raw_user_input'', fa_recent_messages = messages,
       fa_reply_language = dget result ''reply_language'', fa_conversation_language = dget result ''conversation_language'',
       fa_detected_language = dget result ''detected_language'', fa_slot_memory = dict_of (dget gs ''slot_memory''),
       fa_active_workflow = dget gs ''active_workflow'', fa_workflow_stage = dget gs ''workflow_stage'',
       fa_status = dget gs ''status'', fa_route = ''sop'', fa_intent = ''pending_reply_lookup'',
       fa_node_reply_template = ''pending_reply_lookup'', fa_reply_plan_kind = ''pending_reply_lookup'',
       fa_allowed_facts = [fallback],
       fa_metadata = [(''source'', JStr ''pending_reply_lookup''), (''status'', dget result ''status'')]\<rparr>)"

definition apply_final_reply :: "result_config \<Rightarrow> result_row \<Rightarrow> result_handler \<Rightarrow> json \<Rightarrow> result_handler job" where
  "apply_final_reply cfg r h messages =
     (let fallback = str_strip (rh_text h) in
      if er_result_type r = ''pending_reply.lookup.result'' then
        (if fallback = [] then ret h
         else (\<lambda>w. (let (t, state) = finalize_user_visible_text (rc_reply cfg) (rc_composer cfg)
                      (pending_reply_args r h messages fallback) fallback in
                Inr (with_reply h fallback t (dget state ''final_reply_result'')),
                w\<lparr>store := if rc_composer cfg = None then store w else rc_meanwhile cfg (store w)\<rparr>)))
      else if er_result_type r \<noteq> ''backend.query.result'' \<or> fallback = [] \<or> has_human_handoff_command h then ret h
      else andthen (compose_or_fallback cfg (build_backend_final_reply_state cfg r h fallback messages) fallback) (\<lambda>composed.
        let t = normalize_text (dget composed ''final_response_text'') in
        ret (with_reply h fallback (if t = [] then fallback else t) (dget composed ''final_reply_result''))))"

section \<open>One result, a batch\<close>

definition load_recent_messages :: "result_config \<Rightarrow> result_row \<Rightarrow> json job" where
  "load_recent_messages cfg r =
     (if rc_llm_enabled cfg \<and> er_result_type r = ''backend.query.result'' \<and> text_true (conversation_id r)
      then andthen (query (cm_fetch_recent (result_conversation r) 10)) (\<lambda>ms. ret (rc_messages cfg ms))
      else ret (JArr []))"

definition handle_result :: "result_config \<Rightarrow> time \<Rightarrow> result_row \<Rightarrow> conversation \<Rightarrow> tx_result job" where
  "handle_result cfg now r conv =
     andthen (lift (build_result_handler cfg r conv)) (\<lambda>h0.
     andthen (load_recent_messages cfg r) (\<lambda>messages.
     andthen (apply_final_reply cfg r h0 messages) (\<lambda>h.
     let ack = (dget (rh_graph_state h) ''status'' = JStr ''HANDOFF_REQUESTED'') in
     process_result_transactionally (rc_sha cfg) now (row_id r) (er_chat_id r) (er_thread_id r)
       (graph_state_of (rh_graph_state h)) [build_result_outbox r (rh_text h) ack] (rh_commands h)
       (Some (build_external_result_summary_message r (rh_sender_role h) (rh_summary h))))))"

definition try_result :: "result_config \<Rightarrow> time \<Rightarrow> result_row \<Rightarrow> string job" where
  "try_result cfg now r =
     andthen (get_or_create now (er_chat_id r) (er_thread_id r)) (\<lambda>(conv, _).
     if is_automation_suspended conv
     then andthen (update (er_mark_processed now (row_id r))) (\<lambda>_. ret ''SKIPPED_HUMAN_ACTIVE'')
     else andthen (handle_result cfg now r conv) (\<lambda>_. ret ''PROCESSED''))"

definition process_one_result :: "result_config \<Rightarrow> time \<Rightarrow> result_row \<Rightarrow> string job" where
  "process_one_result cfg now r =
     try_except (try_result cfg now r) (\<lambda>e.
       andthen (update (er_mark_processing_failed (row_id r) (exn_text e) (rc_max_retries cfg))) (\<lambda>_. ret ''FAILED''))"

definition process_pending_results ::
  "result_config \<Rightarrow> time \<Rightarrow> time \<Rightarrow> (nat \<Rightarrow> bool) \<Rightarrow> nat \<Rightarrow> string \<Rightarrow> int \<Rightarrow> string list job" where
  "process_pending_results cfg now now' held limit worker secs =
     andthen (exec (er_lease_pending now now' held limit worker secs)) (\<lambda>rows. each (process_one_result cfg now) rows)"

definition process_result_by_id ::
  "result_config \<Rightarrow> time \<Rightarrow> time \<Rightarrow> (nat \<Rightarrow> bool) \<Rightarrow> nat \<Rightarrow> string \<Rightarrow> int \<Rightarrow> string job" where
  "process_result_by_id cfg now now' held i worker secs =
     andthen (exec (er_lease_pending_by_id now now' held i worker secs)) (\<lambda>row.
     case row of None \<Rightarrow> ret ''RESULT_LOCKED_OR_NOT_PENDING'' | Some r \<Rightarrow> process_one_result cfg now r)"

end
