(* ===== verification/Result_Safety.thy ===== *)
theory Result_Safety
  imports Result_Consumer Service_Calls
begin

text \<open>
  What the result consumer does with a result: it is stored completely or not at
  all; how often a lookup may fail before a human is called; what a handoff tells the
  customer.
\<close>

section \<open>All or nothing\<close>

abbreviation unsent :: "db \<Rightarrow> (outbound_row list \<times> command_row list) \<times> message_row list" where
  "unsent d \<equiv> (to_send d, t_messages d)"

definition result_output :: "result_config \<Rightarrow> result_row \<Rightarrow> result_handler \<Rightarrow> db \<Rightarrow> bool" where
  "result_output cfg r h d \<longleftrightarrow> output_known (rc_sha cfg) (conversation_id_for_chat (Some (er_chat_id r)) (er_thread_id r))
     [build_external_result_summary_message r (rh_sender_role h) (rh_summary h)]
     [build_result_outbox r (rh_text h) (dget (rh_graph_state h) ''status'' = JStr ''HANDOFF_REQUESTED'')] (rh_commands h) d"

lemma get_or_create_unsent: "keeps unsent (get_or_create now chat thread)"
  unfolding get_or_create_def Let_def
  by (intro keeps.stays_intros keeps.stays_update) (simp add: upsert_conversation_def Let_def)

lemma load_keeps: "keeps f (load_recent_messages cfg r)"
  unfolding load_recent_messages_def by (intro keeps.stays_intros keeps.stays_query)

lemma final_reply_keeps:
  assumes "\<And>d. f (rc_meanwhile cfg d) = f d"
  shows "keeps f (apply_final_reply cfg r h messages)"
proof -
  have "keeps f (compose_or_fallback cfg state fallback)" for state fallback
    by (simp add: stays_def compose_or_fallback_def assms split: option.split)
  then show ?thesis
    unfolding apply_final_reply_def Let_def
    by (intro keeps.stays_intros) (simp_all add: stays_def assms split: prod.split)
qed

text \<open>The handler of a result, with the final wording.\<close>

definition prepared_result :: "result_config \<Rightarrow> result_row \<Rightarrow> conversation \<Rightarrow> result_handler job" where
  "prepared_result cfg r conv =
     andthen (lift (build_result_handler cfg r conv)) (\<lambda>h0.
     andthen (load_recent_messages cfg r) (\<lambda>messages. apply_final_reply cfg r h0 messages))"

definition settle_result :: "result_config \<Rightarrow> time \<Rightarrow> result_row \<Rightarrow> result_handler \<Rightarrow> tx_result job" where
  "settle_result cfg now r h = process_result_transactionally (rc_sha cfg) now (row_id r) (er_chat_id r) (er_thread_id r)
     (graph_state_of (rh_graph_state h))
     [build_result_outbox r (rh_text h) (dget (rh_graph_state h) ''status'' = JStr ''HANDOFF_REQUESTED'')] (rh_commands h)
     (Some (build_external_result_summary_message r (rh_sender_role h) (rh_summary h)))"

lemma handle_result_steps: "handle_result cfg now r conv = andthen (prepared_result cfg r conv) (settle_result cfg now r)"
  by (simp add: handle_result_def prepared_result_def settle_result_def [abs_def] andthen_assoc Let_def)

lemma handle_result_ends:
  fixes w :: "service_call world"
  assumes "\<And>d. unsent (rc_meanwhile cfg d) = unsent d" "handle_result cfg now r conv w = (res, w')"
  shows "case res of
      Inl e \<Rightarrow> unsent (store w') = unsent (store w)
    | Inr tx \<Rightarrow> result_processed (row_id r) (store w') \<and>
        (to_send (store w') = to_send (store w) \<or> (\<exists>h. result_output cfg r h (store w')))"
proof -
  obtain h1 w1 where h: "prepared_result cfg r conv w = (h1, w1)" by fastforce
  have "keeps unsent (prepared_result cfg r conv)"
    unfolding prepared_result_def by (intro keeps.stays_andthen keeps_lift load_keeps final_reply_keeps assms(1))
  from staysD [OF this, of w] h have kept: "unsent (store w1) = unsent (store w)" by simp
  show ?thesis
  proof (cases h1)
    case (Inl e)
    then show ?thesis using assms(2) h kept by (auto simp: handle_result_steps andthen_run)
  next
    case (Inr h2)
    then have tx: "settle_result cfg now r h2 w1 = (res, w')"
      using assms(2) h by (simp add: handle_result_steps andthen_run)
    show ?thesis
      using process_result_settled [OF tx [unfolded settle_result_def]] kept
      by (auto simp: result_output_def option_list_def split: sum.splits if_splits)
  qed
qed

definition result_done_as :: "result_config \<Rightarrow> result_row \<Rightarrow> string \<Rightarrow> db \<Rightarrow> db \<Rightarrow> bool" where
  "result_done_as cfg r st d d' \<longleftrightarrow> result_processed (row_id r) d' \<and>
     (st = ''PROCESSED'' \<and> (to_send d' = to_send d \<or> (\<exists>h. result_output cfg r h d'))
      \<or> st = ''SKIPPED_HUMAN_ACTIVE'' \<and> unsent d' = unsent d)"

lemma try_result_ends:
  fixes w :: "service_call world"
  assumes "\<And>d. unsent (rc_meanwhile cfg d) = unsent d" "try_result cfg now r w = (res, w')"
  shows "case res of Inl e \<Rightarrow> unsent (store w') = unsent (store w)
    | Inr st \<Rightarrow> result_done_as cfg r st (store w) (store w')"
proof -
  obtain g w0 where get: "get_or_create now (er_chat_id r) (er_thread_id r) w = (g, w0)" by fastforce
  have got: "unsent (store w0) = unsent (store w)"
    using staysD [OF get_or_create_unsent, of now "er_chat_id r" "er_thread_id r" w] get by simp
  have marked: "unsent (er_mark_processed now i d) = unsent d" for i d
    by (simp add: er_mark_processed_def er_update_def)
  show ?thesis
  proof (cases g)
    case (Inl e)
    then show ?thesis using assms(2) get got by (auto simp: try_result_def andthen_run)
  next
    case (Inr cp)
    then obtain conv prev where g: "g = Inr (conv, prev)" by (cases cp) auto
    show ?thesis
    proof (cases "is_automation_suspended conv")
      case True
      then have run: "andthen (update (er_mark_processed now (row_id r))) (\<lambda>_. ret ''SKIPPED_HUMAN_ACTIVE'') w0 = (res, w')"
        using assms(2) get g by (simp add: try_result_def andthen_run)
      obtain u w1 where up: "update (er_mark_processed now (row_id r)) w0 = (u, w1)" by fastforce
      show ?thesis
      proof (cases u)
        case (Inl e)
        have "keeps unsent (update (er_mark_processed now (row_id r)))"
          by (rule keeps.stays_update) (rule marked)
        from staysD [OF this, of w0] run up got Inl show ?thesis by (auto simp: andthen_run)
      next
        case (Inr x)
        then have "update (er_mark_processed now (row_id r)) w0 = (Inr x, w1)" using up by simp
        from update_InrD [OF this] have "store w1 = er_mark_processed now (row_id r) (store w0)" by simp
        then show ?thesis
          using run up Inr got marked result_processed_marked
          by (auto simp: andthen_run ret_run result_done_as_def)
      qed
    next
      case False
      then have run: "andthen (handle_result cfg now r conv) (\<lambda>_. ret ''PROCESSED'') w0 = (res, w')"
        using assms(2) get g by (simp add: try_result_def andthen_run)
      obtain x w1 where x: "handle_result cfg now r conv w0 = (x, w1)" by fastforce
      show ?thesis
        using handle_result_ends [OF assms(1) x] run x got
        by (auto simp: andthen_run ret_run result_done_as_def split: sum.splits)
    qed
  qed
qed


section \<open>How often a lookup may fail\<close>

text \<open>
  Which of the results of a conversation call a human; the transaction merges the
  slots of each into the memory.  A lookup that failed comes with an error code, one
  that found nobody with the account the customer wrote.
\<close>

fun lookup_run :: "(string \<Rightarrow> string) \<Rightarrow> result_row \<Rightarrow> (bool \<times> json) list \<Rightarrow> dict \<Rightarrow> exn + bool list" where
  "lookup_run sha r [] slots = Inr []"
| "lookup_run sha r ((failed, v) # xs) slots =
     (case backend_lookup_escalation sha r slots failed v (JStr ''user_text'') of
        Inl e \<Rightarrow> Inl e
      | Inr es \<Rightarrow> map_sum id (Cons (es_handoff es)) (lookup_run sha r xs (dmerge slots (es_slots es))))"

abbreviation handoff_flag :: "dict \<Rightarrow> bool" where
  "handoff_flag slots \<equiv> truthy (dget slots ''backend_not_found_handoff_requested'')"

lemma escalation_step:
  fixes sha :: "string \<Rightarrow> string" and v :: json and failed :: bool and slots :: dict and c :: int
  assumes "memory_count (count_key failed) 0 slots = Inr c"
  defines "h \<equiv> stable_lookup_value_hash sha v"
  defines "again \<equiv> \<not> failed \<and> truthy h \<and> dget slots (hash_key failed) = h"
  defines "n \<equiv> if again then c else c + 1"
  defines "handoff \<equiv> n \<ge> 2 \<and> \<not> handoff_flag slots"
  shows "\<exists>es. backend_lookup_escalation sha r slots failed v (JStr ''user_text'') = Inr es \<and> es_handoff es = handoff \<and>
    memory_count (count_key failed) 0 (dmerge slots (es_slots es)) = Inr n \<and>
    dget (dmerge slots (es_slots es)) (hash_key failed) = h \<and>
    handoff_flag (dmerge slots (es_slots es)) = (handoff_flag slots \<or> handoff)"
proof -
  have keys: "count_key failed \<noteq> hash_key failed" "count_key failed \<noteq> ''backend_not_found_handoff_requested''"
    "hash_key failed \<noteq> ''backend_not_found_handoff_requested''"
    by (cases failed; simp add: count_key_def hash_key_def)+
  have slots: "memory_count (count_key failed) 0 (dmerge slots new) = Inr n \<and> dget (dmerge slots new) (hash_key failed) = h \<and>
      handoff_flag (dmerge slots new) = (handoff_flag slots \<or> handoff)"
    if "new = [(count_key failed, JInt n), (hash_key failed, h)]
        @ (if handoff then [(''backend_not_found_handoff_requested'', JBool True)] else [])" for new
    using that keys by (cases handoff) (simp_all add: dget_dmerge memory_count_def or_json_def py_int_of_def int_of_json_def)
  show ?thesis
    by (simp add: backend_lookup_escalation_def assms(1) Let_def backend_not_found_handoff_threshold_def
        h_def [symmetric] again_def [symmetric] n_def [symmetric] handoff_def [symmetric] slots)
qed

lemma failed_run:
  assumes "memory_count (count_key True) 0 slots = Inr (int c)" "handoff_flag slots = (2 \<le> c)"
  shows "lookup_run sha r (map (Pair True) vs) slots = Inr (map (\<lambda>k. c + k = 1) [0..<length vs])"
  using assms
proof (induction vs arbitrary: slots c)
  case (Cons v vs)
  obtain es where es: "backend_lookup_escalation sha r slots True v (JStr ''user_text'') = Inr es"
    "es_handoff es = (int c + 1 \<ge> 2 \<and> \<not> handoff_flag slots)"
    "memory_count (count_key True) 0 (dmerge slots (es_slots es)) = Inr (int c + 1)"
    "handoff_flag (dmerge slots (es_slots es)) = (handoff_flag slots \<or> (int c + 1 \<ge> 2 \<and> \<not> handoff_flag slots))"
    using escalation_step [where sha = sha and v = v and r = r, OF Cons.prems(1)] by auto
  have "lookup_run sha r (map (Pair True) vs) (dmerge slots (es_slots es))
      = Inr (map (\<lambda>k. Suc c + k = 1) [0..<length vs])"
  proof (rule Cons.IH)
    show "memory_count (count_key True) 0 (dmerge slots (es_slots es)) = Inr (int (Suc c))"
      using es(3) by (simp add: add.commute)
    show "handoff_flag (dmerge slots (es_slots es)) = (2 \<le> Suc c)"
      unfolding es(4) Cons.prems(2) by auto
  qed
  moreover have "[0..<Suc (length vs)] = 0 # map Suc [0..<length vs]"
    using upt_conv_Cons [of 0 "Suc (length vs)"] map_Suc_upt [of 0 "length vs"] by (simp del: upt_Suc)
  ultimately show ?case using es Cons.prems(2) by (auto simp: comp_def)
qed simp

lemma repeated_run:
  assumes "memory_count (count_key False) 0 slots = Inr c" "c \<le> 1" "truthy (stable_lookup_value_hash sha v)"
    and "c = 0 \<or> dget slots (hash_key False) = stable_lookup_value_hash sha v"
  shows "lookup_run sha r (replicate n (False, v)) slots = Inr (replicate n False)"
  using assms
proof (induction n arbitrary: slots c)
  case (Suc n)
  obtain es c' where es: "backend_lookup_escalation sha r slots False v (JStr ''user_text'') = Inr es"
    "\<not> es_handoff es" "memory_count (count_key False) 0 (dmerge slots (es_slots es)) = Inr c'" "c' \<le> 1"
    "dget (dmerge slots (es_slots es)) (hash_key False) = stable_lookup_value_hash sha v"
    using escalation_step [where sha = sha and v = v and r = r, OF Suc.prems(1)] Suc.prems(2-4) by (auto split: if_splits)
  then show ?case using Suc.IH [OF es(3,4) Suc.prems(3)] by simp
qed simp

text \<open>
  From a fresh memory, failed lookups call a human at the second one and
  never again, however many follow; an account that is not found, written again and
  again unchanged, never does.
\<close>

theorem escalates_at_second_failure:
  assumes "dget slots (count_key True) = JNull" "dget slots (count_key False) = JNull" "\<not> handoff_flag slots"
    and "normalize_text v \<noteq> []" "\<And>s. sha s \<noteq> []"
  shows "lookup_run sha r (map (Pair True) vs) slots = Inr (map (\<lambda>k. k = 1) [0..<length vs]) \<and>
    lookup_run sha r (replicate n (False, v)) slots = Inr (replicate n False)"
proof -
  have "truthy (stable_lookup_value_hash sha v)"
    using assms(4,5) by (simp add: stable_lookup_value_hash_def str_lower_def Let_def)
  then show ?thesis
    using failed_run [of slots 0 sha r vs] repeated_run [of slots 0 sha v r n] assms(1-3) by (simp add: memory_count_none)
qed

section \<open>Handoffs\<close>

text \<open>
  The message of a result acknowledges a handoff if and only if the result has commands,
  and these ask for a human, for the event and the conversation of the message.
\<close>

definition handoff_announced :: "result_row \<Rightarrow> result_handler \<Rightarrow> bool" where
  "handoff_announced r h \<longleftrightarrow>
     (let m = build_result_outbox r (rh_text h) (dget (rh_graph_state h) ''status'' = JStr ''HANDOFF_REQUESTED'') in
      (is_handoff_ack (oi_payload m) \<longleftrightarrow> rh_commands h \<noteq> []) \<and>
      (dget (rh_graph_state h) ''status'' = JStr ''HANDOFF_REQUESTED'' \<longleftrightarrow> rh_commands h \<noteq> []) \<and>
      list_all (\<lambda>c. ci_command_type c = ''human_handoff.requested'' \<and> ci_inbound_event_id c = oi_inbound_event_id m \<and>
        oi_conversation_id m = Some (ci_conversation_id c)) (rh_commands h))"

lemma result_outbox_simps [simp]:
  "is_handoff_ack (oi_payload (build_result_outbox r t ack)) = ack"
  "oi_inbound_event_id (build_result_outbox r t ack) = er_inbound_event_id r"
  "oi_conversation_id (build_result_outbox r t ack) = Some (result_conversation r)"
  by (simp_all add: build_result_outbox_def build_text_outbox_def is_handoff_ack_def Let_def)

lemma announcedI:
  assumes "dget (rh_graph_state h) ''status'' = JStr ''HANDOFF_REQUESTED'' \<longleftrightarrow> rh_commands h \<noteq> []"
    and "set (rh_commands h) \<subseteq> range (result_handoff_command r)"
  shows "handoff_announced r h"
  using assms by (auto simp: handoff_announced_def list_all_iff result_handoff_command_def)

lemma escalation_commands:
  assumes "backend_lookup_escalation sha r slots failed v identity = Inr es"
  shows "es_handoff es \<longleftrightarrow> es_commands es \<noteq> []" "set (es_commands es) \<subseteq> range (result_handoff_command r)"
  using assms by (auto simp: backend_lookup_escalation_def Let_def split: if_splits sum.splits)

lemma workflow_state_status [simp]: "dget (workflow_state st a b c @ rest) ''status'' = JStr st"
  by (simp add: workflow_state_def)

lemma backend_handlers_announce:
  assumes "build_result_handler cfg r conv = Inr h" "er_result_type r = ''backend.query.result''"
  shows "handoff_announced r h"
proof -
  let ?slots = "or_empty (cv_slot_memory conv)"
  have "backend_failed_handler cfg r ?slots = Inr h \<or> backend_success_handler cfg r ?slots = Inr h"
    using assms by (auto simp: build_result_handler_def Let_def split: if_splits)
  then show ?thesis
  proof
    assume "backend_failed_handler cfg r ?slots = Inr h"
    then obtain es v where es: "backend_lookup_escalation (rc_sha cfg) r ?slots True v JNull = Inr es"
      "rh_commands h = es_commands es"
      "dget (rh_graph_state h) ''status'' = JStr (if es_handoff es then ''HANDOFF_REQUESTED'' else ''WAITING_EXTERNAL'')"
      by (auto simp: backend_failed_handler_def Let_def split: sum.splits)
    then show ?thesis using escalation_commands [OF es(1)] by (intro announcedI) auto
  next
    assume run: "backend_success_handler cfg r ?slots = Inr h"
    obtain intent facts where reply: "resolve_backend_reply cfg (er_json r) = Inr (intent, facts)"
      using run by (auto simp: backend_success_handler_def Let_def split: sum.splits)
    let ?look = "if is_backend_player_not_found (er_json r) intent
         then backend_lookup_escalation (rc_sha cfg) r ?slots False
           (or_json (dget (er_json r) ''account_or_phone'') (dget (dict_of (dget (er_json r) ''query'')) ''account_or_phone''))
           (dget (er_json r) ''identity_source'')
         else Inr backend_lookup_reset"
    let ?recheck = "resolve_backend_recheck (rc_sha cfg) (format_datetime (created_at r)) ?slots
             (dmerge (er_json r) [(''reply_intent'', JStr intent), (''reply_facts'', JObj facts)])"
    note run1 = run [unfolded backend_success_handler_def Let_def reply sum.case prod.case]
    obtain es where lookup: "?look = Inr es" using run1 by (cases ?look) simp_all
    note run2 = run1 [unfolded lookup sum.case]
    obtain rr where rr: "?recheck = Inr rr" using run2 by (cases ?recheck) simp_all
    note run3 = run2 [unfolded rr sum.case]
    have h: "rh_commands h = es_commands es @ (if rr_should_handoff rr then [result_handoff_command r
               [(''reason'', JStr ''backend_conclusion_disputed_after_recheck''), (''same_conclusion'', JBool True),
                (''queued_dispute'', JBool True)]] else [])"
      "dget (rh_graph_state h) ''status'' =
          JStr (if es_handoff es \<or> rr_should_handoff rr then ''HANDOFF_REQUESTED'' else ''AI_ACTIVE'')"
      using run3 by auto
    have "es_handoff es \<longleftrightarrow> es_commands es \<noteq> []" "set (es_commands es) \<subseteq> range (result_handoff_command r)"
      using lookup escalation_commands by (auto simp: backend_lookup_reset_def split: if_splits)
    with h show ?thesis by (intro announcedI) auto
  qed
qed

lemma with_reply_announced: "handoff_announced r h \<Longrightarrow> handoff_announced r (with_reply h fallback t res)"
  by (simp add: handoff_announced_def with_reply_def dget_dmerge)

text \<open>
  Claim C16.  A handoff of the result consumer is announced, and nothing else is: after
  the final wording, the conversation of a backend result is set to wait for a human
  if and only if the result has a command that asks for one, and then the message
  of the result is the acknowledgement that the command worker looks for, of the same
  event and conversation.
\<close>

theorem backend_handoff_is_announced:
  assumes "build_result_handler cfg r conv = Inr h0" "er_result_type r = ''backend.query.result''"
    and "apply_final_reply cfg r h0 messages w = (Inr h, w')"
  shows "handoff_announced r h"
proof -
  have h: "h = h0 \<or> (\<exists>fallback t res. h = with_reply h0 fallback t res)"
    using assms(2,3) by (auto simp: apply_final_reply_def Let_def ret_def run_iffs split: if_splits)
  show ?thesis
    using h backend_handlers_announce [OF assms(1,2)] with_reply_announced by blast
qed

section \<open>Two replies of one event\<close>

text \<open>
  A text of the graph and a text for another result than one of the backend are
  deduplicated by the event alone.  When the graph has answered the event, the text of
  the result counts as a duplicate and is never sent, though the result is PROCESSED.
\<close>

lemma result_reply_dropped:
  assumes "build_command_outbox chat thread cid i
      [(''type'', JStr ''livechat.send_text''), (''payload'', JObj p)] = Inr m" "ob_known m d"
    and "er_result_type r \<noteq> ''backend.query.result''" "conversation_id r = Some cid" "er_inbound_event_id r = Some i"
  shows "ob_insert_idempotent now (build_result_outbox r t ack) d = Inr (None, d)"
proof -
  have "outbound_dedup_key m = ''default:'' @ cid @ '':'' @ nat_or_blank (Some i) @ '':send_event''"
    using assms(1) by (auto simp: build_command_outbox_def Let_def build_text_outbox_def with_command_metadata_def
        outbound_dedup_key_def text_or_def py_str_def)
  moreover have "outbound_dedup_key (build_result_outbox r t ack) = ''default:'' @ cid @ '':'' @ nat_or_blank (Some i) @ '':send_event''"
    using assms(3-5) by (simp add: build_result_outbox_def build_text_outbox_def outbound_dedup_key_def text_or_def
        result_conversation_def Let_def)
  ultimately have "ob_known (build_result_outbox r t ack) d"
    using assms(2) by (simp add: ob_known_def)
  moreover have "oi_chat_id (build_result_outbox r t ack) = Some (er_chat_id r)"
    by (simp add: build_result_outbox_def build_text_outbox_def Let_def)
  ultimately show ?thesis by (rule ob_insert_known [rotated])
qed

section \<open>The second look at an account\<close>

text \<open>
  The handler takes the marks of the second look off the memory that it returns, but
  the transaction merges that memory into the stored one: a mark that is only missing
  stays, and the conversation waits for its second look for ever.
\<close>

lemma dmerge_other: "k \<notin> fst ` set e \<Longrightarrow> map_of (dmerge d e) k = map_of d k"
  by (induction e arbitrary: d) (auto simp: dmerge_def)

lemma merged_slot:
  assumes "map_of slots k = None" "gs_slot_memory gs = Some slots" "gs_delete_keys gs = []"
  shows "map_option (\<lambda>m. dget m k) (gs_slot_memory (merge_slots conv gs)) = Some (dget (or_empty (cv_slot_memory conv)) k)"
  using assms dmerge_other by (simp add: merge_slots_def dget_def map_of_eq_None_iff)

lemma pops_absent: "k \<in> set ks \<Longrightarrow> map_of (foldl dpop m ks) k = None"
proof -
  have kept: "map_of m k = None \<Longrightarrow> map_of (foldl dpop m js) k = None" for m js
    by (induction js arbitrary: m) (simp_all add: map_of_dpop)
  show "k \<in> set ks \<Longrightarrow> map_of (foldl dpop m ks) k = None"
    by (induction ks arbitrary: m) (auto intro: kept)
qed

lemma recheck_marks_survive:
  assumes "resolve_backend_recheck sha at (or_empty (cv_slot_memory conv)) result = Inr rr"
    and "gs_slot_memory gs = Some (dput (rr_memory rr) ''backend_query_status'' (JStr ''success''))" "gs_delete_keys gs = []"
    and "k \<in> set recheck_keys"
  shows "dget (rr_memory rr) k = JNull"
    and "map_option (\<lambda>m. dget m k) (gs_slot_memory (merge_slots conv gs)) = Some (dget (or_empty (cv_slot_memory conv)) k)"
proof -
  have keys: "k \<noteq> ''backend_query_status''" "k \<noteq> ''backend_dispute_count''"
    using assms(4) by (auto simp: recheck_keys_def)
  have absent: "map_of (rr_memory rr) k = None"
    using assms(1,4) keys pops_absent
    by (auto simp: resolve_backend_recheck_def Let_def map_sum_Inr_iff split: sum.splits if_splits)
  then show "dget (rr_memory rr) k = JNull" by (simp add: dget_def)
  show "map_option (\<lambda>m. dget m k) (gs_slot_memory (merge_slots conv gs)) = Some (dget (or_empty (cv_slot_memory conv)) k)"
    by (rule merged_slot [OF _ assms(2,3)]) (simp add: absent keys)
qed

end
