(* ===== verification/Witnesses_Results.thy ===== *)
theory Witnesses_Results
  imports Witnesses_Gateway Handoff Result_Safety
begin

text \<open>
  Concrete runs of the final reply, the button for a human, the dispute of a backend
  conclusion and the result consumer.
\<close>

section \<open>Disputes\<close>

definition concluded :: dict where
  "concluded = [(''backend_conclusion'', JObj [(''fingerprint'', JStr ''f1'')])]"

lemma concluded_starts: "doubted id 0 concluded"
proof (rule doubted.start)
  show "dget concluded k = JNull" if "k \<in> set dispute_memory_keys" for k
    using that by (simp add: dispute_memory_keys_def) (elim disjE; simp add: concluded_def dget_def)
qed



section \<open>The final reply\<close>

text \<open>A model whose texts fail the guard of the language: the fallback of the handler is sent.\<close>

definition wrong_language :: reply_service where
  "wrong_language = \<lparr>fr_provider = Some (\<lambda>_. Inr (JObj [(''text'', JStr ''hello'')])), fr_failover = None,
     fr_enabled = True, fr_fallback_enabled = True, fr_persona = [(''default_language'', JStr ''es'')],
     fr_supported = [''es''], fr_instruction = id, fr_adapt = (\<lambda>t _. t), fr_sanitize = id,
     fr_render = (\<lambda>_ _ _. []), fr_validate = (\<lambda>_ _. [''language_mismatch'']),
     fr_low_confidence = (\<lambda>_. Inr False), fr_exn_name = (\<lambda>_. ''Exception'')\<rparr>"

definition answered_state :: dict where
  "answered_state = [(''response_text'', JStr ''hola''), (''commands'', JArr [JStr ''c''])]"


section \<open>The button for a human\<close>

definition quiet_sample :: gateway_config where
  "quiet_sample = gateway_sample\<lparr>gw_meanwhile := id\<rparr>"

definition human_press :: inbound_event where
  "human_press = gateway_event\<lparr>ev_payload := [(''button_id'', JStr ''global_human'')]\<rparr>"

abbreviation human_run :: "(exn + gateway_result) \<times> service_call world" where
  "human_run \<equiv> process_event quiet_sample 0 1 human_press (fresh_world empty_db)"


section \<open>The result consumer\<close>

definition failed_lookup :: result_row where
  "failed_lookup = \<lparr>row_id = 3, leased_at = Some 0, lease_expires_at = Some 300, locked_by = Some ''w'',
     attempted_at = Some 0, processed_at = None, created_at = 0, status = ''PENDING'', retry_count = 0,
     last_error = None, conversation_id = Some (event_conversation_id gateway_event), er_command_id = 2,
     er_tenant_id = ''default'', er_chat_id = text_or ''unknown'' (ev_chat_id gateway_event),
     er_thread_id = ev_thread_id gateway_event, er_inbound_event_id = Some 1,
     er_command_type = ''backend.query'', er_result_type = ''backend.query.result'',
     er_json = [(''status'', JStr ''failed'')], er_dedup_key = ''k''\<rparr>"

definition result_sample :: result_config where
  "result_sample = \<lparr>rc_sha = (\<lambda>s. CHR ''h'' # s), rc_reply = wrong_language, rc_composer = None,
     rc_llm_enabled = False, rc_meanwhile = id, rc_text = id, rc_language_text = (\<lambda>k l. k), rc_must_not_say = [],
     rc_positive = (\<lambda>_. False), rc_format_number = (\<lambda>_. []), rc_messages = (\<lambda>_. JArr []), rc_max_retries = 3\<rparr>"

abbreviation result_run :: "(exn + string) \<times> service_call world" where
  "result_run \<equiv> process_one_result result_sample 0 failed_lookup (fresh_world (empty_db\<lparr>t_results := [failed_lookup]\<rparr>))"


theorem escalates_at_second_failure_witness:
  "lookup_run (\<lambda>s. CHR ''h'' # s) failed_lookup (map (Pair True) [JNull, JNull, JNull]) [] = Inr [False, True, False] \<and>
   lookup_run (\<lambda>s. CHR ''h'' # s) failed_lookup (replicate 2 (False, JStr ''a'')) [] = Inr (replicate 2 False)"
proof -
  have "dget [] (count_key True) = JNull" "dget [] (count_key False) = JNull" "\<not> handoff_flag []"
    "normalize_text (JStr ''a'') \<noteq> []" by code_simp+
  from escalates_at_second_failure [OF this, of "\<lambda>s. CHR ''h'' # s" failed_lookup "[JNull, JNull, JNull]" 2]
  show ?thesis by (simp add: upt_rec)
qed

definition failed_before :: conversation where
  "failed_before = (conversation_of idle_conversation)\<lparr>cv_slot_memory := Some [(count_key True, JInt 1)]\<rparr>"

theorem backend_handoff_is_announced_witness:
  "\<exists>h. build_result_handler result_sample failed_lookup failed_before = Inr h \<and> rh_commands h \<noteq> [] \<and>
     is_handoff_ack (oi_payload (build_result_outbox failed_lookup (rh_text h)
       (dget (rh_graph_state h) ''status'' = JStr ''HANDOFF_REQUESTED'')))"
proof -
  let ?h = "build_result_handler result_sample failed_lookup failed_before"
  have run: "\<not> isl ?h" "rh_commands (projr ?h) \<noteq> []" "has_human_handoff_command (projr ?h)"
    "er_result_type failed_lookup = ''backend.query.result''" by code_simp+
  then obtain h where h: "?h = Inr h" by (cases ?h) auto
  have "apply_final_reply result_sample failed_lookup h (JArr []) w = (Inr h, w)" for w
    using run h by (simp add: apply_final_reply_def Let_def ret_def)
  from backend_handoff_is_announced [OF h run(4) this] h run(2) show ?thesis
    by (simp add: handoff_announced_def Let_def)
qed

end
