(* ===== verification/Gateway_Consumer.thy ===== *)
theory Gateway_Consumer
  imports Gateway_Safety "HOL-Library.Multiset"
begin

text \<open>
  \<open>src/app/workers/gateway_consumer.py\<close>: a batch of inbound events is leased, grouped
  by conversation and processed, the groups concurrently and the events of a group
  in order.  What the batch does to the queue is related to the runs of the
  queue (\<open>inbound_run\<close>) that the order of the events was proved for.
\<close>

section \<open>Groups\<close>

text \<open>\<open>str(row.get('chat_id') or row.get('conversation_id') or f'inbound:{id}')\<close>; the rows have no column \<open>conversation_id\<close>.\<close>

definition row_key :: "inbound_row \<Rightarrow> string" where
  "row_key r = text_or (''inbound:'' @ nat_str (row_id r)) (in_chat_id r)"

fun add_to_group :: "inbound_row \<Rightarrow> (string \<times> inbound_row list) list \<Rightarrow> (string \<times> inbound_row list) list" where
  "add_to_group r [] = [(row_key r, [r])]"
| "add_to_group r ((k, g) # gs) = (if k = row_key r then (k, g @ [r]) # gs else (k, g) # add_to_group r gs)"

definition group_rows :: "inbound_row list \<Rightarrow> (string \<times> inbound_row list) list" where
  "group_rows rows = map (\<lambda>(k, g). (k, sort_key row_id g)) (foldl (\<lambda>gs r. add_to_group r gs) [] rows)"

section \<open>One event\<close>

definition event_of_row :: "inbound_row \<Rightarrow> inbound_event" where
  "event_of_row r =
     \<lparr>ev_source = in_source r, ev_raw_action = in_raw_action r, ev_organization_id = in_organization_id r,
      ev_chat_id = in_chat_id r, ev_thread_id = in_thread_id r, ev_event_id = in_event_id r,
      ev_event_type = in_event_type r, ev_standard_event_type = in_standard_event_type r,
      ev_author_id = in_author_id r, ev_sender_role = in_sender_role r, ev_occurred_at = in_occurred_at r,
      ev_dedup_key = in_dedup_key r, ev_payload = in_payload r, ev_ignored = in_ignored r,
      ev_ignore_reason = in_ignore_reason r\<rparr>"

text \<open>
  \<open>_inbound_queue_timing\<close>, in microseconds.  The text of the \<open>DATETIME(6)\<close> column has no
  zone, so that the subtraction does not fail; \<open>other\<close> reads the other formats of
  \<open>fromisoformat\<close>.
\<close>

record queue_timing =
  qt_occurred_to_attempted :: "int option"
  qt_attempted_to_processed :: "int option"

definition seconds_between :: "time option \<Rightarrow> time option \<Rightarrow> int option" where
  "seconds_between s e = (case (s, e) of (Some a, Some b) \<Rightarrow> Some (b - a) | _ \<Rightarrow> None)"

definition inbound_queue_timing :: "(string \<Rightarrow> time option) \<Rightarrow> inbound_row \<Rightarrow> queue_timing" where
  "inbound_queue_timing other r =
     \<lparr>qt_occurred_to_attempted = seconds_between (parse_datetime other (opt_json (in_occurred_at r))) (attempted_at r),
      qt_attempted_to_processed = seconds_between (attempted_at r) (processed_at r)\<rparr>"

record row_success =
  rs_result :: gateway_result
  rs_timing :: queue_timing

record row_failure =
  rf_inbound_event_id :: nat
  rf_event_id :: "string option"
  rf_error :: exn

text \<open>\<open>release\<close>: the caller leased the event and passes the repository.\<close>

definition process_one_row ::
  "(string \<Rightarrow> time option) \<Rightarrow> gateway_config \<Rightarrow> time \<Rightarrow> bool \<Rightarrow> inbound_row \<Rightarrow> (row_failure + row_success) job" where
  "process_one_row other cfg now release r =
     andthen (catching (process_event cfg now (row_id r) (event_of_row r))) (\<lambda>x.
     case x of
       Inr g \<Rightarrow> ret (Inr \<lparr>rs_result = g, rs_timing = inbound_queue_timing other r\<rparr>)
     | Inl e \<Rightarrow> andthen (if release then update (ib_release_lease (row_id r)) else ret ()) (\<lambda>_.
         ret (Inl \<lparr>rf_inbound_event_id = row_id r, rf_event_id = in_event_id r, rf_error = e\<rparr>)))"

section \<open>A batch\<close>

text \<open>
  The groups run concurrently, as many at a time as the semaphore admits.  An order in
  which their events are processed is a merge of the groups; every merge is considered,
  those included that the semaphore does not admit.  The processing of one
  event is one step.
\<close>

definition schedules :: "inbound_row list list \<Rightarrow> inbound_row list \<Rightarrow> bool" where
  "schedules groups order \<longleftrightarrow> mset order = mset (concat groups) \<and> list_all (\<lambda>g. subseq g order) groups"

text \<open>An exception that leaves the processing of an event ends its group; the others go on.\<close>

fun run_rows :: "(inbound_row \<Rightarrow> 'a job) \<Rightarrow> inbound_row list \<Rightarrow> string list \<Rightarrow> (nat \<times> (exn + 'a)) list job" where
  "run_rows step [] dead = ret []"
| "run_rows step (r # rs) dead =
     (if row_key r \<in> set dead then run_rows step rs dead
      else andthen (catching (step r)) (\<lambda>x.
           andthen (run_rows step rs (if isl x then row_key r # dead else dead)) (\<lambda>ys.
           ret ((row_id r, x) # ys))))"

text \<open>\<open>asyncio.gather\<close>: the first exception, or the values in the order of the groups.\<close>

definition gather :: "inbound_row list list \<Rightarrow> (nat \<times> (exn + 'a)) list \<Rightarrow> exn + 'a list" where
  "gather groups runs =
     (case find (\<lambda>(i, x). isl x) runs of
        Some (i, Inl e) \<Rightarrow> Inl e
      | _ \<Rightarrow> Inr (List.map_filter (\<lambda>r. case map_of runs (row_id r) of Some (Inr y) \<Rightarrow> Some y | _ \<Rightarrow> None)
               (concat groups)))"

record batch_result =
  br_results :: "row_success list"
  br_failures :: "row_failure list"
  br_processed :: nat
  br_failed :: nat
  br_enqueued :: nat

definition summary_of :: "(row_failure + row_success) list \<Rightarrow> batch_result" where
  "summary_of ys =
     (let results = List.map_filter (\<lambda>y. case y of Inr s \<Rightarrow> Some s | Inl _ \<Rightarrow> None) ys;
          failures = List.map_filter (\<lambda>y. case y of Inl f \<Rightarrow> Some f | Inr _ \<Rightarrow> None) ys in
      \<lparr>br_results = results, br_failures = failures, br_processed = length results, br_failed = length failures,
       br_enqueued = length (filter (\<lambda>s. gr_outbound (rs_result s) \<noteq> []) results)\<rparr>)"

definition process_rows ::
  "(inbound_row \<Rightarrow> (row_failure + row_success) job) \<Rightarrow> (inbound_row list list \<Rightarrow> inbound_row list)
     \<Rightarrow> inbound_row list \<Rightarrow> batch_result job" where
  "process_rows step order rows =
     (let groups = map snd (group_rows rows) in
      andthen (run_rows step (order groups) []) (\<lambda>runs.
      andthen (lift (gather groups runs)) (\<lambda>ys.
      ret (summary_of ys))))"

record consumer_config =
  gc_gateway :: gateway_config
  gc_other_date :: "string \<Rightarrow> time option"
  gc_held :: "nat \<Rightarrow> bool"
  gc_limit :: nat
  gc_worker :: string
  gc_lease_seconds :: int
  gc_order :: "inbound_row list list \<Rightarrow> inbound_row list"

definition process_next_batch :: "consumer_config \<Rightarrow> time \<Rightarrow> time \<Rightarrow> batch_result job" where
  "process_next_batch c now now' =
     andthen (exec (ib_lease_unprocessed now now' (gc_held c) (gc_limit c) (gc_worker c) (gc_lease_seconds c)))
       (process_rows (process_one_row (gc_other_date c) (gc_gateway c) now' True) (gc_order c))"

text \<open>
  The event of a given identifier, whether another worker holds it or not; the query
  does not read the times of the queue.
\<close>

definition process_inbound_event_id :: "consumer_config \<Rightarrow> time \<Rightarrow> nat \<Rightarrow> batch_result option job" where
  "process_inbound_event_id c now i =
     andthen (query (ib_fetch_unprocessed_by_id i)) (\<lambda>row.
     case row of
       None \<Rightarrow> ret None
     | Some r \<Rightarrow>
         andthen (process_rows (process_one_row (gc_other_date c) (gc_gateway c) now False) (gc_order c)
           [r\<lparr>attempted_at := None, processed_at := None\<rparr>]) (\<lambda>res. ret (Some res)))"

section \<open>The groups are the conversations\<close>

lemma add_to_group_spec:
  assumes "distinct ks" "row_key r \<notin> set ks \<Longrightarrow> F (row_key r) = []"
  shows "add_to_group r (map (\<lambda>k. (k, F k)) ks) =
    map (\<lambda>k. (k, if k = row_key r then F k @ [r] else F k)) (if row_key r \<in> set ks then ks else ks @ [row_key r])"
  using assms by (induction ks) auto

lemma groups_spec:
  "foldl (\<lambda>gs r. add_to_group r gs) [] rows =
    map (\<lambda>k. (k, filter (\<lambda>r. row_key r = k) rows)) (rev (remdups (rev (map row_key rows))))"
proof (induction rows rule: rev_induct)
  case (snoc r rows)
  let ?ks = "rev (remdups (rev (map row_key rows)))"
  have "row_key r \<notin> set ?ks \<Longrightarrow> filter (\<lambda>x. row_key x = row_key r) rows = []"
    by (simp add: filter_empty_conv image_iff) metis
  then have "add_to_group r (map (\<lambda>k. (k, filter (\<lambda>x. row_key x = k) rows)) ?ks) =
      map (\<lambda>k. (k, if k = row_key r then filter (\<lambda>x. row_key x = k) rows @ [r] else filter (\<lambda>x. row_key x = k) rows))
        (if row_key r \<in> set ?ks then ?ks else ?ks @ [row_key r])"
    by (intro add_to_group_spec) simp_all
  then show ?case by (auto simp: snoc.IH intro!: map_cong)
qed simp

text \<open>
  Claim C33.  The grouping of a batch is that of the reference: one group for each
  conversation, in the order of their first events, with all its events sorted by identifier.
\<close>

theorem group_rows_reference:
  "group_rows rows =
    map (\<lambda>k. (k, sort_key row_id (filter (\<lambda>r. row_key r = k) rows))) (rev (remdups (rev (map row_key rows))))"
  by (simp add: group_rows_def groups_spec)

lemma key_group_sorted: "sort_key row_id g = sort_key row_id h \<Longrightarrow> set g = set h"
  by (metis set_sort)

lemma groups_flatten: "mset (concat (map snd (group_rows rows))) = mset rows"
proof -
  have split: "mset (concat (map (\<lambda>k. filter (\<lambda>r. row_key r = k) xs) ks)) = mset xs"
    if "distinct ks" "row_key ` set xs \<subseteq> set ks" for ks and xs :: "inbound_row list"
    using that
  proof (induction ks arbitrary: xs)
    case (Cons k ks)
    let ?rest = "filter (\<lambda>r. row_key r \<noteq> k) xs"
    have "map (\<lambda>j. filter (\<lambda>r. row_key r = j) xs) ks = map (\<lambda>j. filter (\<lambda>r. row_key r = j) ?rest) ks"
      using Cons.prems(1) by (intro map_cong) (auto intro!: filter_cong)
    then have "concat (map (\<lambda>j. filter (\<lambda>r. row_key r = j) xs) ks) = concat (map (\<lambda>j. filter (\<lambda>r. row_key r = j) ?rest) ks)"
      by (rule arg_cong)
    moreover have "mset (concat (map (\<lambda>j. filter (\<lambda>r. row_key r = j) ?rest) ks)) = mset ?rest"
      using Cons.prems by (intro Cons.IH) auto
    ultimately have "mset (concat (map (\<lambda>j. filter (\<lambda>r. row_key r = j) xs) (k # ks))) =
        mset (filter (\<lambda>r. row_key r = k) xs) + mset ?rest"
      by simp
    also have "\<dots> = mset xs"
      using multiset_partition [of "mset xs" "\<lambda>r. row_key r = k"] by simp
    finally show ?case .
  qed simp
  have sorted: "mset (concat (map (\<lambda>k. sort_key row_id (F k)) ks)) = mset (concat (map F ks))"
    for F :: "string \<Rightarrow> inbound_row list" and ks
    by (induction ks) auto
  show ?thesis
    by (simp add: group_rows_def groups_spec comp_def sorted split)
qed

lemma sequential_schedule: "schedules gs (concat gs)"
proof -
  have "subseq g (concat gs)" if "g \<in> set gs" for g
    using that by (induction gs) (auto intro: list_emb_append2 subseq_rev_drop_many)
  then show ?thesis by (simp add: schedules_def list_all_iff)
qed

lemma scheduled_rows:
  assumes "schedules (map snd (group_rows rows)) order"
  shows "mset order = mset rows" "set order = set rows" "distinct (map row_id order) \<longleftrightarrow> distinct (map row_id rows)"
proof -
  show m: "mset order = mset rows" using assms groups_flatten by (simp add: schedules_def)
  then show "set order = set rows" by (rule mset_eq_setD)
  have "mset (map row_id order) = mset (map row_id rows)" using m by simp
  then show "distinct (map row_id order) \<longleftrightarrow> distinct (map row_id rows)"
    by (rule mset_eq_imp_distinct_iff)
qed

section \<open>What an event does to the queue\<close>

definition settled_inbound :: "time \<Rightarrow> nat \<Rightarrow> db \<Rightarrow> bool" where
  "settled_inbound now i d \<longleftrightarrow> t_inbound (ib_mark_processed now i d) = t_inbound d"

lemma mark_twice: "ib_mark_processed now i (ib_mark_processed now i d) = ib_mark_processed now i d"
  by (auto simp: ib_mark_processed_def ib_update_def at_id_def update_where_def clear_lease_def intro!: db.equality)

lemma mark_inbound_cong: "t_inbound d = t_inbound d' \<Longrightarrow> t_inbound (ib_mark_processed now i d) = t_inbound (ib_mark_processed now i d')"
  by (simp add: ib_mark_processed_def ib_update_def)

abbreviation marked_as :: "time \<Rightarrow> nat \<Rightarrow> db \<Rightarrow> inbound_row list" where
  "marked_as now i d \<equiv> t_inbound (ib_mark_processed now i d)"

lemma keeps_marked:
  "marked_as now i (ib_mark_processed now i d) = marked_as now i d"
  "marked_as now i (update_case_status now st c d) = marked_as now i d"
  "marked_as now i (upsert_conversation g now cid chat thread d) = marked_as now i d"
  "marked_as now i (snd (workflow_update now cid gs d)) = marked_as now i d"
  "marked_as now i (snd (cm_insert_idempotent now m d)) = marked_as now i d"
  by (simp_all add: mark_twice)
    (rule mark_inbound_cong; simp add: update_case_status_def upsert_conversation_def workflow_update_def
      cm_insert_idempotent_def Let_def split: prod.split)+

lemma keeps_marked_stmt:
  "ob_insert_idempotent now o' d = Inr (a, d') \<Longrightarrow> marked_as now i d' = marked_as now i d"
  "ec_insert_idempotent sha now c d = Inr (b, d') \<Longrightarrow> marked_as now i d' = marked_as now i d"
  by (intro mark_inbound_cong; auto simp: ob_insert_idempotent_def ec_insert_idempotent_def Let_def
      split: option.splits prod.splits)+

lemma body_keeps_marked:
  "keeps (marked_as now i) (process_event_body sha now i ev customer outs cmds gs assistants)"
  unfolding process_event_body_def finish_skipped_def write_event_def get_or_create_def add_optional_message_def
    apply_graph_state_def update_case_def update_workflow_state_def add_message_def add_outbound_def add_command_def Let_def
  by (intro keeps.stays_intros keeps.stays_update keeps.stays_exec keeps.stays_stmt keeps_marked keeps_marked_stmt)

lemma yields_transaction: "yields (\<lambda>_. Q) m \<Longrightarrow> yields (\<lambda>_. Q) (transaction m)"
  unfolding yields_def by (metis transaction_InrD)

lemma body_settles: "yields (\<lambda>_. settled_inbound now i) (process_event_body sha now i ev customer outs cmds gs assistants)"
proof -
  have mark: "yields (\<lambda>_. settled_inbound now i) (andthen (update (ib_mark_processed now i)) (\<lambda>_. ret x))" for x :: tx_result
    by (auto simp: yields_def run_iffs settled_inbound_def mark_twice dest!: update_InrD)
  show ?thesis
    unfolding process_event_body_def finish_skipped_def write_event_def Let_def
    by (intro mark yields_andthen yields_prod yields_if)
qed

lemma transaction_marks:
  fixes w :: "'c world"
  assumes "process_event_transactionally sha now i ev customer outs cmds gs assistants w = (Inr res, w')"
  shows "t_inbound (store w') = marked_as now i (store w)"
proof -
  have "marked_as now i (store w') = marked_as now i (store w)"
    using stays_InrD [OF keeps.stays_transaction [OF body_keeps_marked] assms [unfolded process_event_transactionally_def]] .
  moreover have "settled_inbound now i (store w')"
    using yieldsD [OF yields_transaction [OF body_settles] assms [unfolded process_event_transactionally_def]] .
  ultimately show ?thesis by (simp add: settled_inbound_def)
qed

text \<open>The rows of the queue after an event: marked, freed, or as before.\<close>

definition row_after :: "time \<Rightarrow> exn + ('a + 'b) \<Rightarrow> inbound_row \<Rightarrow> inbound_row" where
  "row_after now x r =
     (case x of
        Inr (Inr _) \<Rightarrow> clear_lease (r\<lparr>in_processed := True, processed_at := Some now\<rparr>)
      | Inr (Inl _) \<Rightarrow> clear_lease r
      | Inl _ \<Rightarrow> r)"

definition row_effect :: "time \<Rightarrow> nat \<Rightarrow> exn + ('a + 'b) \<Rightarrow> inbound_row list \<Rightarrow> inbound_row list" where
  "row_effect now i x = at_id i (row_after now x)"

lemma row_after_simps [simp]:
  "row_after now (Inr (Inr s)) = (\<lambda>r. clear_lease (r\<lparr>in_processed := True, processed_at := Some now\<rparr>))"
  "row_after now (Inr (Inl f)) = clear_lease"
  "row_after now (Inl e) = (\<lambda>r. r)"
  by (simp_all add: row_after_def [abs_def])

lemma row_after_id [simp]: "row_id (row_after now x r) = row_id r"
  by (simp add: row_after_def split: sum.split)

lemma at_id_same: "at_id i (\<lambda>r. r) rows = rows"
  by (simp add: at_id_def update_where_def)

lemma process_event_inbound:
  assumes "others_keep untouched cfg" "process_event cfg now i ev w = (r, w')"
  shows "t_inbound (store w') = (case r of Inl e \<Rightarrow> t_inbound (store w) | Inr g \<Rightarrow> marked_as now i (store w))"
proof -
  have out: "tx_outcome cfg now i ev (store w) r w'"
    using process_event_ends [OF assms(1)] assms(2) unfolding ends_in_tx_def by blast
  show ?thesis
  proof (cases r)
    case (Inl e)
    with out show ?thesis by (simp add: tx_outcome_def)
  next
    case (Inr g)
    with out obtain v customer gs where v: "untouched (store v) = untouched (store w)"
      and tx: "process_event_transactionally (gw_sha cfg) now i ev customer (gr_outbound g) (gr_commands g) gs [] v
        = (Inr (gr_tx g), w')"
      unfolding tx_outcome_def by auto
    have "marked_as now i (store v) = marked_as now i (store w)"
      by (rule mark_inbound_cong) (use v in simp)
    with transaction_marks [OF tx] Inr show ?thesis by simp
  qed
qed

lemma process_one_row_inbound:
  assumes "others_keep untouched cfg" "process_one_row other cfg now True r w = (x, w')"
  shows "t_inbound (store w') = row_effect now (row_id r) x (t_inbound (store w)) \<and>
    (\<forall>f. x = Inr (Inl f) \<longrightarrow> rf_inbound_event_id f = row_id r)"
proof -
  let ?event = "process_event cfg now (row_id r) (event_of_row r)"
  obtain y w1 where e: "?event w = (y, w1)" by fastforce
  note effect = process_event_inbound [OF assms(1) e]
  show ?thesis
  proof (cases y)
    case (Inr g)
    then have "catching ?event w = (Inr (Inr g), w1)" using e by (simp add: catching_Inr)
    then have "x = Inr (Inr \<lparr>rs_result = g, rs_timing = inbound_queue_timing other r\<rparr>)" "w' = w1"
      using assms(2) by (simp_all add: process_one_row_def andthen_run ret_run)
    then show ?thesis using effect Inr by (simp add: row_effect_def ib_mark_processed_def ib_update_def)
  next
    case (Inl e')
    then have c: "catching ?event w = (Inr (Inl e'), w1)" using e by (simp add: catching_Inl)
    obtain z w2 where u: "update (ib_release_lease (row_id r)) w1 = (z, w2)" by fastforce
    show ?thesis
    proof (cases z)
      case (Inl e2)
      then have "store w2 = store w1" using u by (cases rule: stmt_cases [of "\<lambda>d. Inr ((), ib_release_lease (row_id r) d)" w1])
          (auto simp: update_def)
      moreover have "x = Inl e2" "w' = w2" using assms(2) c u Inl by (auto simp: process_one_row_def andthen_run)
      ultimately show ?thesis using effect \<open>y = Inl e'\<close> by (simp add: row_effect_def at_id_same)
    next
      case (Inr u')
      then have "store w2 = ib_release_lease (row_id r) (store w1)" using u by (auto dest: update_InrD)
      moreover have "x = Inr (Inl \<lparr>rf_inbound_event_id = row_id r, rf_event_id = in_event_id r, rf_error = e'\<rparr>)" "w' = w2"
        using assms(2) c u Inr by (auto simp: process_one_row_def andthen_run ret_run)
      ultimately show ?thesis using effect \<open>y = Inl e'\<close>
        by (simp add: row_effect_def ib_release_lease_def ib_update_def)
    qed
  qed
qed

abbreviation runs_effect :: "time \<Rightarrow> (nat \<times> (exn + ('a + 'b))) list \<Rightarrow> inbound_row list \<Rightarrow> inbound_row list" where
  "runs_effect now \<equiv> fold (\<lambda>(i, x). row_effect now i x)"

text \<open>The rows of a batch, one after the other: what was run and what it did.\<close>

definition ran :: "time \<Rightarrow> inbound_row list \<Rightarrow> string list \<Rightarrow> (nat \<times> (exn + (row_failure + 'b))) list
    \<Rightarrow> db \<Rightarrow> db \<Rightarrow> bool" where
  "ran now rs dead runs d d' \<longleftrightarrow> t_inbound d' = runs_effect now runs (t_inbound d) \<and>
     subseq (map fst runs) (map row_id rs) \<and>
     (\<forall>(i, x) \<in> set runs. \<forall>f. x = Inr (Inl f) \<longrightarrow> rf_inbound_event_id f = i) \<and>
     ((\<forall>(i, x) \<in> set runs. \<not> isl x) \<and> (\<forall>r \<in> set rs. row_key r \<notin> set dead) \<longrightarrow> map fst runs = map row_id rs)"

lemma run_rows_ran:
  assumes step: "\<And>r v x v'. step r v = (x, v') \<Longrightarrow>
      t_inbound (store v') = row_effect now (row_id r) x (t_inbound (store v)) \<and>
      (\<forall>f. x = Inr (Inl f) \<longrightarrow> rf_inbound_event_id f = row_id r)"
    and "run_rows step rs dead w = (res, w')"
  shows "\<exists>runs. res = Inr runs \<and> ran now rs dead runs (store w) (store w')"
  using assms(2)
proof (induction rs arbitrary: dead w res w')
  case Nil
  then have "res = Inr []" "w' = w" by (simp_all add: ret_run)
  then show ?case by (auto simp: ran_def intro!: exI [of _ "[]"])
next
  case (Cons r rs)
  show ?case
  proof (cases "row_key r \<in> set dead")
    case True
    then have "run_rows step rs dead w = (res, w')" using Cons.prems by simp
    from Cons.IH [OF this] obtain runs where "res = Inr runs" "ran now rs dead runs (store w) (store w')" by blast
    then show ?thesis using True by (auto simp: ran_def)
  next
    case False
    obtain x w1 where x: "step r w = (x, w1)" by fastforce
    let ?dead = "if isl x then row_key r # dead else dead"
    obtain res1 w2 where rest: "run_rows step rs ?dead w1 = (res1, w2)" by fastforce
    from Cons.IH [OF rest] obtain runs where runs: "res1 = Inr runs" "ran now rs ?dead runs (store w1) (store w2)" by blast
    have "res = Inr ((row_id r, x) # runs)" "w' = w2"
      using Cons.prems False catching_run [of "step r", OF x] rest runs(1) by (auto simp: andthen_run ret_run)
    moreover have "ran now (r # rs) dead ((row_id r, x) # runs) (store w) (store w2)"
      using runs(2) step [OF x] by (auto simp: ran_def)
    ultimately show ?thesis by blast
  qed
qed

lemma runs_effect_rows:
  assumes "distinct (map fst runs)"
  shows "runs_effect now runs rows =
    map (\<lambda>r. case map_of runs (row_id r) of None \<Rightarrow> r | Some x \<Rightarrow> row_after now x r) rows"
  using assms
proof (induction runs arbitrary: rows)
  case (Cons run runs)
  obtain i x where run: "run = (i, x)" by (cases run)
  then have "map_of runs i = None" using Cons.prems by (simp add: map_of_eq_None_iff)
  then show ?case
    using Cons run by (simp add: row_effect_def at_id_def update_where_def)
qed simp

section \<open>A batch is a run of the queue\<close>

lemma runs_refine:
  assumes "inbound_run d now G" "distinct (map fst runs)" "\<And>i. i \<in> fst ` set runs \<Longrightarrow> \<exists>e. (worker, i, e) \<in> G"
    and "t_inbound d' = runs_effect now runs (t_inbound d)"
  shows "\<exists>H. inbound_run d' now H \<and> H \<subseteq> G"
  using assms
proof (induction runs arbitrary: d G)
  case Nil
  then show ?case using inbound_run.other by fastforce
next
  case (Cons run runs)
  obtain i x where run: "run = (i, x)" by (cases run)
  obtain e where e: "(worker, i, e) \<in> G" using Cons.prems(3) run by force
  let ?G = "{g \<in> G. \<not> (fst g = worker \<and> fst (snd g) = i)}"
  have go: ?case if d1: "inbound_run d1 now G1" and G1: "G1 \<in> {G, ?G}" and t1: "t_inbound d1 = row_effect now i x (t_inbound d)" for d1 G1
  proof -
    have kept: "(worker, j, e') \<in> G1" if "j \<in> fst ` set runs" "(worker, j, e') \<in> G" for j e'
    proof -
      have "j \<noteq> i" using that(1) Cons.prems(2) run by auto
      then show ?thesis using that(2) G1 by auto
    qed
    have "\<exists>e. (worker, j, e) \<in> G1" if "j \<in> fst ` set runs" for j
    proof -
      obtain e' where "(worker, j, e') \<in> G" using Cons.prems(3) [of j] \<open>j \<in> fst ` set runs\<close> by auto
      then show ?thesis using kept [OF \<open>j \<in> fst ` set runs\<close>] by blast
    qed
    then obtain H where "inbound_run d' now H" "H \<subseteq> G1"
      using Cons.IH [OF d1] Cons.prems(2,4) t1 run by auto
    then show ?thesis using G1 by blast
  qed
  show ?case
  proof (cases x)
    case (Inl err)
    then show ?thesis using go [OF Cons.prems(1)] by (simp add: row_effect_def at_id_same)
  next
    case (Inr y)
    then show ?thesis
      using go [OF inbound_run.release [OF Cons.prems(1) e]] go [OF inbound_run.processed [OF Cons.prems(1) e]]
      by (cases y) (simp_all add: row_effect_def ib_release_lease_def ib_mark_processed_def ib_update_def)
  qed
qed

text \<open>What a batch runs: the lease, and then a schedule of the rows that were handed out.\<close>

definition leased_rows :: "consumer_config \<Rightarrow> time \<Rightarrow> time \<Rightarrow> db \<Rightarrow> inbound_row list" where
  "leased_rows c now now' d = fst (ib_lease_unprocessed now now' (gc_held c) (gc_limit c) (gc_worker c) (gc_lease_seconds c) d)"

definition after_lease :: "consumer_config \<Rightarrow> time \<Rightarrow> time \<Rightarrow> db \<Rightarrow> db" where
  "after_lease c now now' d = snd (ib_lease_unprocessed now now' (gc_held c) (gc_limit c) (gc_worker c) (gc_lease_seconds c) d)"

definition schedules_all :: "consumer_config \<Rightarrow> bool" where
  "schedules_all c \<longleftrightarrow> (\<forall>gs. schedules gs (gc_order c gs))"

lemma leased_distinct: "distinct (map row_id (t_inbound d)) \<Longrightarrow> distinct (map row_id (leased_rows c now now' d))"
proof -
  assume d: "distinct (map row_id (t_inbound d))"
  have "distinct (map row_id (sort_key row_id rows))" if "distinct (map row_id rows)" for rows :: "inbound_row list"
    using that by (metis mset_eq_imp_distinct_iff mset_map mset_sort)
  with d have "distinct (map row_id (sort_key row_id (filter p (grant_ids ids t s w (t_inbound d)))))" for p ids t s w
    by (simp only: distinct_map_filter ids_grant_ids)
  then show ?thesis
    by (simp add: leased_rows_def ib_lease_unprocessed_def lease_inbound_def Let_def)
qed

lemma subseq_set: "subseq xs ys \<Longrightarrow> set xs \<subseteq> set ys"
  by (induction rule: list_emb.induct) auto

lemma subseq_distinct: "subseq xs ys \<Longrightarrow> distinct ys \<Longrightarrow> distinct xs"
  by (induction rule: list_emb.induct) (auto dest: subseq_set)

lemma ran_ids:
  assumes "ran now order dead runs d d'" "mset order = mset rows" "distinct (map row_id rows)"
  shows "distinct (map fst runs)" "fst ` set runs \<subseteq> row_id ` set rows"
proof -
  have sub: "subseq (map fst runs) (map row_id order)" using assms(1) by (simp add: ran_def)
  have "mset (map row_id order) = mset (map row_id rows)" using assms(2) by simp
  then have "distinct (map row_id order)" "set (map row_id order) = set (map row_id rows)"
    using assms(3) mset_eq_imp_distinct_iff mset_eq_setD by blast+
  moreover have "set (map fst runs) \<subseteq> set (map row_id order)"
    by (rule subseq_set [OF sub])
  ultimately show "distinct (map fst runs)" "fst ` set runs \<subseteq> row_id ` set rows"
    using subseq_distinct [OF sub] by auto
qed

lemma batch_run:
  assumes "others_keep untouched (gc_gateway c)" "schedules_all c" "process_next_batch c now now' w = (r, w')"
  obtains (no_lease) e where "r = Inl e" "store w' = store w"
  | (ran) runs where
      "ran now' (gc_order c (map snd (group_rows (leased_rows c now now' (store w))))) [] runs
         (after_lease c now now' (store w)) (store w')"
      "mset (gc_order c (map snd (group_rows (leased_rows c now now' (store w))))) = mset (leased_rows c now now' (store w))"
      "r = map_sum id summary_of (gather (map snd (group_rows (leased_rows c now now' (store w)))) runs)"
proof -
  let ?f = "ib_lease_unprocessed now now' (gc_held c) (gc_limit c) (gc_worker c) (gc_lease_seconds c)"
  let ?step = "process_one_row (gc_other_date c) (gc_gateway c) now' True"
  obtain x w1 where lease: "exec ?f w = (x, w1)" by fastforce
  show thesis
  proof (cases x)
    case (Inl e)
    then have "store w1 = store w" using lease
      by (cases rule: stmt_cases [of "\<lambda>d. Inr (?f d)" w]) (auto simp: exec_def)
    then show thesis using no_lease assms(3) lease Inl by (auto simp: process_next_batch_def andthen_run)
  next
    case (Inr rows)
    then have rows: "rows = leased_rows c now now' (store w)" "store w1 = after_lease c now now' (store w)"
      using exec_InrD [of ?f w rows w1] lease by (simp_all add: leased_rows_def after_lease_def)
    let ?gs = "map snd (group_rows rows)"
    obtain y w2 where rest: "run_rows ?step (gc_order c ?gs) [] w1 = (y, w2)" by fastforce
    obtain runs where runs: "y = Inr runs" "ran now' (gc_order c ?gs) [] runs (store w1) (store w2)"
      using run_rows_ran [where step = ?step, OF _ rest] process_one_row_inbound [OF assms(1)] by blast
    have "process_rows ?step (gc_order c) rows w1 = (r, w')"
      using assms(3) lease Inr by (simp add: process_next_batch_def andthen_run)
    then have "r = map_sum id summary_of (gather ?gs runs)" "w' = w2"
      using rest runs(1) by (auto simp: process_rows_def Let_def andthen_def lift_def ret_def split: sum.splits)
    moreover have "mset (gc_order c ?gs) = mset rows"
      using scheduled_rows(1) assms(2) by (simp add: schedules_all_def)
    ultimately show thesis using ran [of runs] rows runs(2) by simp
  qed
qed


section \<open>Every event is settled or given back\<close>

lemma gather_Inr:
  assumes "gather groups runs = Inr ys"
  shows "\<forall>(i, x) \<in> set runs. \<not> isl x"
    and "ys = List.map_filter (\<lambda>r. case map_of runs (row_id r) of Some (Inr y) \<Rightarrow> Some y | _ \<Rightarrow> None) (concat groups)"
proof -
  have no: "find (\<lambda>(i, x). isl x) runs = None"
  proof (cases "find (\<lambda>(i, x). isl x) runs")
    case (Some p)
    have "find P xs = Some q \<Longrightarrow> P q" for P q and xs :: "(nat \<times> (exn + 'a)) list"
      by (induction xs) (auto split: if_splits)
    from this [OF Some] have "isl (snd p)" by (simp add: case_prod_beta)
    with Some assms show ?thesis by (cases p; cases "snd p") (auto simp: gather_def)
  qed
  then show "\<forall>(i, x) \<in> set runs. \<not> isl x" by (auto simp: find_None_iff)
  show "ys = List.map_filter (\<lambda>r. case map_of runs (row_id r) of Some (Inr y) \<Rightarrow> Some y | _ \<Rightarrow> None) (concat groups)"
    using assms no by (simp add: gather_def)
qed

lemma map_filter_total: "(\<And>x. x \<in> set xs \<Longrightarrow> f x \<noteq> None) \<Longrightarrow> List.map_filter f xs = map (the \<circ> f) xs"
proof (induction xs)
  case (Cons x xs)
  then obtain y where "f x = Some y" by fastforce
  then show ?case using Cons by (simp add: map_filter_simps)
qed (simp add: map_filter_simps)

lemma summary_counts:
  "br_processed (summary_of ys) + br_failed (summary_of ys) = length ys"
  "set (br_failures (summary_of ys)) = {f. Inl f \<in> set ys}"
  by (induction ys) (auto simp: summary_of_def Let_def map_filter_simps split: sum.splits)

text \<open>The outcome of a batch that returns: one value for each row that was handed out.\<close>

lemma batch_values:
  assumes "ran now order [] runs d d'" "mset order = mset rows" "distinct (map row_id rows)"
    and "gather groups runs = Inr ys" "mset (concat groups) = mset rows"
  shows "length ys = length rows"
    and "r \<in> set rows \<Longrightarrow> \<exists>y \<in> set ys. map_of runs (row_id r) = Some (Inr y) \<and>
      (isl y \<longleftrightarrow> (\<exists>f. Inl f \<in> set ys \<and> rf_inbound_event_id f = row_id r))"
proof -
  note g = gather_Inr [OF assms(4)]
  let ?out = "\<lambda>r. case map_of runs (row_id r) of Some (Inr y) \<Rightarrow> Some y | _ \<Rightarrow> None"
  have fsts: "map fst runs = map row_id order" using assms(1) g(1) by (auto simp: ran_def)
  have same: "set order = set rows" "set (concat groups) = set rows"
    using assms(2,5) mset_eq_setD by blast+
  have own: "rf_inbound_event_id f = i" if "map_of runs i = Some (Inr (Inl f))" for i f
    using map_of_SomeD [OF that] assms(1) by (fastforce simp: ran_def)
  have got: "\<exists>y. map_of runs (row_id r) = Some (Inr y)" if "r \<in> set rows" for r
  proof -
    have "row_id r \<in> fst ` set runs"
      using that fsts same(1) by (metis image_eqI list.set_map)
    then obtain x where "map_of runs (row_id r) = Some x" by (metis map_of_eq_None_iff not_None_eq)
    moreover have "\<not> isl x" using map_of_SomeD [OF calculation] g(1) by auto
    ultimately show ?thesis by (cases x) auto
  qed
  then have ys: "ys = map (the \<circ> ?out) (concat groups)"
    unfolding g(2) using same(2) by (intro map_filter_total) fastforce
  then show "length ys = length rows"
    using mset_eq_length [OF assms(5)] by simp
  have ran_by: "Inl f \<in> set ys \<longleftrightarrow> (\<exists>r \<in> set rows. map_of runs (row_id r) = Some (Inr (Inl f)))" for f
    using got same(2) unfolding ys by (force simp: image_iff)
  show "\<exists>y \<in> set ys. map_of runs (row_id r) = Some (Inr y) \<and>
      (isl y \<longleftrightarrow> (\<exists>f. Inl f \<in> set ys \<and> rf_inbound_event_id f = row_id r))" if r: "r \<in> set rows"
  proof -
    obtain y where y: "map_of runs (row_id r) = Some (Inr y)" using got [OF r] by blast
    then have "y \<in> set ys" using r same(2) unfolding ys by (force simp: image_iff)
    moreover have "isl y \<longleftrightarrow> (\<exists>f. Inl f \<in> set ys \<and> rf_inbound_event_id f = row_id r)"
    proof (cases y)
      case (Inl f)
      then show ?thesis using y r ran_by own by (metis sum.disc(1))
    next
      case (Inr s)
      have False if "Inl f \<in> set ys" "rf_inbound_event_id f = row_id r" for f
        using that ran_by own y Inr by (metis Inl_Inr_False option.inject sum.inject(2))
      then show ?thesis using Inr by auto
    qed
    ultimately show ?thesis using y by blast
  qed
qed

definition failed_ids :: "batch_result \<Rightarrow> nat set" where
  "failed_ids res = rf_inbound_event_id ` set (br_failures res)"

definition batch_row :: "consumer_config \<Rightarrow> time \<Rightarrow> batch_result \<Rightarrow> inbound_row \<Rightarrow> inbound_row" where
  "batch_row c now' res r =
     (let g = grant now' (gc_lease_seconds c) (gc_worker c) r in
      if row_id r \<in> failed_ids res then clear_lease g
      else clear_lease (g\<lparr>in_processed := True, processed_at := Some now'\<rparr>))"

lemma batch_row_granted: "batch_row c t res (grant t (gc_lease_seconds c) (gc_worker c) r) = batch_row c t res r"
  by (simp add: batch_row_def Let_def)

lemma leased_lease:
  "lease_inbound now now' (gc_held c) (gc_limit c) (gc_worker c) (gc_lease_seconds c) (t_inbound d) =
    (leased_rows c now now' d, t_inbound (after_lease c now now' d))"
  by (simp add: leased_rows_def after_lease_def ib_lease_unprocessed_def split: prod.split)

lemmas leased_ids = ids_lease_inbound [OF leased_lease]

lemma leased_table:
  "t_inbound (after_lease c now now' d) =
    grant_ids (map row_id (leased_rows c now now' d)) now' (gc_lease_seconds c) (gc_worker c) (t_inbound d)"
  by (rule inbound_queue.lease_table [OF leased_lease])

lemma batch_table:
  assumes "others_keep untouched (gc_gateway c)" "schedules_all c" "distinct (map row_id (t_inbound (store w)))"
    and "process_next_batch c now now' w = (Inr res, w')"
  shows "t_inbound (store w') = map (\<lambda>r. if row_id r \<in> row_id ` set (leased_rows c now now' (store w))
      then batch_row c now' res r else r) (t_inbound (store w))"
    and "br_processed res + br_failed res = length (leased_rows c now now' (store w))"
proof -
  let ?L = "leased_rows c now now' (store w)"
  let ?order = "gc_order c (map snd (group_rows ?L))"
  obtain runs where ran: "ran now' ?order [] runs (after_lease c now now' (store w)) (store w')"
    "mset ?order = mset ?L" "Inr res = map_sum id summary_of (gather (map snd (group_rows ?L)) runs)"
    by (rule batch_run [OF assms(1,2,4)]) simp_all
  then obtain ys where ys: "gather (map snd (group_rows ?L)) runs = Inr ys" "res = summary_of ys"
    by (cases "gather (map snd (group_rows ?L)) runs") auto
  note L = leased_distinct [OF assms(3)]
  note vals = batch_values [OF ran(1,2) L ys(1) groups_flatten]
  note ids = ran_ids [OF ran(1,2) L]
  show "br_processed res + br_failed res = length ?L" using vals(1) ys(2) summary_counts(1) by simp
  have effect: "(case map_of runs (row_id r) of None \<Rightarrow> g | Some x \<Rightarrow> row_after now' x g) =
      (if row_id r \<in> row_id ` set ?L then batch_row c now' res r else r)"
    if "g = (if row_id r \<in> set (map row_id ?L) then grant now' (gc_lease_seconds c) (gc_worker c) r else r)" for r g
  proof (cases "row_id r \<in> row_id ` set ?L")
    case True
    then obtain x where x: "x \<in> set ?L" "row_id x = row_id r" by force
    from vals(2) [OF x(1)] obtain y where y: "map_of runs (row_id r) = Some (Inr y)"
      "isl y \<longleftrightarrow> row_id r \<in> failed_ids res"
      unfolding failed_ids_def ys(2) summary_counts(2) x(2) by force
    then show ?thesis using that True by (cases y) (simp_all add: batch_row_def Let_def)
  next
    case False
    then have "map_of runs (row_id r) = None" using ids(2) by (auto simp: map_of_eq_None_iff)
    then show ?thesis using that False by simp
  qed
  show "t_inbound (store w') = map (\<lambda>r. if row_id r \<in> row_id ` set ?L then batch_row c now' res r else r) (t_inbound (store w))"
    using ran(1) effect
    by (simp add: ran_def runs_effect_rows [OF ids(1)] leased_table grant_ids_def update_where_def comp_def
        batch_row_granted)
qed

lemma leased_open:
  assumes "x \<in> set (leased_rows c now now' d)"
  shows "\<exists>r \<in> set (t_inbound d). row_id r = row_id x \<and> open_inbound r"
proof -
  have "row_id x \<in> set (map row_id (leased_rows c now now' d))" using assms by simp
  then show ?thesis unfolding leased_ids using select_inbound_sound by blast
qed


section \<open>Batches drain the queue\<close>

definition waiting :: "db \<Rightarrow> inbound_row list" where
  "waiting d = filter open_inbound (t_inbound d)"

text \<open>No other worker is at the queue: no row is leased or locked.\<close>

definition unleased :: "db \<Rightarrow> bool" where
  "unleased d \<longleftrightarrow> distinct (map row_id (t_inbound d)) \<and> (\<forall>r \<in> set (t_inbound d). open_inbound r \<longrightarrow> locked_by r = None)"

lemma first_is_leased:
  assumes "waiting d \<noteq> []" "unleased d" "gc_held c = (\<lambda>_. False)" "0 < gc_limit c"
  shows "\<exists>r \<in> set (waiting d). row_id r \<in> row_id ` set (leased_rows c now now' d)"
proof -
  let ?cand = "filter (\<lambda>r. open_inbound r \<and> lease_free now r \<and> no_earlier (t_inbound d) r) (t_inbound d)"
  have "Min (row_id ` set (waiting d)) \<in> row_id ` set (waiting d)"
    by (rule Min_in) (use assms(1) in simp_all)
  then obtain r where r: "r \<in> set (waiting d)" "row_id r = Min (row_id ` set (waiting d))" by force
  have least: "row_id r \<le> row_id x" if "x \<in> set (waiting d)" for x
    using that unfolding r(2) by (intro Min_le) simp_all
  have "no_earlier (t_inbound d) r" unfolding no_earlier_def
  proof
    assume "\<exists>e \<in> set (t_inbound d). open_inbound e \<and> chat_key e = chat_key r \<and> row_id e < row_id r"
    then obtain e where "e \<in> set (waiting d)" "row_id e < row_id r" by (auto simp: waiting_def)
    then show False using least by fastforce
  qed
  then have "r \<in> set ?cand"
    using assms(2) r(1) by (simp add: waiting_def unleased_def lease_free_def)
  then have "r \<in> set (sort_key row_id ?cand)" by simp
  then have "sort_key row_id ?cand \<noteq> []" by fastforce
  then obtain x where x: "x \<in> set (take (gc_limit c) (sort_key row_id ?cand))"
    using assms(4) by (metis hd_in_set take_eq_Nil not_gr_zero)
  then have "row_id x \<in> set (select_inbound now (gc_held c) (gc_limit c) (t_inbound d))"
    by (auto simp: select_inbound_def assms(3))
  moreover have "x \<in> set (waiting d)" using in_set_takeD [OF x] by (auto simp: waiting_def)
  ultimately show ?thesis using leased_ids [where now = now and now' = now' and c = c and d = d] by auto
qed

lemma batch_progress:
  assumes "others_keep untouched (gc_gateway c)" "schedules_all c" "unleased (store w)"
    and "process_next_batch c now now' w = (Inr res, w')" "br_failures res = []"
  shows "unleased (store w')"
    and "waiting (store w') = filter (\<lambda>r. row_id r \<notin> row_id ` set (leased_rows c now now' (store w))) (waiting (store w))"
proof -
  let ?L = "row_id ` set (leased_rows c now now' (store w))"
  have d: "distinct (map row_id (t_inbound (store w)))" using assms(3) by (simp add: unleased_def)
  have row: "row_id (batch_row c now' res r) = row_id r" "\<not> open_inbound (batch_row c now' res r)" for r
    using assms(5) by (simp_all add: batch_row_def Let_def failed_ids_def open_inbound_def)
  note table = batch_table(1) [OF assms(1,2) d assms(4)]
  have ids: "map row_id (t_inbound (store w')) = map row_id (t_inbound (store w))"
    by (simp add: table row(1) cong: map_cong)
  have "locked_by r = None" if "r \<in> set (t_inbound (store w'))" "open_inbound r" for r
    using that assms(3) row(2) unfolding table unleased_def by (auto split: if_splits)
  with d show "unleased (store w')" unfolding unleased_def ids by blast
  have "filter open_inbound (map (\<lambda>r. if row_id r \<in> ?L then batch_row c now' res r else r) rs) =
      filter (\<lambda>r. row_id r \<notin> ?L) (filter open_inbound rs)" for rs
    by (induction rs) (simp_all add: row(2))
  then show "waiting (store w') = filter (\<lambda>r. row_id r \<notin> ?L) (waiting (store w))"
    by (simp add: waiting_def table)
qed

text \<open>
  Claim C15.  Batches without failures drain the queue: when nothing else works on it,
  at most as many batches as there are open events leave none of them open, whatever the
  limit and the order of the groups.
\<close>

theorem batches_drain_queue:
  assumes "others_keep untouched (gc_gateway c)" "schedules_all c" "gc_held c = (\<lambda>_. False)" "0 < gc_limit c"
    and "unleased (store w)" "length (filter open_inbound (t_inbound (store w))) \<le> length clock"
    and "each (\<lambda>(now, now'). process_next_batch c now now') clock w = (Inr results, w')"
    and "\<forall>res \<in> set results. br_failures res = []"
  shows "filter open_inbound (t_inbound (store w')) = []"
  using assms(5-8)
proof (induction clock arbitrary: w results)
  case Nil
  then show ?case by (simp add: ret_run)
next
  case (Cons t clock)
  obtain now now' where t: "t = (now, now')" by (cases t)
  then obtain res w1 results' where run: "process_next_batch c now now' w = (Inr res, w1)"
      "each (\<lambda>(now, now'). process_next_batch c now now') clock w1 = (Inr results', w')"
      "results = res # results'"
    using Cons.prems(3) by (auto simp: run_iffs)
  have ok: "br_failures res = []" "\<forall>res \<in> set results'. br_failures res = []" using Cons.prems(4) run(3) by simp_all
  note step = batch_progress [OF assms(1,2) Cons.prems(1) run(1) ok(1)]
  have "length (waiting (store w1)) \<le> length clock"
  proof (cases "waiting (store w) = []")
    case True
    then show ?thesis by (simp add: step(2))
  next
    case False
    from first_is_leased [OF False Cons.prems(1) assms(3,4)] obtain r where "r \<in> set (waiting (store w))"
      "row_id r \<in> row_id ` set (leased_rows c now now' (store w))" by blast
    then have "length (waiting (store w1)) < length (waiting (store w))"
      unfolding step(2) by (intro length_filter_less [of r]) simp_all
    then show ?thesis using Cons.prems(2) by (simp add: waiting_def)
  qed
  then show ?case
    using Cons.IH [OF step(1) _ run(2) ok(2)] by (simp add: waiting_def)
qed

section \<open>A chat behind a failing event\<close>

text \<open>
  There is no limit of attempts for an inbound event.  Behind one that fails, no later
  event of its chat is handed out, however often it is tried.
\<close>

lemma failed_event_blocks_chat:
  assumes "others_keep untouched cfg" "distinct (map row_id (t_inbound (store w)))"
    and "process_one_row other cfg now True r w = (Inr (Inl f), w')"
    and "r \<in> set (t_inbound (store w))" "open_inbound r"
    and "x \<in> set (leased_rows c t t' (store w'))" "chat_key x = chat_key r"
  shows "row_id x \<le> row_id r"
proof (rule ccontr)
  assume later: "\<not> row_id x \<le> row_id r"
  have table: "t_inbound (store w') = at_id (row_id r) clear_lease (t_inbound (store w))"
    using process_one_row_inbound [OF assms(1,3)] by (simp add: row_effect_def)
  have r: "clear_lease r \<in> set (t_inbound (store w'))"
    using assms(4) unfolding table at_id_def by (auto simp: set_update_where)
  have "row_id x \<in> set (map row_id (leased_rows c t t' (store w')))" using assms(6) by simp
  then obtain x0 where x0: "x0 \<in> set (t_inbound (store w'))" "row_id x0 = row_id x" "no_earlier (t_inbound (store w')) x0"
    unfolding leased_ids using select_inbound_sound by blast
  have "x \<in> set (t_inbound (after_lease c t t' (store w')))"
    using assms(6) leased_lease [of t t' c "store w'"] unfolding lease_inbound_def Let_def
    by (metis (no_types, lifting) Pair_inject filter_is_subset set_sort subsetD)
  then obtain x1 where x1: "x1 \<in> set (t_inbound (store w'))" "row_id x1 = row_id x" "chat_key x1 = chat_key x"
    unfolding leased_table grant_ids_def by (auto elim!: update_whereE)
  have "distinct (map row_id (t_inbound (store w')))"
    using assms(2) by (simp only: table ids_at_id clear_lease_simps)
  then have "x1 = x0" using x0(1,2) x1(1,2) distinct_map_eqD [of row_id "t_inbound (store w')"] by metis
  then have "no_earlier (t_inbound (store w')) x0" "chat_key x0 = chat_key r" "row_id r < row_id x0"
    using x0(2,3) x1(3) assms(7) later by simp_all
  then show False
    using r assms(5) unfolding no_earlier_def by (metis clear_lease_simps(1) inbound_lease_simps(6,8))
qed

end
