(* ===== verification/Witnesses_Consumer.thy ===== *)
theory Witnesses_Consumer
  imports Witnesses_Gateway Gateway_Consumer
begin

text \<open>A queue of one event and the batch of the gateway worker that takes it.\<close>

definition consumer_sample :: consumer_config where
  "consumer_sample = \<lparr>gc_gateway = gateway_sample, gc_other_date = (\<lambda>_. None), gc_held = (\<lambda>_. False),
     gc_limit = 20, gc_worker = ''w'', gc_lease_seconds = 300, gc_order = concat\<rparr>"

definition one_event_db :: db where
  "one_event_db = snd (ib_insert_row 0 gateway_event empty_db)"

abbreviation batch_run_sample :: "(exn + batch_result) \<times> service_call world" where
  "batch_run_sample \<equiv> process_next_batch consumer_sample 0 0 (fresh_world one_event_db)"

lemma consumer_others: "others_keep untouched (gc_gateway consumer_sample)"
  using gateway_others by (simp add: consumer_sample_def)

lemma consumer_schedules: "schedules_all consumer_sample"
  by (simp add: schedules_all_def consumer_sample_def sequential_schedule)

lemma one_event_run: "inbound_run (store (fresh_world one_event_db)) 0 {}"
proof -
  have "inbound_run empty_db 0 {}" by (rule inbound_run.empty) (simp add: empty_db_def)
  from inbound_run.arrive [OF this, of gateway_event] show ?thesis
    by (simp add: fresh_world_def one_event_db_def prod_eq_iff)
qed

lemma one_event_distinct: "distinct (map row_id (t_inbound (store (fresh_world one_event_db))))"
  using inbound_run_inv [OF one_event_run] by (simp add: inbound_inv_def)

lemma batch_sample_facts:
  "\<not> isl (fst batch_run_sample)" "br_failures (projr (fst batch_run_sample)) = []"
  "map row_id (leased_rows consumer_sample 0 0 (store (fresh_world one_event_db))) = [1]"
  "length (filter open_inbound (t_inbound (store (fresh_world one_event_db)))) = 1"
  by code_simp+



theorem batches_drain_queue_witness:
  "filter open_inbound (t_inbound (store (snd batch_run_sample))) = []"
proof -
  have queue: "unleased (store (fresh_world one_event_db))"
    unfolding unleased_def using one_event_distinct by code_simp
  have run: "each (\<lambda>(now, now'). process_next_batch consumer_sample now now') [(0, 0)] (fresh_world one_event_db) =
      (Inr [projr (fst batch_run_sample)], snd batch_run_sample)"
    using run_outcome [OF batch_sample_facts(1)] by (simp add: andthen_run ret_run)
  have free: "gc_held consumer_sample = (\<lambda>_. False)" "0 < gc_limit consumer_sample"
    by (simp_all add: consumer_sample_def)
  show ?thesis
    by (rule batches_drain_queue [OF consumer_others consumer_schedules free queue _ run])
      (use batch_sample_facts(2,4) in simp_all)
qed

end
