(* ===== verification/Staff_Replies.thy ===== *)
theory Staff_Replies
  imports Result_Consumer
begin

text \<open>
  \<open>src/app/workers/telegram_reply_consumer.py\<close>: the replies of the staff in the Telegram
  groups are read from the stream of updates, matched to their case and sent to the
  customer, with \<open>src/app/services/staff_reply_processor.py\<close> (the wording) and
  \<open>src/app/services/telegram_case_status.py\<close> (the state of the case).

  The regular expressions of these services and their fixed texts contain characters
  outside the model's; they are arguments (\<open>staff_texts\<close>, \<open>case_patterns\<close>).  Updates and
  the answers of Telegram have their documented shape.
\<close>

section \<open>Wording\<close>

text \<open>\<open>re.sub(r'\s+', ' ', text).strip()\<close>\<close>

fun collapse_spaces :: "string \<Rightarrow> string" where
  "collapse_spaces [] = []"
| "collapse_spaces [c] = (if is_space c then '' '' else [c])"
| "collapse_spaces (c # d # s) =
     (if is_space c then (if is_space d then collapse_spaces (d # s) else CHR '' '' # collapse_spaces (d # s))
      else c # collapse_spaces (d # s))"

definition compact_text :: "string \<Rightarrow> string" where
  "compact_text s = str_strip (collapse_spaces s)"

record staff_reply =
  sp_type :: string
  sp_text :: string
  sp_source :: string

text \<open>
  \<open>st_rewriter\<close> is the language model, \<open>st_classify\<close> is \<open>classify_staff_reply\<close>, \<open>st_fallback\<close> is
  \<open>staff_reply_passthrough_fallback\<close>, \<open>st_facts_ok\<close> is \<open>validate_staff_reply_facts\<close>, and
  \<open>st_untranslated\<close> and \<open>st_internal_label\<close> are the two tests of the wording.
\<close>

record staff_texts =
  st_rewriter :: "(string \<Rightarrow> string \<Rightarrow> exn + json) option"
  st_enabled :: bool
  st_classify :: "string \<Rightarrow> string"
  st_fallback :: "string \<Rightarrow> string \<Rightarrow> string"
  st_facts_ok :: "string \<Rightarrow> string \<Rightarrow> bool"
  st_untranslated :: "string \<Rightarrow> string \<Rightarrow> bool"
  st_internal_label :: "string \<Rightarrow> bool"

definition parse_candidate :: "json \<Rightarrow> dict" where
  "parse_candidate j =
     (case j of JObj d \<Rightarrow> d | JStr s \<Rightarrow> [(''type'', JStr ''resolution''), (''text'', JStr s)] | _ \<Rightarrow> [])"

definition staff_fallback :: "staff_texts \<Rightarrow> string \<Rightarrow> string \<Rightarrow> staff_reply" where
  "staff_fallback st raw lang = \<lparr>sp_type = st_classify st raw, sp_text = st_fallback st raw lang, sp_source = ''fallback''\<rparr>"

definition process_staff_text :: "staff_texts \<Rightarrow> string \<Rightarrow> string \<Rightarrow> staff_reply" where
  "process_staff_text st t lang =
     (let raw = compact_text t in
      if raw = [] then \<lparr>sp_type = ''long_wait'', sp_text = st_fallback st raw lang, sp_source = ''fallback_empty''\<rparr>
      else case (if st_enabled st then st_rewriter st else None) of
        None \<Rightarrow> staff_fallback st raw lang
      | Some rewrite \<Rightarrow>
          (case rewrite raw lang of
             Inl _ \<Rightarrow> staff_fallback st raw lang
           | Inr j \<Rightarrow>
               (let parsed = parse_candidate j; polished = compact_text (str_or [] (dget parsed ''text''));
                    ty = str_or (st_classify st raw) (dget parsed ''type'') in
                if polished \<noteq> [] \<and> st_facts_ok st raw polished \<and> \<not> st_untranslated st polished lang
                   \<and> \<not> st_internal_label st polished
                then \<lparr>sp_type = ty, sp_text = polished, sp_source = ''model''\<rparr>
                else staff_fallback st raw lang)))"

section \<open>The state of a case\<close>

record case_patterns =
  cp_ask :: "string \<Rightarrow> bool"
  cp_wait :: "string \<Rightarrow> bool"
  cp_terminal :: "string \<Rightarrow> bool"
  cp_success :: "string \<Rightarrow> bool"
  cp_negated :: "string \<Rightarrow> bool"
  cp_deposit :: "string \<Rightarrow> bool"
  cp_withdrawal :: "string \<Rightarrow> bool"
  cp_credited :: "string \<Rightarrow> bool"
  cp_received :: "string \<Rightarrow> bool"

definition money_intents :: "string list" where
  "money_intents = [''deposit_missing'', ''withdrawal_missing'']"

definition sticky_statuses :: "string list" where
  "sticky_statuses = [''completion_disputed'', ''completed_confirmed_by_customer'']"

definition matching_completion :: "case_patterns \<Rightarrow> string \<Rightarrow> string \<Rightarrow> bool" where
  "matching_completion cp intent t =
     (if \<not> cp_success cp t \<or> cp_negated cp t then False
      else if intent = ''deposit_missing'' then (cp_deposit cp t \<or> cp_credited cp t) \<and> \<not> cp_withdrawal cp t
      else (cp_withdrawal cp t \<or> cp_received cp t) \<and> \<not> cp_deposit cp t)"

definition classify_money_case_status :: "case_patterns \<Rightarrow> string \<Rightarrow> string \<Rightarrow> string option \<Rightarrow> string" where
  "classify_money_case_status cp intent raw current =
     (let t = str_strip raw in
      if intent \<notin> set money_intents then text_or ''under_review'' current
      else if text_or [] current \<in> set sticky_statuses then text_or [] current
      else if cp_ask cp t then ''waiting_customer''
      else if cp_wait cp t then ''under_review''
      else if matching_completion cp intent t then ''completed_by_staff''
      else if cp_terminal cp t then ''terminal_other''
      else ''under_review'')"

text \<open>The status of a case that was stored before statuses were kept.\<close>

definition normalize_legacy_case_status :: "case_patterns \<Rightarrow> dict \<Rightarrow> string" where
  "normalize_legacy_case_status cp c =
     (let st = str_strip (str_or [] (dget c ''status'')); slots = dict_of (dget c ''slot_memory'') in
      if st \<noteq> [] \<and> st \<noteq> ''created'' then st
      else if str_or [] (dget slots ''last_telegram_staff_reply_type'') = ''long_wait'' then ''under_review''
      else if truthy (dget slots ''telegram_case_resolved_at'')
      then (let classified = classify_money_case_status cp (str_or [] (dget c ''intent''))
                  (str_or [] (dget slots ''telegram_case_resolution_text'')) None in
            if classified = ''completed_by_staff'' then classified else ''under_review'')
      else ''awaiting_review'')"

section \<open>The row of a reply\<close>

record staff_config =
  rp_sha :: "string \<Rightarrow> string"
  rp_texts :: staff_texts
  rp_patterns :: case_patterns
  rp_composer :: "(dict \<Rightarrow> exn + dict) option"
  rp_llm_enabled :: bool
  rp_must_not_say :: "string list"
  rp_text :: "string \<Rightarrow> string"
  rp_meanwhile :: "db \<Rightarrow> db"
  rp_utc :: "time \<Rightarrow> time"
  rp_targets :: "string list"
  rp_services :: services

definition active_telegram_case_slot_keys :: "string list" where
  "active_telegram_case_slot_keys = [''last_telegram_append_message_id'', ''last_telegram_staff_reply_message_id'',
     ''last_telegram_staff_reply_type'', ''telegram_append_status'', ''telegram_case_id'', ''telegram_case_status'',
     ''telegram_message_id'', ''telegram_staff_reply_status'']"

definition message_text :: "dict \<Rightarrow> string" where
  "message_text m = str_strip (str_or [] (or_json (dget m ''text'') (dget m ''caption'')))"

definition largest_photo_file_id :: "dict \<Rightarrow> string option" where
  "largest_photo_file_id m =
     (case rev (filter (\<lambda>p. truthy (dget p ''file_id'')) (dicts_of (dget m ''photo''))) of
        [] \<Rightarrow> None | p # _ \<Rightarrow> Some (py_str (dget p ''file_id'')))"

fun join_words :: "string list \<Rightarrow> string" where
  "join_words [] = []"
| "join_words [x] = x"
| "join_words (x # y # xs) = x @ '' '' @ join_words (y # xs)"

definition sender_name :: "dict \<Rightarrow> json" where
  "sender_name sender =
     (let parts = filter (\<lambda>p. p \<noteq> []) (map (\<lambda>k. str_strip (str_or [] (dget sender k))) [''first_name'', ''last_name'']);
          name = join_words parts in
      if name = [] then JNull else JStr name)"

definition known_language :: "json \<Rightarrow> string" where
  "known_language j = (let l = normalize_language_code j in if l \<noteq> ''unknown'' then l else ''zh-Hans'')"

definition case_intent_json :: "case_row \<Rightarrow> json" where
  "case_intent_json c = or_json (opt_json (tc_active_workflow c)) (opt_json (tc_intent c))"

definition build_result_row ::
  "staff_config \<Rightarrow> dict \<Rightarrow> found_case \<Rightarrow> string \<Rightarrow> string list \<Rightarrow> string \<Rightarrow> json \<Rightarrow> result_in" where
  "build_result_row cfg upd fc raw photos chat topic =
     (let message = dict_of (dget upd ''message''); c = fc_case fc;
          sender = dict_of (dget message ''from''); reply_to = dict_of (dget message ''reply_to_message'') in
      \<lparr>ri_command_id = tc_external_command_id c, ri_tenant_id = Some (text_or ''default'' (Some (tc_tenant_id c))),
       ri_conversation_id = fc_conversation_id fc, ri_chat_id = Some (tc_chat_id c), ri_thread_id = fc_thread_id fc,
       ri_inbound_event_id = tc_inbound_event_id c, ri_command_type = ''telegram.staff_reply'',
       ri_result_type = ''telegram.staff_reply.received'',
       ri_json = [(''status'', JStr ''received''), (''telegram_case_id'', JInt (int (tc_id c))),
         (''telegram_update_id'', dget upd ''update_id''), (''telegram_message_id'', dget message ''message_id''),
         (''reply_to_message_id'', dget reply_to ''message_id''), (''staff_user_id'', dget sender ''id''),
         (''staff_username'', dget sender ''username''), (''staff_name'', sender_name sender),
         (''raw_text'', JStr raw), (''caption'', dget message ''caption''), (''attachment_file_ids'', strings photos),
         (''telegram_chat_id'', JStr chat), (''telegram_message_thread_id'', topic),
         (''intent'', opt_json (tc_intent c)), (''active_workflow'', case_intent_json c),
         (''telegram_case_status'', JStr (tc_status c)),
         (''language'', JStr (known_language (opt_json (fc_reply_language fc))))],
       ri_status = Some ''PENDING'', ri_processed_at = None, ri_last_error = None,
       ri_dedup_key = Some (build_telegram_staff_reply_dedup_key (rp_sha cfg) upd (tc_id c))\<rparr>)"

section \<open>What becomes of a reply\<close>

definition reply_workflow :: "dict \<Rightarrow> json" where
  "reply_workflow result = or_json (dget result ''active_workflow'') (dget result ''intent'')"

definition build_photo_only_handler :: "staff_config \<Rightarrow> dict \<Rightarrow> result_handler" where
  "build_photo_only_handler cfg result =
     \<lparr>rh_text = [], rh_sender_role = ''telegram'', rh_summary = rp_text cfg ''photo_summary'',
      rh_graph_state = workflow_state ''WAITING_EXTERNAL'' (reply_workflow result) ''waiting_backend''
        [(''telegram_staff_reply_status'', JStr ''received''),
         (''last_telegram_staff_reply_message_id'', dget result ''telegram_message_id''),
         (''last_telegram_staff_reply_type'', JStr ''attachment''),
         (''last_telegram_staff_reply_source'', JStr ''telegram_photo'')],
      rh_commands = []\<rparr>"

definition received_slots :: "dict \<Rightarrow> staff_reply \<Rightarrow> dict" where
  "received_slots result polished =
     [(''telegram_staff_reply_status'', JStr ''received''),
      (''last_telegram_staff_reply_message_id'', dget result ''telegram_message_id''),
      (''last_telegram_staff_reply_type'', JStr (sp_type polished)),
      (''last_telegram_staff_reply_source'', JStr (sp_source polished))]"

definition resolved_slots :: "staff_config \<Rightarrow> time \<Rightarrow> dict \<Rightarrow> string \<Rightarrow> staff_reply \<Rightarrow> dict" where
  "resolved_slots cfg now result raw polished =
     [(''telegram_case_resolved_at'', JStr (datetime_text True (rp_utc cfg now))),
      (''telegram_case_resolution_text'', JStr (str_strip raw)),
      (''telegram_case_resolution_type'', JStr (sp_type polished)),
      (''telegram_case_resolution_source'', JStr (sp_source polished)),
      (''telegram_case_resolution_workflow'', reply_workflow result), (''customer_confirmed_resolved'', JBool False)]"

definition build_staff_reply_handler :: "staff_config \<Rightarrow> time \<Rightarrow> dict \<Rightarrow> result_handler" where
  "build_staff_reply_handler cfg now result =
     (let raw = str_or [] (or_json (dget result ''raw_text'') (dget result ''caption''));
          polished = process_staff_text (rp_texts cfg) raw (known_language (dget result ''language''));
          workflow = reply_workflow result;
          st = classify_money_case_status (rp_patterns cfg) (str_or [] workflow) raw
                 (text_of (dget result ''telegram_case_status''));
          update = [(''telegram_case_update'', JObj [(''telegram_case_id'', dget result ''telegram_case_id''),
                      (''status'', JStr st)])];
          gs = (if st \<in> {''awaiting_review'', ''under_review'', ''completion_disputed''}
                then workflow_state ''WAITING_EXTERNAL'' workflow ''waiting_backend'' (received_slots result polished)
                     @ [(''delete_slot_memory_keys'', JArr [])]
                else if st = ''waiting_customer''
                then workflow_state ''WAITING_EXTERNAL'' workflow ''waiting_customer_supplement''
                       (received_slots result polished) @ [(''delete_slot_memory_keys'', JArr [])]
                else workflow_state ''AI_ACTIVE'' JNull ''completed'' (resolved_slots cfg now result raw polished)
                     @ [(''delete_slot_memory_keys'', strings active_telegram_case_slot_keys)]) in
      \<lparr>rh_text = sp_text polished, rh_sender_role = ''telegram'', rh_summary = rp_text cfg ''reply_summary'',
       rh_graph_state = gs @ update, rh_commands = []\<rparr>)"

definition staff_reply_state :: "staff_config \<Rightarrow> result_row \<Rightarrow> dict \<Rightarrow> string \<Rightarrow> string \<Rightarrow> dict" where
  "staff_reply_state cfg r gs raw fallback =
     (let result = er_json r; lang = JStr (known_language (dget result ''language''));
          reply_type = dget (dict_of (dget gs ''slot_memory'')) ''last_telegram_staff_reply_type'' in
      dmerge gs [(''tenant_id'', JStr (er_tenant_id r)), (''channel_type'', JStr ''livechat''),
        (''conversation_id'', opt_json (conversation_id r)), (''chat_id'', JStr (er_chat_id r)),
        (''thread_id'', opt_json (er_thread_id r)), (''raw_user_input'', JStr raw), (''rewritten_question'', JStr raw),
        (''route'', JStr ''sop''),
        (''intent_result'', JObj [(''route'', JStr ''sop''), (''intent'', reply_workflow result)]),
        (''active_workflow'', or_json (dget gs ''active_workflow'') (reply_workflow result)),
        (''response_text'', JStr fallback), (''response_text_fallback'', JStr fallback),
        (''node_reply_template'', JStr ''telegram_staff_reply''),
        (''node_facts'', JObj [(''staff_reply'', JStr raw), (''fallback_text'', JStr fallback),
           (''staff_reply_type'', reply_type)]),
        (''reply_language'', lang), (''conversation_language'', lang), (''detected_language'', lang),
        (''reply_plan'', build_reply_plan ''telegram_staff_reply'' fallback [] (rp_must_not_say cfg) [raw]
           [(''source'', JStr ''telegram_staff_reply''), (''telegram_message_id'', dget result ''telegram_message_id''),
            (''reply_to_message_id'', dget result ''reply_to_message_id''), (''staff_reply_type'', reply_type)])])"

definition finalize_staff_reply_handler :: "staff_config \<Rightarrow> result_row \<Rightarrow> result_handler \<Rightarrow> result_handler" where
  "finalize_staff_reply_handler cfg r h =
     (let result = er_json r; gs = rh_graph_state h;
          raw = str_strip (str_or [] (or_json (dget result ''raw_text'') (dget result ''caption'')));
          fallback = str_strip (rh_text h); state = staff_reply_state cfg r gs raw fallback in
      case (if rp_llm_enabled cfg then rp_composer cfg else None) of
        None \<Rightarrow> h
      | Some composer \<Rightarrow>
          (if raw = [] \<or> fallback = [] then h
           else case composer state of
                  Inl _ \<Rightarrow> h
                | Inr final \<Rightarrow>
                    (let t = str_strip (str_or [] (dget final ''final_response_text'')) in
                     if t = [] then h
                     else h\<lparr>rh_text := t, rh_graph_state := dmerge gs
                            [(''final_reply_result'', dget final ''final_reply_result''),
                             (''reply_plan'', dget state ''reply_plan'')]\<rparr>)))"

definition reply_handler :: "staff_config \<Rightarrow> time \<Rightarrow> result_row \<Rightarrow> string \<Rightarrow> result_handler" where
  "reply_handler cfg now r raw =
     (if raw \<noteq> [] then finalize_staff_reply_handler cfg r (build_staff_reply_handler cfg now (er_json r))
      else build_photo_only_handler cfg (er_json r))"

section \<open>The messages\<close>

definition build_telegram_photo_outbox :: "result_row \<Rightarrow> string \<Rightarrow> outbound_in" where
  "build_telegram_photo_outbox r file_id =
     \<lparr>oi_tenant_id = None, oi_chat_id = Some (er_chat_id r), oi_thread_id = er_thread_id r,
      oi_action_type = ''livechat.send_image'', oi_message_type = ''image'',
      oi_payload = [(''asset_source'', JStr ''telegram''), (''telegram_file_id'', JStr file_id), (''caption'', JStr [])],
      oi_status = ''PENDING'', oi_inbound_event_id = er_inbound_event_id r, oi_conversation_id = conversation_id r,
      oi_dedup_key = None, oi_block_index = None, oi_message_kind = Some ''telegram_staff_reply_image'',
      oi_command_type = Some ''livechat.send_image''\<rparr>"

definition staff_text_outbox :: "result_row \<Rightarrow> string \<Rightarrow> outbound_in" where
  "staff_text_outbox r t =
     (build_text_outbox (Some (er_chat_id r)) (er_thread_id r) (result_conversation r) (er_inbound_event_id r) t)
       \<lparr>oi_command_type := Some ''telegram.staff_reply''\<rparr>"

definition staff_outbounds :: "result_row \<Rightarrow> string \<Rightarrow> string option \<Rightarrow> string \<Rightarrow> outbound_in list" where
  "staff_outbounds r raw photo t =
     (case photo of
        None \<Rightarrow> [(staff_text_outbox r t)\<lparr>oi_dedup_key := Some (er_dedup_key r @ '':outbound''),
                  oi_message_kind := Some ''telegram_staff_reply''\<rparr>]
      | Some f \<Rightarrow>
          (build_telegram_photo_outbox r f)\<lparr>oi_dedup_key := Some (er_dedup_key r @ '':outbound:image''), oi_block_index := Some 0\<rparr>
          # (if raw \<noteq> [] \<and> t \<noteq> []
             then [(staff_text_outbox r t)\<lparr>oi_dedup_key := Some (er_dedup_key r @ '':outbound:caption''),
                    oi_block_index := Some 1, oi_message_kind := Some ''telegram_staff_reply_caption''\<rparr>]
             else []))"

section \<open>One update\<close>

datatype update_item =
    Ignored string
  | Duplicate nat
  | Recorded nat
  | Failed exn

definition update_id_of :: "dict \<Rightarrow> exn + int" where
  "update_id_of upd = py_int_of (or_json (dget upd ''update_id'') (JInt 0))"

text \<open>The checks that need no database; \<open>me\<close> is the identity of the bot, if known.\<close>

definition ignored_update :: "staff_config \<Rightarrow> json \<Rightarrow> dict \<Rightarrow> string option" where
  "ignored_update cfg me upd =
     (let message = dict_of (dget upd ''message'') in
      if message = [] then Some ''missing_message''
      else if rp_targets cfg \<noteq> [] \<and> str_or [] (dget (dict_of (dget message ''chat'')) ''id'') \<notin> set (rp_targets cfg)
      then Some ''non_target_chat''
      else if me \<noteq> JNull \<and> py_str (dget (dict_of (dget message ''from'')) ''id'') = py_str me then Some ''self_message''
      else if dget (dict_of (dget message ''reply_to_message'')) ''message_id'' = JNull then Some ''not_reply_to_case''
      else None)"

definition telegram_topic :: "dict \<Rightarrow> json" where
  "telegram_topic message =
     or_json (dget message ''message_thread_id'') (dget (dict_of (dget message ''reply_to_message'')) ''message_thread_id'')"

text \<open>While the reply is worded, other transactions commit: \<open>rp_meanwhile\<close>.\<close>

definition deliver_reply :: "staff_config \<Rightarrow> time \<Rightarrow> result_row \<Rightarrow> string \<Rightarrow> string option \<Rightarrow> unit job" where
  "deliver_reply cfg now r raw photo =
     (\<lambda>w. let h = reply_handler cfg now r raw in
      try_except
       (andthen (process_result_transactionally (rp_sha cfg) now (row_id r) (er_chat_id r) (er_thread_id r)
           (graph_state_of (rh_graph_state h)) (staff_outbounds r raw photo (rh_text h)) []
           (Some (build_external_result_summary_message r (rh_sender_role h) (rh_summary h)))) (\<lambda>_. ret ()))
       (\<lambda>e. andthen (update (er_mark_failed (row_id r) (exn_text e))) (\<lambda>_. raise e))
       (w\<lparr>store := rp_meanwhile cfg (store w)\<rparr>))"

definition record_reply_message :: "nat \<Rightarrow> string \<Rightarrow> json \<Rightarrow> json \<Rightarrow> unit job" where
  "record_reply_message case_id chat msg topic =
     (if msg = JNull then ret ()
      else andthen (lift (py_int_of msg)) (\<lambda>m.
           andthen (lift (opt_int_of topic)) (\<lambda>t. record_staff_reply_message case_id chat m t)))"

definition process_case_reply :: "staff_config \<Rightarrow> time \<Rightarrow> dict \<Rightarrow> found_case \<Rightarrow> update_item job" where
  "process_case_reply cfg now upd fc =
     (let message = dict_of (dget upd ''message''); case_id = tc_id (fc_case fc);
          chat = str_or [] (dget (dict_of (dget message ''chat'')) ''id''); topic = telegram_topic message;
          raw = message_text message; photo = largest_photo_file_id message;
          row = build_result_row cfg upd fc raw (case photo of None \<Rightarrow> [] | Some f \<Rightarrow> [f]) chat topic in
      andthen (query (is_conversation_human_active (fc_conversation_id fc))) (\<lambda>human.
      if human then ret (Ignored ''conversation_human_active'')
      else if raw = [] \<and> photo = None then ret (Ignored ''empty_staff_reply'')
      else andthen (stmt (er_insert_idempotent (rp_sha cfg) now row)) (\<lambda>inserted.
        case inserted of
          None \<Rightarrow> ret (Duplicate case_id)
        | Some i \<Rightarrow>
            andthen (deliver_reply cfg now (new_result_row (rp_sha cfg) now row (tc_chat_id (fc_case fc)) i) raw photo) (\<lambda>_.
            andthen (record_reply_message case_id chat (dget message ''message_id'') topic) (\<lambda>_.
            ret (Recorded case_id))))))"

definition find_reply_case :: "dict \<Rightarrow> found_case option job" where
  "find_reply_case upd =
     (let message = dict_of (dget upd ''message'') in
      find_by_reply_message (str_or [] (dget (dict_of (dget message ''chat'')) ''id''))
        (dget (dict_of (dget message ''reply_to_message'')) ''message_id'') (telegram_topic message))"

definition process_single_update :: "staff_config \<Rightarrow> time \<Rightarrow> json \<Rightarrow> dict \<Rightarrow> update_item job" where
  "process_single_update cfg now me upd =
     (case ignored_update cfg me upd of
        Some reason \<Rightarrow> ret (Ignored reason)
      | None \<Rightarrow>
          andthen (find_reply_case upd) (\<lambda>found.
          case found of
            None \<Rightarrow> ret (Ignored ''case_not_found'')
          | Some fc \<Rightarrow> process_case_reply cfg now upd fc))"

section \<open>The stream of updates\<close>

text \<open>
  The updates in order; the first that fails ends the batch, and its offset is not saved.
  The offset of an update is saved after it.
\<close>

fun process_telegram_updates ::
  "staff_config \<Rightarrow> time \<Rightarrow> json \<Rightarrow> string option \<Rightarrow> dict list \<Rightarrow> (int \<times> update_item) list job" where
  "process_telegram_updates cfg now me key [] = ret []"
| "process_telegram_updates cfg now me key (upd # upds) =
     andthen (lift (update_id_of upd)) (\<lambda>uid.
     andthen (catching (process_single_update cfg now me upd)) (\<lambda>x.
     case x of
       Inl e \<Rightarrow> ret [(uid, Failed e)]
     | Inr item \<Rightarrow>
         andthen (if text_true key \<and> uid \<noteq> 0 then update (save_offset (text_or [] key) uid) else ret ()) (\<lambda>_.
         andthen (process_telegram_updates cfg now me key upds) (\<lambda>items.
         ret ((uid, item) # items)))))"

definition target_chat_ids :: "json list \<Rightarrow> string list" where
  "target_chat_ids settings = filter (\<lambda>s. s \<noteq> []) (map (\<lambda>v. str_strip (str_or [] v)) settings)"

definition safe_bot_user_id :: "staff_config \<Rightarrow> json job" where
  "safe_bot_user_id cfg =
     andthen (catching (call (rp_services cfg) (Telegram ''getMe'' []))) (\<lambda>x.
     ret (case x of Inl _ \<Rightarrow> JNull | Inr data \<Rightarrow> dget (dict_of (dget (dict_of data) ''result'')) ''id''))"

definition get_updates :: "staff_config \<Rightarrow> int option \<Rightarrow> int \<Rightarrow> int \<Rightarrow> dict list job" where
  "get_updates cfg offset timeout limit =
     andthen (call (rp_services cfg) (Telegram ''getUpdates''
       ((case offset of None \<Rightarrow> [] | Some o1 \<Rightarrow> [(''offset'', JInt o1)])
        @ [(''timeout'', JInt timeout), (''limit'', JInt limit), (''allowed_updates'', strings [''message''])]))) (\<lambda>data.
     ret (dicts_of (dget (dict_of data) ''result'')))"

definition process_telegram_updates_once ::
  "staff_config \<Rightarrow> time \<Rightarrow> string \<Rightarrow> int \<Rightarrow> int \<Rightarrow> (int \<times> update_item) list job" where
  "process_telegram_updates_once cfg now key timeout limit =
     andthen (sync_recent_external_results now 200) (\<lambda>_.
     andthen (query (get_offset key)) (\<lambda>off.
     andthen (safe_bot_user_id cfg) (\<lambda>me.
     andthen (get_updates cfg (if off \<noteq> 0 then Some (off + 1) else None) timeout limit) (\<lambda>upds.
     process_telegram_updates cfg now me (Some key) upds))))"

end
