(* ===== verification/Reply_Safety.thy ===== *)
theory Reply_Safety
  imports Staff_Replies Result_Safety
begin

text \<open>
  What becomes of the replies of the staff: what a reply that is recorded adds, that an
  update is acted on at most once (also when that attempt fails), and how far the stream
  of updates is confirmed.
\<close>

section \<open>Results stay known\<close>

definition result_keys :: "db \<Rightarrow> string set" where
  "result_keys d = er_dedup_key ` set (t_results d)"

definition keys_le :: "db \<Rightarrow> db \<Rightarrow> bool" where
  "keys_le d d' \<longleftrightarrow> result_keys d \<subseteq> result_keys d'"

interpretation known: db_preorder keys_le
  by unfold_locales (auto simp: keys_le_def)

lemma keys_le_same: "map er_dedup_key (t_results d') = map er_dedup_key (t_results d) \<Longrightarrow> keys_le d d'"
  by (metis keys_le_def result_keys_def list.set_map order_refl)

lemma keys_at_id: "(\<And>r. er_dedup_key (f r) = er_dedup_key r) \<Longrightarrow>
   map er_dedup_key (at_id i f rs) = map er_dedup_key rs"
  by (simp add: at_id_def map_update_where)

lemma keys_le_marks:
  "keys_le d (er_mark_processed now i d)" "keys_le d (er_mark_failed i e d)"
  by (rule keys_le_same; simp add: er_mark_processed_def er_mark_failed_def er_update_def keys_at_id)+

lemma keys_le_updates:
  "keys_le d (snd (cm_insert_idempotent now m d))"
  "ob_insert_idempotent now o' d = Inr (a, d') \<Longrightarrow> keys_le d d'"
  "ec_insert_idempotent sha now c d = Inr (b, d'') \<Longrightarrow> keys_le d d''"
  "keys_le d (update_case_status now i st d)"
  "keys_le d (upsert_conversation g now cid chat thread d)"
  "keys_le d (snd (workflow_update now cid gs d))"
  "keys_le d (insert_case_message j chat topic msg k d)"
  by (auto intro!: keys_le_same simp: cm_insert_idempotent_def ob_insert_idempotent_def ec_insert_idempotent_def
      update_case_status_def upsert_conversation_def workflow_update_def insert_case_message_def Let_def
      split: prod.splits option.splits)

lemmas known_intros = known.stays_intros known.stays_update known.stays_exec known.stays_stmt keys_le_marks keys_le_updates

lemma process_result_known:
  "stays keys_le (process_result_transactionally sha now i chat thread gs outs cmds summary)"
  unfolding process_result_transactionally_def process_result_body_def get_or_create_def result_done_def
    write_result_def update_case_def update_workflow_state_def add_optional_message_def add_message_def
    add_outbound_def add_command_def Let_def
  by (intro known_intros; assumption?)

section \<open>One attempt for each reply\<close>

text \<open>The reply of the update about the case is in the table of results.\<close>

definition reply_known :: "staff_config \<Rightarrow> dict \<Rightarrow> nat \<Rightarrow> db \<Rightarrow> bool" where
  "reply_known cfg upd c d \<longleftrightarrow> build_telegram_staff_reply_dedup_key (rp_sha cfg) upd c \<in> result_keys d"

definition left_alone :: "exn + update_item \<Rightarrow> bool" where
  "left_alone r = (case r of Inr (Recorded _) \<Rightarrow> False | Inr (Failed _) \<Rightarrow> False | _ \<Rightarrow> True)"

lemma reply_known_mono: "keys_le d d' \<Longrightarrow> reply_known cfg upd c d \<Longrightarrow> reply_known cfg upd c d'"
  by (auto simp: keys_le_def reply_known_def)

lemma result_row_key:
  "result_dedup_key (rp_sha cfg) (build_result_row cfg upd fc raw photos chat topic) =
     build_telegram_staff_reply_dedup_key (rp_sha cfg) upd (tc_id (fc_case fc))"
  "ri_chat_id (build_result_row cfg upd fc raw photos chat topic) = Some (tc_chat_id (fc_case fc))"
  by (simp_all add: build_result_row_def result_dedup_key_def build_telegram_staff_reply_dedup_key_def
      text_true_def text_or_def Let_def)

lemma insert_reply:
  fixes fc :: found_case
  assumes "er_insert_idempotent (rp_sha cfg) now (build_result_row cfg upd fc raw photos chat topic) d = Inr (res, d')"
  shows "case res of None \<Rightarrow> d' = d | Some i \<Rightarrow> \<not> reply_known cfg upd (tc_id (fc_case fc)) d \<and> reply_known cfg upd (tc_id (fc_case fc)) d'"
  using assms by (auto simp: er_insert_idempotent_def result_row_key insert_new_def er_clash_def reply_known_def
      result_keys_def Let_def split: if_splits)

lemma known_after:
  assumes "stays keys_le m" "\<And>d. keys_le d (f d)"
  shows "stays keys_le (\<lambda>w. m (w\<lparr>store := f (store w)\<rparr>))"
  unfolding stays_def
proof
  fix w :: "'a world"
  have "keys_le (f (store w)) (store (snd (m (w\<lparr>store := f (store w)\<rparr>))))"
    using staysD [OF assms(1), of "w\<lparr>store := f (store w)\<rparr>"] by simp
  with assms(2) show "keys_le (store w) (store (snd (m (w\<lparr>store := f (store w)\<rparr>))))"
    by (rule known.R_trans)
qed

lemma deliver_known:
  assumes "\<And>d. keys_le d (rp_meanwhile cfg d)"
  shows "stays keys_le (deliver_reply cfg now r raw photo)"
  unfolding deliver_reply_def Let_def
  by (intro known_after assms known_intros process_result_known)

lemma record_known: "stays keys_le (record_reply_message c chat msg topic)"
  unfolding record_reply_message_def record_staff_reply_message_def
  by (intro known_intros) (simp_all add: stays_def lift_def known.R_refl)

text \<open>
  The step on a reply to a known case: a reply that is known already changes nothing;
  any other step that changes the database makes the reply known, how ever it ends.
\<close>

lemma process_case_reply_step:
  fixes w :: "service_call world"
  assumes "\<And>d. keys_le d (rp_meanwhile cfg d)" "process_case_reply cfg now upd fc w = (r, w')"
  shows "store w' = store w \<and> left_alone r
    \<or> \<not> reply_known cfg upd (tc_id (fc_case fc)) (store w) \<and> reply_known cfg upd (tc_id (fc_case fc)) (store w')"
proof -
  let ?message = "dict_of (dget upd ''message'')"
  let ?chat = "str_or [] (dget (dict_of (dget ?message ''chat'')) ''id'')"
  let ?raw = "message_text ?message" and ?photo = "largest_photo_file_id ?message"
  let ?row = "build_result_row cfg upd fc ?raw (case ?photo of None \<Rightarrow> [] | Some f \<Rightarrow> [f]) ?chat (telegram_topic ?message)"
  let ?rest = "\<lambda>i. andthen (deliver_reply cfg now (new_result_row (rp_sha cfg) now ?row (tc_chat_id (fc_case fc)) i) ?raw ?photo)
     (\<lambda>_. andthen (record_reply_message (tc_id (fc_case fc)) ?chat (dget ?message ''message_id'') (telegram_topic ?message))
     (\<lambda>_. ret (Recorded (tc_id (fc_case fc)))))"
  obtain q w1 where q: "query (is_conversation_human_active (fc_conversation_id fc)) w = (q, w1)" by fastforce
  have same: "store w1 = store w"
    using staysD [OF keeps.stays_query [of id], of _ w] q by (metis id_apply snd_conv)
  obtain ins w2 where ins: "stmt (er_insert_idempotent (rp_sha cfg) now ?row) w1 = (ins, w2)" by fastforce
  note run = assms(2) [unfolded process_case_reply_def Let_def]
  show ?thesis
  proof (cases q)
    case (Inl e)
    with q have q': "query (is_conversation_human_active (fc_conversation_id fc)) w = (Inl e, w1)" by simp
    show ?thesis using run [unfolded andthen_run(2) [where m = "query (is_conversation_human_active (fc_conversation_id fc))" and s = w, OF q']] same by (auto simp: left_alone_def)
  next
    case (Inr human)
    with q have q': "query (is_conversation_human_active (fc_conversation_id fc)) w = (Inr human, w1)" by simp
    note run1 = run [unfolded andthen_run(1) [where m = "query (is_conversation_human_active (fc_conversation_id fc))" and s = w, OF q']]
    show ?thesis
    proof (cases "human \<or> ?raw = [] \<and> ?photo = None")
      case True
      then show ?thesis using run1 same by (auto simp: left_alone_def ret_run split: if_splits)
    next
      case False
      then have active: "\<not> human" "\<not> (?raw = [] \<and> ?photo = None)" by auto
      note run2 = run1 [unfolded if_not_P [OF active(1)] if_not_P [OF active(2)]]
      show ?thesis
      proof (cases ins)
        case (Inl e)
        have "store w2 = store w1"
          using ins Inl by (cases rule: stmt_cases [of "er_insert_idempotent (rp_sha cfg) now ?row" w1]) auto
        moreover have "r = Inl e \<and> w' = w2"
          using run2 [unfolded andthen_run(2) [where m = "stmt (er_insert_idempotent (rp_sha cfg) now ?row)" and s = w1, OF ins [unfolded Inl]]] by simp
        ultimately show ?thesis using same by (simp add: left_alone_def)
      next
        case (Inr res)
        note run3 = run2 [unfolded andthen_run(1) [where m = "stmt (er_insert_idempotent (rp_sha cfg) now ?row)" and s = w1, OF ins [unfolded Inr]]]
        have db: "er_insert_idempotent (rp_sha cfg) now ?row (store w1) = Inr (res, store w2)"
          using stmt_InrD [OF ins [unfolded Inr]] by simp
        show ?thesis
        proof (cases res)
          case None
          then show ?thesis using run3 insert_reply [OF db] same by (auto simp: left_alone_def ret_run)
        next
          case (Some i)
          have "?rest i w2 = (r, w')" using run3 [unfolded Some option.case] .
          moreover have "stays keys_le (?rest i)"
            by (intro known_intros deliver_known record_known assms(1))
          ultimately have "keys_le (store w2) (store w')" using staysD [of keys_le "?rest i" w2] by simp
          then show ?thesis using insert_reply [OF db] Some same reply_known_mono by auto
        qed
      qed
    qed
  qed
qed

lemma find_reply_keeps: "keeps f (find_reply_case upd)"
  unfolding find_reply_case_def find_by_reply_message_def Let_def
  by (intro keeps.stays_intros keeps_lift)

text \<open>The lookup of the case finds the case \<open>c\<close>, if any.\<close>

definition replies_to :: "dict \<Rightarrow> nat \<Rightarrow> service_call world \<Rightarrow> bool" where
  "replies_to upd c w \<longleftrightarrow> (\<forall>fc v. find_reply_case upd w = (Inr (Some fc), v) \<longrightarrow> tc_id (fc_case fc) = c)"

lemma process_single_update_step:
  fixes w :: "service_call world"
  assumes "process_single_update cfg now me upd w = (r, w')"
  shows "store w' = store w \<and> left_alone r
    \<or> (\<exists>fc v. find_reply_case upd w = (Inr (Some fc), v) \<and> store v = store w \<and> process_case_reply cfg now upd fc v = (r, w'))"
proof (cases "ignored_update cfg me upd")
  case None
  obtain found v where found: "find_reply_case upd w = (found, v)" by fastforce
  have same: "store v = store w"
    using staysD [OF find_reply_keeps [of id], of upd w] found by simp
  note run = assms [unfolded process_single_update_def None option.case]
  show ?thesis
  proof (cases found)
    case (Inl e)
    then have "r = Inl e \<and> w' = v" using run found by (simp add: andthen_run)
    then show ?thesis using same by (simp add: left_alone_def)
  next
    case (Inr x)
    then show ?thesis using run found same
      by (cases x) (auto simp: andthen_run ret_run left_alone_def)
  qed
qed (use assms in \<open>auto simp: process_single_update_def ret_run left_alone_def\<close>)

text \<open>
  Claim C13.  An update of the staff is acted on at most once.  After a step on it that
  changed the database, how ever that step ended, every later step on it for the same
  case changes nothing and does not record it again; that holds also of a
  step that failed after the row of the reply was inserted, so such a reply never
  reaches the customer.
\<close>

theorem reply_acted_on_once:
  fixes w w2 :: "service_call world"
  assumes "\<And>d. keys_le d (rp_meanwhile cfg d)"
    and first: "process_single_update cfg now me upd w = (r, w1)" "store w1 \<noteq> store w" "replies_to upd c w"
    and later: "keys_le (store w1) (store w2)" "replies_to upd c w2" "process_single_update cfg now' me' upd w2 = (r', w3)"
  shows "store w3 = store w2 \<and> left_alone r'"
proof -
  have known: "reply_known cfg upd c (store w2)"
    using process_single_update_step [OF first(1)] first(2,3) process_case_reply_step [OF assms(1)]
      reply_known_mono [OF later(1)] by (metis replies_to_def)
  show ?thesis
    using process_single_update_step [OF later(3)] known later(2) process_case_reply_step [OF assms(1)]
    by (metis replies_to_def)
qed

section \<open>What a recorded reply adds\<close>

definition recorded_row :: "staff_config \<Rightarrow> time \<Rightarrow> dict \<Rightarrow> found_case \<Rightarrow> nat \<Rightarrow> result_row" where
  "recorded_row cfg now upd fc i =
     (let message = dict_of (dget upd ''message'') in
      new_result_row (rp_sha cfg) now (build_result_row cfg upd fc (message_text message)
         (case largest_photo_file_id message of None \<Rightarrow> [] | Some f \<Rightarrow> [f])
         (str_or [] (dget (dict_of (dget message ''chat'')) ''id'')) (telegram_topic message))
       (tc_chat_id (fc_case fc)) i)"

definition reply_output :: "staff_config \<Rightarrow> time \<Rightarrow> result_row \<Rightarrow> string \<Rightarrow> string option \<Rightarrow> db \<Rightarrow> bool" where
  "reply_output cfg now r raw photo d \<longleftrightarrow>
     (let h = reply_handler cfg now r raw in
      output_known (rp_sha cfg) (conversation_id_for_chat (Some (er_chat_id r)) (er_thread_id r))
        [build_external_result_summary_message r (rh_sender_role h) (rh_summary h)]
        (staff_outbounds r raw photo (rh_text h)) [] d)"

lemma deliver_reply_done:
  fixes w :: "service_call world"
  assumes "\<And>d. to_send (rp_meanwhile cfg d) = to_send d" "deliver_reply cfg now r raw photo w = (Inr u, w')"
  shows "result_processed (row_id r) (store w') \<and>
    (to_send (store w') = to_send (store w) \<or> reply_output cfg now r raw photo (store w'))"
proof -
  let ?h = "reply_handler cfg now r raw" and ?w = "w\<lparr>store := rp_meanwhile cfg (store w)\<rparr>"
  obtain t v where tx: "process_result_transactionally (rp_sha cfg) now (row_id r) (er_chat_id r) (er_thread_id r)
      (graph_state_of (rh_graph_state ?h)) (staff_outbounds r raw photo (rh_text ?h)) []
      (Some (build_external_result_summary_message r (rh_sender_role ?h) (rh_summary ?h))) ?w = (t, v)" by fastforce
  show ?thesis
  proof (cases t)
    case (Inl e)
    then show ?thesis using assms(2) tx
      by (auto simp: deliver_reply_def Let_def try_except_run andthen_run run_iffs raise_run)
  next
    case (Inr res)
    then have "w' = v" using assms(2) tx
      by (simp add: deliver_reply_def Let_def try_except_run andthen_run ret_run)
    then show ?thesis
      using process_result_settled [OF tx] Inr assms(1)
      by (auto simp: reply_output_def option_list_def Let_def split: if_splits)
  qed
qed

lemma record_keeps: "keeps (\<lambda>d. (t_results d, t_outbound d, t_commands d, t_messages d)) (record_reply_message c chat msg topic)"
  unfolding record_reply_message_def record_staff_reply_message_def
  by (intro keeps.stays_intros keeps.stays_update keeps_lift) (simp add: insert_case_message_def)

definition reply_stored :: "staff_config \<Rightarrow> time \<Rightarrow> dict \<Rightarrow> found_case \<Rightarrow> nat \<Rightarrow> db \<Rightarrow> db \<Rightarrow> bool" where
  "reply_stored cfg now upd fc i d d' \<longleftrightarrow>
     (let message = dict_of (dget upd ''message'') in
      result_processed i d' \<and>
      (to_send d' = to_send d \<or>
       reply_output cfg now (recorded_row cfg now upd fc i) (message_text message) (largest_photo_file_id message) d'))"

lemma reply_stored_kept:
  assumes "reply_stored cfg now upd fc i d d1"
    and "(t_results d2, t_outbound d2, t_commands d2, t_messages d2) = (t_results d1, t_outbound d1, t_commands d1, t_messages d1)"
  shows "reply_stored cfg now upd fc i d d2"
proof -
  have "adds_le d1 d2" "to_send d2 = to_send d1" "result_processed i d2 = result_processed i d1"
    using assms(2) by (simp_all add: adds_le_def result_processed_def)
  with assms(1) show ?thesis by (auto simp: reply_stored_def reply_output_def Let_def intro: output_known_mono)
qed

lemma er_insert_to_send: "er_insert_idempotent sha now x d = Inr (res, d') \<Longrightarrow> to_send d' = to_send d"
  by (auto simp: er_insert_idempotent_def Let_def split: option.splits prod.splits)

lemma process_case_reply_done:
  fixes w :: "service_call world"
  assumes "\<And>d. to_send (rp_meanwhile cfg d) = to_send d" "process_case_reply cfg now upd fc w = (Inr item, w')"
  shows "(\<exists>reason. item = Ignored reason) \<and> store w' = store w \<or> item = Duplicate (tc_id (fc_case fc)) \<and> store w' = store w
    \<or> item = Recorded (tc_id (fc_case fc)) \<and> (\<exists>i. reply_stored cfg now upd fc i (store w) (store w'))"
proof -
  note run = assms(2) [unfolded process_case_reply_def Let_def]
  obtain human w1 where q: "query (is_conversation_human_active (fc_conversation_id fc)) w = (Inr human, w1)"
    using run by (auto simp only: andthen_Inr_iff)
  have same: "store w1 = store w" using query_InrD [OF q] by simp
  note run1 = run [unfolded andthen_run(1) [where m = "query (is_conversation_human_active (fc_conversation_id fc))" and s = w, OF q]]
  show ?thesis
  proof (cases "human \<or> message_text (dict_of (dget upd ''message'')) = [] \<and> largest_photo_file_id (dict_of (dget upd ''message'')) = None")
    case True
    then show ?thesis using run1 same by (auto simp: ret_run split: if_splits)
  next
    case False
    then have active: "\<not> human" "\<not> (message_text (dict_of (dget upd ''message'')) = [] \<and> largest_photo_file_id (dict_of (dget upd ''message'')) = None)"
      by auto
    obtain res w2 where
      db: "er_insert_idempotent (rp_sha cfg) now (build_result_row cfg upd fc (message_text (dict_of (dget upd ''message'')))
          (case largest_photo_file_id (dict_of (dget upd ''message'')) of None \<Rightarrow> [] | Some f \<Rightarrow> [f])
          (str_or [] (dget (dict_of (dget (dict_of (dget upd ''message'')) ''chat'')) ''id'')) (telegram_topic (dict_of (dget upd ''message''))))
          (store w1) = Inr (res, store w2)"
      and rest: "(case res of None \<Rightarrow> ret (Duplicate (tc_id (fc_case fc)))
        | Some i \<Rightarrow> andthen (deliver_reply cfg now (recorded_row cfg now upd fc i) (message_text (dict_of (dget upd ''message'')))
             (largest_photo_file_id (dict_of (dget upd ''message'')))) (\<lambda>_.
           andthen (record_reply_message (tc_id (fc_case fc)) (str_or [] (dget (dict_of (dget (dict_of (dget upd ''message'')) ''chat'')) ''id''))
             (dget (dict_of (dget upd ''message'')) ''message_id'') (telegram_topic (dict_of (dget upd ''message'')))) (\<lambda>_.
           ret (Recorded (tc_id (fc_case fc)))))) w2 = (Inr item, w')"
      using run1 [unfolded if_not_P [OF active(1)] if_not_P [OF active(2)]]
      by (auto simp only: andthen_Inr_iff recorded_row_def Let_def dest!: stmt_InrD)
    show ?thesis
    proof (cases res)
      case None
      then show ?thesis using rest insert_reply [OF db] same by (auto simp: ret_run)
    next
      case (Some i)
      then obtain u v where d: "deliver_reply cfg now (recorded_row cfg now upd fc i) (message_text (dict_of (dget upd ''message'')))
             (largest_photo_file_id (dict_of (dget upd ''message''))) w2 = (Inr u, v)"
        and rec: "record_reply_message (tc_id (fc_case fc)) (str_or [] (dget (dict_of (dget (dict_of (dget upd ''message'')) ''chat'')) ''id''))
             (dget (dict_of (dget upd ''message'')) ''message_id'') (telegram_topic (dict_of (dget upd ''message''))) v = (Inr (), w')"
        and item: "item = Recorded (tc_id (fc_case fc))"
        using rest by (auto simp: run_iffs)
      have id: "row_id (recorded_row cfg now upd fc i) = i" by (simp add: recorded_row_def Let_def)
      have "to_send (store w2) = to_send (store w)"
        using er_insert_to_send [OF db] same by simp
      then have "reply_stored cfg now upd fc i (store w) (store v)"
        using deliver_reply_done [OF assms(1) d] id by (auto simp: reply_stored_def Let_def)
      from reply_stored_kept [OF this] have "reply_stored cfg now upd fc i (store w) (store w')"
        using stays_InrD [OF record_keeps rec] by simp
      with item show ?thesis by blast
    qed
  qed
qed


section \<open>The stream\<close>

lemma keeps_after:
  assumes "keeps f m" "\<And>d. f (g d) = f d"
  shows "keeps f (\<lambda>w. m (w\<lparr>store := g (store w)\<rparr>))"
  using staysD [OF assms(1)] by (simp add: stays_def assms(2))

lemma deliver_offsets:
  assumes "\<And>d. t_offsets (rp_meanwhile cfg d) = t_offsets d"
  shows "keeps t_offsets (deliver_reply cfg now r raw photo)"
proof -
  have step: "keeps t_offsets (process_result_transactionally sha now i chat thread gs outs cmds summary)"
    for sha i chat thread gs outs cmds summary
    unfolding process_result_transactionally_def process_result_body_def get_or_create_def result_done_def
      write_result_def update_case_def update_workflow_state_def add_optional_message_def add_message_def
      add_outbound_def add_command_def Let_def
    by (intro keeps.stays_intros keeps.stays_update keeps.stays_exec keeps.stays_stmt)
       (auto simp: cm_insert_idempotent_def ob_insert_idempotent_def ec_insert_idempotent_def er_mark_processed_def
         er_update_def update_case_status_def upsert_conversation_def workflow_update_def Let_def
         split: prod.splits option.splits)
  have settle: "keeps t_offsets (try_except
       (andthen (process_result_transactionally (rp_sha cfg) now (row_id r) (er_chat_id r) (er_thread_id r)
           gs (outs :: outbound_in list) [] summary) (\<lambda>_. ret ()))
       (\<lambda>e. andthen (update (er_mark_failed (row_id r) (exn_text e))) (\<lambda>_. raise e)))" for gs outs summary
    by (intro keeps.stays_intros keeps.stays_update keeps.stays_raise step) (simp add: er_mark_failed_def er_update_def)
  show ?thesis
    unfolding deliver_reply_def Let_def by (rule keeps_after [OF settle assms])
qed

lemma process_single_offsets:
  assumes "\<And>d. t_offsets (rp_meanwhile cfg d) = t_offsets d"
  shows "keeps t_offsets (process_single_update cfg now me upd)"
  unfolding process_single_update_def process_case_reply_def record_reply_message_def record_staff_reply_message_def Let_def
  by (intro keeps.stays_intros keeps.stays_update keeps.stays_stmt keeps_lift find_reply_keeps deliver_offsets assms)
     (auto simp: er_insert_idempotent_def insert_case_message_def split: option.splits prod.splits)

abbreviation failed_item :: "update_item \<Rightarrow> bool" where
  "failed_item item \<equiv> (case item of Failed _ \<Rightarrow> True | _ \<Rightarrow> False)"

lemma save_offset_keeps: "0 < u \<Longrightarrow> u \<le> get_offset k d \<Longrightarrow> u \<le> get_offset k (save_offset k v d)"
  by (auto simp: save_offset_def get_offset_def update_conv' split: option.splits)

lemma save_offset_covers: "v \<le> get_offset k (save_offset k v d)"
  "get_offset k (save_offset k v d) \<in> {v, get_offset k d}"
  by (auto simp: save_offset_def get_offset_def update_conv' max_def split: option.splits)

definition confirmed :: "string \<Rightarrow> (int \<times> update_item) list \<Rightarrow> db \<Rightarrow> db \<Rightarrow> bool" where
  "confirmed key items d d' \<longleftrightarrow>
     (\<forall>u. 0 < u \<longrightarrow> (u \<le> get_offset key d \<or> (\<exists>item. (u, item) \<in> set items \<and> \<not> failed_item item)) \<longrightarrow> u \<le> get_offset key d') \<and>
     (get_offset key d' = get_offset key d \<or> (\<exists>item. (get_offset key d', item) \<in> set items \<and> \<not> failed_item item))"

lemma confirmed_Cons:
  assumes "confirmed key items d1 d'" "\<not> failed_item item"
    and "get_offset key d1 = get_offset key (if uid \<noteq> 0 then save_offset key uid d else d)"
  shows "confirmed key ((uid, item) # items) d d'"
  using assms save_offset_keeps [where v = uid and k = key and d = d] save_offset_covers [where v = uid and k = key and d = d]
  unfolding confirmed_def by (auto split: if_splits)

lemma never_failed: "process_single_update cfg now me upd w \<noteq> (Inr (Failed e), w')"
  by (auto simp: process_single_update_def process_case_reply_def Let_def run_iffs split: option.splits if_splits)

text \<open>
  Claim C35.  The updates are handled in their order up to the first one that fails, which
  ends the batch.  The stored offset of the stream afterwards is at least the identifier of
  every update that was handled, at least what it was, and never the identifier of the
  one that failed: it is what it was, or the identifier of an update that was handled.
\<close>

theorem updates_confirmed_in_order:
  assumes "\<And>d. t_offsets (rp_meanwhile cfg d) = t_offsets d" "key \<noteq> []"
    and "process_telegram_updates cfg now me (Some key) upds w = (Inr items, w')"
  shows "map (Inr \<circ> fst) items = map update_id_of (take (length items) upds) \<and>
    (\<forall>x \<in> set (butlast items). \<not> failed_item (snd x)) \<and>
    (length items < length upds \<longrightarrow> items \<noteq> [] \<and> failed_item (snd (last items))) \<and>
    confirmed key items (store w) (store w')"
  using assms(3)
proof (induction upds arbitrary: w items)
  case Nil
  then show ?case by (simp add: ret_run confirmed_def)
next
  case (Cons upd upds)
  obtain uid x w1 where uid: "update_id_of upd = Inr uid" and x: "catching (process_single_update cfg now me upd) w = (Inr x, w1)"
    and rest: "(case x of Inl e \<Rightarrow> ret [(uid, Failed e)]
     | Inr item \<Rightarrow> andthen (if text_true (Some key) \<and> uid \<noteq> 0 then update (save_offset (text_or [] (Some key)) uid) else ret ()) (\<lambda>_.
         andthen (process_telegram_updates cfg now me (Some key) upds) (\<lambda>items. ret ((uid, item) # items)))) w1 = (Inr items, w')"
    using Cons.prems unfolding process_telegram_updates.simps andthen_Inr_iff lift_Inr_iff by blast
  have key: "text_true (Some key) = True" "text_or [] (Some key) = key" "\<And>b. (True \<and> b) = b"
    using assms(2) by (simp_all add: text_true_def text_or_def)
  have offs: "t_offsets (store w1) = t_offsets (store w)"
    by (rule stays_InrD [OF keeps_catching [OF process_single_offsets [OF assms(1)]] x])
  show ?case
  proof (cases x)
    case (Inl e)
    then show ?thesis using rest uid offs by (auto simp: ret_run confirmed_def get_offset_def)
  next
    case (Inr item)
    then obtain u w2 items' where save: "(if uid \<noteq> 0 then update (save_offset key uid) else ret ()) w1 = (Inr u, w2)"
      and tl: "process_telegram_updates cfg now me (Some key) upds w2 = (Inr items', w')" "items = (uid, item) # items'"
      using rest [unfolded Inr key] by (auto simp: run_iffs)
    have ok: "\<not> failed_item item"
      using x Inr never_failed by (auto simp: catching_Inr split: update_item.split)
    have "get_offset key (store w2) = get_offset key (if uid \<noteq> 0 then save_offset key uid (store w) else store w)"
      using save offs by (auto simp: ret_run get_offset_def save_offset_def split: if_splits dest!: update_InrD)
    with Cons.IH [OF tl(1)] ok uid tl(2) show ?thesis
      by (auto simp: confirmed_Cons)
  qed
qed

end
