(* ===== verification/Followups.thy ===== *)
theory Followups
  imports Staff_Replies "HOL-Library.Multiset"
begin

text \<open>
  Customers who write again about a case of money: the candidates
  (\<open>list_money_case_candidates\<close> of \<open>src/app/db/telegram_repositories.py\<close>) and which of
  them is meant (\<open>src/app/services/telegram_case_followup.py\<close>).  The regular expressions
  are arguments; the two time columns of the candidates, which nothing reads, are left out.
\<close>

section \<open>Candidates\<close>

definition money_case_dict :: "db \<Rightarrow> case_row \<Rightarrow> dict" where
  "money_case_dict d c =
     [(''id'', JInt (int (tc_id c))), (''tenant_id'', JStr (tc_tenant_id c)), (''conversation_id'', JStr (tc_conversation_id c)),
      (''current_conversation_id'', opt_json (tc_current_conversation_id c)), (''chat_id'', JStr (tc_chat_id c)),
      (''thread_id'', opt_json (tc_thread_id c)), (''current_thread_id'', opt_json (tc_current_thread_id c)),
      (''intent'', opt_json (tc_intent c)), (''active_workflow'', opt_json (tc_active_workflow c)),
      (''telegram_chat_id'', JStr (tc_telegram_chat_id c)),
      (''telegram_message_thread_id'', (case tc_telegram_thread_id c of None \<Rightarrow> JNull | Some t \<Rightarrow> JInt t)),
      (''root_message_id'', JInt (tc_root_message_id c)), (''status'', JStr (tc_status c)),
      (''slot_memory'', JObj (case find_conversation (tc_conversation_id c) d of
          None \<Rightarrow> [] | Some s \<Rightarrow> or_empty (cs_slot_memory s)))]"

definition closed_case_statuses :: "string list" where
  "closed_case_statuses = [''completed_confirmed_by_customer'', ''terminal_other'']"

definition select_money_cases :: "string \<Rightarrow> string \<Rightarrow> string \<Rightarrow> db \<Rightarrow> case_row list" where
  "select_money_cases tenant chat thread d =
     rev (sort_key tc_updated_at (sort_key tc_id (filter (\<lambda>c. tc_tenant_id c = tenant \<and> tc_chat_id c = chat \<and>
        text_or [] (coalesce (tc_current_thread_id c) (tc_thread_id c)) \<noteq> thread \<and>
        tc_intent c \<in> Some ` set money_intents \<and> tc_status c \<notin> set closed_case_statuses) (t_cases d))))"

definition set_legacy_status :: "time \<Rightarrow> string \<Rightarrow> nat \<Rightarrow> db \<Rightarrow> db" where
  "set_legacy_status now st i d =
     d\<lparr>t_cases := update_where (\<lambda>c. tc_id c = i \<and> tc_status c = ''created'')
         (\<lambda>c. c\<lparr>tc_status := st, tc_updated_at := to_timestamp now\<rparr>) (t_cases d)\<rparr>"

definition list_money_case_candidates ::
  "case_patterns \<Rightarrow> time \<Rightarrow> string \<Rightarrow> string \<Rightarrow> string \<Rightarrow> ('c world, dict list) act" where
  "list_money_case_candidates cp now tenant chat thread =
     andthen (query (\<lambda>d. map (\<lambda>c. (c, money_case_dict d c)) (select_money_cases tenant chat thread d))) (\<lambda>rows.
     andthen (each (\<lambda>(c, row). update (set_legacy_status now (normalize_legacy_case_status cp row) (tc_id c)))
        (filter (\<lambda>(c, _). tc_status c \<in> {[], ''created''}) rows)) (\<lambda>_.
     ret (map (\<lambda>(_, row). dput row ''status'' (JStr (normalize_legacy_case_status cp row))) rows)))"

section \<open>Which case is meant\<close>

record followup_patterns =
  fp_followup :: "string \<Rightarrow> bool"
  fp_confirmed :: "string \<Rightarrow> bool"
  fp_names :: "string \<Rightarrow> string \<Rightarrow> bool"

datatype followup_match =
    No_Case
  | Ambiguous_Case
  | Matched_Case dict string

definition transaction_keys :: "string list" where
  "transaction_keys = [''order_id'', ''order_no'', ''transaction_id'', ''transaction_ref'', ''reference'',
     ''withdrawal_id'', ''deposit_id'']"

definition transaction_values :: "dict \<Rightarrow> string list" where
  "transaction_values c =
     filter (\<lambda>v. v \<noteq> []) (map (\<lambda>k. str_strip (str_or [] (dget c k))) transaction_keys
       @ map (\<lambda>k. str_strip (str_or [] (dget (dict_of (dget c ''slot_memory'')) k))) transaction_keys)"

definition matched_case :: "bool \<Rightarrow> dict \<Rightarrow> followup_match" where
  "matched_case confirmed c = Matched_Case c
     (if confirmed then ''customer_confirmed_resolved''
      else if dget c ''status'' = JStr ''completed_by_staff'' then ''completion_dispute'' else ''pending_follow_up'')"

definition eligible_cases :: "case_patterns \<Rightarrow> bool \<Rightarrow> dict list \<Rightarrow> dict list" where
  "eligible_cases cp confirmation candidates =
     filter (\<lambda>c. dget c ''status'' \<notin> JStr ` set closed_case_statuses \<and>
         (confirmation \<or> dget c ''status'' \<noteq> JStr ''waiting_customer''))
       (map (\<lambda>c. dput c ''status'' (JStr (normalize_legacy_case_status cp c))) candidates)"

definition names_case :: "followup_patterns \<Rightarrow> string \<Rightarrow> dict \<Rightarrow> bool" where
  "names_case fp t c \<longleftrightarrow> list_ex (fp_names fp t) (transaction_values c)"

definition same_root :: "json \<Rightarrow> dict \<Rightarrow> bool" where
  "same_root root c \<longleftrightarrow> root \<noteq> JNull \<and> py_str (dget c ''root_message_id'') = py_str root"

definition resolve_money_case_followup ::
  "case_patterns \<Rightarrow> followup_patterns \<Rightarrow> dict list \<Rightarrow> string \<Rightarrow> json \<Rightarrow> followup_match" where
  "resolve_money_case_followup cp fp candidates t root =
     (let is_followup = fp_followup fp t; is_confirmation = fp_confirmed fp t \<and> \<not> is_followup;
          eligible = eligible_cases cp is_confirmation candidates in
      if \<not> is_followup \<and> \<not> is_confirmation then No_Case
      else if eligible = [] then No_Case
      else case filter (names_case fp t) eligible of
        [c] \<Rightarrow> matched_case is_confirmation c
      | _ # _ \<Rightarrow> Ambiguous_Case
      | [] \<Rightarrow>
          (case filter (same_root root) eligible of
             [c] \<Rightarrow> matched_case is_confirmation c
           | _ \<Rightarrow> (case eligible of [c] \<Rightarrow> matched_case is_confirmation c | _ \<Rightarrow> Ambiguous_Case)))"

definition build_money_case_followup_dedup_key :: "dict \<Rightarrow> string \<Rightarrow> string" where
  "build_money_case_followup_dedup_key c thread =
     ''telegram.case.followup:'' @ py_str (dget c ''telegram_chat_id'') @ '':'' @ py_str (dget c ''root_message_id'') @ '':'' @ thread"

section \<open>No guesses\<close>

lemma only_one: "(case xs of [x] \<Rightarrow> f x | _ \<Rightarrow> y) = (if length xs = 1 then f (hd xs) else y)"
  by (auto split: list.splits simp: length_Suc_conv)

lemma eligible_status:
  assumes "c \<in> set (eligible_cases cp confirmation candidates)"
  shows "\<exists>c0 \<in> set candidates. \<exists>st. c = dput c0 ''status'' (JStr st) \<and> st = normalize_legacy_case_status cp c0 \<and>
    st \<notin> set closed_case_statuses \<and> (confirmation \<or> st \<noteq> ''waiting_customer'')"
  using assms by (auto simp: eligible_cases_def closed_case_statuses_def)

lemma sole_filter:
  assumes "length (filter P xs) = 1"
  shows "hd (filter P xs) \<in> set xs \<and> P (hd (filter P xs)) \<and> (\<forall>x \<in> set xs. P x \<longrightarrow> x = hd (filter P xs))"
proof -
  obtain a where a: "filter P xs = [a]" using assms by (auto simp: length_Suc_conv)
  from arg_cong [OF a, of set] have "{x \<in> set xs. P x} = {a}" by simp
  then show ?thesis unfolding a list.sel by blast
qed

text \<open>The case the text is about, and the evidence for it.\<close>

definition evident_case :: "followup_patterns \<Rightarrow> string \<Rightarrow> json \<Rightarrow> dict list \<Rightarrow> dict \<Rightarrow> bool" where
  "evident_case fp t root eligible c \<longleftrightarrow> c \<in> set eligible \<and>
     (names_case fp t c \<and> (\<forall>x \<in> set eligible. names_case fp t x \<longrightarrow> x = c)
      \<or> (\<forall>x \<in> set eligible. \<not> names_case fp t x) \<and>
        (same_root root c \<and> (\<forall>x \<in> set eligible. same_root root x \<longrightarrow> x = c) \<or> eligible = [c]))"

lemma resolve_matched:
  assumes "resolve_money_case_followup cp fp candidates t root = Matched_Case c kind"
  defines "confirmation \<equiv> fp_confirmed fp t \<and> \<not> fp_followup fp t"
  defines "eligible \<equiv> eligible_cases cp confirmation candidates"
  shows "(fp_followup fp t \<or> confirmation) \<and> matched_case confirmation c = Matched_Case c kind \<and> evident_case fp t root eligible c"
proof -
  have some: "fp_followup fp t \<or> confirmation"
    using assms(1) by (auto simp: resolve_money_case_followup_def confirmation_def Let_def split: if_splits)
  have ne: "eligible \<noteq> []"
    using assms(1) by (auto simp: resolve_money_case_followup_def confirmation_def eligible_def Let_def split: if_splits)
  have run: "(case filter (names_case fp t) eligible of
        [c] \<Rightarrow> matched_case confirmation c
      | _ # _ \<Rightarrow> Ambiguous_Case
      | [] \<Rightarrow> if length (filter (same_root root) eligible) = 1 then matched_case confirmation (hd (filter (same_root root) eligible))
             else if length eligible = 1 then matched_case confirmation (hd eligible) else Ambiguous_Case) = Matched_Case c kind"
    using assms(1) some ne unfolding resolve_money_case_followup_def Let_def confirmation_def [symmetric] eligible_def [symmetric] only_one
    by (simp split: if_splits)
  have kind: "matched_case confirmation x = Matched_Case c kind \<Longrightarrow> x = c" for x
    by (simp add: matched_case_def)
  show ?thesis
  proof (cases "filter (names_case fp t) eligible")
    case Nil
    then have none: "\<forall>x \<in> set eligible. \<not> names_case fp t x" by (simp add: filter_empty_conv)
    show ?thesis
    proof (cases "length (filter (same_root root) eligible) = 1")
      case True
      with run Nil have m: "matched_case confirmation (hd (filter (same_root root) eligible)) = Matched_Case c kind" by simp
      from sole_filter [OF True] kind [OF m] m none some show ?thesis unfolding evident_case_def by metis
    next
      case False
      with run Nil have one: "length eligible = 1" and m: "matched_case confirmation (hd eligible) = Matched_Case c kind"
        by (auto split: if_splits)
      have "eligible = [hd eligible]" using one by (cases eligible) auto
      then have "eligible = [c]" using kind [OF m] by simp
      then show ?thesis using m none some by (simp add: evident_case_def)
    qed
  next
    case (Cons x xs)
    then have "xs = []" "matched_case confirmation x = Matched_Case c kind"
      using run by (cases xs; simp)+
    moreover have "length (filter (names_case fp t) eligible) = 1" using Cons calculation by simp
    ultimately show ?thesis
      using sole_filter [of "names_case fp t" eligible] Cons kind [of x] some by (auto simp: evident_case_def)
  qed
qed

text \<open>
  Claim C36.  A customer who writes again is never matched to a case by a guess.  The case
  is one of the candidates, not a closed one and none that waits for the customer (unless
  the customer confirms); and either it is the only one whose transaction the text names,
  or no transaction is named and it is the only one of the inherited message, or the
  only candidate that is left.  It is confirmed as resolved only by a text that confirms and
  does not ask again.
\<close>

theorem followup_never_guesses:
  assumes "resolve_money_case_followup cp fp candidates t root = Matched_Case c kind"
  defines "confirmation \<equiv> fp_confirmed fp t \<and> \<not> fp_followup fp t"
  shows "evident_case fp t root (eligible_cases cp confirmation candidates) c \<and>
    (\<exists>c0 \<in> set candidates. \<exists>st. c = dput c0 ''status'' (JStr st) \<and> st = normalize_legacy_case_status cp c0 \<and>
      st \<notin> set closed_case_statuses \<and> (confirmation \<or> st \<noteq> ''waiting_customer'')) \<and>
    (kind = ''customer_confirmed_resolved'' \<longleftrightarrow> confirmation) \<and>
    (kind = ''completion_dispute'' \<longleftrightarrow> \<not> confirmation \<and> dget c ''status'' = JStr ''completed_by_staff'')"
proof -
  note m = resolve_matched [OF assms(1), folded confirmation_def]
  then have "c \<in> set (eligible_cases cp confirmation candidates)" by (simp add: evident_case_def)
  moreover have "kind = (if confirmation then ''customer_confirmed_resolved''
      else if dget c ''status'' = JStr ''completed_by_staff'' then ''completion_dispute'' else ''pending_follow_up'')"
    using m by (simp add: matched_case_def)
  ultimately show ?thesis using m eligible_status by (auto split: if_splits)
qed

section \<open>The order of the candidates\<close>

lemma sole_mset:
  assumes "mset xs = mset ys" "length ys = 1"
  shows "hd xs = hd ys"
proof -
  from assms(2) obtain y where "ys = [y]" by (auto simp: length_Suc_conv)
  with assms(1) show ?thesis by simp
qed

lemma resolve_by_length:
  "resolve_money_case_followup cp fp candidates t root =
     (let confirmation = fp_confirmed fp t \<and> \<not> fp_followup fp t; eligible = eligible_cases cp confirmation candidates;
          named = filter (names_case fp t) eligible; inherited = filter (same_root root) eligible in
      if \<not> fp_followup fp t \<and> \<not> confirmation \<or> length eligible = 0 then No_Case
      else if length named = 1 then matched_case confirmation (hd named)
      else if length named \<noteq> 0 then Ambiguous_Case
      else if length inherited = 1 then matched_case confirmation (hd inherited)
      else if length eligible = 1 then matched_case confirmation (hd eligible) else Ambiguous_Case)"
  unfolding resolve_money_case_followup_def Let_def only_one by (auto split: list.split)

text \<open>The order in which the database returns the candidates does not matter.\<close>

lemma resolve_order:
  assumes "mset candidates' = mset candidates"
  shows "resolve_money_case_followup cp fp candidates' t root = resolve_money_case_followup cp fp candidates t root"
proof -
  have el: "mset (eligible_cases cp b candidates') = mset (eligible_cases cp b candidates)" for b
    using assms by (simp add: eligible_cases_def)
  have fl: "mset (filter P (eligible_cases cp b candidates')) = mset (filter P (eligible_cases cp b candidates))" for P b
    using el [of b] by simp
  show ?thesis
    unfolding resolve_by_length Let_def
    by (simp only: mset_eq_length [OF el] mset_eq_length [OF fl] sole_mset [OF el] sole_mset [OF fl] cong: if_cong)
qed

end
