(* ===== verification/Witnesses_Replies.thy ===== *)
theory Witnesses_Replies
  imports Witnesses_Results Reply_Safety Followups
begin

text \<open>A case of a customer, the answer of the staff to it, and the stream that brings it.\<close>

definition staff_sample :: staff_config where
  "staff_sample = \<lparr>rp_sha = id,
     rp_texts = \<lparr>st_rewriter = None, st_enabled = False, st_classify = (\<lambda>_. ''resolution''), st_fallback = (\<lambda>t _. t),
       st_facts_ok = (\<lambda>_ _. True), st_untranslated = (\<lambda>_ _. False), st_internal_label = (\<lambda>_. False)\<rparr>,
     rp_patterns = \<lparr>cp_ask = (\<lambda>_. False), cp_wait = (\<lambda>_. False), cp_terminal = (\<lambda>_. False),
       cp_success = (\<lambda>t. t = ''paid''), cp_negated = (\<lambda>_. False), cp_deposit = (\<lambda>_. False), cp_withdrawal = (\<lambda>_. False),
       cp_credited = (\<lambda>t. t = ''paid''), cp_received = (\<lambda>_. False)\<rparr>,
     rp_composer = None, rp_llm_enabled = False, rp_must_not_say = [], rp_text = id, rp_meanwhile = id, rp_utc = id,
     rp_targets = [''-5''], rp_services = accepting\<rparr>"

definition sample_case :: case_row where
  "sample_case = \<lparr>tc_id = 7, tc_tenant_id = ''default'', tc_conversation_id = ''livechat:c1'',
     tc_current_conversation_id = None, tc_chat_id = ''c1'', tc_thread_id = None, tc_current_thread_id = None,
     tc_inbound_event_id = Some 1, tc_external_command_id = 2, tc_intent = Some ''deposit_missing'',
     tc_active_workflow = None, tc_telegram_chat_id = ''-5'', tc_telegram_thread_id = None,
     tc_root_message_id = 40, tc_status = ''under_review'', tc_updated_at = 0\<rparr>"

definition case_db :: db where
  "case_db = empty_db\<lparr>t_cases := [sample_case],
     t_case_messages := [\<lparr>tm_id = 1, tm_case_id = 7, tm_chat_id = ''-5'', tm_thread_id = None, tm_message_id = 40, tm_kind = ''case''\<rparr>]\<rparr>"

definition staff_answer :: dict where
  "staff_answer = [(''update_id'', JInt 3), (''message'', JObj [(''message_id'', JInt 41),
     (''chat'', JObj [(''id'', JInt (-5))]), (''from'', JObj [(''id'', JInt 9)]),
     (''text'', JStr ''paid''), (''reply_to_message'', JObj [(''message_id'', JInt 40)])])]"

abbreviation answer_run :: "bool list \<Rightarrow> (exn + update_item) \<times> service_call world" where
  "answer_run fs \<equiv> process_single_update staff_sample 0 JNull staff_answer ((fresh_world case_db)\<lparr>faults := fs\<rparr>)"


section \<open>A reply that is lost\<close>

text \<open>
  The first attempt loses the connection when its transaction begins; the update comes
  again, is a duplicate and changes nothing: the result stays FAILED and nothing is sent.
\<close>

abbreviation lost_run :: "(exn + update_item) \<times> service_call world" where
  "lost_run \<equiv> answer_run [False, False, False, True]"

abbreviation again_run :: "(exn + update_item) \<times> service_call world" where
  "again_run \<equiv> process_single_update staff_sample 1 JNull staff_answer ((snd lost_run)\<lparr>faults := []\<rparr>)"

lemma finds_sample:
  assumes "map_sum id (map_option (\<lambda>fc. tc_id (fc_case fc))) (fst (find_reply_case staff_answer w)) = Inr (Some 7)"
  shows "replies_to staff_answer 7 w"
  using assms by (auto simp: replies_to_def)

theorem reply_acted_on_once_witness:
  "fst lost_run = Inl (DbError ''connection'') \<and> left_alone (fst again_run) \<and>
   map status (t_results (store (snd again_run))) = [''FAILED'']"
proof -
  have run: "fst lost_run = Inl (DbError ''connection'')" "map status (t_results (store (snd lost_run))) = [''FAILED'']"
    by code_simp+
  have others: "\<And>d. keys_le d (rp_meanwhile staff_sample d)" by (simp add: staff_sample_def known.R_refl)
  have changed: "store (snd lost_run) \<noteq> store ((fresh_world case_db)\<lparr>faults := [False, False, False, True]\<rparr>)"
    using run(2) by (auto simp: fresh_world_def case_db_def empty_db_def)
  have found: "replies_to staff_answer 7 ((fresh_world case_db)\<lparr>faults := [False, False, False, True]\<rparr>)"
    by (rule finds_sample) code_simp
  have again: "replies_to staff_answer 7 ((snd lost_run)\<lparr>faults := []\<rparr>)"
    by (rule finds_sample) code_simp
  have "keys_le (store (snd lost_run)) (store ((snd lost_run)\<lparr>faults := []\<rparr>))" by (simp add: known.R_refl)
  from reply_acted_on_once [OF others surjective_pairing changed found this again surjective_pairing] run
  show ?thesis by simp
qed

section \<open>The stream\<close>

abbreviation stream_run :: "(exn + (int \<times> update_item) list) \<times> service_call world" where
  "stream_run \<equiv> process_telegram_updates staff_sample 0 JNull (Some ''k'') [staff_answer] (fresh_world case_db)"

theorem updates_confirmed_in_order_witness: "get_offset ''k'' (store (snd stream_run)) = 3"
proof -
  have run: "fst stream_run = Inr [(3, Recorded 7)]" by code_simp
  then have eq: "stream_run = (Inr [(3, Recorded 7)], snd stream_run)" by (simp add: prod_eq_iff)
  have others: "\<And>d. t_offsets (rp_meanwhile staff_sample d) = t_offsets d" by (simp add: staff_sample_def)
  have key: "''k'' \<noteq> []" by simp
  have "get_offset ''k'' (store (fresh_world case_db)) = 0" by (simp add: fresh_world_def case_db_def empty_db_def get_offset_def)
  with updates_confirmed_in_order [OF others key eq] show ?thesis by (auto simp: confirmed_def)
qed

section \<open>A customer who writes again\<close>

definition asks_again :: followup_patterns where
  "asks_again = \<lparr>fp_followup = (\<lambda>_. True), fp_confirmed = (\<lambda>_. False), fp_names = (\<lambda>t v. t = v)\<rparr>"

definition two_cases :: "dict list" where
  "two_cases = [[(''id'', JInt 1), (''status'', JStr ''under_review'')],
     [(''id'', JInt 2), (''status'', JStr ''completed_by_staff''), (''slot_memory'', JObj [(''order_id'', JStr ''D77'')])]]"

theorem followup_never_guesses_witness:
  "\<exists>c. evident_case asks_again ''D77'' JNull (eligible_cases (rp_patterns staff_sample) False two_cases) c \<and>
     dget c ''status'' = JStr ''completed_by_staff''"
proof -
  have run: "resolve_money_case_followup (rp_patterns staff_sample) asks_again two_cases ''D77'' JNull
      = matched_case False (dput (two_cases ! 1) ''status'' (JStr ''completed_by_staff''))"
    "matched_case False (dput (two_cases ! 1) ''status'' (JStr ''completed_by_staff''))
      = Matched_Case (dput (two_cases ! 1) ''status'' (JStr ''completed_by_staff'')) ''completion_dispute''"
    by code_simp+
  have conf: "(fp_confirmed asks_again ''D77'' \<and> \<not> fp_followup asks_again ''D77'') = False" by (simp add: asks_again_def)
  from followup_never_guesses [OF run(1) [unfolded run(2)], unfolded conf] show ?thesis by blast
qed

end
