(* ===== verification/Telegram_Client.thy ===== *)
theory Telegram_Client
  imports Service_Calls
begin

text \<open>
  \<open>src/app/channels/telegram/sender_client.py\<close>: requests to Telegram, how their errors
  are classified and cleaned of secrets, photos with their fallback, and the three
  operations of the command worker on a case.

  The HTTP transport is an argument: for each request, after the calls made so far, a reply,
  an HTTP error (status, data of the body, text) or a failure of the network.  The
  encoding of a multipart body is left to it, and so is the name of a downloaded file.
\<close>

section \<open>Secrets\<close>

text \<open>\<open>str.replace\<close> with a nonempty first argument.\<close>

fun replace_all :: "string \<Rightarrow> string \<Rightarrow> string \<Rightarrow> string" where
  "replace_all old new [] = []"
| "replace_all old new (c # s) =
     (if starts_with (c # s) old then new @ replace_all old new (drop (length old - 1) s)
      else c # replace_all old new s)"

record telegram_config =
  tg_token :: string
  tg_auth :: "string option"
  tg_max_bytes :: int
  tg_by_download :: bool
  tg_filename :: "string \<Rightarrow> string \<Rightarrow> string"

definition redact_token :: "telegram_config \<Rightarrow> string \<Rightarrow> string" where
  "redact_token cfg s =
     (if tg_token cfg = [] then s else replace_all (tg_token cfg) ''[REDACTED_TELEGRAM_TOKEN]'' s)"

definition redact_auth :: "telegram_config \<Rightarrow> string \<Rightarrow> string" where
  "redact_auth cfg s =
     (if text_true (tg_auth cfg)
      then replace_all (text_or [] (tg_auth cfg)) ''[REDACTED_AUTHORIZATION]'' (redact_token cfg s)
      else redact_token cfg s)"

section \<open>Requests\<close>

datatype http_outcome =
    Reply json
  | Http_Error int dict string
  | Network_Error string

type_synonym transport = "service_call list \<Rightarrow> service_call \<Rightarrow> http_outcome"

definition retry_codes :: "int list" where
  "retry_codes = [429, 500, 502, 503, 504]"

definition error_code_of :: "dict \<Rightarrow> int option" where
  "error_code_of d = (case dget d ''error_code'' of JInt i \<Rightarrow> Some i | _ \<Rightarrow> None)"

definition retry_code :: "int option \<Rightarrow> bool" where
  "retry_code c = (case c of None \<Rightarrow> False | Some i \<Rightarrow> i \<in> set retry_codes)"

definition exchange :: "transport \<Rightarrow> service_call \<Rightarrow> http_outcome job" where
  "exchange tr c w = (Inr (tr (calls w) c), w\<lparr>calls := calls w @ [c]\<rparr>)"

definition api_result :: "(string \<Rightarrow> string) \<Rightarrow> http_outcome \<Rightarrow> exn + dict" where
  "api_result redact out =
     (case out of
        Http_Error st d s \<Rightarrow>
          Inl (TelegramError (redact (str_or s (dget d ''description''))) (Some st) (error_code_of d) (Some d) (st \<in> set retry_codes))
      | Network_Error s \<Rightarrow> Inl (TelegramError (redact s) None None None True)
      | Reply j \<Rightarrow>
          (let d = dict_of j in
           if truthy (dget d ''ok'') then Inr d
           else Inl (TelegramError (redact (str_or ''Telegram API returned ok=false'' (dget d ''description''))) None
                  (error_code_of d) (Some d) (retry_code (error_code_of d)))))"

definition telegram_request :: "telegram_config \<Rightarrow> transport \<Rightarrow> string \<Rightarrow> dict \<Rightarrow> dict job" where
  "telegram_request cfg tr meth body =
     andthen (exchange tr (Telegram meth (filter (\<lambda>(_, v). v \<noteq> JNull) body))) (\<lambda>out.
     lift (api_result (redact_token cfg) out))"

definition send_message :: "telegram_config \<Rightarrow> transport \<Rightarrow> json \<Rightarrow> string \<Rightarrow> json \<Rightarrow> json \<Rightarrow> dict job" where
  "send_message cfg tr chat t thread reply_to =
     telegram_request cfg tr ''sendMessage''
       [(''chat_id'', chat), (''text'', JStr t), (''message_thread_id'', thread), (''reply_to_message_id'', reply_to),
        (''disable_web_page_preview'', JBool True)]"

definition edit_message_text :: "telegram_config \<Rightarrow> transport \<Rightarrow> json \<Rightarrow> int \<Rightarrow> string \<Rightarrow> json \<Rightarrow> dict job" where
  "edit_message_text cfg tr chat msg t thread =
     telegram_request cfg tr ''editMessageText''
       [(''chat_id'', chat), (''message_id'', JInt msg), (''text'', JStr t), (''message_thread_id'', thread),
        (''disable_web_page_preview'', JBool True)]"

section \<open>Photos\<close>

definition should_raise_retryable :: "exn \<Rightarrow> bool" where
  "should_raise_retryable e =
     (case e of TelegramError _ st code _ again \<Rightarrow> again \<or> retry_code st \<or> retry_code code | _ \<Rightarrow> True)"

record attachment =
  at_filename :: string
  at_type :: string
  at_data :: string

definition too_large :: exn where
  "too_large = TelegramError ''attachment too large'' (Some 413) None None False"

definition download_attachment :: "telegram_config \<Rightarrow> transport \<Rightarrow> string \<Rightarrow> attachment job" where
  "download_attachment cfg tr url =
     andthen (exchange tr (LoadFile url)) (\<lambda>out. lift (case out of
        Http_Error st _ s \<Rightarrow> Inl (TelegramError (redact_auth cfg s) (Some st) None None (500 \<le> st))
      | Network_Error s \<Rightarrow> Inl (TelegramError (redact_auth cfg s) None None None True)
      | Reply j \<Rightarrow>
          (let d = dict_of j; len = dget d ''Content-Length''; data = str_or [] (dget d ''data'');
               ctype = str_or ''application/octet-stream'' (dget d ''Content-Type'');
               short = str_strip (takeWhile (\<lambda>c. c \<noteq> CHR '';'') ctype);
               file = \<lparr>at_filename = tg_filename cfg url ctype,
                        at_type = (if short = [] then ''application/octet-stream'' else short), at_data = data\<rparr> in
           case (if truthy len then py_int_of len else Inr 0) of
             Inl e \<Rightarrow> Inl e
           | Inr n \<Rightarrow> if n > tg_max_bytes cfg \<or> int (length data) > tg_max_bytes cfg then Inl too_large else Inr file)))"

definition truncate_caption :: "json \<Rightarrow> json" where
  "truncate_caption caption = (if caption = JNull then JNull else JStr (take 1024 (py_str caption)))"

definition send_photo_multipart ::
  "telegram_config \<Rightarrow> transport \<Rightarrow> json \<Rightarrow> attachment \<Rightarrow> json \<Rightarrow> json \<Rightarrow> json \<Rightarrow> dict job" where
  "send_photo_multipart cfg tr chat file caption thread reply_to =
     andthen (exchange tr (Telegram ''sendPhoto'' (filter (\<lambda>(_, v). v \<noteq> JNull)
        [(''chat_id'', chat), (''caption'', truncate_caption caption), (''message_thread_id'', thread),
         (''reply_to_message_id'', reply_to),
         (''photo'', JObj [(''filename'', JStr (at_filename file)), (''content_type'', JStr (at_type file)),
            (''data'', JStr (at_data file))])]))) (\<lambda>out.
     lift (api_result (redact_auth cfg) out))"

text \<open>
  Documents (the report of the chats).  \<open>read\<close> is the content of the file, \<open>basename\<close> the name
  in its path and \<open>guess\<close> the type guessed from the name.
\<close>

definition send_document_multipart ::
  "telegram_config \<Rightarrow> transport \<Rightarrow> json \<Rightarrow> attachment \<Rightarrow> json \<Rightarrow> json \<Rightarrow> json \<Rightarrow> dict job" where
  "send_document_multipart cfg tr chat file caption thread reply_to =
     andthen (exchange tr (Telegram ''sendDocument'' (filter (\<lambda>(_, v). v \<noteq> JNull)
        [(''chat_id'', chat), (''caption'', caption), (''message_thread_id'', thread), (''reply_to_message_id'', reply_to),
         (''document'', JObj [(''filename'', JStr (at_filename file)), (''content_type'', JStr (at_type file)),
            (''data'', JStr (at_data file))])]))) (\<lambda>out.
     lift (api_result (redact_auth cfg) out))"

definition send_document ::
  "telegram_config \<Rightarrow> transport \<Rightarrow> (string \<Rightarrow> exn + string) \<Rightarrow> (string \<Rightarrow> string) \<Rightarrow> (string \<Rightarrow> string option)
     \<Rightarrow> json \<Rightarrow> string \<Rightarrow> json \<Rightarrow> json \<Rightarrow> json \<Rightarrow> dict job" where
  "send_document cfg tr read basename guess chat path caption thread reply_to =
     andthen (lift (read path)) (\<lambda>data.
     send_document_multipart cfg tr chat
       \<lparr>at_filename = basename path, at_type = text_or ''application/octet-stream'' (guess (basename path)), at_data = data\<rparr>
       caption thread reply_to)"

fun join_lines :: "string list \<Rightarrow> string" where
  "join_lines [] = []"
| "join_lines [x] = x"
| "join_lines (x # y # xs) = x @ CHR 0x0A # join_lines (y # xs)"

definition fallback_text :: "telegram_config \<Rightarrow> string \<Rightarrow> json \<Rightarrow> string \<Rightarrow> string" where
  "fallback_text cfg url caption reason =
     join_lines (filter (\<lambda>p. p \<noteq> [])
       [''[Attachment fallback]'', str_or [] caption, url, ''Reason: '' @ redact_auth cfg reason])"

definition send_attachment_fallback ::
  "telegram_config \<Rightarrow> transport \<Rightarrow> json \<Rightarrow> string \<Rightarrow> json \<Rightarrow> string \<Rightarrow> json \<Rightarrow> json \<Rightarrow> dict job" where
  "send_attachment_fallback cfg tr chat url caption reason thread reply_to =
     andthen (send_message cfg tr chat (fallback_text cfg url caption reason) thread reply_to) (\<lambda>r.
     ret (dmerge r [(''fallback'', JBool True), (''fallback_reason'', JStr (redact_auth cfg reason))]))"

definition upload_photo ::
  "telegram_config \<Rightarrow> transport \<Rightarrow> json \<Rightarrow> string \<Rightarrow> json \<Rightarrow> json \<Rightarrow> json \<Rightarrow> dict job" where
  "upload_photo cfg tr chat url caption thread reply_to =
     (if tg_by_download cfg
      then andthen (download_attachment cfg tr url) (\<lambda>file.
           andthen (send_photo_multipart cfg tr chat file caption thread reply_to) (\<lambda>r.
           ret (dmerge r [(''fallback'', JBool False), (''upload_mode'', JStr ''multipart'')])))
      else andthen (telegram_request cfg tr ''sendPhoto''
             [(''chat_id'', chat), (''photo'', JStr url), (''caption'', caption), (''message_thread_id'', thread),
              (''reply_to_message_id'', reply_to)]) (\<lambda>r.
           ret (dmerge r [(''fallback'', JBool False), (''upload_mode'', JStr ''url'')])))"

definition send_photo_from_url ::
  "telegram_config \<Rightarrow> transport \<Rightarrow> json \<Rightarrow> string \<Rightarrow> json \<Rightarrow> json \<Rightarrow> json \<Rightarrow> dict job" where
  "send_photo_from_url cfg tr chat url caption thread reply_to =
     try_except (upload_photo cfg tr chat url caption thread reply_to) (\<lambda>e.
       case e of
         TelegramError desc _ _ _ _ \<Rightarrow>
           if should_raise_retryable e then raise e
           else send_attachment_fallback cfg tr chat url caption desc thread reply_to
       | _ \<Rightarrow> raise e)"

section \<open>Cases\<close>

text \<open>\<open>d[k]\<close> and \<open>d[k][l]\<close>\<close>

definition item_of :: "dict \<Rightarrow> string \<Rightarrow> exn + json" where
  "item_of d k = (case map_of d k of None \<Rightarrow> Inl (KeyError k) | Some v \<Rightarrow> Inr v)"

definition message_id_of :: "dict \<Rightarrow> exn + json" where
  "message_id_of d = (case item_of d ''result'' of
     Inl e \<Rightarrow> Inl e
   | Inr (JObj r) \<Rightarrow> item_of r ''message_id''
   | Inr _ \<Rightarrow> Inl (TypeError ''not subscriptable''))"

text \<open>The chat, the text and the URLs of what is sent are there: the worker renders them.\<close>

record rendered =
  rd_chat :: json
  rd_text :: string
  rd_thread :: json
  rd_attachments :: "(string \<times> json) list"

definition send_attachments :: "telegram_config \<Rightarrow> transport \<Rightarrow> rendered \<Rightarrow> json \<Rightarrow> dict list job" where
  "send_attachments cfg tr x reply_to =
     each (\<lambda>(url, name). send_photo_from_url cfg tr (rd_chat x) url name (rd_thread x) reply_to) (rd_attachments x)"

definition send_case_card :: "telegram_config \<Rightarrow> transport \<Rightarrow> rendered \<Rightarrow> (json \<times> dict list) job" where
  "send_case_card cfg tr x =
     andthen (send_message cfg tr (rd_chat x) (rd_text x) (rd_thread x) JNull) (\<lambda>main.
     andthen (lift (message_id_of main)) (\<lambda>msg.
     andthen (send_attachments cfg tr x msg) (\<lambda>rs. ret (msg, rs))))"

definition append_to_case :: "telegram_config \<Rightarrow> transport \<Rightarrow> rendered \<Rightarrow> json \<Rightarrow> json \<Rightarrow> (json \<times> json \<times> dict list) job" where
  "append_to_case cfg tr x edit reply =
     (let edit_id = or_json edit reply in
      andthen (lift (py_int_of edit_id)) (\<lambda>i.
      andthen (edit_message_text cfg tr (rd_chat x) i (rd_text x) (rd_thread x)) (\<lambda>upd.
      let msg = or_json (dget (dict_of (dget upd ''result'')) ''message_id'') edit_id; reply_to = or_json reply msg in
      andthen (send_attachments cfg tr x reply_to) (\<lambda>rs. ret (msg, reply_to, rs)))))"

fun try_attachments :: "telegram_config \<Rightarrow> transport \<Rightarrow> rendered \<Rightarrow> json \<Rightarrow> (string \<times> json) list
    \<Rightarrow> (dict list \<times> (json \<times> string \<times> string) list) job" where
  "try_attachments cfg tr x reply_to [] = ret ([], [])"
| "try_attachments cfg tr x reply_to ((url, name) # as) =
     andthen (catching (send_photo_from_url cfg tr (rd_chat x) url name (rd_thread x) reply_to)) (\<lambda>r.
     andthen (try_attachments cfg tr x reply_to as) (\<lambda>(rs, es).
     ret (case r of Inl e \<Rightarrow> (rs, (name, url, exn_text e) # es) | Inr d \<Rightarrow> (d # rs, es))))"

definition send_case_followup :: "telegram_config \<Rightarrow> transport \<Rightarrow> rendered \<Rightarrow> json
    \<Rightarrow> (int \<times> dict list \<times> (json \<times> string \<times> string) list) job" where
  "send_case_followup cfg tr x root =
     andthen (lift (py_int_of root)) (\<lambda>r.
     andthen (send_message cfg tr (rd_chat x) (rd_text x) (rd_thread x) (JInt r)) (\<lambda>main.
     andthen (lift (message_id_of main)) (\<lambda>m.
     andthen (lift (py_int_of m)) (\<lambda>msg.
     andthen (try_attachments cfg tr x (JInt msg) (rd_attachments x)) (\<lambda>(rs, es).
     ret (msg, rs, es))))))"

section \<open>No secret in an error\<close>

lemma starts_with_Cons: "starts_with (c # s) (d # p) \<longleftrightarrow> c = d \<and> starts_with s p"
  by (simp add: starts_with_def)

lemma starts_with_Nil: "starts_with s []" "starts_with [] p \<longleftrightarrow> p = []"
  by (auto simp: starts_with_def)

lemma contains_drop: "str_contains p (drop n s) \<Longrightarrow> str_contains p s"
  by (induction n arbitrary: s) (simp, case_tac s, auto)

lemma starts_with_append: "starts_with (xs @ ys) p \<Longrightarrow> xs \<noteq> [] \<Longrightarrow> last xs \<notin> set p \<Longrightarrow> starts_with xs p"
  by (induction xs arbitrary: p; case_tac p) (auto simp: starts_with_Cons starts_with_Nil split: if_splits)

lemma contains_append: "str_contains p (xs @ ys) \<Longrightarrow> xs \<noteq> [] \<Longrightarrow> last xs \<notin> set p \<Longrightarrow> str_contains p xs \<or> str_contains p ys"
proof (induction xs)
  case (Cons x xs)
  then show ?case
    using starts_with_append [of "x # xs" ys p] by (cases xs) auto
qed simp

text \<open>A mark that shares no bracket with a word brings no occurrence of the word.\<close>

definition marks :: "string \<Rightarrow> string \<Rightarrow> bool" where
  "marks new p \<longleftrightarrow> new \<noteq> [] \<and> hd new \<notin> set p \<and> last new \<notin> set p \<and> \<not> str_contains p new"

lemma replace_starts:
  assumes "starts_with (replace_all old new s) p" "new \<noteq> []" "hd new \<notin> set p"
  shows "starts_with s p"
  using assms
proof (induction old new s arbitrary: p rule: replace_all.induct)
  case (2 old new c s)
  show ?case
  proof (cases p)
    case (Cons d q)
    show ?thesis
    proof (cases "starts_with (c # s) old")
      case True
      then show ?thesis using 2 Cons by (cases new) (auto simp: starts_with_Cons)
    next
      case False
      then show ?thesis using 2 Cons by (simp add: starts_with_Cons)
    qed
  qed (simp add: starts_with_Nil)
qed simp

lemma replace_contains:
  assumes "str_contains p (replace_all old new s)" "marks new p"
  shows "str_contains p s"
  using assms
proof (induction old new s rule: replace_all.induct)
  case (2 old new c s)
  show ?case
  proof (cases "starts_with (c # s) old")
    case True
    then have "str_contains p (new @ replace_all old new (drop (length old - 1) s))" using 2(3) by simp
    then have "str_contains p (replace_all old new (drop (length old - 1) s))"
      using contains_append 2(4) by (auto simp: marks_def)
    from contains_drop [OF 2(1) [OF True this 2(4)]] show ?thesis by simp
  next
    case False
    have "starts_with (c # s) p \<or> str_contains p (replace_all old new s)"
      using 2(3,4) replace_starts [of old new "c # s" p] False by (auto simp: marks_def)
    then show ?thesis using 2(2) [OF False] 2(4) by auto
  qed
qed simp

lemma replaced_gone:
  assumes "marks new old" "old \<noteq> []"
  shows "\<not> str_contains old (replace_all old new s)"
  using assms
proof (induction old new s rule: replace_all.induct)
  case (2 old new c s)
  show ?case
  proof (cases "starts_with (c # s) old")
    case True
    then show ?thesis using 2(1) [OF True] 2(3,4) contains_append [of old new] by (auto simp: marks_def)
  next
    case False
    have "\<not> starts_with (c # replace_all old new s) old"
      using replace_starts [of old new "c # s" old] False 2(3) by (auto simp: marks_def)
    then show ?thesis using 2(2) [OF False 2(3,4)] False by simp
  qed
qed simp

text \<open>
  A token of Telegram is a number, a colon and letters.
\<close>

definition token_shape :: "string \<Rightarrow> bool" where
  "token_shape t \<longleftrightarrow> CHR '':'' \<in> set t \<and> CHR ''['' \<notin> set t \<and> CHR '']'' \<notin> set t"

lemma contains_set: "str_contains p s \<Longrightarrow> set p \<subseteq> set s"
proof (induction s)
  case (Cons c s)
  then show ?case
    by (auto simp: starts_with_def) (metis in_set_takeD set_ConsD)
qed simp

lemma token_marks:
  assumes "token_shape t"
  shows "marks ''[REDACTED_TELEGRAM_TOKEN]'' t" "marks ''[REDACTED_AUTHORIZATION]'' t" "t \<noteq> []"
proof -
  have "\<not> str_contains t s" if "CHR '':'' \<notin> set s" for s
    using contains_set that assms by (auto simp: token_shape_def)
  then show "marks ''[REDACTED_TELEGRAM_TOKEN]'' t" "marks ''[REDACTED_AUTHORIZATION]'' t" "t \<noteq> []"
    using assms by (auto simp: marks_def token_shape_def simp del: str_contains.simps)
qed

lemma redacted_token_gone:
  assumes "token_shape (tg_token cfg)"
  shows "\<not> str_contains (tg_token cfg) (redact_token cfg s)" "\<not> str_contains (tg_token cfg) (redact_auth cfg s)"
proof -
  show gone: "\<not> str_contains (tg_token cfg) (redact_token cfg s)"
    using token_marks [OF assms] replaced_gone by (simp add: redact_token_def)
  show "\<not> str_contains (tg_token cfg) (redact_auth cfg s)"
  proof (cases "text_true (tg_auth cfg)")
    case True
    show ?thesis
      unfolding redact_auth_def if_P [OF True]
      using gone replace_contains [OF _ token_marks(2) [OF assms]] by blast
  qed (simp add: redact_auth_def gone)
qed

text \<open>No error of Telegram that \<open>m\<close> raises has the token in its description.\<close>

definition leaks_nothing :: "telegram_config \<Rightarrow> 'a job \<Rightarrow> bool" where
  "leaks_nothing cfg m \<longleftrightarrow> (\<forall>w w' desc st code d again.
     m w = (Inl (TelegramError desc st code d again), w') \<longrightarrow> \<not> str_contains (tg_token cfg) desc)"

lemma leaks_lift:
  assumes "\<And>desc st code d again. x = Inl (TelegramError desc st code d again) \<Longrightarrow> \<not> str_contains (tg_token cfg) desc"
  shows "leaks_nothing cfg (lift x)"
  using assms by (auto simp: leaks_nothing_def lift_def)

lemma leaks_ret: "leaks_nothing cfg (ret a)" "leaks_nothing cfg (exchange tr c)"
  by (simp_all add: leaks_nothing_def ret_def exchange_def)

lemma leaks_andthen: "leaks_nothing cfg m \<Longrightarrow> (\<And>a. leaks_nothing cfg (f a)) \<Longrightarrow> leaks_nothing cfg (andthen m f)"
  unfolding leaks_nothing_def andthen_def by (auto split: prod.splits sum.splits) blast

lemma leaks_each: "(\<And>x. leaks_nothing cfg (f x)) \<Longrightarrow> leaks_nothing cfg (each f xs)"
  by (induction xs) (auto intro!: leaks_ret leaks_andthen)

lemma leaks_catching: "leaks_nothing cfg (catching m)"
  unfolding leaks_nothing_def by (metis catching_never_raises fst_conv)

lemma leaks_prod: "(\<And>x y. leaks_nothing cfg (f x y)) \<Longrightarrow> leaks_nothing cfg (case p of (x, y) \<Rightarrow> f x y)"
  by (simp split: prod.split)

lemma py_int_no_telegram: "py_int_of j \<noteq> Inl (TelegramError desc st code d again)"
  by (cases j) (auto simp: py_int_of_def split: option.splits)

lemma leaks_int: "leaks_nothing cfg (lift (py_int_of j))" "leaks_nothing cfg (lift (message_id_of d))"
proof -
  show "leaks_nothing cfg (lift (py_int_of j))" by (rule leaks_lift) (simp add: py_int_no_telegram)
  show "leaks_nothing cfg (lift (message_id_of d))"
    by (rule leaks_lift) (auto simp: message_id_of_def item_of_def split: json.splits option.splits sum.splits)
qed

lemma leaks_api:
  assumes "token_shape (tg_token cfg)" "redact \<in> {redact_token cfg, redact_auth cfg}"
  shows "leaks_nothing cfg (lift (api_result redact out))"
  using assms redacted_token_gone
  by (intro leaks_lift) (auto simp: api_result_def Let_def split: http_outcome.splits if_splits)

lemma leaks_photo:
  assumes "token_shape (tg_token cfg)"
  shows "leaks_nothing cfg (send_message cfg tr chat t thread reply)"
    and "leaks_nothing cfg (edit_message_text cfg tr chat i t thread)"
    and "leaks_nothing cfg (send_photo_from_url cfg tr chat url caption thread reply)"
proof -
  have req: "leaks_nothing cfg (telegram_request cfg tr meth body)" for meth body
    unfolding telegram_request_def by (intro leaks_andthen leaks_ret leaks_api assms) simp
  then show msg: "leaks_nothing cfg (send_message cfg tr chat t thread reply)"
    "leaks_nothing cfg (edit_message_text cfg tr chat i t thread)" for chat t thread reply i
    by (simp_all add: send_message_def edit_message_text_def)
  have large: "\<not> str_contains (tg_token cfg) ''attachment too large''"
    using assms contains_set by (fastforce simp: token_shape_def)
  have down: "leaks_nothing cfg (download_attachment cfg tr url)"
    unfolding download_attachment_def
  proof (intro leaks_andthen leaks_ret leaks_lift notI)
    fix out desc st code d again
    assume "(case out of
        Http_Error st _ s \<Rightarrow> Inl (TelegramError (redact_auth cfg s) (Some st) None None (500 \<le> st))
      | Network_Error s \<Rightarrow> Inl (TelegramError (redact_auth cfg s) None None None True)
      | Reply j \<Rightarrow>
          (let d = dict_of j; len = dget d ''Content-Length''; data = str_or [] (dget d ''data'');
               ctype = str_or ''application/octet-stream'' (dget d ''Content-Type'');
               short = str_strip (takeWhile (\<lambda>c. c \<noteq> CHR '';'') ctype);
               file = \<lparr>at_filename = tg_filename cfg url ctype,
                        at_type = (if short = [] then ''application/octet-stream'' else short), at_data = data\<rparr> in
           case (if truthy len then py_int_of len else Inr 0) of
             Inl e \<Rightarrow> Inl e
           | Inr n \<Rightarrow> if n > tg_max_bytes cfg \<or> int (length data) > tg_max_bytes cfg then Inl too_large else Inr file))
         = Inl (TelegramError desc st code d again)" and bad: "str_contains (tg_token cfg) desc"
    then have "(\<exists>s. desc = redact_auth cfg s) \<or> desc = ''attachment too large''"
      using py_int_no_telegram
      by (auto simp: too_large_def Let_def simp del: str_contains.simps split: http_outcome.splits sum.splits if_splits)
    then show False using large bad redacted_token_gone [OF assms] by blast
  qed
  have up: "leaks_nothing cfg (upload_photo cfg tr chat url caption thread reply)"
    unfolding upload_photo_def send_photo_multipart_def
    by (auto intro!: leaks_andthen leaks_ret leaks_api assms down req)
  have fb: "leaks_nothing cfg (send_attachment_fallback cfg tr chat url caption desc thread reply)" for desc
    unfolding send_attachment_fallback_def by (intro leaks_andthen leaks_ret msg)
  show "leaks_nothing cfg (send_photo_from_url cfg tr chat url caption thread reply)"
    using up fb unfolding send_photo_from_url_def leaks_nothing_def try_except_def raise_def
    by (auto split: prod.splits sum.splits exn.splits if_splits) blast
qed

text \<open>
  Claim C37.  Whatever Telegram answers and whatever fails, no error of Telegram that the
  operations of the command worker raise (a new case, a change of its card, a follow-up) has
  the token of the bot in its description, which the worker stores and logs.
\<close>

theorem token_never_in_errors:
  assumes "token_shape (tg_token cfg)"
  shows "leaks_nothing cfg (send_case_card cfg tr x) \<and> leaks_nothing cfg (append_to_case cfg tr x edit reply) \<and>
    leaks_nothing cfg (send_case_followup cfg tr x root)"
proof -
  have tries: "leaks_nothing cfg (try_attachments cfg tr x r as)" for r as
    by (induction as) (auto intro!: leaks_andthen leaks_ret leaks_catching leaks_prod)
  have sends: "leaks_nothing cfg (send_attachments cfg tr x r)" for r
    unfolding send_attachments_def by (intro leaks_each leaks_prod leaks_photo assms)
  show ?thesis
    unfolding send_case_card_def append_to_case_def send_case_followup_def Let_def
    by (intro conjI leaks_andthen leaks_ret leaks_int leaks_prod sends tries leaks_photo assms)
qed

section \<open>No photo is lost\<close>

definition accepted :: "http_outcome \<Rightarrow> bool" where
  "accepted out = (case out of Reply j \<Rightarrow> truthy (dget (dict_of j) ''ok'') | _ \<Rightarrow> False)"

lemma api_result_Inr: "api_result redact out = Inr d \<Longrightarrow> accepted out \<and> (\<exists>j. out = Reply j \<and> d = dict_of j)"
  by (auto simp: api_result_def accepted_def Let_def split: http_outcome.splits if_splits)

lemma exchange_run: "exchange tr c w = (Inr (tr (calls w) c), w\<lparr>calls := calls w @ [c]\<rparr>)"
  by (simp add: exchange_def)

lemma request_run:
  "telegram_request cfg tr meth body w =
     (api_result (redact_token cfg) (tr (calls w) (Telegram meth (filter (\<lambda>(_, v). v \<noteq> JNull) body))),
      w\<lparr>calls := calls w @ [Telegram meth (filter (\<lambda>(_, v). v \<noteq> JNull) body)]\<rparr>)"
  by (simp add: telegram_request_def andthen_run(1) [OF exchange_run] lift_def)

lemma starts_with_self: "starts_with (p @ s) p"
  by (simp add: starts_with_def)

lemma contains_inside: "str_contains p (a @ p @ b)"
proof (induction a)
  case Nil
  show ?case using starts_with_self [of p b] by (cases "p @ b") auto
qed simp

lemma fallback_names_url: "str_contains url (fallback_text cfg url caption reason)"
proof -
  have "\<exists>a b. fallback_text cfg url caption reason = a @ url @ b"
  proof (cases "url = []")
    case False
    then show ?thesis
      by (cases "str_or [] caption = []")
         (auto simp: fallback_text_def intro: exI [of _ "''[Attachment fallback]'' @ [CHR 0x0A]"]
           exI [of _ "''[Attachment fallback]'' @ [CHR 0x0A] @ str_or [] caption @ [CHR 0x0A]"])
  qed (auto intro: exI [of _ "[]"])
  then show ?thesis using contains_inside by metis
qed

text \<open>
  A photo of a case is shown or linked, never dropped: when the step on it
  returns, Telegram has accepted the photo, and the result says so, or it has accepted a
  message of text that contains the URL of the photo, and the result says that.
\<close>

theorem photo_shown_or_linked:
  assumes "send_photo_from_url cfg tr chat url caption thread reply w = (Inr r, w')"
  shows "\<exists>cs c body. calls w' = cs @ [c] \<and> accepted (tr cs c) \<and>
    (c = Telegram ''sendPhoto'' body \<and> dget r ''fallback'' = JBool False
     \<or> c = Telegram ''sendMessage'' body \<and> str_contains url (str_or [] (dget body ''text'')) \<and> dget r ''fallback'' = JBool True)"
proof -
  obtain u w1 where up: "upload_photo cfg tr chat url caption thread reply w = (u, w1)" by fastforce
  show ?thesis
  proof (cases u)
    case (Inr d)
    then have "r = d" "w' = w1" using assms up by (simp_all add: send_photo_from_url_def try_except_run)
    moreover have "\<exists>cs body. calls w1 = cs @ [Telegram ''sendPhoto'' body] \<and> accepted (tr cs (Telegram ''sendPhoto'' body))
        \<and> dget d ''fallback'' = JBool False"
      using up Inr unfolding upload_photo_def send_photo_multipart_def
      by (auto simp: run_iffs request_run exchange_run dget_def map_of_dmerge map_add_def split: if_splits dest!: api_result_Inr)
    ultimately show ?thesis by blast
  next
    case (Inl e)
    then obtain desc where fb: "send_attachment_fallback cfg tr chat url caption desc thread reply w1 = (Inr r, w')"
      using assms up by (auto simp: send_photo_from_url_def try_except_run raise_run split: exn.splits if_splits)
    let ?body = "filter (\<lambda>(_, v). v \<noteq> JNull) [(''chat_id'', chat), (''text'', JStr (fallback_text cfg url caption desc)),
        (''message_thread_id'', thread), (''reply_to_message_id'', reply), (''disable_web_page_preview'', JBool True)]"
    have "dget ?body ''text'' = JStr (fallback_text cfg url caption desc)" by (simp add: dget_def)
    moreover have "fallback_text cfg url caption desc \<noteq> []" by (simp add: fallback_text_def)
    ultimately have "str_contains url (str_or [] (dget ?body ''text''))"
      using fallback_names_url [of url cfg caption desc] by (simp add: str_or_def py_str_def)
    moreover have "calls w' = calls w1 @ [Telegram ''sendMessage'' ?body]" "accepted (tr (calls w1) (Telegram ''sendMessage'' ?body))"
      "dget r ''fallback'' = JBool True"
      using fb unfolding send_attachment_fallback_def send_message_def
      by (auto simp: run_iffs request_run dget_def map_of_dmerge map_add_def dest!: api_result_Inr)
    ultimately show ?thesis by blast
  qed
qed

section \<open>A follow-up is reported as it went\<close>

lemma try_attachments_run:
  "\<exists>rs es w'. try_attachments cfg tr x reply as w = (Inr (rs, es), w') \<and> length rs + length es = length as"
proof (induction as arbitrary: w)
  case Nil
  then show ?case by (simp add: ret_run)
next
  case (Cons a as)
  obtain url name where a: "a = (url, name)" by (cases a)
  obtain r w1 where r: "catching (send_photo_from_url cfg tr (rd_chat x) url name (rd_thread x) reply) w = (Inr r, w1)"
    by (metis catching_never_raises surj_pair sum.exhaust fst_conv)
  from Cons.IH obtain rs es w2 where tl: "try_attachments cfg tr x reply as w1 = (Inr (rs, es), w2)"
      "length rs + length es = length as" by blast
  show ?case using a tl(2) by (cases r) (simp_all add: andthen_def r tl(1) ret_def)
qed

text \<open>
  A follow-up is reported as it went.  If the step on it returns, its message was
  accepted and each attachment is accounted for, as sent or as failed; if it fails, it made
  at most the one request for the message, and that was not accepted with a usable
  identifier.  So a failed photo never makes the worker send the follow-up again.
\<close>

theorem followup_sent_once:
  assumes "send_case_followup cfg tr x root w = (res, w')"
  shows "case res of
      Inr (msg, rs, es) \<Rightarrow> length rs + length es = length (rd_attachments x) \<and>
        (\<exists>body. accepted (tr (calls w) (Telegram ''sendMessage'' body)))
    | Inl e \<Rightarrow> calls w' = calls w \<or> (\<exists>body. calls w' = calls w @ [Telegram ''sendMessage'' body] \<and>
        (\<forall>j m i. tr (calls w) (Telegram ''sendMessage'' body) = Reply j \<and> truthy (dget (dict_of j) ''ok'') \<longrightarrow>
           message_id_of (dict_of j) = Inr m \<longrightarrow> py_int_of m \<noteq> Inr i))"
proof (cases "py_int_of root")
  case (Inl e)
  then show ?thesis using assms by (auto simp: send_case_followup_def andthen_def lift_def)
next
  case (Inr i)
  let ?body = "filter (\<lambda>(_, v). v \<noteq> JNull) [(''chat_id'', rd_chat x), (''text'', JStr (rd_text x)),
      (''message_thread_id'', rd_thread x), (''reply_to_message_id'', JInt i), (''disable_web_page_preview'', JBool True)]"
  let ?call = "Telegram ''sendMessage'' ?body"
  let ?w = "w\<lparr>calls := calls w @ [?call]\<rparr>"
  have sent: "send_message cfg tr (rd_chat x) (rd_text x) (rd_thread x) (JInt i) w
      = (api_result (redact_token cfg) (tr (calls w) ?call), ?w)"
    by (simp add: send_message_def request_run del: filter.simps)
  show ?thesis
  proof (cases "api_result (redact_token cfg) (tr (calls w) ?call)")
    case (Inl e)
    have "\<not> accepted (tr (calls w) ?call)"
      using Inl by (auto simp: api_result_def accepted_def Let_def split: http_outcome.splits if_splits simp del: filter.simps)
    moreover have "res = Inl e" "w' = ?w"
      using assms Inr Inl sent by (auto simp: send_case_followup_def andthen_def lift_def simp del: filter.simps)
    ultimately show ?thesis by (auto simp: accepted_def simp del: filter.simps)
  next
    case main: (Inr d)
    note ok = api_result_Inr [OF main]
    show ?thesis
    proof (cases "\<exists>m k. message_id_of d = Inr m \<and> py_int_of m = Inr k")
      case True
      then obtain m k where mk: "message_id_of d = Inr m" "py_int_of m = Inr k" by blast
      obtain rs es v where tries: "try_attachments cfg tr x (JInt k) (rd_attachments x) ?w = (Inr (rs, es), v)"
        "length rs + length es = length (rd_attachments x)"
        using try_attachments_run by blast
      have "res = Inr (k, rs, es)"
        using assms Inr sent main mk tries(1)
        by (auto simp: send_case_followup_def andthen_def lift_def ret_def simp del: filter.simps)
      then show ?thesis using ok tries(2) by auto
    next
      case False
      then have "\<exists>e. res = Inl e \<and> w' = ?w"
        using assms Inr sent main
        by (cases "message_id_of d"; cases "py_int_of (projr (message_id_of d))")
           (auto simp: send_case_followup_def andthen_def lift_def simp del: filter.simps)
      then show ?thesis using ok False by (auto simp del: filter.simps)
    qed
  qed
qed

end
