(* ===== verification/Service_Runner.thy ===== *)
theory Service_Runner
  imports Service_Calls
begin

text \<open>
  \<open>src/app/workers/service_runner.py\<close>: the loops of the workers, which share one stop event
  and one summary, the checks before the start, and the recovery of leases between ticks.
  A tick of a worker is an event of the run, with its result or its exception; the workers
  run interleaved, and a tick may end after the stop event was set.
\<close>

section \<open>The summary\<close>

definition worker_names :: "string list" where
  "worker_names = [''polling_receiver'', ''gateway_consumer'', ''sender_worker'', ''external_command_worker'',
     ''external_result_consumer'', ''telegram_reply_consumer'', ''livechat_idle_timer'']"

definition max_retained_errors :: nat where
  "max_retained_errors = 100"

record worker_summary =
  ws_iterations :: nat
  ws_successes :: nat
  ws_errors :: nat
  ws_last_result :: "dict option"

definition empty_worker_summary :: worker_summary where
  "empty_worker_summary = \<lparr>ws_iterations = 0, ws_successes = 0, ws_errors = 0, ws_last_result = None\<rparr>"

record run_error =
  re_worker :: string
  re_message :: string

record runner_summary =
  sm_workers :: "string \<Rightarrow> worker_summary"
  sm_errors :: "run_error list"
  sm_errors_total :: nat

definition empty_summary :: runner_summary where
  "empty_summary = \<lparr>sm_workers = (\<lambda>_. empty_worker_summary), sm_errors = [], sm_errors_total = 0\<rparr>"

definition record_success :: "string \<Rightarrow> dict \<Rightarrow> runner_summary \<Rightarrow> runner_summary" where
  "record_success n result s =
     (let x = sm_workers s n in
      s\<lparr>sm_workers := (sm_workers s)(n := x\<lparr>ws_iterations := ws_iterations x + 1, ws_successes := ws_successes x + 1,
          ws_last_result := Some result\<rparr>)\<rparr>)"

definition record_error :: "string \<Rightarrow> exn \<Rightarrow> runner_summary \<Rightarrow> runner_summary" where
  "record_error n e s =
     (let x = sm_workers s n; errors = sm_errors s @ [\<lparr>re_worker = n, re_message = exn_text e\<rparr>] in
      s\<lparr>sm_workers := (sm_workers s)(n := x\<lparr>ws_iterations := ws_iterations x + 1, ws_errors := ws_errors x + 1\<rparr>),
        sm_errors := drop (length errors - max_retained_errors) errors, sm_errors_total := sm_errors_total s + 1\<rparr>)"

section \<open>The loops\<close>

record runner_config =
  rn_workers :: "string list"
  rn_max_iterations :: "nat option"
  rn_stop_on_error :: bool

text \<open>
  A worker at the test of its loop, in its tick, after it, or returned; with the number of
  iterations begun.
\<close>

datatype worker_phase = At_Loop nat | In_Tick nat | After_Tick nat | Returned

record runner_state =
  ru_phase :: "string \<Rightarrow> worker_phase"
  ru_stop :: bool
  ru_reason :: "string option"
  ru_summary :: runner_summary

definition initial_state :: runner_state where
  "initial_state = \<lparr>ru_phase = (\<lambda>_. At_Loop 0), ru_stop = False, ru_reason = None, ru_summary = empty_summary\<rparr>"

definition exhausted :: "runner_config \<Rightarrow> nat \<Rightarrow> bool" where
  "exhausted cfg k = (case rn_max_iterations cfg of None \<Rightarrow> False | Some m \<Rightarrow> k \<ge> m)"

definition enter :: "string \<Rightarrow> worker_phase \<Rightarrow> runner_state \<Rightarrow> runner_state" where
  "enter n ph st = st\<lparr>ru_phase := (ru_phase st)(n := ph)\<rparr>"

definition request_stop :: "string \<Rightarrow> runner_state \<Rightarrow> runner_state" where
  "request_stop why st =
     st\<lparr>ru_stop := True, ru_reason := (if text_true (ru_reason st) then ru_reason st else Some why)\<rparr>"

definition tick_failed :: "runner_config \<Rightarrow> string \<Rightarrow> nat \<Rightarrow> exn \<Rightarrow> runner_state \<Rightarrow> runner_state" where
  "tick_failed cfg n k e st =
     (let st1 = st\<lparr>ru_summary := record_error n e (ru_summary st)\<rparr> in
      if rn_stop_on_error cfg then enter n Returned (request_stop ''stop_on_error'' st1)
      else enter n (After_Tick k) st1)"

definition tick_succeeded :: "string \<Rightarrow> nat \<Rightarrow> dict \<Rightarrow> runner_state \<Rightarrow> runner_state" where
  "tick_succeeded n k result st = enter n (After_Tick k) (st\<lparr>ru_summary := record_success n result (ru_summary st)\<rparr>)"

text \<open>\<open>run_periodic_worker\<close> of every worker and \<open>_request_shutdown\<close>.\<close>

inductive runner_step :: "runner_config \<Rightarrow> runner_state \<Rightarrow> runner_state \<Rightarrow> bool" for cfg where
  leaves: "n \<in> set (rn_workers cfg) \<Longrightarrow> ru_phase st n = At_Loop k \<Longrightarrow> ru_stop st \<or> exhausted cfg k \<Longrightarrow>
     runner_step cfg st (enter n Returned st)"
| starts: "n \<in> set (rn_workers cfg) \<Longrightarrow> ru_phase st n = At_Loop k \<Longrightarrow> \<not> ru_stop st \<Longrightarrow> \<not> exhausted cfg k \<Longrightarrow>
     runner_step cfg st (enter n (In_Tick (Suc k)) st)"
| succeeds: "n \<in> set (rn_workers cfg) \<Longrightarrow> ru_phase st n = In_Tick k \<Longrightarrow>
     runner_step cfg st (tick_succeeded n k result st)"
| fails: "n \<in> set (rn_workers cfg) \<Longrightarrow> ru_phase st n = In_Tick k \<Longrightarrow>
     runner_step cfg st (tick_failed cfg n k e st)"
| last_tick: "n \<in> set (rn_workers cfg) \<Longrightarrow> ru_phase st n = After_Tick k \<Longrightarrow> exhausted cfg k \<Longrightarrow>
     runner_step cfg st (enter n Returned st)"
| waits: "n \<in> set (rn_workers cfg) \<Longrightarrow> ru_phase st n = After_Tick k \<Longrightarrow> \<not> exhausted cfg k \<Longrightarrow>
     runner_step cfg st (enter n (At_Loop k) st)"
| signalled: "\<not> ru_stop st \<Longrightarrow> why \<noteq> [] \<Longrightarrow> runner_step cfg st (request_stop why st)"

inductive reachable :: "runner_config \<Rightarrow> runner_state \<Rightarrow> bool" for cfg where
  initially: "reachable cfg initial_state"
| next_step: "reachable cfg st \<Longrightarrow> runner_step cfg st st' \<Longrightarrow> reachable cfg st'"

definition all_returned :: "runner_config \<Rightarrow> runner_state \<Rightarrow> bool" where
  "all_returned cfg st \<longleftrightarrow> (\<forall>n \<in> set (rn_workers cfg). ru_phase st n = Returned)"

section \<open>Status and exit code\<close>

definition run_status :: "runner_config \<Rightarrow> bool \<Rightarrow> bool \<Rightarrow> runner_state \<Rightarrow> string" where
  "run_status cfg cancelled timed_out st =
     (let outcome = (if cancelled then ''CANCELLED'' else if timed_out then ''SHUTDOWN_TIMEOUT'' else ''OK'') in
      if rn_stop_on_error cfg \<and> sm_errors_total (ru_summary st) \<noteq> 0 then ''STOPPED_ON_ERROR''
      else if outcome = ''OK'' \<and> starts_with (text_or [] (ru_reason st)) ''signal:'' then ''CANCELLED''
      else outcome)"

definition exit_code :: "string \<Rightarrow> int" where
  "exit_code outcome =
     (if outcome = ''OK'' then 0 else if outcome \<in> {''FAILED_USAGE'', ''FAILED_PREFLIGHT''} then 2
      else if outcome = ''CANCELLED'' then 130 else 1)"

section \<open>Checks before the start\<close>

record runner_args =
  ra_all :: bool
  ra_max_iterations :: "int option"
  ra_seconds :: "(string \<times> int option) list"

definition validate_usage :: "runner_args \<Rightarrow> string option" where
  "validate_usage a =
     (if \<not> ra_all a then Some ''--all is required to start the unified worker chain''
      else if (case ra_max_iterations a of None \<Rightarrow> False | Some m \<Rightarrow> m \<le> 0)
      then Some ''--max-iterations must be greater than 0''
      else case filter (\<lambda>(_, v). case v of None \<Rightarrow> False | Some s \<Rightarrow> s < 0) (ra_seconds a) of
        [] \<Rightarrow> None
      | (name, _) # _ \<Rightarrow> Some (''--'' @ name @ '' must be greater than or equal to 0''))"

definition has_real_text :: "string option \<Rightarrow> bool" where
  "has_real_text v =
     (let t = str_strip (text_or [] v) in t \<noteq> [] \<and> \<not> (hd t = CHR ''<'' \<and> last t = CHR ''>''))"

record runner_settings =
  st_required :: "(string \<times> string option) list"
  st_polling :: bool
  st_groups :: "int list"
  st_telegram_enabled :: bool
  st_telegram_token :: "string option"
  st_telegram_targets :: "string option list"
  st_backend_enabled :: bool
  st_backend_provider :: "string option"
  st_handoff_enabled :: bool
  st_handoff_group :: "int option"

text \<open>The missing settings, in the order of the checks; the code sorts them for its report.\<close>

definition preflight_missing :: "runner_settings \<Rightarrow> string list" where
  "preflight_missing s = remdups (
     map fst (filter (\<lambda>(_, v). \<not> has_real_text v) (st_required s))
     @ (if st_polling s \<and> st_groups s = [] then [''LIVECHAT_ALLOWED_GROUP_IDS''] else [])
     @ (if st_telegram_enabled s then [] else [''TELEGRAM_SOP_ENABLED''])
     @ (if has_real_text (st_telegram_token s) then [] else [''TELEGRAM_BOT_TOKEN''])
     @ (if list_ex has_real_text (st_telegram_targets s) then [] else [''TELEGRAM_SOP_TARGET_CHAT_ID_OR_GROUP''])
     @ (if st_backend_enabled s then [] else [''BACKEND_QUERY_ENABLED''])
     @ (if has_real_text (st_backend_provider s) then [] else [''BACKEND_PROVIDER_TYPE''])
     @ (if st_handoff_enabled s then [] else [''LIVECHAT_HANDOFF_ENABLED''])
     @ (if st_handoff_group s = None then [''LIVECHAT_HANDOFF_TARGET_GROUP_ID''] else []))"

section \<open>Recovery of leases\<close>

type_synonym recovery_times = "(string \<times> int) list"

definition recovery_due :: "int \<Rightarrow> int \<Rightarrow> string \<Rightarrow> recovery_times \<Rightarrow> bool" where
  "recovery_due interval now q ts \<longleftrightarrow>
     0 < interval \<and> (case map_of ts q of None \<Rightarrow> True | Some t \<Rightarrow> \<not> now - t < interval)"

definition maybe_recover_worker_leases ::
  "int \<Rightarrow> int \<Rightarrow> string \<Rightarrow> recovery_times \<Rightarrow> nat job \<Rightarrow> (nat \<times> recovery_times) job" where
  "maybe_recover_worker_leases interval now q ts recover_leases =
     (if recovery_due interval now q ts
      then andthen (catching recover_leases) (\<lambda>r.
           ret (case r of Inl _ \<Rightarrow> 0 | Inr n \<Rightarrow> n, AList.update q now ts))
      else ret (0, ts))"

section \<open>What holds in every run\<close>

inductive_cases runner_stepE: "runner_step cfg st st'"

lemmas runner_defs = enter_def request_stop_def tick_failed_def tick_succeeded_def Let_def

definition begun :: "worker_phase \<Rightarrow> nat \<Rightarrow> bool" where
  "begun ph done_ticks \<longleftrightarrow> (case ph of At_Loop k \<Rightarrow> done_ticks = k | After_Tick k \<Rightarrow> done_ticks = k
     | In_Tick k \<Rightarrow> Suc done_ticks = k | Returned \<Rightarrow> True)"

definition within :: "runner_config \<Rightarrow> worker_phase \<Rightarrow> bool" where
  "within cfg ph \<longleftrightarrow> (case rn_max_iterations cfg of None \<Rightarrow> True
     | Some m \<Rightarrow> (case ph of At_Loop k \<Rightarrow> k \<le> m | After_Tick k \<Rightarrow> k \<le> m | In_Tick k \<Rightarrow> k \<le> m | Returned \<Rightarrow> True))"

definition sums_up :: "runner_config \<Rightarrow> runner_summary \<Rightarrow> bool" where
  "sums_up cfg s \<longleftrightarrow>
     (\<forall>n. ws_iterations (sm_workers s n) = ws_successes (sm_workers s n) + ws_errors (sm_workers s n)) \<and>
     (distinct (rn_workers cfg) \<longrightarrow> sm_errors_total s = (\<Sum>n \<leftarrow> rn_workers cfg. ws_errors (sm_workers s n))) \<and>
     length (sm_errors s) = min (sm_errors_total s) max_retained_errors"

definition runner_inv :: "runner_config \<Rightarrow> runner_state \<Rightarrow> bool" where
  "runner_inv cfg st \<longleftrightarrow>
     sums_up cfg (ru_summary st) \<and>
     (\<forall>n. begun (ru_phase st n) (ws_iterations (sm_workers (ru_summary st) n)) \<and> within cfg (ru_phase st n)) \<and>
     (\<forall>n m. rn_max_iterations cfg = Some m \<longrightarrow> ws_iterations (sm_workers (ru_summary st) n) \<le> m) \<and>
     (ru_stop st \<longleftrightarrow> text_true (ru_reason st)) \<and>
     (rn_stop_on_error cfg \<longrightarrow> 0 < sm_errors_total (ru_summary st) \<longrightarrow> ru_stop st)"

lemma sum_update: "n \<in> set xs \<Longrightarrow> distinct xs \<Longrightarrow>
   (\<Sum>x \<leftarrow> xs. f (if x = n then v else g x)) + f (g n) = (\<Sum>x \<leftarrow> xs. f (g x)) + (f v :: nat)"
proof (induction xs)
  case (Cons x xs)
  have "(\<Sum>x \<leftarrow> xs. f (if x = n then v else g x)) = (\<Sum>x \<leftarrow> xs. f (g x))" if "n \<notin> set xs"
    using that by (intro arg_cong [where f = sum_list] map_cong) auto
  then show ?case using Cons by (cases "x = n") auto
qed simp

lemma sums_up_success: "n \<in> set (rn_workers cfg) \<Longrightarrow> sums_up cfg s \<Longrightarrow> sums_up cfg (record_success n result s)"
proof -
  assume n: "n \<in> set (rn_workers cfg)" and s: "sums_up cfg s"
  have "ws_errors (if x = n then sm_workers s n\<lparr>ws_iterations := a, ws_successes := b, ws_last_result := c\<rparr> else sm_workers s x)
      = ws_errors (sm_workers s x)" for x a b c by simp
  with s show ?thesis
    by (simp add: sums_up_def record_success_def Let_def fun_upd_def)
qed

lemma sums_up_error:
  assumes n: "n \<in> set (rn_workers cfg)" and s: "sums_up cfg s"
  shows "sums_up cfg (record_error n e s)"
proof -
  let ?s = "record_error n e s"
  have workers: "sm_workers ?s k = (if k = n then sm_workers s n\<lparr>ws_iterations := ws_iterations (sm_workers s n) + 1,
      ws_errors := ws_errors (sm_workers s n) + 1\<rparr> else sm_workers s k)" for k
    by (simp add: record_error_def Let_def)
  have "(\<Sum>k \<leftarrow> rn_workers cfg. ws_errors (sm_workers ?s k)) = (\<Sum>k \<leftarrow> rn_workers cfg. ws_errors (sm_workers s k)) + 1"
    if "distinct (rn_workers cfg)"
    using sum_update [where f = ws_errors and g = "sm_workers s" and v = "sm_workers s n\<lparr>ws_iterations := ws_iterations (sm_workers s n) + 1,
      ws_errors := ws_errors (sm_workers s n) + 1\<rparr>", OF n that] unfolding workers by simp
  moreover have "sm_errors_total ?s = sm_errors_total s + 1" "length (sm_errors ?s) = min (length (sm_errors s) + 1) max_retained_errors"
    by (simp_all add: record_error_def Let_def)
  moreover have "ws_iterations (sm_workers ?s k) = ws_successes (sm_workers ?s k) + ws_errors (sm_workers ?s k)" for k
    using s by (simp add: workers sums_up_def)
  ultimately show ?thesis using s by (auto simp: sums_up_def)
qed

lemma runner_inv_initial: "runner_inv cfg initial_state"
  by (auto simp: runner_inv_def initial_state_def empty_summary_def empty_worker_summary_def sums_up_def begun_def
      within_def text_true_def split: option.split)

lemma runner_inv_enter:
  assumes "runner_inv cfg st" "begun ph (ws_iterations (sm_workers (ru_summary st) n))" "within cfg ph"
  shows "runner_inv cfg (enter n ph st)"
  using assms by (auto simp: runner_inv_def enter_def)

lemma runner_inv_summary:
  assumes inv: "runner_inv cfg st" and tick: "ru_phase st n = In_Tick k" and sums: "sums_up cfg s"
    and counts: "\<And>x. ws_iterations (sm_workers s x) = (if x = n then Suc else id) (ws_iterations (sm_workers (ru_summary st) x))"
    and ph: "ph = After_Tick k \<or> ph = Returned"
    and stop: "rn_stop_on_error cfg \<Longrightarrow> 0 < sm_errors_total s \<Longrightarrow> ru_stop st"
  shows "runner_inv cfg (enter n ph (st\<lparr>ru_summary := s\<rparr>))"
proof -
  have "begun (In_Tick k) (ws_iterations (sm_workers (ru_summary st) n))" and within_k: "within cfg (In_Tick k)"
    using inv tick by (metis runner_inv_def)+
  then have k: "k = Suc (ws_iterations (sm_workers (ru_summary st) n))" by (simp add: begun_def)
  have ph_ok: "begun ph k" "within cfg ph" and le: "\<And>m. rn_max_iterations cfg = Some m \<Longrightarrow> k \<le> m"
    using ph within_k by (auto simp: begun_def within_def split: option.splits)
  show ?thesis
    unfolding runner_inv_def
  proof (intro conjI allI impI)
    show "sums_up cfg (ru_summary (enter n ph (st\<lparr>ru_summary := s\<rparr>)))" using sums by (simp add: enter_def)
    show "begun (ru_phase (enter n ph (st\<lparr>ru_summary := s\<rparr>)) x) (ws_iterations (sm_workers (ru_summary (enter n ph (st\<lparr>ru_summary := s\<rparr>))) x))"
      "within cfg (ru_phase (enter n ph (st\<lparr>ru_summary := s\<rparr>)) x)" for x
      using inv ph_ok counts k by (auto simp: enter_def runner_inv_def)
    show "ws_iterations (sm_workers (ru_summary (enter n ph (st\<lparr>ru_summary := s\<rparr>))) x) \<le> m" if "rn_max_iterations cfg = Some m" for x m
      using inv le [OF that] counts k that by (auto simp: enter_def runner_inv_def)
    show "ru_stop (enter n ph (st\<lparr>ru_summary := s\<rparr>)) = text_true (ru_reason (enter n ph (st\<lparr>ru_summary := s\<rparr>)))"
      using inv by (simp add: enter_def runner_inv_def)
    show "ru_stop (enter n ph (st\<lparr>ru_summary := s\<rparr>))"
      if "rn_stop_on_error cfg" "0 < sm_errors_total (ru_summary (enter n ph (st\<lparr>ru_summary := s\<rparr>)))"
      using stop that by (simp add: enter_def)
  qed
qed

lemma runner_inv_stop: "runner_inv cfg st \<Longrightarrow> why \<noteq> [] \<Longrightarrow> runner_inv cfg (request_stop why st)"
  by (auto simp: runner_inv_def request_stop_def text_true_def)

lemma request_stop_summary: "request_stop why (st\<lparr>ru_summary := s\<rparr>) = (request_stop why st)\<lparr>ru_summary := s\<rparr>"
  by (cases st) (simp add: request_stop_def)

lemma runner_inv_step:
  assumes "runner_step cfg st st'" "runner_inv cfg st"
  shows "runner_inv cfg st'"
  using assms(1)
proof cases
  case (leaves n k)
  then show ?thesis using runner_inv_enter [OF assms(2)] by (simp add: begun_def within_def split: option.split)
next
  case (starts n k)
  have "begun (At_Loop k) (ws_iterations (sm_workers (ru_summary st) n))"
    using assms(2) starts by (metis runner_inv_def)
  then show ?thesis using runner_inv_enter [OF assms(2)] starts
    by (simp add: begun_def within_def exhausted_def split: option.splits)
next
  case (succeeds n k result)
  have "sums_up cfg (record_success n result (ru_summary st))"
    using sums_up_success succeeds assms(2) by (simp add: runner_inv_def)
  then show ?thesis unfolding succeeds(1) tick_succeeded_def
    by (rule runner_inv_summary [OF assms(2) succeeds(3)])
       (use assms(2) in \<open>auto simp: record_success_def Let_def runner_inv_def\<close>)
next
  case (fails n k e)
  let ?s = "record_error n e (ru_summary st)"
  have sums: "sums_up cfg ?s" using sums_up_error fails assms(2) by (simp add: runner_inv_def)
  have counts: "ws_iterations (sm_workers ?s x) = (if x = n then Suc else id) (ws_iterations (sm_workers (ru_summary st) x))" for x
    by (simp add: record_error_def Let_def)
  show ?thesis
  proof (cases "rn_stop_on_error cfg")
    case False
    then show ?thesis
      using runner_inv_summary [OF assms(2) fails(3) sums counts, of "After_Tick k"] fails(1) by (simp add: tick_failed_def)
  next
    case True
    have "runner_inv cfg (request_stop ''stop_on_error'' st)" by (rule runner_inv_stop [OF assms(2)]) simp
    moreover have "ru_phase (request_stop ''stop_on_error'' st) n = In_Tick k" using fails(3) by (simp add: request_stop_def)
    ultimately have "runner_inv cfg (enter n Returned ((request_stop ''stop_on_error'' st)\<lparr>ru_summary := ?s\<rparr>))"
      using sums counts by (intro runner_inv_summary) (auto simp: request_stop_def)
    then show ?thesis using fails(1) True by (simp add: tick_failed_def request_stop_summary Let_def)
  qed
next
  case (last_tick n k)
  then show ?thesis using runner_inv_enter [OF assms(2)] by (simp add: begun_def within_def split: option.split)
next
  case (waits n k)
  have "begun (After_Tick k) (ws_iterations (sm_workers (ru_summary st) n))" "within cfg (After_Tick k)"
    using assms(2) waits by (metis runner_inv_def)+
  then show ?thesis using runner_inv_enter [OF assms(2)] waits by (simp add: begun_def within_def split: option.splits)
next
  case (signalled why)
  then show ?thesis using runner_inv_stop [OF assms(2)] by simp
qed

lemma reachable_inv: "reachable cfg st \<Longrightarrow> runner_inv cfg st"
  by (induction rule: reachable.induct) (auto intro: runner_inv_initial runner_inv_step)

text \<open>
  Claim C38.  In every state of every run of the workers, however their ticks interleave
  and fail: the iterations of a worker are its successes and its errors, and at most
  \<open>max_iterations\<close>; all errors are counted and the last hundred are kept; with
  \<open>stop_on_error\<close> a failed tick has set the stop event.  Once it is set it stays set, its
  first reason is kept and no worker starts another tick.
\<close>

theorem runner_accounts:
  assumes "reachable cfg st" "distinct (rn_workers cfg)"
  shows "(\<forall>n. let x = sm_workers (ru_summary st) n in ws_iterations x = ws_successes x + ws_errors x \<and>
        (case rn_max_iterations cfg of None \<Rightarrow> True | Some m \<Rightarrow> ws_iterations x \<le> m)) \<and>
    sm_errors_total (ru_summary st) = (\<Sum>n \<leftarrow> rn_workers cfg. ws_errors (sm_workers (ru_summary st) n)) \<and>
    length (sm_errors (ru_summary st)) = min (sm_errors_total (ru_summary st)) 100 \<and>
    (rn_stop_on_error cfg \<and> 0 < sm_errors_total (ru_summary st) \<longrightarrow> ru_stop st) \<and>
    (\<forall>st'. ru_stop st \<and> runner_step cfg st st' \<longrightarrow> ru_stop st' \<and> ru_reason st' = ru_reason st \<and>
        (\<forall>n k. ru_phase st' n = In_Tick k \<longrightarrow> ru_phase st n = In_Tick k))"
proof -
  note inv = reachable_inv [OF assms(1), unfolded runner_inv_def sums_up_def max_retained_errors_def]
  have stops: "ru_stop st' \<and> ru_reason st' = ru_reason st \<and> (\<forall>n k. ru_phase st' n = In_Tick k \<longrightarrow> ru_phase st n = In_Tick k)"
    if "ru_stop st" "runner_step cfg st st'" for st'
  proof -
    have "text_true (ru_reason st)" using inv that(1) by blast
    with that(2) show ?thesis
      by cases (use that(1) in \<open>simp_all add: enter_def tick_succeeded_def tick_failed_def request_stop_def Let_def\<close>)
  qed
  show ?thesis
  proof (intro conjI)
    show "\<forall>n. let x = sm_workers (ru_summary st) n in ws_iterations x = ws_successes x + ws_errors x \<and>
        (case rn_max_iterations cfg of None \<Rightarrow> True | Some m \<Rightarrow> ws_iterations x \<le> m)"
      using inv by (auto simp: Let_def split: option.split)
    show "sm_errors_total (ru_summary st) = (\<Sum>n \<leftarrow> rn_workers cfg. ws_errors (sm_workers (ru_summary st) n))"
      using inv assms(2) by blast
  qed (use inv stops in \<open>blast+\<close>)
qed

section \<open>The end of a run\<close>

definition rank :: "nat \<Rightarrow> worker_phase \<Rightarrow> nat" where
  "rank m ph = (case ph of Returned \<Rightarrow> 0 | At_Loop k \<Rightarrow> 3 * (m - k) + 1 | After_Tick k \<Rightarrow> 3 * (m - k) + 2
     | In_Tick k \<Rightarrow> 3 * (m - k) + 3)"

definition work_left :: "nat \<Rightarrow> runner_config \<Rightarrow> runner_state \<Rightarrow> nat" where
  "work_left m cfg st = (\<Sum>n \<in> set (rn_workers cfg). rank m (ru_phase st n)) + (if ru_stop st then 0 else 1)"

lemma work_left_enter:
  assumes "n \<in> set (rn_workers cfg)" "rank m ph < rank m (ru_phase st n)"
  shows "work_left m cfg (enter n ph st) < work_left m cfg st"
proof -
  have "(\<Sum>x \<in> set (rn_workers cfg). rank m (ru_phase (enter n ph st) x)) < (\<Sum>x \<in> set (rn_workers cfg). rank m (ru_phase st x))"
    using assms by (intro sum_strict_mono_ex1) (auto simp: enter_def)
  then show ?thesis by (simp add: work_left_def enter_def)
qed

lemma work_left_stop: "work_left m cfg (request_stop why st) \<le> work_left m cfg st"
  "work_left m cfg (st\<lparr>ru_summary := s\<rparr>) = work_left m cfg st"
  by (simp_all add: work_left_def request_stop_def)

lemma work_left_step:
  assumes "rn_max_iterations cfg = Some m" "runner_step cfg st st'"
  shows "work_left m cfg st' < work_left m cfg st"
  using assms(2)
proof cases
  case (leaves n k)
  then show ?thesis using work_left_enter [OF leaves(2)] by (simp add: rank_def)
next
  case (starts n k)
  then show ?thesis using work_left_enter [OF starts(2)] assms(1) by (simp add: rank_def exhausted_def)
next
  case (succeeds n k result)
  have "work_left m cfg (enter n (After_Tick k) (st\<lparr>ru_summary := s\<rparr>)) < work_left m cfg (st\<lparr>ru_summary := s\<rparr>)" for s
    using succeeds by (intro work_left_enter) (simp_all add: rank_def)
  then show ?thesis using succeeds(1) by (simp add: tick_succeeded_def work_left_stop)
next
  case (fails n k e)
  have step: "work_left m cfg (enter n ph v) < work_left m cfg v"
    if "ru_phase v n = In_Tick k" "ph = Returned \<or> ph = After_Tick k" for v ph
    using fails that by (intro work_left_enter) (auto simp: rank_def)
  let ?v = "st\<lparr>ru_summary := record_error n e (ru_summary st)\<rparr>"
  have "work_left m cfg (enter n Returned (request_stop ''stop_on_error'' ?v)) < work_left m cfg (request_stop ''stop_on_error'' ?v)"
    "work_left m cfg (enter n (After_Tick k) ?v) < work_left m cfg ?v"
    using fails(3) by (intro step; simp add: request_stop_def)+
  moreover have "work_left m cfg (request_stop ''stop_on_error'' ?v) \<le> work_left m cfg st"
    using work_left_stop(1) [of m cfg _ ?v] work_left_stop(2) [where m = m and cfg = cfg and st = st] by simp
  ultimately show ?thesis
    using fails(1) work_left_stop(2) [where m = m and cfg = cfg and st = st] by (simp add: tick_failed_def Let_def split: if_splits)
next
  case (last_tick n k)
  then show ?thesis using work_left_enter [OF last_tick(2)] by (simp add: rank_def)
next
  case (waits n k)
  then show ?thesis using work_left_enter [OF waits(2)] by (simp add: rank_def)
next
  case (signalled why)
  then show ?thesis by (simp add: work_left_def request_stop_def)
qed

text \<open>
  Claim C39.  A run with a bound on the iterations ends: no run takes steps for ever, and
  a run stops taking steps of workers only when every worker has returned.
\<close>

theorem bounded_run_ends:
  assumes "rn_max_iterations cfg = Some m"
  shows "wf {(st', st). runner_step cfg st st'} \<and> (\<not> all_returned cfg st \<longrightarrow> (\<exists>st'. runner_step cfg st st'))"
proof
  have "{(st', st). runner_step cfg st st'} \<subseteq> measure (work_left m cfg)"
    using work_left_step [OF assms] by auto
  then show "wf {(st', st). runner_step cfg st st'}" by (rule wf_subset [OF wf_measure])
  show "\<not> all_returned cfg st \<longrightarrow> (\<exists>st'. runner_step cfg st st')"
  proof
    assume "\<not> all_returned cfg st"
    then obtain n where "n \<in> set (rn_workers cfg)" "ru_phase st n \<noteq> Returned" by (auto simp: all_returned_def)
    then show "\<exists>st'. runner_step cfg st st'"
      by (cases "ru_phase st n") (blast intro: runner_step.intros)+
  qed
qed

end
