(* ===== verification/Witnesses_Services.thy ===== *)
theory Witnesses_Services
  imports Witnesses Telegram_Client Service_Runner
begin

text \<open>Concrete runs of the client of Telegram and of the service runner.\<close>

section \<open>Telegram\<close>

definition telegram_sample :: telegram_config where
  "telegram_sample = \<lparr>tg_token = ''1:ab'', tg_auth = None, tg_max_bytes = 10, tg_by_download = False,
     tg_filename = (\<lambda>_ _. ''a.jpg'')\<rparr>"

definition rendered_sample :: rendered where
  "rendered_sample = \<lparr>rd_chat = JInt 5, rd_text = ''case'', rd_thread = JNull, rd_attachments = [(''u'', JNull)]\<rparr>"

text \<open>A network that shows the URL, and one that takes messages and loses photos.\<close>

definition broken :: transport where
  "broken = (\<lambda>_ _. Network_Error ''/bot1:ab/sendMessage'')"

definition no_photos :: transport where
  "no_photos = (\<lambda>_ c. case c of
     Telegram m _ \<Rightarrow> if m = ''sendPhoto'' then Network_Error ''timeout''
        else Reply (JObj [(''ok'', JBool True), (''result'', JObj [(''message_id'', JInt 7)])])
   | _ \<Rightarrow> Network_Error [])"

theorem token_never_in_errors_witness:
  "\<exists>desc. fst (send_case_card telegram_sample broken rendered_sample (fresh_world empty_db)) = Inl (TelegramError desc None None None True) \<and>
     \<not> str_contains ''1:ab'' desc"
proof -
  have shape: "token_shape (tg_token telegram_sample)" by code_simp
  have run: "fst (send_case_card telegram_sample broken rendered_sample (fresh_world empty_db))
      = Inl (TelegramError ''/bot[REDACTED_TELEGRAM_TOKEN]/sendMessage'' None None None True)" by code_simp
  then have "send_case_card telegram_sample broken rendered_sample (fresh_world empty_db)
      = (Inl (TelegramError ''/bot[REDACTED_TELEGRAM_TOKEN]/sendMessage'' None None None True),
         snd (send_case_card telegram_sample broken rendered_sample (fresh_world empty_db)))" by (simp add: prod_eq_iff)
  note eq = this
  have "leaks_nothing telegram_sample (send_case_card telegram_sample broken rendered_sample)"
    by (rule token_never_in_errors [OF shape, THEN conjunct1])
  then have "\<not> str_contains (tg_token telegram_sample) ''/bot[REDACTED_TELEGRAM_TOKEN]/sendMessage''"
    unfolding leaks_nothing_def using eq by blast
  moreover have "tg_token telegram_sample = ''1:ab''" by (simp add: telegram_sample_def)
  ultimately have "\<not> str_contains ''1:ab'' ''/bot[REDACTED_TELEGRAM_TOKEN]/sendMessage''" by metis
  with run show ?thesis by blast
qed

abbreviation followup_run :: "(exn + (int \<times> dict list \<times> (json \<times> string \<times> string) list)) \<times> service_call world" where
  "followup_run \<equiv> send_case_followup telegram_sample no_photos rendered_sample (JInt 3) (fresh_world empty_db)"

theorem followup_sent_once_witness:
  "\<exists>msg rs es. fst followup_run = Inr (msg, rs, es) \<and> length rs + length es = 1"
proof -
  have run: "\<not> isl (fst followup_run)" "length (rd_attachments rendered_sample) = 1" by code_simp+
  from followup_sent_once [OF run_outcome [OF run(1)]] run show ?thesis
    by (cases "fst followup_run") (auto split: prod.splits)
qed

text \<open>
  A new case is not as careful: the card is in the group when a photo fails, and the error
  is one for which the command worker tries again, so that the card is sent again.
\<close>

lemma card_sent_then_retried:
  "fst (send_case_card telegram_sample no_photos rendered_sample (fresh_world empty_db))
     = Inl (TelegramError ''timeout'' None None None True)"
  "accepted (no_photos [] (hd (calls (snd (send_case_card telegram_sample no_photos rendered_sample (fresh_world empty_db))))))"
  "classify_telegram_error (TelegramError ''timeout'' None None None True) = ''RETRYABLE''"
  by code_simp+

section \<open>The service runner\<close>

definition runner_sample :: runner_config where
  "runner_sample = \<lparr>rn_workers = [''w''], rn_max_iterations = Some 2, rn_stop_on_error = True\<rparr>"

abbreviation failed_state :: runner_state where
  "failed_state \<equiv> tick_failed runner_sample ''w'' (Suc 0) (OtherError ''e'') (enter ''w'' (In_Tick (Suc 0)) initial_state)"

lemma failed_state_reachable: "reachable runner_sample failed_state"
proof -
  have w: "''w'' \<in> set (rn_workers runner_sample)" by (simp add: runner_sample_def)
  have "runner_step runner_sample initial_state (enter ''w'' (In_Tick (Suc 0)) initial_state)"
    by (rule runner_step.starts [OF w]) (simp_all add: initial_state_def runner_sample_def exhausted_def)
  then have started: "reachable runner_sample (enter ''w'' (In_Tick (Suc 0)) initial_state)"
    by (rule reachable.next_step [OF reachable.initially])
  have "runner_step runner_sample (enter ''w'' (In_Tick (Suc 0)) initial_state) failed_state"
    by (rule runner_step.fails [OF w]) (simp add: enter_def)
  then show ?thesis by (rule reachable.next_step [OF started])
qed

theorem runner_accounts_witness: "ru_stop failed_state"
proof -
  have "distinct (rn_workers runner_sample)" "rn_stop_on_error runner_sample" "0 < sm_errors_total (ru_summary failed_state)"
    by (simp_all add: runner_sample_def tick_failed_def enter_def request_stop_def record_error_def Let_def)
  with runner_accounts [OF failed_state_reachable] show ?thesis by blast
qed

theorem bounded_run_ends_witness: "\<exists>st'. runner_step runner_sample initial_state st'"
proof -
  have "rn_max_iterations runner_sample = Some 2" "\<not> all_returned runner_sample initial_state"
    by (simp_all add: runner_sample_def all_returned_def initial_state_def)
  with bounded_run_ends [of runner_sample 2 initial_state] show ?thesis by blast
qed

end
