(* ===== verification/Backend.thy ===== *)
theory Backend
  imports Platforms Conversations
begin

text \<open>
  The configuration of the back office of a conversation
  (\<open>src/app/backends/config.py\<close>, \<open>src/app/backends/resolver.py\<close>): which merchant's accounts
  a query may see follows from the LiveChat group alone.
\<close>

section \<open>Configuration\<close>

record backend_settings =
  bs_enabled :: bool
  bs_provider_type :: "string option"
  bs_base_url :: "string option"
  bs_authorization :: "string option"
  bs_merchant_code :: "string option"
  bs_login_operator :: "string option"
  bs_login_password :: "string option"
  bs_totp_secret :: "string option"
  bs_login_merchant :: "string option"
  bs_request_timeout :: json
  bs_default_days :: int
  bs_fallback_days :: int

record backend_config =
  bc_provider_type :: string
  bc_base_url :: "string option"
  bc_authorization :: "string option"
  bc_merchant_code :: "string option"
  bc_login_operator :: "string option"
  bc_login_password :: "string option"
  bc_totp_secret :: "string option"
  bc_login_merchant :: "string option"
  bc_request_timeout :: json
  bc_default_days :: int
  bc_fallback_days :: int
  bc_source :: string
  bc_group_id :: "int option"
  bc_platform :: "string option"

definition secret_fields :: "string list" where
  "secret_fields = [''authorization'', ''login_password'', ''totp_secret'']"

text \<open>What \<open>repr\<close> of a configuration shows.\<close>

definition sanitized :: "backend_config \<Rightarrow> dict" where
  "sanitized c =
     map (\<lambda>(k, v). (k, if k \<in> set secret_fields \<and> truthy v then JStr ''<redacted>'' else v))
       [(''provider_type'', JStr (bc_provider_type c)), (''base_url'', opt_json (bc_base_url c)),
        (''authorization'', opt_json (bc_authorization c)), (''merchant_code'', opt_json (bc_merchant_code c)),
        (''login_operator'', opt_json (bc_login_operator c)), (''login_password'', opt_json (bc_login_password c)),
        (''totp_secret'', opt_json (bc_totp_secret c)), (''login_merchant'', opt_json (bc_login_merchant c)),
        (''request_timeout_seconds'', bc_request_timeout c), (''default_lookback_days'', JInt (bc_default_days c)),
        (''fallback_lookback_days'', JInt (bc_fallback_days c)), (''source'', JStr (bc_source c)),
        (''livechat_group_id'', opt_topic (bc_group_id c)), (''platform'', opt_json (bc_platform c))]"

section \<open>Resolution\<close>

text \<open>\<open>BackendConfigError\<close>: the code and the message.\<close>

type_synonym config_error = "string \<times> string"

definition blank_to_none :: "string option \<Rightarrow> string option" where
  "blank_to_none v = (case v of None \<Rightarrow> None | Some s \<Rightarrow> if str_strip s = [] then None else Some (str_strip s))"

definition missing_required_fields :: "backend_config \<Rightarrow> string list" where
  "missing_required_fields c =
     (if bc_provider_type c = [] then [''backend_provider_type''] else [])
     @ (if text_true (bc_base_url c) then [] else [''backend_base_url''])
     @ (if text_true (bc_merchant_code c) then [] else [''backend_merchant_code''])
     @ (if \<not> text_true (bc_authorization c)
            \<and> \<not> (text_true (bc_login_operator c) \<and> (text_true (bc_login_password c) \<or> text_true (bc_totp_secret c)))
        then [''backend_authorization or backend_login_operator/backend_login_password or backend_login_operator/backend_totp_secret'']
        else [])"

definition routing_error :: "string \<Rightarrow> json \<Rightarrow> json \<Rightarrow> config_error" where
  "routing_error reason gid platform =
     (let p = normalize_platform platform in
      (''FAILED_CONFIG'', reason @ ''; livechat_group_id='' @ py_repr gid @ '', platform=''
         @ py_repr (if p = [] then JNull else JStr p)))"

text \<open>The route of a LiveChat conversation: group, platform and merchant.\<close>

definition livechat_route :: "json \<Rightarrow> json \<Rightarrow> config_error + int \<times> string \<times> string" where
  "livechat_route gid platform =
     (if gid = JNull \<or> str_strip (py_str gid) = []
      then Inl (routing_error ''livechat_group_id is required'' gid platform)
      else case normalize_livechat_group_id gid of
        None \<Rightarrow> Inl (routing_error ''livechat_group_id must be a positive integer'' gid platform)
      | Some g \<Rightarrow>
          (case (platform_for_livechat_group_id (JInt g), merchant_for_livechat_group_id (JInt g)) of
             (Some expected, Some merchant) \<Rightarrow>
               (let supplied = normalize_platform platform in
                if supplied \<noteq> [] \<and> supplied \<noteq> expected
                then Inl (routing_error (''platform '' @ supplied @ '' does not match livechat_group_id '' @ int_str g
                            @ '' ('' @ expected @ '')'') gid platform)
                else Inr (g, expected, merchant))
           | _ \<Rightarrow> Inl (routing_error (''livechat_group_id '' @ int_str g @ '' has no backend merchant mapping'') gid platform)))"

definition config_for :: "backend_settings \<Rightarrow> string option \<Rightarrow> string \<Rightarrow> int option \<Rightarrow> string option \<Rightarrow> backend_config" where
  "config_for st merchant source gid platform =
     \<lparr>bc_provider_type = str_strip (text_or [] (bs_provider_type st)), bc_base_url = blank_to_none (bs_base_url st),
      bc_authorization = blank_to_none (bs_authorization st), bc_merchant_code = merchant,
      bc_login_operator = blank_to_none (bs_login_operator st), bc_login_password = blank_to_none (bs_login_password st),
      bc_totp_secret = blank_to_none (bs_totp_secret st), bc_login_merchant = blank_to_none (bs_login_merchant st),
      bc_request_timeout = bs_request_timeout st, bc_default_days = bs_default_days st,
      bc_fallback_days = bs_fallback_days st, bc_source = source, bc_group_id = gid, bc_platform = platform\<rparr>"

definition resolve :: "backend_settings \<Rightarrow> string option \<Rightarrow> json \<Rightarrow> json \<Rightarrow> config_error + backend_config" where
  "resolve st channel gid platform =
     (if \<not> bs_enabled st then Inl (''FAILED_CONFIG'', ''backend_query_enabled is false'')
      else
        (let config = (if str_lower (str_strip (text_or [] channel)) = ''livechat''
             then map_sum id (\<lambda>(g, p, merchant).
                    config_for st (Some merchant) (''livechat_group:'' @ int_str g) (Some g) (Some p)) (livechat_route gid platform)
             else Inr (config_for st (blank_to_none (bs_merchant_code st)) ''env_default'' None None)) in
         case config of
           Inl e \<Rightarrow> Inl e
         | Inr c \<Rightarrow>
             if missing_required_fields c = [] then Inr c
             else Inl (''FAILED_CONFIG'', ''missing backend config: '' @ join_with '', '' (missing_required_fields c))))"

text \<open>A resolved configuration has a merchant and a base URL; of a LiveChat conversation, the merchant of its group.\<close>

lemma resolve_complete:
  assumes "resolve st channel gid platform = Inr c"
  shows "text_true (bc_merchant_code c)" "text_true (bc_base_url c)"
  using assms by (auto simp: resolve_def missing_required_fields_def Let_def split: if_splits sum.splits)

lemma resolve_livechat:
  assumes "resolve st (Some ''livechat'') gid platform = Inr c"
  obtains g where "normalize_livechat_group_id gid = Some g" "bc_group_id c = Some g"
    "bc_platform c = platform_for_livechat_group_id (JInt g)" "bc_merchant_code c = merchant_for_livechat_group_id (JInt g)"
    "normalize_platform platform = [] \<or> Some (normalize_platform platform) = bc_platform c"
proof -
  have "str_lower (str_strip (text_or [] (Some ''livechat''))) = ''livechat''" by code_simp
  then obtain g p m where "livechat_route gid platform = Inr (g, p, m)"
      "c = config_for st (Some m) (''livechat_group:'' @ int_str g) (Some g) (Some p)"
    using assms by (auto simp: resolve_def Let_def map_sum_Inr_iff split: if_splits sum.splits)
  then show ?thesis
    using that by (auto simp: livechat_route_def config_for_def Let_def split: if_splits option.splits)
qed

end
