(* ===== verification/Totp.thy ===== *)
theory Totp
  imports Calendar "HOL-Library.Word"
begin

text \<open>
  One-time codes for the login to the back office (\<open>generate_totp\<close> of
  \<open>src/app/backends/tac_client.py\<close>).  What it uses of Python's library is defined here as well:
  base 32 (\<open>base64.b32decode\<close>), big-endian bytes (\<open>struct\<close>) and HMAC with SHA-1
  (\<open>hmac\<close>, \<open>hashlib\<close>), on words of 8 and 32 bits.
\<close>

unbundle bit_operations_syntax

type_synonym byte = "8 word"

section \<open>Bytes\<close>

text \<open>The \<open>k\<close> bytes of a number, most significant first, and the word that four bytes make.\<close>

fun be_bytes :: "nat \<Rightarrow> int \<Rightarrow> byte list" where
  "be_bytes 0 n = []"
| "be_bytes (Suc k) n = be_bytes k (n div 256) @ [word_of_int n]"

definition be_word :: "byte list \<Rightarrow> 32 word" where
  "be_word bs = foldl (\<lambda>a b. push_bit 8 a OR ucast b) 0 bs"

lemma length_be_bytes [simp]: "length (be_bytes k n) = k"
  by (induction k arbitrary: n) auto

function chunks :: "nat \<Rightarrow> 'a list \<Rightarrow> 'a list list" where
  "chunks n xs = (if xs = [] \<or> n = 0 then [] else take n xs # chunks n (drop n xs))"
  by pat_completeness auto
termination by (relation "measure (\<lambda>(n, xs). length xs)") auto

declare chunks.simps [simp del]

section \<open>SHA-1\<close>

definition rotl :: "nat \<Rightarrow> 32 word \<Rightarrow> 32 word" where
  "rotl n x = push_bit n x OR drop_bit (32 - n) x"

definition sha1_pad :: "byte list \<Rightarrow> byte list" where
  "sha1_pad m = m @ 0x80 # replicate ((119 - length m mod 64) mod 64) 0 @ be_bytes 8 (8 * int (length m))"

text \<open>The schedule is built with the latest word in front.\<close>

fun sha1_extend :: "nat \<Rightarrow> 32 word list \<Rightarrow> 32 word list" where
  "sha1_extend 0 ws = ws"
| "sha1_extend (Suc n) ws = sha1_extend n (rotl 1 (ws ! 2 XOR ws ! 7 XOR ws ! 13 XOR ws ! 15) # ws)"

definition sha1_schedule :: "byte list \<Rightarrow> 32 word list" where
  "sha1_schedule block = rev (sha1_extend 64 (rev (map be_word (chunks 4 block))))"

type_synonym sha1_state = "32 word \<times> 32 word \<times> 32 word \<times> 32 word \<times> 32 word"

definition sha1_round :: "sha1_state \<Rightarrow> nat \<times> 32 word \<Rightarrow> sha1_state" where
  "sha1_round s tw = (case s of (a, b, c, d, e) \<Rightarrow> (case tw of (t, w) \<Rightarrow>
     (let f = (if t < 20 then (b AND c) OR (NOT b AND d) else if t < 40 then b XOR c XOR d
               else if t < 60 then (b AND c) OR (b AND d) OR (c AND d) else b XOR c XOR d);
          k = (if t < 20 then 0x5A827999 else if t < 40 then 0x6ED9EBA1 else if t < 60 then 0x8F1BBCDC else 0xCA62C1D6)
      in (rotl 5 a + f + e + k + w, a, rotl 30 b, c, d))))"

definition sha1_block :: "sha1_state \<Rightarrow> byte list \<Rightarrow> sha1_state" where
  "sha1_block s block = (case s of (a, b, c, d, e) \<Rightarrow>
     (case foldl sha1_round s (enumerate 0 (sha1_schedule block)) of (a', b', c', d', e') \<Rightarrow>
       (a + a', b + b', c + c', d + d', e + e')))"

definition sha1_bytes :: "sha1_state \<Rightarrow> byte list" where
  "sha1_bytes s = (case s of (a, b, c, d, e) \<Rightarrow> concat (map (\<lambda>x. be_bytes 4 (uint x)) [a, b, c, d, e]))"

definition sha1 :: "byte list \<Rightarrow> byte list" where
  "sha1 m = sha1_bytes (foldl sha1_block (0x67452301, 0xEFCDAB89, 0x98BADCFE, 0x10325476, 0xC3D2E1F0)
     (chunks 64 (sha1_pad m)))"

definition hmac_sha1 :: "byte list \<Rightarrow> byte list \<Rightarrow> byte list" where
  "hmac_sha1 key m =
     (let k = (if length key > 64 then sha1 key else key); k0 = k @ replicate (64 - length k) 0 in
      sha1 (map (\<lambda>b. b XOR 0x5C) k0 @ sha1 (map (\<lambda>b. b XOR 0x36) k0 @ m)))"

lemma length_sha1 [simp]: "length (sha1 m) = 20"
  by (simp add: sha1_def sha1_bytes_def split: prod.splits)

lemma length_hmac_sha1 [simp]: "length (hmac_sha1 key m) = 20"
  by (simp add: hmac_sha1_def Let_def)

section \<open>Base 32\<close>

definition b32_value :: "char \<Rightarrow> nat option" where
  "b32_value c = (let n = of_char c :: nat in
     if 65 \<le> n \<and> n \<le> 90 then Some (n - 65) else if 50 \<le> n \<and> n \<le> 55 then Some (n - 24) else None)"

fun b32_number :: "int \<Rightarrow> string \<Rightarrow> int option" where
  "b32_number acc [] = Some acc"
| "b32_number acc (c # cs) = (case b32_value c of None \<Rightarrow> None | Some v \<Rightarrow> b32_number (acc * 32 + int v) cs)"

fun b32_quanta :: "string list \<Rightarrow> int list option" where
  "b32_quanta [] = Some []"
| "b32_quanta (q # qs) = (case b32_number 0 q of None \<Rightarrow> None | Some n \<Rightarrow> map_option (Cons n) (b32_quanta qs))"

text \<open>
  \<open>base64.b32decode(s, casefold=True)\<close>; \<open>None\<close> is its \<open>binascii.Error\<close>.  The last quantum is
  shifted by its padding and shortened.
\<close>

definition b32decode :: "string \<Rightarrow> byte list option" where
  "b32decode s0 =
     (let s = str_upper s0; body = rev (dropWhile (\<lambda>c. c = CHR ''='') (rev s)); pad = length s - length body in
      if length s mod 8 \<noteq> 0 then None
      else case b32_quanta (chunks 8 body) of
        None \<Rightarrow> None
      | Some ns \<Rightarrow>
          (let decoded = concat (map (be_bytes 5) ns) in
           if pad \<notin> {0, 1, 3, 4, 6} then None
           else if pad \<noteq> 0 \<and> decoded \<noteq> []
           then Some (take (length decoded - 5) decoded
                      @ take ((43 - 5 * pad) div 8) (be_bytes 5 (last ns * 32 ^ pad)))
           else Some decoded))"

section \<open>The code\<close>

definition backend_api_error :: "string \<Rightarrow> string \<Rightarrow> exn" where
  "backend_api_error code message = OtherError (str_strip (code @ '' '' @ message))"

definition zfill :: "nat \<Rightarrow> string \<Rightarrow> string" where
  "zfill k s = replicate (k - length s) CHR ''0'' @ s"

definition totp_key :: "string \<Rightarrow> byte list option" where
  "totp_key secret =
     (let normalized = str_upper (filter (\<lambda>c. \<not> is_space c) secret);
          padding = replicate ((8 - length normalized mod 8) mod 8) CHR ''='' in
      b32decode (normalized @ padding))"

text \<open>The time is in seconds; \<open>struct.pack(">Q", n)\<close> takes 64 bits.\<close>

definition generate_totp :: "nat \<Rightarrow> int \<Rightarrow> string \<Rightarrow> int \<Rightarrow> exn + string" where
  "generate_totp digits interval secret t =
     (case totp_key secret of
        None \<Rightarrow> Inl (backend_api_error ''FAILED_CONFIG'' ''backend_totp_secret must be base32 encoded'')
      | Some key \<Rightarrow>
          (let counter = t div interval in
           if counter < 0 \<or> counter \<ge> 2 ^ 64 then Inl (OtherError ''argument out of range'')
           else
             (let digest = hmac_sha1 key (be_bytes 8 counter);
                  offset = unat (last digest AND 0x0F);
                  code = be_word (take 4 (drop offset digest)) AND 0x7FFFFFFF in
              Inr (zfill digits (int_str (uint code mod 10 ^ digits))))))"

section \<open>The reference\<close>

text \<open>The truncation of RFC 4226 in plain arithmetic, of the digest of the counter.\<close>

definition hotp_value :: "byte list \<Rightarrow> int \<Rightarrow> int" where
  "hotp_value key counter =
     (let d = hmac_sha1 key (be_bytes 8 counter); i = nat (uint (d ! 19) mod 16) in
      (uint (d ! i) * 2 ^ 24 + uint (d ! (i + 1)) * 2 ^ 16 + uint (d ! (i + 2)) * 2 ^ 8 + uint (d ! (i + 3))) mod 2 ^ 31)"

lemma uint_shift_in:
  fixes x :: "32 word" and b :: byte
  assumes "uint x < 2 ^ 24"
  shows "uint (push_bit 8 x OR ucast b) = uint x * 256 + uint b"
proof -
  have "push_bit 8 x AND ucast b = 0"
    by (rule bit_word_eqI) (auto simp: bit_simps dest: bit_imp_le_length)
  then have "push_bit 8 x + ucast b = push_bit 8 x OR ucast b"
    by (rule disjunctive_add_eq_or)
  then have eq: "push_bit 8 x OR ucast b = x * 256 + ucast b"
    by (simp only: push_bit_eq_mult) simp
  have b: "uint b < 2 ^ 8" "0 \<le> uint b" using uint_lt2p [of b] by simp_all
  have ub: "uint (ucast b :: 32 word) = uint b"
    using b by (simp add: unsigned_ucast_eq take_bit_int_eq_self)
  show ?thesis
    unfolding eq uint_word_ariths ub using assms b by (simp add: mod_pos_pos_trivial)
qed

lemma uint_be_word:
  "uint (be_word [a, b, c, d]) = uint a * 2 ^ 24 + uint b * 2 ^ 16 + uint c * 2 ^ 8 + uint d"
proof -
  have lt: "uint x < 256" "0 \<le> uint x" for x :: byte using uint_lt2p [of x] by simp_all
  define s where "s x y = (push_bit 8 x OR ucast y :: 32 word)" for x and y :: byte
  have s: "uint x < 2 ^ 24 \<Longrightarrow> uint (s x y) = uint x * 256 + uint y" for x y
    by (simp add: s_def uint_shift_in)
  have 1: "uint (s 0 a) = uint a" using s [of 0 a] by simp
  have 2: "uint (s (s 0 a) b) = uint a * 256 + uint b" using s [of "s 0 a" b] 1 lt [of a] by simp
  have 3: "uint (s (s (s 0 a) b) c) = (uint a * 256 + uint b) * 256 + uint c"
    using s [of "s (s 0 a) b" c] 2 lt [of a] lt [of b] by simp
  have "uint (s (s (s (s 0 a) b) c) d) = ((uint a * 256 + uint b) * 256 + uint c) * 256 + uint d"
    using s [of "s (s (s 0 a) b) c" d] 3 lt [of a] lt [of b] lt [of c] by simp
  then show ?thesis by (simp add: be_word_def s_def)
qed

lemma and_mods: "uint (b AND 0x0F :: byte) = uint b mod 16" "uint (x AND 0x7FFFFFFF :: 32 word) = uint x mod 2 ^ 31"
proof -
  have m: "(0x0F :: byte) = mask 4" "(0x7FFFFFFF :: 32 word) = mask 31" by (simp_all add: mask_eq_exp_minus_1)
  have "uint (b AND mask 4) = take_bit 4 (uint b)" "uint (x AND mask 31) = take_bit 31 (uint x)"
    by (simp_all only: unsigned_take_bit_eq flip: take_bit_eq_mask)
  then show "uint (b AND 0x0F) = uint b mod 16" "uint (x AND 0x7FFFFFFF) = uint x mod 2 ^ 31"
    unfolding m by (simp_all add: take_bit_eq_mod)
qed

lemma padded_0: "padded k 0 = replicate k CHR ''0''"
proof -
  have "(char_of (48 :: nat) :: char) = CHR ''0''" by code_simp
  then show ?thesis by (induction k) (simp_all add: replicate_append_same)
qed

lemma zfill_nat_str: "n < 10 ^ Suc k \<Longrightarrow> zfill (Suc k) (nat_str n) = padded (Suc k) n"
proof (induction k arbitrary: n)
  case 0
  then show ?case by (subst nat_str.simps) (simp add: zfill_def)
next
  case (Suc k)
  show ?case
  proof (cases "n < 10")
    case True
    then show ?thesis by (subst nat_str.simps) (simp add: zfill_def padded_0)
  next
    case False
    then have "nat_str n = nat_str (n div 10) @ [char_of (48 + n mod 10)]" by (subst nat_str.simps) simp
    moreover have "n div 10 < 10 ^ Suc k" using Suc.prems by auto
    ultimately show ?thesis using Suc.IH [of "n div 10"] by (simp add: zfill_def)
  qed
qed

lemma take_four: "i + 4 \<le> length d \<Longrightarrow> take 4 (drop i d) = [d ! i, d ! (i + 1), d ! (i + 2), d ! (i + 3)]"
  by (rule nth_equalityI) (auto simp: less_Suc_eq numeral_eq_Suc)

text \<open>
  Claim C40.  A secret in base 32 and a time give six digits, which are the value of
  RFC 4226 for the 30-second interval of the time; hence the code changes only with the interval.
\<close>

theorem totp_code_valid:
  assumes key: "totp_key secret = Some key" and t: "0 \<le> t" "t div 30 < 2 ^ 64"
  shows "\<exists>code. generate_totp 6 30 secret t = Inr code \<and> length code = 6 \<and>
     read_digits 0 code = Some (nat (hotp_value key (t div 30) mod 10 ^ 6)) \<and>
     (\<forall>u. u div 30 = t div 30 \<longrightarrow> generate_totp 6 30 secret u = Inr code)"
proof -
  define d where "d = hmac_sha1 key (be_bytes 8 (t div 30))"
  define n where "n = nat (hotp_value key (t div 30) mod 10 ^ 6)"
  have len: "length d = 20" by (simp add: d_def)
  have l: "last d = d ! 19" using len by (subst last_conv_nth) auto
  have o: "unat (d ! 19 AND 0x0F) = nat (uint (d ! 19) mod 16)"
    by (simp only: unat_eq_nat_uint and_mods)
  have lt: "nat (uint (d ! 19) mod 16) + 4 \<le> length d"
    using pos_mod_bound [of 16 "uint (d ! 19)"] by (simp add: len)
  have code: "uint (be_word (take 4 (drop (unat (last d AND 0x0F)) d)) AND 0x7FFFFFFF) = hotp_value key (t div 30)"
    unfolding l o take_four [OF lt] and_mods uint_be_word by (simp add: hotp_value_def Let_def d_def)
  have pos: "0 \<le> hotp_value key (t div 30)" by (simp add: hotp_value_def Let_def)
  have n: "n < 10 ^ Suc 5" by (simp add: n_def nat_less_iff)
  have str: "int_str (hotp_value key (t div 30) mod 10 ^ 6) = nat_str n"
    by (simp add: int_str_def n_def)
  have run: "generate_totp 6 30 secret t = Inr (padded 6 n)"
    using t zfill_nat_str [OF n] str code
    by (simp add: generate_totp_def key Let_def d_def not_less pos_imp_zdiv_nonneg_iff)
  show ?thesis
  proof (intro exI [of _ "padded 6 n"] conjI allI impI)
    show "generate_totp 6 30 secret u = Inr (padded 6 n)" if "u div 30 = t div 30" for u
      using run unfolding generate_totp_def that .
    show "read_digits 0 (padded 6 n) = Some (nat (hotp_value key (t div 30) mod 10 ^ 6))"
      unfolding n_def [symmetric] by (rule read_padded) (use n in simp)
  qed (simp_all add: run)
qed

section \<open>Reading a secret\<close>

text \<open>Base 32 as RFC 4648 writes it, for reference: the program only reads it.\<close>

definition be_int :: "byte list \<Rightarrow> int" where
  "be_int bs = foldl (\<lambda>a b. a * 256 + uint b) 0 bs"

definition b32_char :: "int \<Rightarrow> char" where
  "b32_char n = char_of (if n < 26 then 65 + nat n else 24 + nat n)"

fun b32_digits :: "nat \<Rightarrow> int \<Rightarrow> string" where
  "b32_digits 0 n = []"
| "b32_digits (Suc k) n = b32_digits k (n div 32) @ [b32_char (n mod 32)]"

definition b32_quantum :: "byte list \<Rightarrow> string" where
  "b32_quantum bs =
     (let k = (8 * length bs + 4) div 5 in
      take k (b32_digits 8 (be_int (bs @ replicate (5 - length bs) 0))) @ replicate (8 - k) CHR ''='')"

definition b32encode :: "byte list \<Rightarrow> string" where
  "b32encode bs = concat (map b32_quantum (chunks 5 bs))"

lemma length_b32_digits [simp]: "length (b32_digits k n) = k"
  by (induction k arbitrary: n) auto

lemma be_int_snoc: "be_int (bs @ [b]) = be_int bs * 256 + uint b"
  by (simp add: be_int_def)

lemma be_int_zeros: "be_int (bs @ replicate k 0) = be_int bs * 256 ^ k"
  by (induction k) (simp_all add: be_int_snoc append_assoc [symmetric] replicate_append_same [symmetric] del: append_assoc)

lemma byte_bounds: "0 \<le> uint (b :: byte)" "uint b < 256"
  using uint_lt2p [of b] by simp_all

lemma be_int_bounds: "0 \<le> be_int bs \<and> be_int bs < 256 ^ length bs"
proof (induction bs rule: rev_induct)
  case (snoc b bs)
  then have "be_int bs * 256 + 256 \<le> 256 ^ length bs * 256" by linarith
  then show ?case using byte_bounds [of b] snoc by (simp add: be_int_snoc)
qed (simp add: be_int_def)

lemma be_bytes_int: "be_bytes (length bs) (be_int bs) = bs"
proof (induction bs rule: rev_induct)
  case (snoc b bs)
  note b = byte_bounds [of b]
  then have "(be_int bs * 256 + uint b) div 256 = be_int bs" by simp
  moreover have "word_of_int (be_int bs * 256 + uint b) = b"
  proof -
    have "(256 :: byte) = 0" by simp
    then show ?thesis by (simp only: of_int_add of_int_mult of_int_numeral word_of_int_uint) simp
  qed
  ultimately show ?case using snoc by (simp add: be_int_snoc)
qed simp

lemma b32_value_char:
  assumes "0 \<le> n" "n < 32"
  shows "b32_value (b32_char n) = Some (nat n)" "b32_char n \<noteq> CHR ''=''"
proof -
  show v: "b32_value (b32_char n) = Some (nat n)"
    using assms by (auto simp: b32_value_def b32_char_def Let_def)
  have "b32_value CHR ''='' = None" by code_simp
  with v show "b32_char n \<noteq> CHR ''=''" by auto
qed

lemma set_b32_digits: "CHR ''='' \<notin> set (b32_digits k n)"
  by (induction k arbitrary: n) (auto simp: b32_value_char(2) [symmetric])

lemma b32_number_append:
  "b32_number acc (s @ t) = (case b32_number acc s of None \<Rightarrow> None | Some a \<Rightarrow> b32_number a t)"
  by (induction s arbitrary: acc) (auto split: option.split)

lemma b32_number_digits: "b32_number acc (b32_digits k n) = Some (acc * 32 ^ k + n mod 32 ^ k)"
proof (induction k arbitrary: n)
  case (Suc k)
  have "n mod (32 * 32 ^ k) = 32 * (n div 32 mod 32 ^ k) + n mod 32"
    by (rule zmod_zmult2_eq) simp
  then show ?case using Suc by (simp add: b32_number_append b32_value_char algebra_simps)
qed simp

lemma take_b32_digits: "j \<le> k \<Longrightarrow> take j (b32_digits k n) = b32_digits j (n div 32 ^ (k - j))"
proof (induction k arbitrary: n)
  case (Suc k)
  show ?case
  proof (cases "j = Suc k")
    case False
    with Suc.prems have "j \<le> k" by simp
    then show ?thesis using Suc.IH [of "n div 32"]
      by (simp add: Suc_diff_le zdiv_zmult2_eq)
  qed simp
qed simp

lemma quantum_cases:
  assumes "bs \<noteq> []" "length bs \<le> 5"
  obtains n pad where "b32_quantum bs = b32_digits (8 - pad) n @ replicate pad CHR ''=''"
    "0 \<le> n" "n < 32 ^ (8 - pad)" "be_bytes 5 (n * 32 ^ pad) = bs @ replicate (5 - length bs) 0"
    "pad \<in> {0, 1, 3, 4, 6}" "(43 - 5 * pad) div 8 = length bs" "pad = 0 \<longleftrightarrow> length bs = 5"
proof -
  define v where "v = be_int (bs @ replicate (5 - length bs) 0)"
  define pad where "pad = 8 - (8 * length bs + 4) div 5"
  have "0 < length bs" using assms(1) by simp
  then have "length bs \<in> {1, 2, 3, 4, 5}" using assms(2) by (simp only: insert_iff empty_iff) presburger
  then have table: "pad \<in> {0, 1, 3, 4, 6} \<and> (43 - 5 * pad) div 8 = length bs \<and> (pad = 0 \<longleftrightarrow> length bs = 5)
      \<and> 8 - pad = (8 * length bs + 4) div 5 \<and> (32 :: int) ^ pad dvd 256 ^ (5 - length bs)"
    by (auto simp: pad_def)
  have v: "v = be_int bs * 256 ^ (5 - length bs)" by (simp add: v_def be_int_zeros)
  have div: "v div 32 ^ pad * 32 ^ pad = v"
    by (rule dvd_div_mult_self) (use table v in \<open>simp add: dvd_mult\<close>)
  have len: "length (bs @ replicate (5 - length bs) (0 :: byte)) = 5" using assms(2) by simp
  have bounds: "0 \<le> v" "v < 256 ^ 5"
    using be_int_bounds [of "bs @ replicate (5 - length bs) 0"] unfolding len by (simp_all add: v_def)
  have "v div 32 ^ pad < 32 ^ (8 - pad)"
  proof -
    have "(32 :: int) ^ (8 - pad) * 32 ^ pad = 256 ^ 5"
      using table by (auto simp flip: power_add)
    then have "v div 32 ^ pad * 32 ^ pad < 32 ^ (8 - pad) * 32 ^ pad" using div bounds by simp
    then show ?thesis by simp
  qed
  moreover have "be_bytes 5 v = bs @ replicate (5 - length bs) 0"
    using be_bytes_int [of "bs @ replicate (5 - length bs) 0"] unfolding len v_def by simp
  moreover have "b32_quantum bs = b32_digits (8 - pad) (v div 32 ^ pad) @ replicate pad CHR ''=''"
    using table by (auto simp: b32_quantum_def Let_def take_b32_digits pad_def [symmetric] v_def [symmetric])
  ultimately show ?thesis
    using that [of pad "v div 32 ^ pad"] table bounds div by (auto simp: pos_imp_zdiv_nonneg_iff)
qed

lemma chunks_Nil [simp]: "chunks n [] = []"
  by (subst chunks.simps) simp

lemma chunks_append: "length xs = n \<Longrightarrow> n \<noteq> 0 \<Longrightarrow> chunks n (xs @ ys) = xs # chunks n ys"
  by (subst chunks.simps) auto

lemma chunks_short: "xs \<noteq> [] \<Longrightarrow> length xs \<le> n \<Longrightarrow> chunks n xs = [xs]"
  by (subst chunks.simps) (cases n; auto)

text \<open>How the text of a key is made: digits, padding and the numbers of the quanta.\<close>

definition encodes :: "byte list \<Rightarrow> string \<Rightarrow> nat \<Rightarrow> int list \<Rightarrow> bool" where
  "encodes key body pad ns \<longleftrightarrow>
     b32encode key = body @ replicate pad CHR ''='' \<and> CHR ''='' \<notin> set body \<and> body \<noteq> [] \<and>
     (length body + pad) mod 8 = 0 \<and> pad \<in> {0, 1, 3, 4, 6} \<and> b32_quanta (chunks 8 body) = Some ns \<and> ns \<noteq> [] \<and>
     concat (map (be_bytes 5) (butlast ns)) @ take ((43 - 5 * pad) div 8) (be_bytes 5 (last ns * 32 ^ pad)) = key"

lemma b32encode_step: "key \<noteq> [] \<Longrightarrow> b32encode key = b32_quantum (take 5 key) @ b32encode (drop 5 key)"
  unfolding b32encode_def by (subst chunks.simps) simp

lemma encodes_last:
  assumes "bs \<noteq> []" "length bs \<le> 5"
  shows "\<exists>body pad ns. encodes bs body pad ns"
proof -
  from assms obtain n pad where q: "b32_quantum bs = b32_digits (8 - pad) n @ replicate pad CHR ''=''"
    "0 \<le> n" "n < 32 ^ (8 - pad)" "be_bytes 5 (n * 32 ^ pad) = bs @ replicate (5 - length bs) 0"
    "pad \<in> {0, 1, 3, 4, 6}" "(43 - 5 * pad) div 8 = length bs" "pad = 0 \<longleftrightarrow> length bs = 5"
    by (rule quantum_cases)
  have num: "b32_number 0 (b32_digits (8 - pad) n) = Some n" using q(2,3) by (simp add: b32_number_digits)
  have "pad \<le> 6" using q(5) by auto
  then have "b32_digits (8 - pad) n \<noteq> []" by (simp flip: length_0_conv)
  moreover from this have "b32_quanta (chunks 8 (b32_digits (8 - pad) n)) = Some [n]" by (simp add: chunks_short num)
  moreover have "take ((43 - 5 * pad) div 8) (be_bytes 5 (n * 32 ^ pad)) = bs" unfolding q(4,6) by simp
  moreover have "b32encode bs = b32_digits (8 - pad) n @ replicate pad CHR ''=''"
    using assms b32encode_step [of bs] by (simp add: q(1) b32encode_def)
  ultimately have "encodes bs (b32_digits (8 - pad) n) pad [n]"
    using q(5) \<open>pad \<le> 6\<close> unfolding encodes_def by (simp add: set_b32_digits)
  then show ?thesis by blast
qed

lemma encodes_step:
  assumes "length bs = 5" "encodes key body pad ns"
  shows "\<exists>d n. encodes (bs @ key) (d @ body) pad (n # ns)"
proof -
  have "bs \<noteq> []" using assms(1) by auto
  with assms(1) obtain n p where q: "b32_quantum bs = b32_digits (8 - p) n @ replicate p CHR ''=''"
    "0 \<le> n" "n < 32 ^ (8 - p)" "be_bytes 5 (n * 32 ^ p) = bs @ replicate (5 - length bs) 0"
    "p \<in> {0, 1, 3, 4, 6}" "(43 - 5 * p) div 8 = length bs" "p = 0 \<longleftrightarrow> length bs = 5"
    using quantum_cases [of bs thesis] by auto
  then have n: "b32_quantum bs = b32_digits 8 n" "be_bytes 5 n = bs" "b32_number 0 (b32_digits 8 n) = Some n"
    using assms(1) by (simp_all add: b32_number_digits)
  have "b32encode (bs @ key) = b32_digits 8 n @ b32encode key"
    using b32encode_step [of "bs @ key"] assms(1) \<open>bs \<noteq> []\<close> n(1) by simp
  moreover have "b32_quanta (chunks 8 (b32_digits 8 n @ body)) = Some (n # ns)"
    using n(3) assms(2) by (simp add: chunks_append encodes_def)
  moreover have "(length (b32_digits 8 n @ body) + pad) mod 8 = 0"
    using assms(2) by (simp add: encodes_def add.assoc del: mod_0_imp_dvd)
  ultimately have "encodes (bs @ key) (b32_digits 8 n @ body) pad (n # ns)"
    using assms(2) n(2) unfolding encodes_def by (simp add: set_b32_digits del: length_append)
  then show ?thesis by blast
qed

lemma encoded_shape: "key \<noteq> [] \<Longrightarrow> \<exists>body pad ns. encodes key body pad ns"
proof (induction "5 :: nat" key rule: chunks.induct)
  case (1 key)
  show ?case
  proof (cases "drop 5 key = []")
    case True
    then show ?thesis using encodes_last [of key] 1(2) by simp
  next
    case False
    with 1 obtain body pad ns where "encodes (drop 5 key) body pad ns" by auto
    moreover have "length (take 5 key) = 5" using False by simp
    ultimately show ?thesis using encodes_step [of "take 5 key" "drop 5 key"] by (metis append_take_drop_id)
  qed
qed

lemma strip_padding: "c \<notin> set body \<Longrightarrow> dropWhile (\<lambda>x. x = c) (replicate n c @ rev body) = rev body"
proof (induction n)
  case 0
  then show ?case by (cases body rule: rev_cases) auto
qed simp

lemma padding_eq: "(n + p) mod 8 = 0 \<Longrightarrow> p < 8 \<Longrightarrow> (8 - n mod 8) mod 8 = (p :: nat)"
proof -
  assume *: "(n + p) mod 8 = 0" "p < 8"
  define r where "r = n mod 8"
  have r: "r < 8" "(r + p) mod 8 = 0" using *(1) by (simp_all add: r_def mod_add_left_eq del: mod_0_imp_dvd)
  then have "r + p = 0 \<or> r + p = 8"
    using *(2) by (cases "r + p < 8") (simp_all add: le_mod_geq)
  then show ?thesis using *(2) r(1) by (auto simp flip: r_def)
qed

lemma b32decode_encoded:
  assumes "encodes key body pad ns" "str_upper s = body @ replicate pad CHR ''=''"
  shows "b32decode s = Some key"
proof -
  have strip: "dropWhile (\<lambda>c. c = CHR ''='') (replicate pad CHR ''='' @ rev body) = rev body"
    using assms(1) by (intro strip_padding) (simp add: encodes_def)
  obtain ms m where ns: "ns = ms @ [m]" using assms(1) by (cases ns rule: rev_cases) (auto simp: encodes_def)
  have "be_bytes 5 n \<noteq> []" for n by (simp flip: length_0_conv)
  moreover have "length (concat (map (be_bytes 5) ms)) = 5 * length ms" for ms :: "int list"
    by (induction ms) auto
  ultimately show ?thesis
    using assms unfolding b32decode_def encodes_def Let_def by (auto simp: strip ns)
qed

text \<open>
  The key of the code is the key that the secret encodes, with or without padding, in capitals
  or not and with any spaces in it.
\<close>

theorem totp_key_reads_secret:
  assumes "str_upper (filter (\<lambda>c. \<not> is_space c) secret) = b32encode key
    \<or> str_upper (filter (\<lambda>c. \<not> is_space c) secret) = filter (\<lambda>c. c \<noteq> CHR ''='') (b32encode key)"
  shows "totp_key secret = Some key"
proof (cases "key = []")
  case True
  then have "str_upper (filter (\<lambda>c. \<not> is_space c) secret) = []" using assms by (simp add: b32encode_def)
  moreover have "b32decode [] = Some []" by code_simp
  ultimately show ?thesis using True by (simp add: totp_key_def)
next
  case False
  then obtain body pad ns where e: "encodes key body pad ns" using encoded_shape by blast
  define t where "t = str_upper (filter (\<lambda>c. \<not> is_space c) secret)"
  have "filter (\<lambda>c. c \<noteq> CHR ''='') body = body"
    using e by (auto simp: encodes_def filter_id_conv)
  then have "t = body @ replicate pad CHR ''='' \<or> t = body" using assms e by (auto simp: encodes_def t_def)
  moreover have "(8 - length body mod 8) mod 8 = pad"
    by (rule padding_eq) (use e in \<open>auto simp: encodes_def\<close>)
  moreover have "(length body + pad) mod 8 = 0" using e by (simp add: encodes_def)
  ultimately have full: "t @ replicate ((8 - length t mod 8) mod 8) CHR ''='' = body @ replicate pad CHR ''=''" by auto
  have "str_upper t = t" by (simp add: t_def)
  moreover have "upper_char CHR ''='' = CHR ''=''" by code_simp
  ultimately have "str_upper (t @ replicate ((8 - length t mod 8) mod 8) CHR ''='') = body @ replicate pad CHR ''=''"
    unfolding full [symmetric] by (simp add: str_upper_def)
  then show ?thesis using b32decode_encoded [OF e] by (simp add: totp_key_def t_def [symmetric] Let_def)
qed

end
