(* ===== verification/Backend_Client.thy ===== *)
theory Backend_Client
  imports Backend Totp
begin

text \<open>
  The client of the back office (\<open>src/app/backends/tac_client.py\<close>, the factory and the
  query service of \<open>src/app/services/backend_query_service.py\<close>): logins, requests with one
  retry for an invalid token, the rows of a reply, the search for a player and the turnover
  that is still required before a withdrawal.

  Arguments: the HTTP transport (a reply or an exception, after the requests made so far),
  the arithmetic of amounts in binary floating point (\<open>money\<close>; JSON values stand for the
  numbers), the JSON and URL encodings of requests, which appear here as dicts, and the five
  phrases in Chinese that mark a requirement as not fulfilled.  A base URL has no query,
  fragment or dots as path segments, so that \<open>urljoin\<close> appends.
\<close>

section \<open>Requests\<close>

record tac_request =
  rq_method :: string
  rq_url :: string
  rq_query :: dict
  rq_headers :: "(string \<times> string) list"
  rq_body :: "dict option"

type_synonym tac_transport = "tac_request list \<Rightarrow> tac_request \<Rightarrow> exn + json"

record money =
  mo_number :: "json \<Rightarrow> json"
  mo_sum :: "json list \<Rightarrow> json"
  mo_round :: "json \<Rightarrow> json"
  mo_positive :: "json \<Rightarrow> bool"
  mo_at_most_zero :: "json \<Rightarrow> bool"
  mo_text :: "json \<Rightarrow> string"
  mo_far :: "json \<Rightarrow> json \<Rightarrow> bool"

record tac_env =
  te_transport :: tac_transport
  te_money :: money
  te_incomplete_phrases :: "string list"
  te_seconds :: int
  te_now :: time

text \<open>The state of a client: its token and the requests it has made.\<close>

record tac_client =
  tac_authorization :: "string option"
  tac_log :: "tac_request list"

type_synonym 'a tac = "(tac_client, 'a) act"

definition tac_call :: "tac_env \<Rightarrow> tac_request \<Rightarrow> json tac" where
  "tac_call env r s = (te_transport env (tac_log s) r, s\<lparr>tac_log := tac_log s @ [r]\<rparr>)"

definition set_authorization :: "string \<Rightarrow> unit tac" where
  "set_authorization t s = (Inr (), s\<lparr>tac_authorization := Some t\<rparr>)"

definition get_authorization :: "string option tac" where
  "get_authorization s = (Inr (tac_authorization s), s)"

definition strip_slashes :: "string \<Rightarrow> string" where
  "strip_slashes u = rev (dropWhile (\<lambda>c. c = CHR ''/'') (rev u))"

definition base_url :: "backend_config \<Rightarrow> exn + string" where
  "base_url c = (if text_true (bc_base_url c) then Inr (strip_slashes (text_or [] (bc_base_url c)))
                 else Inl (backend_api_error ''FAILED_CONFIG'' ''backend base_url is required''))"

definition join_url :: "string \<Rightarrow> string \<Rightarrow> string" where
  "join_url base path = strip_slashes base @ ''/'' @ dropWhile (\<lambda>c. c = CHR ''/'') path"

definition merchant_code :: "backend_config \<Rightarrow> exn + string" where
  "merchant_code c = (if text_true (bc_merchant_code c) then Inr (text_or [] (bc_merchant_code c))
                      else Inl (backend_api_error ''FAILED_CONFIG'' ''backend merchant code is required''))"

text \<open>The merchant of a login: that of the request first, then \<open>login_merchant\<close>.\<close>

definition login_merchant_for :: "backend_config \<Rightarrow> string option \<Rightarrow> exn + string" where
  "login_merchant_for c mc =
     (let m = or_else mc (or_else (bc_login_merchant c) (bc_merchant_code c)) in
      if text_true m then Inr (text_or [] m)
      else Inl (backend_api_error ''FAILED_CONFIG'' ''backend merchant code is required''))"

section \<open>Login\<close>

text \<open>\<open>Content-Length\<close> is the length of the encoded body and left out.\<close>

definition post_login :: "tac_env \<Rightarrow> string \<Rightarrow> string \<Rightarrow> (string \<times> string) list \<Rightarrow> dict \<Rightarrow> json tac" where
  "post_login env base path headers body =
     tac_call env \<lparr>rq_method = ''POST'', rq_url = join_url base path, rq_query = [], rq_headers = headers, rq_body = Some body\<rparr>"

text \<open>The token of a reply, or the error.\<close>

definition accept_token :: "exn \<Rightarrow> json \<Rightarrow> string tac" where
  "accept_token e result =
     (let token = dget (dict_of result) ''token'' in
      if \<not> truthy token then raise e
      else andthen (set_authorization (py_str token)) (\<lambda>_. ret (py_str token)))"

definition login_password :: "tac_env \<Rightarrow> backend_config \<Rightarrow> string option \<Rightarrow> string tac" where
  "login_password env c mc =
     (if \<not> text_true (bc_login_operator c) \<or> \<not> text_true (bc_login_password c)
      then raise (backend_api_error ''FAILED_CONFIG'' ''backend login operator/password is required'')
      else
        andthen (lift (login_merchant_for c mc)) (\<lambda>merchant.
        andthen (lift (base_url c)) (\<lambda>base.
        andthen (post_login env base ''/tac/api/login/password''
          [(''Content-Type'', ''application/json''), (''Merchant'', merchant), (''Referer'', base @ ''/'' @ merchant),
           (''Origin'', base)]
          [(''operatorName'', opt_json (bc_login_operator c)), (''password'', opt_json (bc_login_password c))]) 
        (accept_token (backend_api_error ''FAILED_BACKEND_QUERY'' ''login response missing token'')))))"

definition login_otp :: "tac_env \<Rightarrow> backend_config \<Rightarrow> string option \<Rightarrow> string tac" where
  "login_otp env c mc =
     (if \<not> text_true (bc_login_operator c) \<or> \<not> text_true (bc_totp_secret c)
      then raise (backend_api_error ''FAILED_CONFIG'' ''backend login operator/totp secret is required'')
      else
        andthen (lift (login_merchant_for c mc)) (\<lambda>merchant.
        andthen (lift (generate_totp 6 30 (text_or [] (bc_totp_secret c)) (te_seconds env))) (\<lambda>code.
        andthen (lift (base_url c)) (\<lambda>base.
        andthen (post_login env base ''/tac/api/login/otp''
          [(''Accept'', ''application/json, text/plain, */*''), (''Content-Type'', ''application/json''),
           (''Merchant'', merchant), (''MerchantCode'', merchant), (''language'', ''zh_CN''),
           (''Referer'', base @ ''/'' @ merchant), (''Origin'', base), (''User-Agent'', ''Mozilla/5.0'')]
          [(''operatorName'', opt_json (bc_login_operator c)), (''code'', JStr code)]) (\<lambda>result.
        accept_token (backend_api_error (str_or ''FAILED_BACKEND_QUERY'' (dget (dict_of result) ''errorCode''))
          (str_or ''otp login response missing token'' (dget (dict_of result) ''message''))) result)))))"

definition tac_login :: "tac_env \<Rightarrow> backend_config \<Rightarrow> string option \<Rightarrow> string tac" where
  "tac_login env c mc = (if text_true (bc_totp_secret c) then login_otp env c mc else login_password env c mc)"

section \<open>Reading\<close>

definition api_get_once :: "tac_env \<Rightarrow> backend_config \<Rightarrow> string \<Rightarrow> dict \<Rightarrow> string option \<Rightarrow> json tac" where
  "api_get_once env c path params mc =
     andthen (lift (if text_true mc then Inr (text_or [] mc) else merchant_code c)) (\<lambda>m.
     andthen (lift (base_url c)) (\<lambda>base.
     andthen get_authorization (\<lambda>auth.
     tac_call env \<lparr>rq_method = ''GET'', rq_url = join_url base path, rq_query = params,
       rq_headers = [(''Accept'', ''application/json, text/plain, */*''), (''Authorization'', text_or [] auth),
         (''Merchant'', m), (''merchantCode'', m), (''Language'', ''zh_CN''), (''environment'', ''TCG1''),
         (''platform'', ''TCG''),
         (''User-Agent'', ''Mozilla/5.0 (Windows NT 10.0; Win64; x64) AppleWebKit/537.36'')],
       rq_body = None\<rparr>)))"

text \<open>\<open>result.get(k)\<close>: only a dict has it.\<close>

definition get_item :: "json \<Rightarrow> string \<Rightarrow> exn + json" where
  "get_item j k = (case j of JObj d \<Rightarrow> Inr (dget d k) | _ \<Rightarrow> Inl (OtherError ''object has no attribute get''))"

definition api_get :: "tac_env \<Rightarrow> backend_config \<Rightarrow> string \<Rightarrow> dict \<Rightarrow> string option \<Rightarrow> json tac" where
  "api_get env c path params mc =
     andthen get_authorization (\<lambda>auth.
     andthen (if text_true auth then ret [] else tac_login env c mc) (\<lambda>_.
     andthen (api_get_once env c path params mc) (\<lambda>result.
     andthen (lift (get_item result ''errorCode'')) (\<lambda>code.
     if code = JStr ''INVALID_TOKEN''
     then andthen (tac_login env c mc) (\<lambda>_. api_get_once env c path params mc)
     else ret result))))"

definition assert_backend_success :: "json \<Rightarrow> string \<Rightarrow> exn + json" where
  "assert_backend_success result context =
     (if \<not> truthy result then Inr result
      else case get_item result ''success'' of
        Inl e \<Rightarrow> Inl e
      | Inr ok \<Rightarrow>
          if ok = JBool False
          then Inl (backend_api_error
                 (str_or ''UNKNOWN_BACKEND_ERROR'' (or_json (dget (dict_of result) ''errorCode'') (dget (dict_of result) ''code'')))
                 (str_or context (or_json (dget (dict_of result) ''message'') (dget (dict_of result) ''msg''))))
          else Inr result)"

section \<open>The rows of a reply\<close>

fun get_path :: "json \<Rightarrow> string list \<Rightarrow> json" where
  "get_path j [] = j"
| "get_path (JObj d) (k # ks) = get_path (dget d k) ks"
| "get_path _ (k # ks) = JNull"

definition row_paths :: "string list list" where
  "row_paths = map (\<lambda>k. [''value''] @ k) ([] # map (\<lambda>x. [x]) [''list'', ''data'', ''records'', ''rows'', ''items'', ''content'', ''result''])
     @ map (\<lambda>k. [''data''] @ k) ([] # map (\<lambda>x. [x]) [''list'', ''data'', ''records'', ''rows'', ''items'', ''content''])
     @ map (\<lambda>x. [x]) [''records'', ''rows'', ''items'', ''content'', ''result'']"

definition object_rows :: "json list \<Rightarrow> dict list" where
  "object_rows xs = concat (map (\<lambda>x. case x of JObj d \<Rightarrow> [d] | _ \<Rightarrow> []) xs)"

definition is_array :: "json \<Rightarrow> bool" where
  "is_array j \<longleftrightarrow> (case j of JArr _ \<Rightarrow> True | _ \<Rightarrow> False)"

definition is_object :: "json \<Rightarrow> bool" where
  "is_object j \<longleftrightarrow> (case j of JObj _ \<Rightarrow> True | _ \<Rightarrow> False)"

text \<open>
  Breadth-first search for the first list with objects.  Parsed JSON is a tree, so that the
  set of visited nodes has no effect on lists and dicts.
\<close>

fun node_count :: "json \<Rightarrow> nat" where
  "node_count (JObj d) = Suc (sum_list (map (\<lambda>(k, v). node_count v) d))"
| "node_count (JArr xs) = Suc (sum_list (map node_count xs))"
| "node_count _ = 1"

lemma nodes_of_values:
  "sum_list (map node_count (filter P (map snd d))) \<le> sum_list (map (\<lambda>(k, v). node_count v) d)"
  by (induction d) (auto simp: case_prod_beta)

function search_rows :: "json list \<Rightarrow> dict list" where
  "search_rows [] = []"
| "search_rows (node # queue) =
     (case node of
        JArr xs \<Rightarrow> if list_ex is_object xs then object_rows xs else search_rows queue
      | JObj d \<Rightarrow> search_rows (queue @ filter (\<lambda>v. is_object v \<or> is_array v) (map snd d))
      | _ \<Rightarrow> search_rows queue)"
  by pat_completeness auto
termination
proof (relation "measure (\<lambda>q. sum_list (map node_count q))")
  fix node queue d
  assume "node = JObj d"
  then show "(queue @ filter (\<lambda>v. is_object v \<or> is_array v) (map snd d), node # queue)
      \<in> measure (\<lambda>q. sum_list (map node_count q))"
    using nodes_of_values [of "\<lambda>v. is_object v \<or> is_array v" d] by simp
qed auto

definition extract_rows :: "json \<Rightarrow> dict list" where
  "extract_rows result =
     (if \<not> truthy result then []
      else case find is_array (map (get_path result) row_paths) of
        Some rows \<Rightarrow> object_rows (items_of rows)
      | None \<Rightarrow> search_rows (filter truthy (map (\<lambda>k. get_path result [k]) [''value'', ''data'', ''result''])))"

section \<open>Players and deposits\<close>

definition matches_identity :: "dict \<Rightarrow> string \<Rightarrow> bool" where
  "matches_identity row wanted \<longleftrightarrow>
     (\<exists>k \<in> set [''customerName'', ''username'', ''loginName'', ''mobile'', ''phone''].
        truthy (dget row k) \<and> py_str (dget row k) = wanted)"

definition picked_row :: "dict list \<Rightarrow> string \<Rightarrow> dict option" where
  "picked_row rows wanted =
     (case find (\<lambda>r. matches_identity r wanted) rows of
        Some r \<Rightarrow> Some r
      | None \<Rightarrow> (case rows of r # _ \<Rightarrow> if r = [] then None else Some r | [] \<Rightarrow> None))"

definition player_of :: "string \<Rightarrow> string \<Rightarrow> dict \<Rightarrow> dict" where
  "player_of search_code account row =
     [(''search_code'', JStr search_code), (''raw'', JObj row),
      (''customer_id'', or_json (dget row ''customerId'') (or_json (dget row ''id'') (dget row ''customerID''))),
      (''customer_name'', or_json (dget row ''customerName'') (or_json (dget row ''username'')
         (or_json (dget row ''loginName'') (JStr account))))]"

definition player_search :: "tac_env \<Rightarrow> backend_config \<Rightarrow> string \<Rightarrow> string \<Rightarrow> string \<Rightarrow> dict list tac" where
  "player_search env c mc account code =
     andthen (api_get env c ''/tac/api/relay/get/player-search-non-bankcard''
       [(''merchantCode'', JStr mc), (''isWildcard'', JStr ''false''), (''sortType'', JStr ''desc''),
        (''pageable'', JStr ''true''), (''data'', JStr account), (''searchCode'', JStr code)] (Some mc)) (\<lambda>result.
     andthen (lift (assert_backend_success result (''player search '' @ code))) (\<lambda>_. ret (extract_rows result)))"

fun player_searches :: "tac_env \<Rightarrow> backend_config \<Rightarrow> string \<Rightarrow> string \<Rightarrow> string list \<Rightarrow> dict option tac" where
  "player_searches env c mc account [] = ret None"
| "player_searches env c mc account (code # codes) =
     andthen (player_search env c mc account code) (\<lambda>rows.
     case picked_row rows account of
       Some row \<Rightarrow> ret (Some (player_of code account row))
     | None \<Rightarrow> player_searches env c mc account codes)"

definition query_player_user :: "tac_env \<Rightarrow> backend_config \<Rightarrow> string \<Rightarrow> dict option tac" where
  "query_player_user env c account =
     andthen (lift (merchant_code c)) (\<lambda>mc. player_searches env c mc account [''USERNAME'', ''MOBILE''])"

definition query_deposit :: "tac_env \<Rightarrow> backend_config \<Rightarrow> string \<Rightarrow> string \<Rightarrow> string \<Rightarrow> dict list tac" where
  "query_deposit env c username date_from date_to =
     andthen (lift (merchant_code c)) (\<lambda>mc.
     andthen (api_get env c ''/tac/api/relay/get/pv2-mcs-internal-v3-player-deposit-search''
       [(''searchDateMode'', JStr ''requestTime''), (''dateFrom'', JStr (date_from @ '' 00:00:00'')),
        (''dateTo'', JStr (date_to @ '' 23:59:59'')), (''merchantCode'', JStr mc), (''pageSize'', JInt 50),
        (''pageNo'', JInt 1), (''username'', JStr username), (''sortBy'', JStr []), (''sortOrder'', JStr []),
        (''pid'', JStr ''610151'')] (Some mc)) (\<lambda>result.
     andthen (lift (assert_backend_success result ''deposit search'')) (\<lambda>_. ret (extract_rows result))))"

definition player_contribution_columns :: string where
  "player_contribution_columns = join_with '',''
     [''customerType'', ''bankLabelName'', ''clubLabelName'', ''operationLabelName'', ''masterAgentName'',
      ''customerName'', ''referrerName'', ''referrerAgentName'', ''fundsIn'', ''creditAdj'', ''deposit'',
      ''depositCounts'', ''depositDays'', ''transferIn'', ''fundsOut'', ''debitAdj'', ''withdraw'',
      ''withdrawCounts'', ''transferOut'', ''gameBetting'', ''validGameBetting'', ''gameWinning'', ''promotion'',
      ''gameRebate'', ''referralRebate'', ''agentCommission'', ''dailySalary'', ''profitSharing'', ''pnl'',
      ''gameDividend'', ''totalOpeningBalance'', ''totalClosingBalance'', ''loginCounts'', ''lastLoginTime'',
      ''lastLoginIp'', ''lastDepositTime'', ''lastBettingTime'', ''regDate'', ''registerIp'', ''firstDepositDate'',
      ''firstDepositAmount'']"

definition query_player_contribution :: "tac_env \<Rightarrow> backend_config \<Rightarrow> string \<Rightarrow> string \<Rightarrow> string \<Rightarrow> dict list tac" where
  "query_player_contribution env c username date_from date_to =
     andthen (lift (merchant_code c)) (\<lambda>mc.
     andthen (api_get env c ''/tac/api/relay/post/ods-v2-report-player-contributionv2-search''
       [(''subordinateNames'', JStr username), (''subordinateMapType'', JStr ''AGENT''), (''subordinateType'', JStr ''DIRECT''),
        (''startDate'', JStr date_from), (''endDate'', JStr date_to), (''columnsList'', JStr player_contribution_columns),
        (''merchantCode'', JStr mc), (''size'', JInt 50), (''page'', JInt 1), (''pageable'', JStr ''true'')] (Some mc)) (\<lambda>result.
     andthen (lift (assert_backend_success result ''player contribution search'')) (\<lambda>_. ret (extract_rows result))))"

definition match_deposit :: "money \<Rightarrow> dict list \<Rightarrow> json \<Rightarrow> string \<Rightarrow> dict option" where
  "match_deposit mo records amount ref =
     (if amount = JNull then None
      else find (\<lambda>r. \<not> mo_far mo (mo_number mo (or_json (dget r ''requestAmount'') (or_json (dget r ''depositAmount'') (dget r ''amount''))))
                           (mo_number mo amount)
          \<and> (ref = [] \<or> str_contains (str_upper ref) (str_upper (str_or [] (or_json (dget r ''bankRef'') (dget r ''tpRefNo''))))))
        records)"

section \<open>Turnover requirements\<close>

definition day_text :: "time \<Rightarrow> string" where
  "day_text t = (case date_of_days (nat (t div day_micros)) of (y, m, d) \<Rightarrow>
     padded 4 y @ ''-'' @ padded 2 m @ ''-'' @ padded 2 d)"

definition days_ago :: "int \<Rightarrow> time \<Rightarrow> exn + time" where
  "days_ago n now = (if datetime_ok (now - n * day_micros) then Inr (now - n * day_micros)
                     else Inl (OtherError ''date value out of range''))"

definition window :: "string \<Rightarrow> string \<Rightarrow> string \<Rightarrow> time \<Rightarrow> dict" where
  "window mode dtype start now =
     [(''query_mode'', JStr mode), (''date_type'', JStr dtype), (''start_date'', JStr start),
      (''end_date'', JStr (day_text now @ '' 23:59:59''))]"

definition range_days :: "string \<Rightarrow> string \<Rightarrow> int \<Rightarrow> time \<Rightarrow> exn + dict" where
  "range_days mode dtype days now =
     map_sum id (\<lambda>t. window mode dtype (day_text t @ '' 00:00:00'') now) (days_ago days now)"

definition month_range :: "string \<Rightarrow> string \<Rightarrow> time \<Rightarrow> dict" where
  "month_range mode dtype now = window mode dtype (take 8 (day_text now) @ ''01 00:00:00'') now"

definition last_withdrawal_window :: "string \<Rightarrow> string \<Rightarrow> time \<Rightarrow> exn + dict" where
  "last_withdrawal_window mode dtype now =
     map_sum id (\<lambda>t. window mode dtype (day_text t @ '' 12:00:00'') now) (days_ago 1 now)"

definition build_turnover_requirement_queries :: "int \<Rightarrow> int \<Rightarrow> time \<Rightarrow> exn + dict list" where
  "build_turnover_requirement_queries default_days fallback_days now =
     all_ok [range_days ''custom_recent'' ''C'' default_days now, Inr (month_range ''custom_month'' ''C'' now),
       last_withdrawal_window ''last_withdrawal_window'' ''W'' now,
       range_days ''last_withdrawal_recent'' ''W'' default_days now, range_days ''custom_lookback'' ''C'' fallback_days now]"

definition first_present :: "dict \<Rightarrow> string list \<Rightarrow> json" where
  "first_present d ks = (case find (\<lambda>k. dget d k \<noteq> JNull \<and> dget d k \<noteq> JStr []) ks of None \<Rightarrow> JNull | Some k \<Rightarrow> dget d k)"

definition is_incomplete_turnover_status :: "string list \<Rightarrow> json \<Rightarrow> bool" where
  "is_incomplete_turnover_status phrases v =
     (let st = str_upper (str_strip (str_or [] v)) in
      st \<noteq> [] \<and> ((\<exists>p \<in> set (phrases @ [''INCOMPLETE'', ''UNFINISHED'', ''PENDING'']). str_contains p st)
                 \<or> st \<in> set [''I'', ''N'', ''NO'', ''OPEN'']))"

definition status_keys :: "string list" where
  "status_keys = [''statusName'', ''turnoverStatusName'', ''turnoverCheckingStatusName'', ''checkingStatusName'',
     ''auditStatusName'', ''completeStatusName'', ''status'', ''turnoverStatus'', ''turnoverCheckingStatus'',
     ''checkingStatus'', ''statusI18n'', ''state'', ''auditStatus'', ''completeStatus'']"

definition remaining_keys :: "string list" where
  "remaining_keys = [''remainingTurnover'', ''remainingFlow'', ''remainingWater'', ''remainingWaterAmount'',
     ''remainTurnover'', ''remainFlow'', ''remainWater'', ''remainingRollover'', ''remainRollover'',
     ''remainingAmount'', ''remainAmount'', ''leftTurnover'', ''leftAmount'', ''surplusTurnover'', ''remainValidBet'',
     ''unfinishTurnover'', ''unfinishedTurnover'', ''unCompletedTurnover'', ''uncompletedTurnover'', ''remainingBet'',
     ''remainBet'', ''requiredBettingRemaining'', ''turnoverBalance'']"

definition required_keys :: "string list" where
  "required_keys = [''turnoverRequirement'', ''turnoverRequirementAmount'', ''turnoverAmount'', ''requiredTurnover'',
     ''requireTurnover'', ''turnoverRequired'', ''bettingRequirement'', ''requiredBetting'', ''requirementAmount'',
     ''requiredAmount'', ''flowRequirement'', ''waterRequirement'', ''betRequirement'', ''targetTurnover'']"

definition valid_keys :: "string list" where
  "valid_keys = [''validTurnover'', ''validFlow'', ''validWater'', ''validBetting'', ''validGameBetting'',
     ''effectiveTurnover'', ''effectiveBetting'', ''completedTurnover'', ''completedAmount'', ''finishedTurnover'',
     ''accumulatedTurnover'']"

definition normalize_turnover_requirement_record :: "tac_env \<Rightarrow> dict \<Rightarrow> dict" where
  "normalize_turnover_requirement_record env r =
     (let st = first_present r status_keys; number = (\<lambda>ks. mo_number (te_money env) (first_present r ks));
          remaining = number remaining_keys;
          has_status = (st \<noteq> JNull \<and> str_strip (py_str st) \<noteq> []);
          incomplete = (is_incomplete_turnover_status (te_incomplete_phrases env) st
                        \<or> \<not> has_status \<and> mo_positive (te_money env) remaining) in
      [(''transaction_time'', first_present r [''transactionTime'', ''transactionDate'', ''txnTime'', ''createTime'',
          ''createdTime'', ''requestDate'', ''lastUpdateTime'']),
       (''transaction_type'', first_present r [''transactionTypeName'', ''transactionType'', ''txTypeName'', ''typeName'', ''type'']),
       (''transaction_id'', first_present r [''transactionId'', ''transactionNo'', ''depositId'', ''orderId'', ''id'']),
       (''amount'', number [''amount'', ''transactionAmount'', ''depositAmount'', ''requestAmount'']),
       (''required_turnover'', number required_keys), (''valid_turnover'', number valid_keys),
       (''remaining_turnover'', remaining), (''status'', st), (''is_incomplete'', JBool incomplete)])"

definition active_records :: "dict list \<Rightarrow> dict list" where
  "active_records records = filter (\<lambda>r. truthy (dget r ''is_incomplete'')) records"

definition summarize_turnover_requirement :: "money \<Rightarrow> string \<Rightarrow> dict \<Rightarrow> dict \<Rightarrow> dict list \<Rightarrow> dict" where
  "summarize_turnover_requirement mo account player w records =
     (let active = active_records records;
          total = (\<lambda>k. mo_round mo (mo_sum mo (map (\<lambda>r. mo_number mo (dget r k)) active)));
          if_active = (\<lambda>v. if active = [] then JNull else v);
          remaining = total ''remaining_turnover'' in
      [(''account_or_phone'', JStr account), (''player_found'', JBool True),
       (''customer_id'', dget player ''customer_id''), (''customer_name'', dget player ''customer_name''),
       (''active_requirements_count'', JInt (int (length active))), (''remaining_turnover'', remaining),
       (''required_turnover'', if_active (total ''required_turnover'')), (''valid_turnover'', if_active (total ''valid_turnover'')),
       (''is_met'', JBool (active = [] \<or> mo_at_most_zero mo remaining)),
       (''records'', JArr (map JObj records)), (''active_requirements'', JArr (map JObj active)),
       (''records_count'', JInt (int (length records))),
       (''query_mode'', dget w ''query_mode''), (''date_type'', dget w ''date_type''),
       (''start_date'', dget w ''start_date''), (''end_date'', dget w ''end_date''), (''query_windows'', JArr [])])"

definition window_records :: "tac_env \<Rightarrow> backend_config \<Rightarrow> string \<Rightarrow> dict \<Rightarrow> dict \<Rightarrow> dict list tac" where
  "window_records env c mc player w =
     andthen (api_get env c ''/tac/api/relay/get/mcs-player-promotion-turnover-checking-getTurnoverCheckingRecord''
       [(''merchantCode'', JStr mc), (''customerId'', dget player ''customer_id''), (''dateType'', dget w ''date_type''),
        (''startDate'', dget w ''start_date''), (''endDate'', dget w ''end_date''), (''pageNo'', JInt 1), (''pageSize'', JInt 20)]
       (Some mc)) (\<lambda>result.
     andthen (lift (assert_backend_success result (''turnover requirement search '' @ py_str (dget w ''query_mode'')))) (\<lambda>_.
     ret (map (normalize_turnover_requirement_record env) (extract_rows result))))"

definition window_entry :: "dict \<Rightarrow> dict \<Rightarrow> json" where
  "window_entry w summary =
     JObj (w @ map (\<lambda>k. (k, dget summary k)) [''records_count'', ''active_requirements_count'', ''remaining_turnover''])"

definition more_records :: "dict \<Rightarrow> dict option \<Rightarrow> bool" where
  "more_records summary best \<longleftrightarrow> (case best of
     None \<Rightarrow> True
   | Some b \<Rightarrow> (case (dget summary ''records_count'', dget b ''records_count'') of (JInt m, JInt n) \<Rightarrow> n < m | _ \<Rightarrow> False))"

text \<open>The loop over the windows, with the entries of those already searched and the best summary so far.\<close>

fun search_windows ::
  "tac_env \<Rightarrow> backend_config \<Rightarrow> string \<Rightarrow> string \<Rightarrow> dict \<Rightarrow> json list \<Rightarrow> dict option \<Rightarrow> dict list \<Rightarrow> dict option tac" where
  "search_windows env c mc account player searched best [] = ret best"
| "search_windows env c mc account player searched best (w # ws) =
     andthen (window_records env c mc player w) (\<lambda>records.
     let summary = summarize_turnover_requirement (te_money env) account player w records;
         entries = searched @ [window_entry w summary];
         full = dput summary ''query_windows'' (JArr entries) in
     if active_records records \<noteq> [] then ret (Some full)
     else search_windows env c mc account player entries (if more_records full best then Some full else best) ws)"

definition player_not_found :: "dict \<Rightarrow> dict" where
  "player_not_found w =
     [(''player_found'', JBool False), (''customer_id'', JNull), (''customer_name'', JNull),
      (''active_requirements_count'', JInt 0), (''remaining_turnover'', JInt 0), (''required_turnover'', JInt 0),
      (''valid_turnover'', JInt 0), (''is_met'', JBool False), (''records'', JArr []), (''query_windows'', JArr [JObj w])]"

definition query_turnover_requirement :: "tac_env \<Rightarrow> backend_config \<Rightarrow> string \<Rightarrow> dict tac" where
  "query_turnover_requirement env c account =
     andthen (lift (merchant_code c)) (\<lambda>mc.
     andthen (query_player_user env c account) (\<lambda>found.
     andthen (lift (build_turnover_requirement_queries (bc_default_days c) (bc_fallback_days c) (te_now env))) (\<lambda>windows.
     case found of
       None \<Rightarrow> ret (player_not_found (hd windows))
     | Some player \<Rightarrow>
         if \<not> truthy (dget player ''customer_id'') then ret (player_not_found (hd windows))
         else andthen (search_windows env c mc account player [] None windows) (\<lambda>best.
              ret (case best of Some s \<Rightarrow> s
                   | None \<Rightarrow> summarize_turnover_requirement (te_money env) account player (hd windows) [])))))"

end
