(* ===== verification/Backend_Service.thy ===== *)
theory Backend_Service
  imports Backend_Client
begin

text \<open>
  The query of the back office as the command worker calls it
  (\<open>src/app/services/backend_query_service.py\<close>, \<open>src/app/backends/factory.py\<close>), and what it keeps:
  a query concerns the merchant of its group alone, makes boundedly many requests, calls
  the turnover met only when every window was searched, and shows no URL in its errors.
\<close>

section \<open>Errors\<close>

text \<open>A pattern returns what is left after a match at the start of a text.\<close>

type_synonym pattern = "string \<Rightarrow> string option"

fun match_word :: "string \<Rightarrow> pattern" where
  "match_word [] s = Some s"
| "match_word (c # cs) [] = None"
| "match_word (c # cs) (x # xs) = (if lower_char x = c then match_word cs xs else None)"

definition match_some :: "(char \<Rightarrow> bool) \<Rightarrow> pattern" where
  "match_some P s = (case s of [] \<Rightarrow> None | c # cs \<Rightarrow> if P c then Some (dropWhile P cs) else None)"

definition value_char :: "char \<Rightarrow> bool" where
  "value_char c \<longleftrightarrow> c \<noteq> CHR '','' \<and> c \<noteq> CHR ''}'' \<and> \<not> is_space c"

definition bearer_char :: "char \<Rightarrow> bool" where
  "bearer_char c \<longleftrightarrow> CHR ''a'' \<le> lower_char c \<and> lower_char c \<le> CHR ''z'' \<or> digit_of c \<noteq> None \<or> c \<in> set ''._~+/=-''"

definition url_char :: "char \<Rightarrow> bool" where
  "url_char c \<longleftrightarrow> c \<noteq> CHR '','' \<and> c \<noteq> CHR '')'' \<and> \<not> is_space c"

text \<open>\<open>word\s*[:=]\s*[^,\s}]+\<close>, \<open>Bearer\s+...\<close> and \<open>https?://...\<close>, without case.\<close>

definition assignment :: "string \<Rightarrow> pattern" where
  "assignment w s = Option.bind (match_word w s) (\<lambda>r.
     case dropWhile is_space r of
       [] \<Rightarrow> None
     | c # cs \<Rightarrow> if c = CHR '':'' \<or> c = CHR ''='' then match_some value_char (dropWhile is_space cs) else None)"

definition bearer :: pattern where
  "bearer s = Option.bind (match_word ''bearer'' s) (\<lambda>r. Option.bind (match_some is_space r) (match_some bearer_char))"

definition url_pattern :: pattern where
  "url_pattern s = Option.bind (match_word ''http'' s) (\<lambda>r.
     Option.bind (match_word ''://'' (case match_word ''s'' r of None \<Rightarrow> r | Some t \<Rightarrow> t)) (match_some url_char))"

fun substitute :: "pattern \<Rightarrow> string \<Rightarrow> string \<Rightarrow> string" where
  "substitute p mark [] = []"
| "substitute p mark (c # s) =
     (case p (c # s) of
        None \<Rightarrow> c # substitute p mark s
      | Some rest \<Rightarrow> mark @ substitute p mark (drop (length s - length rest) s))"

definition safe_error_message :: "string \<Rightarrow> string" where
  "safe_error_message message =
     take 500 (substitute url_pattern ''<redacted_backend_url>''
       (foldl (\<lambda>s p. substitute p ''<redacted>'' s) message
          [assignment ''authorization'', bearer, assignment ''token'', assignment ''password'', assignment ''cookie'']))"

section \<open>The query\<close>

definition query_failed :: "string \<Rightarrow> string \<Rightarrow> dict" where
  "query_failed code message =
     [(''status'', JStr ''failed''), (''error_code'', JStr code), (''error_message'', JStr message)]"

definition build_withdrawal_blocked_reply :: "money \<Rightarrow> dict \<Rightarrow> string \<times> dict" where
  "build_withdrawal_blocked_reply mo result =
     (let remaining = dget result ''remaining_turnover'' in
      if \<not> truthy (dget result ''player_found'') then (''backend_player_not_found'', [])
      else if (case dget result ''active_requirements_count'' of JInt n \<Rightarrow> n > 0 | _ \<Rightarrow> False)
              \<or> mo_positive mo (or_json remaining (JInt 0))
      then (''backend_turnover_remaining'', [(''remaining_turnover'', JStr (mo_text mo (or_json remaining (JInt 0))))])
      else if dget result ''is_met'' = JBool True then (''backend_turnover_met'', [])
      else (''backend_turnover_unknown'', []))"

definition sanitize_turnover_query_result :: "dict \<Rightarrow> dict" where
  "sanitize_turnover_query_result result =
     concat (map (\<lambda>k. case map_of result k of None \<Rightarrow> [] | Some v \<Rightarrow> [(k, v)])
       [''player_found'', ''customer_id'', ''customer_name'', ''active_requirements_count'', ''remaining_turnover'',
        ''required_turnover'', ''valid_turnover'', ''is_met'', ''records_count'', ''query_windows''])"

text \<open>\<open>BackendProviderFactory.create\<close>: the client that a query starts with.\<close>

definition create_client :: "backend_config \<Rightarrow> string + tac_client" where
  "create_client c =
     (if str_lower (str_strip (bc_provider_type c)) = ''tac''
      then Inr \<lparr>tac_authorization = bc_authorization c, tac_log = []\<rparr>
      else Inl (''unsupported backend provider_type: '' @ bc_provider_type c))"

definition query_succeeded :: "money \<Rightarrow> backend_config \<Rightarrow> json \<Rightarrow> string \<Rightarrow> dict \<Rightarrow> dict" where
  "query_succeeded mo c intent account result =
     (case build_withdrawal_blocked_reply mo result of (reply, facts) \<Rightarrow>
       [(''status'', JStr ''success''), (''reply_intent'', JStr reply), (''reply_facts'', JObj facts), (''intent'', intent),
        (''account_or_phone'', JStr account), (''livechat_group_id'', opt_topic (bc_group_id c)),
        (''platform'', opt_json (bc_platform c)), (''merchant_code'', opt_json (bc_merchant_code c)),
        (''config_source'', JStr (bc_source c)), (''query'', JObj (sanitize_turnover_query_result result))])"

text \<open>The reply and the requests that were made for it.\<close>

definition execute_query :: "tac_env \<Rightarrow> backend_settings \<Rightarrow> dict \<Rightarrow> string option \<Rightarrow> dict \<times> tac_request list" where
  "execute_query env st payload channel =
     (let intent = dget payload ''intent''; account = dget payload ''account_or_phone'' in
      if intent \<noteq> JStr ''withdrawal_blocked_or_rollover''
      then (query_failed ''FAILED_UNSUPPORTED_INTENT'' (''unsupported backend.query intent: '' @ py_str intent), [])
      else if \<not> truthy account then (query_failed ''FAILED_BUSINESS'' ''backend.query missing account_or_phone'', [])
      else case resolve st channel (dget payload ''livechat_group_id'') (dget payload ''platform'') of
        Inl (code, message) \<Rightarrow> (query_failed code message, [])
      | Inr c \<Rightarrow>
          (case create_client c of
             Inl message \<Rightarrow> (query_failed ''FAILED_UNSUPPORTED_PROVIDER'' message, [])
           | Inr client \<Rightarrow>
               (case query_turnover_requirement env c (py_str account) client of
                  (Inl e, s) \<Rightarrow> (query_failed ''FAILED_BACKEND_QUERY'' (safe_error_message (exn_text e)), tac_log s)
                | (Inr result, s) \<Rightarrow> (query_succeeded (te_money env) c intent (py_str account) result, tac_log s))))"

end
