(* ===== verification/Backend_Safety.thy ===== *)
theory Backend_Safety
  imports Backend_Service
begin

text \<open>
  What a query of the back office keeps: it concerns the merchant of its LiveChat group alone
  and makes boundedly many requests, and it calls the turnover met only after every window
  was searched without an open requirement.
\<close>

section \<open>Requests of a computation\<close>

text \<open>
  The requests made so far, and one more while the client has no token: a login without a
  token is paid for in advance.
\<close>

definition spent :: "tac_client \<Rightarrow> nat" where
  "spent s = length (tac_log s) + (if text_true (tac_authorization s) then 0 else 1)"

text \<open>\<open>talks P k m\<close>: all new requests satisfy \<open>P\<close>, and they cost at most \<open>k\<close>.\<close>

definition talks :: "(tac_request \<Rightarrow> bool) \<Rightarrow> nat \<Rightarrow> 'a tac \<Rightarrow> bool" where
  "talks P k m \<longleftrightarrow> (\<forall>s r s'. m s = (r, s') \<longrightarrow>
     (\<exists>new. tac_log s' = tac_log s @ new \<and> (\<forall>x \<in> set new. P x)) \<and> spent s' \<le> spent s + k)"

lemma talksD:
  assumes "talks P k m" "m s = (r, s')"
  obtains new where "tac_log s' = tac_log s @ new" "\<forall>x \<in> set new. P x" "spent s' \<le> spent s + k"
  using assms unfolding talks_def by blast

lemma talks_basic: "talks P k (ret a)" "talks P k (raise e)" "talks P k get_authorization" "talks P k (lift x)"
  by (auto simp: talks_def ret_def raise_def get_authorization_def lift_def)

lemma talks_weaken: "talks P j m \<Longrightarrow> j \<le> k \<Longrightarrow> talks P k m"
  unfolding talks_def by (meson add_left_mono le_trans)

lemma talks_call: "P x \<Longrightarrow> talks P 1 (tac_call env x)"
  by (auto simp: talks_def tac_call_def spent_def)

lemma talks_token: "t \<noteq> [] \<Longrightarrow> talks P 0 (set_authorization t)"
  by (auto simp: talks_def set_authorization_def spent_def)

lemma talks_andthen:
  assumes "talks P j m" "\<And>a. talks P k (f a)"
  shows "talks P (j + k) (andthen m f)"
  unfolding talks_def
proof (intro allI impI)
  fix s r s'
  assume run: "andthen m f s = (r, s')"
  obtain r1 s1 where m: "m s = (r1, s1)" by (cases "m s")
  from talksD [OF assms(1) m] obtain new
    where new: "tac_log s1 = tac_log s @ new" "\<forall>x \<in> set new. P x" "spent s1 \<le> spent s + j" by blast
  show "(\<exists>new. tac_log s' = tac_log s @ new \<and> (\<forall>x \<in> set new. P x)) \<and> spent s' \<le> spent s + (j + k)"
  proof (cases r1)
    case (Inl e)
    then show ?thesis using run m new by (auto simp: andthen_def)
  next
    case (Inr a)
    then have "f a s1 = (r, s')" using run m by (simp add: andthen_def)
    from talksD [OF assms(2) this] obtain more
      where "tac_log s' = tac_log s1 @ more" "\<forall>x \<in> set more. P x" "spent s' \<le> spent s1 + k" by blast
    then show ?thesis using new by auto
  qed
qed

lemma talks_keep: "talks P k m \<Longrightarrow> (\<And>a. talks P 0 (f a)) \<Longrightarrow> talks P k (andthen m f)"
  using talks_andthen [of P k m 0 f] by simp

lemma talks_lift: "(\<And>a. x = Inr a \<Longrightarrow> talks P k (f a)) \<Longrightarrow> talks P k (andthen (lift x) f)"
  by (cases x) (auto simp: talks_def andthen_def lift_def)

lemma lift_Inr_andthen: "andthen (lift (Inr a)) f = f a"
  by (simp add: fun_eq_iff andthen_def lift_def)

lemma talks_authorization: "(\<And>a. talks P k (f a)) \<Longrightarrow> talks P k (andthen get_authorization f)"
  by (auto simp: talks_def andthen_def get_authorization_def)

lemma talks_if: "(b \<Longrightarrow> talks P k m) \<Longrightarrow> (\<not> b \<Longrightarrow> talks P k n) \<Longrightarrow> talks P k (if b then m else n)"
  by simp

section \<open>The merchant of a query\<close>

definition for_merchant :: "backend_config \<Rightarrow> string \<Rightarrow> tac_request \<Rightarrow> bool" where
  "for_merchant c mc r \<longleftrightarrow>
     map_of (rq_headers r) ''Merchant'' = Some mc \<and> map_of (rq_query r) ''merchantCode'' \<in> {None, Some (JStr mc)} \<and>
     starts_with (rq_url r) (strip_slashes (text_or [] (bc_base_url c)) @ ''/'')"

lemma join_url_starts: "starts_with (join_url (strip_slashes u) path) (strip_slashes u @ ''/'')"
proof -
  have "strip_slashes (strip_slashes u) = strip_slashes u"
    by (simp add: strip_slashes_def)
  then show ?thesis by (simp add: join_url_def starts_with_def)
qed

lemma truthy_text_nonempty: "truthy j \<Longrightarrow> py_str j \<noteq> []"
  by (cases j) (auto simp: py_str_def int_str_def)

lemma base_url_Inr: "base_url c = Inr b \<Longrightarrow> b = strip_slashes (text_or [] (bc_base_url c))"
  by (auto simp: base_url_def split: if_splits)

lemma base_url_joined: "base_url c = Inr b \<Longrightarrow> starts_with (join_url b path) (strip_slashes (text_or [] (bc_base_url c)) @ ''/'')"
  using join_url_starts base_url_Inr by metis

lemma merchant_code_Inr: "merchant_code c = Inr m \<Longrightarrow> text_true (bc_merchant_code c) \<and> m = text_or [] (bc_merchant_code c) \<and> m \<noteq> []"
  by (auto simp: merchant_code_def text_or_def text_true_def split: if_splits option.splits)

lemma login_merchant_Some: "mc \<noteq> [] \<Longrightarrow> login_merchant_for c (Some mc) = Inr mc"
  by (simp add: login_merchant_for_def or_else_def)

text \<open>\<open>login_merchant\<close> plays no part: requests name their merchant, and so do their logins.\<close>

lemma talks_post:
  assumes "base_url c = Inr base" "map_of headers ''Merchant'' = Some mc"
  shows "talks (for_merchant c mc) 1 (post_login env base path headers body)"
  unfolding post_login_def using base_url_joined [OF assms(1)] assms(2)
  by (intro talks_call) (simp add: for_merchant_def)

lemma talks_accept: "talks P 0 (accept_token e j)"
  unfolding accept_token_def Let_def
  by (intro talks_if talks_basic talks_keep talks_token truthy_text_nonempty) simp

lemma accept_token_Inr:
  "accept_token e j s = (Inr t, s') \<Longrightarrow> text_true (tac_authorization s') \<and> tac_log s' = tac_log s"
  by (auto simp: accept_token_def Let_def andthen_def set_authorization_def ret_def truthy_text_nonempty split: if_splits)

lemma talks_login:
  assumes "mc \<noteq> []"
  shows "talks (for_merchant c mc) 1 (tac_login env c (Some mc))"
  unfolding tac_login_def login_otp_def login_password_def login_merchant_Some [OF assms]
  by (intro talks_if talks_basic talks_lift talks_keep talks_accept talks_post) auto

lemma talks_get_once:
  assumes "mc \<noteq> []" "map_of params ''merchantCode'' \<in> {None, Some (JStr mc)}"
  shows "talks (for_merchant c mc) 1 (api_get_once env c path params (Some mc))"
  unfolding api_get_once_def
  by (intro talks_lift talks_authorization talks_call)
     (use assms base_url_joined in \<open>auto simp: for_merchant_def\<close>)

lemma post_login_log: "post_login env b p h d s = (r, s') \<Longrightarrow> length (tac_log s') = Suc (length (tac_log s))"
  by (auto simp: post_login_def tac_call_def)

lemma login_ok:
  assumes "tac_login env c mc s = (Inr t, s')"
  shows "text_true (tac_authorization s') \<and> length (tac_log s') = Suc (length (tac_log s))"
proof -
  have "\<exists>b p h d e j s1 r. post_login env b p h d s = (r, s1) \<and> accept_token e j s1 = (Inr t, s')"
  proof (cases "text_true (bc_totp_secret c)")
    case True
    then have "login_otp env c mc s = (Inr t, s')" using assms by (simp only: tac_login_def if_True)
    then show ?thesis
      unfolding login_otp_def by (simp only: run_iffs raise_not_Inr split: if_split_asm) blast
  next
    case False
    then have "login_password env c mc s = (Inr t, s')" using assms by (simp only: tac_login_def if_False)
    then show ?thesis
      unfolding login_password_def by (simp only: run_iffs raise_not_Inr split: if_split_asm) blast
  qed
  then show ?thesis using accept_token_Inr post_login_log by metis
qed

text \<open>What follows a login that was only made for want of a token costs what it costs with one.\<close>

lemma talks_logged_in:
  assumes login: "talks P 1 (tac_login env c mc)" and f: "\<And>t. talks P 3 (f t)"
  shows "talks P 3 (andthen get_authorization (\<lambda>auth. andthen (if text_true auth then ret [] else tac_login env c mc) f))"
  unfolding talks_def
proof (intro allI impI)
  fix s r s'
  assume run: "andthen get_authorization (\<lambda>auth. andthen (if text_true auth then ret [] else tac_login env c mc) f) s = (r, s')"
  show "(\<exists>new. tac_log s' = tac_log s @ new \<and> (\<forall>x \<in> set new. P x)) \<and> spent s' \<le> spent s + 3"
  proof (cases "text_true (tac_authorization s)")
    case True
    then have "f [] s = (r, s')" using run by (simp add: get_authorization_def andthen_def ret_def)
    then obtain new where "tac_log s' = tac_log s @ new" "\<forall>x \<in> set new. P x" "spent s' \<le> spent s + 3"
      by (rule talksD [OF f])
    then show ?thesis by auto
  next
    case False
    obtain r1 s1 where l: "tac_login env c mc s = (r1, s1)" by (cases "tac_login env c mc s")
    from talksD [OF login l] obtain new
      where new: "tac_log s1 = tac_log s @ new" "\<forall>x \<in> set new. P x" "spent s1 \<le> spent s + 1" by blast
    have rest: "(case r1 of Inl e \<Rightarrow> (Inl e, s1) | Inr t \<Rightarrow> f t s1) = (r, s')"
      using run False l by (simp add: get_authorization_def andthen_def)
    show ?thesis
    proof (cases r1)
      case (Inl e)
      then show ?thesis using rest new by auto
    next
      case (Inr t)
      then have "f t s1 = (r, s')" using rest by simp
      from talksD [OF f this] obtain more
        where more: "tac_log s' = tac_log s1 @ more" "\<forall>x \<in> set more. P x" "spent s' \<le> spent s1 + 3" by blast
      have "spent s1 \<le> spent s"
        using login_ok [OF l [unfolded Inr]] False by (simp add: spent_def)
      then show ?thesis using new more by auto
    qed
  qed
qed

lemma talks_api_get:
  assumes mc: "mc \<noteq> []" and params: "map_of params ''merchantCode'' \<in> {None, Some (JStr mc)}"
  shows "talks (for_merchant c mc) 3 (api_get env c path params (Some mc))"
proof -
  have once: "talks (for_merchant c mc) 1 (api_get_once env c path params (Some mc))"
    by (rule talks_get_once [OF mc params])
  have again: "talks (for_merchant c mc) (1 + 1) (andthen (tac_login env c (Some mc)) (\<lambda>_. api_get_once env c path params (Some mc)))"
    by (intro talks_andthen once talks_login [OF mc])
  have "talks (for_merchant c mc) (1 + (1 + 1)) (andthen (api_get_once env c path params (Some mc)) (\<lambda>result.
     andthen (lift (get_item result ''errorCode'')) (\<lambda>code.
     if code = JStr ''INVALID_TOKEN''
     then andthen (tac_login env c (Some mc)) (\<lambda>_. api_get_once env c path params (Some mc)) else ret result)))"
    by (intro talks_andthen once talks_lift talks_if again talks_basic)
  then show ?thesis
    unfolding api_get_def by (intro talks_logged_in talks_login [OF mc]) (simp add: numeral_3_eq_3)
qed

lemma talks_player_searches:
  "mc \<noteq> [] \<Longrightarrow> talks (for_merchant c mc) (3 * length codes) (player_searches env c mc account codes)"
proof (induction codes)
  case Nil
  then show ?case by (simp add: talks_basic)
next
  case (Cons code codes)
  have "talks (for_merchant c mc) 3 (player_search env c mc account code)"
    unfolding player_search_def
    by (intro talks_keep talks_api_get [OF Cons.prems] talks_lift talks_basic) simp
  then show ?case
    unfolding player_searches.simps length_Cons mult_Suc_right
    by (intro talks_andthen, assumption) (auto intro: Cons.IH [OF Cons.prems] talks_basic split: option.split)
qed

lemma talks_windows:
  "mc \<noteq> [] \<Longrightarrow> talks (for_merchant c mc) (3 * length ws) (search_windows env c mc account player searched best ws)"
proof (induction ws arbitrary: searched best)
  case Nil
  then show ?case by (simp add: talks_basic)
next
  case (Cons w ws)
  have "talks (for_merchant c mc) 3 (window_records env c mc player w)"
    unfolding window_records_def
    by (intro talks_keep talks_api_get [OF Cons.prems] talks_lift talks_basic) simp
  then show ?case
    unfolding search_windows.simps length_Cons mult_Suc_right Let_def
    by (intro talks_andthen talks_if, assumption) (auto intro: Cons.IH [OF Cons.prems] talks_basic)
qed

lemma length_all_ok: "all_ok xs = Inr ys \<Longrightarrow> length ys = length xs"
  by (induction xs arbitrary: ys rule: all_ok.induct) (auto split: sum.splits)

lemma five_windows: "build_turnover_requirement_queries a b now = Inr ws \<Longrightarrow> length ws = 5"
  unfolding build_turnover_requirement_queries_def by (drule length_all_ok) simp

lemma talks_query:
  assumes "merchant_code c = Inr mc"
  shows "talks (for_merchant c mc) 21 (query_turnover_requirement env c account)"
proof -
  note mc = merchant_code_Inr [OF assms, THEN conjunct2, THEN conjunct2]
  have players: "talks (for_merchant c mc) 6 (query_player_user env c account)"
    unfolding query_player_user_def assms
    by (intro talks_lift) (use talks_player_searches [OF mc, of c "[''USERNAME'', ''MOBILE'']"] in simp)
  have windows: "talks (for_merchant c mc) 15 (search_windows env c mc account player [] None ws)" if "length ws = 5" for player ws
    using talks_windows [OF mc, of c ws] that by simp
  have "talks (for_merchant c mc) (6 + 15) (andthen (query_player_user env c account) (\<lambda>found.
     andthen (lift (build_turnover_requirement_queries (bc_default_days c) (bc_fallback_days c) (te_now env))) (\<lambda>windows.
     case found of
       None \<Rightarrow> ret (player_not_found (hd windows))
     | Some player \<Rightarrow>
         if \<not> truthy (dget player ''customer_id'') then ret (player_not_found (hd windows))
         else andthen (search_windows env c mc account player [] None windows) (\<lambda>best.
              ret (case best of Some s \<Rightarrow> s
                   | None \<Rightarrow> summarize_turnover_requirement (te_money env) account player (hd windows) [])))))"
    by (intro talks_andthen players talks_lift, split option.split)
       (auto intro!: talks_basic talks_keep windows dest: five_windows)
  then show ?thesis
    unfolding query_turnover_requirement_def assms lift_Inr_andthen by simp
qed

text \<open>How a query ends: refused before any request, or as its client ended.\<close>

lemma execute_cases:
  assumes "execute_query env st payload channel = (reply, log)"
  obtains (refused) code message where "log = []" "reply = query_failed code message"
  | (asked) c client r s' where
      "resolve st channel (dget payload ''livechat_group_id'') (dget payload ''platform'') = Inr c"
      "create_client c = Inr client"
      "query_turnover_requirement env c (py_str (dget payload ''account_or_phone'')) client = (r, s')" "log = tac_log s'"
      "reply = (case r of Inl e \<Rightarrow> query_failed ''FAILED_BACKEND_QUERY'' (safe_error_message (exn_text e))
               | Inr x \<Rightarrow> query_succeeded (te_money env) c (dget payload ''intent'') (py_str (dget payload ''account_or_phone'')) x)"
proof (cases "dget payload ''intent'' = JStr ''withdrawal_blocked_or_rollover'' \<and> truthy (dget payload ''account_or_phone'')")
  case False
  then show ?thesis using assms refused by (auto simp: execute_query_def Let_def split: if_splits)
next
  case guards: True
  show ?thesis
  proof (cases "resolve st channel (dget payload ''livechat_group_id'') (dget payload ''platform'')")
    case (Inl e)
    then show ?thesis using assms guards refused [of "fst e" "snd e"] by (cases e) (simp add: execute_query_def)
  next
    case (Inr c)
    show ?thesis
    proof (cases "create_client c")
      case (Inl m)
      then show ?thesis using assms guards Inr refused [of "''FAILED_UNSUPPORTED_PROVIDER''" m] by (simp add: execute_query_def)
    next
      case client: (Inr client)
      obtain r s' where run: "query_turnover_requirement env c (py_str (dget payload ''account_or_phone'')) client = (r, s')"
        by (cases "query_turnover_requirement env c (py_str (dget payload ''account_or_phone'')) client")
      show ?thesis
        by (rule asked [OF Inr client run])
           (use assms guards Inr client run in \<open>auto simp: execute_query_def split: sum.splits\<close>)
    qed
  qed
qed

text \<open>
  Claim C19.  Whatever the payload says and whatever the back office answers, every request
  of a query for a LiveChat conversation, its logins included, goes to the configured
  address and names the merchant of the group of the conversation; there are at most 22.
  A group without a platform, or a payload that names another platform than that of the
  group, leads to no request at all, and a reply of success names the merchant it is about.
\<close>

theorem backend_isolation:
  assumes "execute_query env st payload (Some ''livechat'') = (reply, log)"
  shows "length log \<le> 22 \<and>
    (log \<noteq> [] \<or> dget reply ''status'' = JStr ''success'' \<longrightarrow>
      (\<exists>g p mc c. normalize_livechat_group_id (dget payload ''livechat_group_id'') = Some g \<and>
        platform_for_livechat_group_id (JInt g) = Some p \<and> merchant_for_livechat_group_id (JInt g) = Some mc \<and>
        normalize_platform (dget payload ''platform'') \<in> {[], p} \<and>
        resolve st (Some ''livechat'') (dget payload ''livechat_group_id'') (dget payload ''platform'') = Inr c \<and>
        (\<forall>r \<in> set log. for_merchant c mc r) \<and>
        (dget reply ''status'' = JStr ''success'' \<longrightarrow> dget reply ''merchant_code'' = JStr mc)))"
proof -
  let ?gid = "dget payload ''livechat_group_id''" and ?pl = "dget payload ''platform''"
  let ?account = "py_str (dget payload ''account_or_phone'')"
  have failed: "dget (query_failed x y) ''status'' \<noteq> JStr ''success''" for x y
    by (simp add: query_failed_def dget_def)
  from assms show ?thesis
  proof (cases rule: execute_cases)
    case refused
    then show ?thesis using failed by simp
  next
    case (asked c client r s')
    obtain g where g: "normalize_livechat_group_id ?gid = Some g" "bc_group_id c = Some g"
      "bc_platform c = platform_for_livechat_group_id (JInt g)" "bc_merchant_code c = merchant_for_livechat_group_id (JInt g)"
      "normalize_platform ?pl = [] \<or> Some (normalize_platform ?pl) = bc_platform c"
      by (rule resolve_livechat [OF asked(1)])
    obtain mc where mc: "bc_merchant_code c = Some mc" "mc \<noteq> []" "merchant_code c = Inr mc"
      using resolve_complete(1) [OF asked(1)] by (auto simp: text_true_def merchant_code_def split: option.splits)
    obtain p where p: "platform_for_livechat_group_id (JInt g) = Some p"
      using mc(1) g(4) by (auto simp: merchant_for_livechat_group_id_def split: option.splits)
    have start: "spent client \<le> 1" "tac_log client = []"
      using asked(2) by (auto simp: create_client_def spent_def split: if_splits)
    obtain new where "tac_log s' = tac_log client @ new" "\<forall>x \<in> set new. for_merchant c mc x" "spent s' \<le> spent client + 21"
      by (rule talksD [OF talks_query [OF mc(3)] asked(3)])
    then have "\<forall>r \<in> set log. for_merchant c mc r" "spent s' \<le> 22"
      using start asked(4) by auto
    moreover from this(2) have "length log \<le> 22" using asked(4) by (simp add: spent_def split: if_splits)
    moreover have "dget reply ''status'' = JStr ''success'' \<longrightarrow> dget reply ''merchant_code'' = JStr mc"
      using asked(5) failed mc(1)
      by (auto simp: query_succeeded_def dget_def opt_json_def split: sum.splits prod.splits)
    moreover have "merchant_for_livechat_group_id (JInt g) = Some mc" using mc(1) g(4) by simp
    ultimately show ?thesis using g(1,3,5) p asked(1) by auto
  qed
qed

section \<open>A turnover that is met\<close>

text \<open>
  A window was searched without finding an open requirement: the last of some requests made
  asked for the records of the customer in the window, and the reply has none that is incomplete.
\<close>

definition clean_window :: "tac_env \<Rightarrow> tac_request list \<Rightarrow> json \<Rightarrow> dict \<Rightarrow> bool" where
  "clean_window env log cid w \<longleftrightarrow>
     (\<exists>pre r rest j. log = pre @ r # rest \<and> te_transport env pre r = Inr j \<and>
        dget (rq_query r) ''customerId'' = cid \<and>
        (\<forall>k \<in> set [(''dateType'', ''date_type''), (''startDate'', ''start_date''), (''endDate'', ''end_date'')].
           dget (rq_query r) (fst k) = dget w (snd k)) \<and>
        active_records (map (normalize_turnover_requirement_record env) (extract_rows j)) = [])"

lemma clean_window_later: "clean_window env log cid w \<Longrightarrow> clean_window env (log @ later) cid w"
  unfolding clean_window_def by (metis append.assoc append_Cons)

lemma api_get_once_reply:
  assumes "api_get_once env c path params mc s = (Inr j, s')"
  shows "\<exists>pre r. tac_log s' = pre @ [r] \<and> te_transport env pre r = Inr j \<and> rq_query r = params"
  using assms unfolding api_get_once_def
  by (auto simp: run_iffs get_authorization_def tac_call_def)

lemma api_get_reply:
  assumes "api_get env c path params mc s = (Inr j, s')"
  shows "\<exists>pre r. tac_log s' = pre @ [r] \<and> te_transport env pre r = Inr j \<and> rq_query r = params"
proof -
  have "\<exists>s1. api_get_once env c path params mc s1 = (Inr j, s')"
    using assms unfolding api_get_def by (simp only: run_iffs split: if_split_asm) blast+
  then show ?thesis using api_get_once_reply by blast
qed

lemma window_records_reply:
  assumes "window_records env c mc player w s = (Inr records, s')" "active_records records = []"
  shows "clean_window env (tac_log s') (dget player ''customer_id'') w"
proof -
  obtain j params where j: "api_get env c ''/tac/api/relay/get/mcs-player-promotion-turnover-checking-getTurnoverCheckingRecord'' params (Some mc) s = (Inr j, s')"
    "records = map (normalize_turnover_requirement_record env) (extract_rows j)"
    "dget params ''customerId'' = dget player ''customer_id''"
    "dget params ''dateType'' = dget w ''date_type''" "dget params ''startDate'' = dget w ''start_date''"
    "dget params ''endDate'' = dget w ''end_date''"
    using assms(1) unfolding window_records_def by (auto simp: run_iffs dget_def)
  with api_get_reply [OF j(1)] assms(2) show ?thesis unfolding clean_window_def by fastforce
qed

lemma summary_values:
  "dget (summarize_turnover_requirement mo account player w records) ''active_requirements_count''
     = JInt (int (length (active_records records)))"
  "dget (dput (summarize_turnover_requirement mo account player w records) ''query_windows'' v) ''active_requirements_count''
     = JInt (int (length (active_records records)))"
  by (simp_all add: summarize_turnover_requirement_def Let_def dget_def dput_def)

lemma search_windows_clean:
  assumes "search_windows env c mc account player searched best ws s = (Inr out, s')" "mc \<noteq> []"
  shows "(\<exists>sm n. out = Some sm \<and> n > 0 \<and> dget sm ''active_requirements_count'' = JInt n) \<or>
    (\<forall>w \<in> set ws. clean_window env (tac_log s') (dget player ''customer_id'') w)"
  using assms(1)
proof (induction ws arbitrary: searched best s)
  case (Cons w ws)
  obtain records s1 where w: "window_records env c mc player w s = (Inr records, s1)"
    using Cons.prems by (auto simp: andthen_Inr_iff)
  define entries where "entries = searched @ [window_entry w (summarize_turnover_requirement (te_money env) account player w records)]"
  define full where "full = dput (summarize_turnover_requirement (te_money env) account player w records) ''query_windows'' (JArr entries)"
  have run: "(if active_records records \<noteq> [] then ret (Some full)
     else search_windows env c mc account player entries (if more_records full best then Some full else best) ws) s1 = (Inr out, s')"
    unfolding entries_def full_def using Cons.prems by (simp only: search_windows.simps andthen_run(1) [of "window_records env c mc player w" s records s1, OF w] Let_def)
  show ?case
  proof (cases "active_records records = []")
    case False
    then have "out = Some full" using run by (simp add: ret_def)
    moreover have "dget full ''active_requirements_count'' = JInt (int (length (active_records records)))"
      by (simp add: full_def summary_values)
    moreover have "int (length (active_records records)) > 0" using False by simp
    ultimately show ?thesis by blast
  next
    case True
    then have rest: "search_windows env c mc account player entries (if more_records full best then Some full else best) ws s1 = (Inr out, s')"
      using run by simp
    obtain later where "tac_log s' = tac_log s1 @ later"
      by (rule talksD [OF talks_windows [OF assms(2)] rest])
    then have "clean_window env (tac_log s') (dget player ''customer_id'') w"
      using clean_window_later [OF window_records_reply [OF w True]] by simp
    then show ?thesis using Cons.IH [OF rest] by auto
  qed
qed simp

lemma query_cases:
  assumes mc: "merchant_code c = Inr mc" and run: "query_turnover_requirement env c account s = (Inr x, s')"
  obtains (missing) w where "x = player_not_found w"
  | (searched) player ws best s2 where
      "build_turnover_requirement_queries (bc_default_days c) (bc_fallback_days c) (te_now env) = Inr ws"
      "truthy (dget player ''customer_id'')"
      "search_windows env c mc account player [] None ws s2 = (Inr best, s')"
      "\<And>sm. best = Some sm \<Longrightarrow> x = sm"
proof -
  obtain found s1 ws where ws: "build_turnover_requirement_queries (bc_default_days c) (bc_fallback_days c) (te_now env) = Inr ws"
    and rest: "(case found of
       None \<Rightarrow> ret (player_not_found (hd ws))
     | Some player \<Rightarrow>
         if \<not> truthy (dget player ''customer_id'') then ret (player_not_found (hd ws))
         else andthen (search_windows env c mc account player [] None ws) (\<lambda>best.
              ret (case best of Some s \<Rightarrow> s
                   | None \<Rightarrow> summarize_turnover_requirement (te_money env) account player (hd ws) []))) s1 = (Inr x, s')"
    using run unfolding query_turnover_requirement_def mc lift_Inr_andthen by (auto simp only: andthen_Inr_iff lift_Inr_iff)
  show ?thesis
  proof (cases found)
    case None
    then show ?thesis using rest missing [of "hd ws"] by (simp add: ret_def)
  next
    case (Some player)
    show ?thesis
    proof (cases "truthy (dget player ''customer_id'')")
      case False
      then show ?thesis using rest Some missing [of "hd ws"] by (simp add: ret_def)
    next
      case True
      then obtain best where "search_windows env c mc account player [] None ws s1 = (Inr best, s')"
        "x = (case best of Some s \<Rightarrow> s | None \<Rightarrow> summarize_turnover_requirement (te_money env) account player (hd ws) [])"
        using rest Some by (auto simp: andthen_Inr_iff ret_Inr_iff)
      then show ?thesis using searched [OF ws True] by simp
    qed
  qed
qed

text \<open>
  Claim C20.  The customer is told that the turnover is met only when the back office was asked for the
  records of one customer in each of the five windows and reported none that is open.
\<close>

theorem met_only_if_clean:
  assumes run: "execute_query env st payload channel = (reply, log)"
    and met: "dget reply ''reply_intent'' = JStr ''backend_turnover_met''"
  shows "\<exists>c ws cid. resolve st channel (dget payload ''livechat_group_id'') (dget payload ''platform'') = Inr c \<and>
    build_turnover_requirement_queries (bc_default_days c) (bc_fallback_days c) (te_now env) = Inr ws \<and> length ws = 5 \<and>
    truthy cid \<and> (\<forall>w \<in> set ws. clean_window env log cid w)"
  using run
proof (cases rule: execute_cases)
  case (refused code message)
  then show ?thesis using met by (simp add: query_failed_def dget_def)
next
  case (asked c client r s')
  obtain x where r: "r = Inr x" using asked(5) met by (cases r) (auto simp: query_failed_def dget_def)
  have said: "fst (build_withdrawal_blocked_reply (te_money env) x) = ''backend_turnover_met''"
    using asked(5) met r by (simp add: query_succeeded_def dget_def split: prod.splits)
  then have x: "truthy (dget x ''player_found'')" "\<And>n. dget x ''active_requirements_count'' = JInt n \<Longrightarrow> \<not> n > 0"
    by (auto simp: build_withdrawal_blocked_reply_def Let_def split: if_splits)
  obtain mc where mc: "merchant_code c = Inr mc" using resolve_complete(1) [OF asked(1)] by (simp add: merchant_code_def)
  have no: "\<not> truthy (dget (player_not_found w) ''player_found'')" for w
    by (simp add: player_not_found_def dget_def)
  from mc asked(3) [unfolded r] show ?thesis
  proof (cases rule: query_cases)
    case (missing w)
    then show ?thesis using x(1) no by simp
  next
    case (searched player ws best s2)
    have "\<forall>w \<in> set ws. clean_window env log (dget player ''customer_id'') w"
      using search_windows_clean [OF searched(3)] merchant_code_Inr [OF mc] searched(4) x(2) asked(4) by metis
    then show ?thesis using asked(1) searched(1,2) five_windows by blast
  qed
qed

section \<open>No address in an error\<close>

fun matches_in :: "pattern \<Rightarrow> string \<Rightarrow> bool" where
  "matches_in p [] = False"
| "matches_in p (c # s) = (p (c # s) \<noteq> None \<or> matches_in p s)"

abbreviation without_urls :: "string \<Rightarrow> string" where
  "without_urls \<equiv> substitute url_pattern ''<redacted_backend_url>''"

lemma lower_of_mark: "lower_char CHR ''<'' = CHR ''<''"
  by code_simp

lemma url_first: "url_pattern (c # s) \<noteq> None \<Longrightarrow> lower_char c = CHR ''h''"
  by (auto simp: url_pattern_def split: if_splits)

lemma h_in_url: "lower_char c = CHR ''h'' \<Longrightarrow> url_char c"
  by (auto simp: url_char_def lower_char_def is_space_def Let_def split: if_splits)

lemma without_urls_match:
  assumes "match_word w (without_urls s) = Some r" "CHR ''<'' \<notin> set w"
  shows "\<exists>t. match_word w s = Some t \<and> r = without_urls t"
  using assms
proof (induction w arbitrary: s)
  case (Cons x w)
  show ?case
  proof (cases s)
    case Nil
    then show ?thesis using Cons.prems by simp
  next
    case (Cons c s')
    show ?thesis
    proof (cases "url_pattern (c # s')")
      case None
      then show ?thesis using Cons.IH Cons.prems Cons by (auto split: if_splits)
    next
      case (Some t)
      then show ?thesis using Cons.prems Cons lower_of_mark by (auto split: if_splits)
    qed
  qed
qed simp

lemma without_urls_no_s: "match_word ''s'' (without_urls s) = None \<Longrightarrow> match_word ''s'' s = None"
proof (cases s)
  case (Cons c s')
  assume none: "match_word ''s'' (without_urls s) = None"
  show ?thesis
  proof (cases "url_pattern (c # s')")
    case None
    then show ?thesis using none Cons by (auto split: if_splits)
  next
    case (Some t)
    then show ?thesis using url_first [of c s'] Cons by simp
  qed
qed simp

lemma url_survives: "url_pattern (without_urls s) \<noteq> None \<Longrightarrow> url_pattern s \<noteq> None"
proof -
  assume "url_pattern (without_urls s) \<noteq> None"
  then obtain r u where r: "match_word ''http'' (without_urls s) = Some r"
    and u: "match_word ''://'' (case match_word ''s'' r of None \<Rightarrow> r | Some t \<Rightarrow> t) = Some u" "match_some url_char u \<noteq> None"
    by (auto simp: url_pattern_def bind_eq_Some_conv)
  obtain r' where r': "match_word ''http'' s = Some r'" "r = without_urls r'"
    using without_urls_match [OF r] by auto
  have "(case match_word ''s'' r of None \<Rightarrow> r | Some t \<Rightarrow> t) = without_urls (case match_word ''s'' r' of None \<Rightarrow> r' | Some t \<Rightarrow> t)"
    using without_urls_no_s [of r'] without_urls_match [of "''s''" r'] r'(2) by (cases "match_word ''s'' r") auto
  then obtain u' where u': "match_word ''://'' (case match_word ''s'' r' of None \<Rightarrow> r' | Some t \<Rightarrow> t) = Some u'" "u = without_urls u'"
    using without_urls_match u(1) by fastforce
  have "match_some url_char u' \<noteq> None"
  proof (cases u')
    case Nil
    then show ?thesis using u(2) u'(2) by (simp add: match_some_def)
  next
    case (Cons c t)
    then show ?thesis
      using u(2) u'(2) url_first [of c t] h_in_url [of c]
      by (cases "url_pattern (c # t)") (auto simp: match_some_def split: if_splits)
  qed
  then show ?thesis using r'(1) u'(1) by (simp add: url_pattern_def)
qed

lemma matches_after: "(\<And>c. c \<in> set m \<Longrightarrow> lower_char c \<noteq> CHR ''h'') \<Longrightarrow> matches_in url_pattern (m @ t) = matches_in url_pattern t"
proof (induction m)
  case (Cons c m)
  then have "url_pattern (c # m @ t) = None" using url_first [of c "m @ t"] by (cases "url_pattern (c # m @ t)") auto
  with Cons show ?case by simp
qed simp

lemma no_match_in_mark:
  "matches_in url_pattern (''<redacted_backend_url>'' @ t) = matches_in url_pattern t"
proof (rule matches_after)
  have "list_all (\<lambda>c. lower_char c \<noteq> CHR ''h'') ''<redacted_backend_url>''" by code_simp
  then show "lower_char c \<noteq> CHR ''h''" if "c \<in> set ''<redacted_backend_url>''" for c
    using that unfolding list_all_iff by blast
qed

lemma without_urls_clean: "\<not> matches_in url_pattern (without_urls s)"
proof (induction "url_pattern" "''<redacted_backend_url>''" s rule: substitute.induct)
  case (2 c s)
  show ?case
  proof (cases "url_pattern (c # s)")
    case None
    then have "\<not> matches_in url_pattern (without_urls s)" using 2(1) by simp
    moreover have "\<not> url_pattern (without_urls (c # s)) \<noteq> None" using url_survives None by blast
    ultimately show ?thesis using None by simp
  next
    case (Some t)
    then have "\<not> matches_in url_pattern (without_urls (drop (length s - length t) s))" using 2(2) by simp
    moreover have "without_urls (c # s) = ''<redacted_backend_url>'' @ without_urls (drop (length s - length t) s)"
      by (simp only: substitute.simps Some option.case)
    ultimately show ?thesis by (simp only: no_match_in_mark not_False_eq_True)
  qed
qed simp

lemma match_word_take:
  "match_word w (take n s) = Some r \<Longrightarrow> \<exists>t k. match_word w s = Some t \<and> r = take k t"
proof (induction w arbitrary: n s)
  case (Cons x w)
  then show ?case by (cases n; cases s) (auto split: if_splits)
qed auto

lemma url_take: "url_pattern (take n s) \<noteq> None \<Longrightarrow> url_pattern s \<noteq> None"
proof -
  assume "url_pattern (take n s) \<noteq> None"
  then obtain r u where r: "match_word ''http'' (take n s) = Some r"
    and u: "match_word ''://'' (case match_word ''s'' r of None \<Rightarrow> r | Some t \<Rightarrow> t) = Some u" "match_some url_char u \<noteq> None"
    by (auto simp: url_pattern_def bind_eq_Some_conv)
  obtain t k where t: "match_word ''http'' s = Some t" "r = take k t" using match_word_take [OF r] by blast
  have "\<exists>j. (case match_word ''s'' r of None \<Rightarrow> r | Some x \<Rightarrow> x) = take j (case match_word ''s'' t of None \<Rightarrow> t | Some x \<Rightarrow> x)"
  proof (cases "match_word ''s'' r")
    case (Some x)
    then show ?thesis using match_word_take [of "''s''" k t] t(2) by auto
  next
    case None
    moreover from this have "match_word ''s'' t = None" using t(2) u(1) by (cases t; cases k) (auto split: if_splits)
    ultimately show ?thesis using t(2) by auto
  qed
  then obtain v j where v: "match_word ''://'' (case match_word ''s'' t of None \<Rightarrow> t | Some x \<Rightarrow> x) = Some v" "u = take j v"
    using match_word_take u(1) by metis
  then have "match_some url_char v \<noteq> None"
    using u(2) by (cases v; cases j) (auto simp: match_some_def split: if_splits)
  then show ?thesis using t(1) v(1) by (simp add: url_pattern_def)
qed

lemma matches_take: "matches_in url_pattern (take n s) \<Longrightarrow> matches_in url_pattern s"
proof (induction s arbitrary: n)
  case (Cons c s)
  then show ?case using url_take [of n "c # s"] by (cases n) auto
qed simp

text \<open>Whatever goes wrong at the back office, the error that is stored shows no URL of it.\<close>

theorem no_url_in_errors: "\<not> matches_in url_pattern (safe_error_message message)"
  unfolding safe_error_message_def using matches_take without_urls_clean by blast

text \<open>A secret in JSON is not found: between its name and the colon there is a quotation mark.\<close>

lemma json_secret_shown:
  "safe_error_message ''{\"token\": \"abc\"}'' = ''{\"token\": \"abc\"}''"
  by code_simp

end
