(* ===== verification/Witnesses_Backend.thy ===== *)
theory Witnesses_Backend
  imports Backend_Safety
begin

text \<open>
  A query of the back office: a customer of group 28 whose turnover is met, at a time in
  the first year of the calendar; and a one-time code.
\<close>

section \<open>A query\<close>

definition counting :: money where
  "counting = \<lparr>mo_number = (\<lambda>j. j), mo_sum = (\<lambda>_. JInt 0), mo_round = (\<lambda>j. j),
     mo_positive = (\<lambda>j. case j of JInt i \<Rightarrow> i > 0 | _ \<Rightarrow> False), mo_at_most_zero = (\<lambda>j. case j of JInt i \<Rightarrow> i \<le> 0 | _ \<Rightarrow> False),
     mo_text = (\<lambda>_. []), mo_far = (\<lambda>a b. a \<noteq> b)\<rparr>"

text \<open>It knows the player, has no open requirement, and finds the first token invalid.\<close>

definition office :: tac_transport where
  "office log r =
     (if rq_method r = ''POST'' then Inr (JObj [(''token'', JStr ''t2'')])
      else if log = [] then Inr (JObj [(''success'', JBool False), (''errorCode'', JStr ''INVALID_TOKEN'')])
      else if dget (rq_query r) ''searchCode'' \<noteq> JNull
      then Inr (JObj [(''value'', JObj [(''list'', JArr [JObj [(''customerId'', JInt 9), (''username'', JStr ''ana'')]])])])
      else Inr (JObj [(''value'', JObj [(''list'', JArr [])])]))"

definition office_env :: tac_env where
  "office_env = \<lparr>te_transport = office, te_money = counting, te_incomplete_phrases = [], te_seconds = 59,
     te_now = day_micros\<rparr>"

definition office_settings :: backend_settings where
  "office_settings = \<lparr>bs_enabled = True, bs_provider_type = Some ''tac'', bs_base_url = Some ''https://b.example/'',
     bs_authorization = Some ''t1'', bs_merchant_code = None, bs_login_operator = Some ''op'', bs_login_password = Some ''pw'',
     bs_totp_secret = None, bs_login_merchant = Some ''other'', bs_request_timeout = JInt 20, bs_default_days = 0,
     bs_fallback_days = 1\<rparr>"

definition ana_asks :: dict where
  "ana_asks = [(''intent'', JStr ''withdrawal_blocked_or_rollover''), (''account_or_phone'', JStr ''ana''),
     (''livechat_group_id'', JInt 28), (''platform'', JStr ''zap69'')]"

abbreviation ana_query :: "dict \<times> tac_request list" where
  "ana_query \<equiv> execute_query office_env office_settings ana_asks (Some ''livechat'')"

lemma ana_runs:
  "length (snd ana_query) = 8 \<and> dget (fst ana_query) ''reply_intent'' = JStr ''backend_turnover_met''"
  by code_simp

text \<open>All eight requests, the login after the invalid token included, name the merchant of group 28.\<close>

theorem backend_isolation_witness:
  "length (snd ana_query) = 8 \<and> list_all (\<lambda>r. map_of (rq_headers r) ''Merchant'' = Some ''zapcops1'') (snd ana_query)"
proof -
  have "normalize_livechat_group_id (dget ana_asks ''livechat_group_id'') = Some 28"
    "merchant_for_livechat_group_id (JInt 28) = Some ''zapcops1''" by code_simp+
  moreover have "snd ana_query \<noteq> []" using ana_runs by auto
  ultimately show ?thesis
    using backend_isolation [of office_env office_settings ana_asks "fst ana_query" "snd ana_query"] ana_runs
    by (auto simp: for_merchant_def list_all_iff)
qed

theorem met_only_if_clean_witness:
  "\<exists>ws cid. length ws = 5 \<and> truthy cid \<and> list_all (clean_window office_env (snd ana_query) cid) ws"
  using met_only_if_clean [of office_env office_settings ana_asks "Some ''livechat''" "fst ana_query" "snd ana_query"]
    ana_runs by (auto simp: list_all_iff)

section \<open>A code\<close>

text \<open>The secret is read with a space and in small letters, and the code holds until the second 60.\<close>

lemma secret_key: "totp_key ''mfrg g'' = Some [97, 98, 99]"
  by code_simp

theorem totp_key_reads_secret_witness: "totp_key ''mfrg g'' = Some [97, 98, 99]"
proof (rule totp_key_reads_secret)
  have "str_upper (filter (\<lambda>c. \<not> is_space c) ''mfrg g'') = filter (\<lambda>c. c \<noteq> CHR ''='') (b32encode [97, 98, 99])"
    by code_simp
  then show "str_upper (filter (\<lambda>c. \<not> is_space c) ''mfrg g'') = b32encode [97, 98, 99]
    \<or> str_upper (filter (\<lambda>c. \<not> is_space c) ''mfrg g'') = filter (\<lambda>c. c \<noteq> CHR ''='') (b32encode [97, 98, 99])" ..
qed

theorem totp_code_valid_witness:
  "\<exists>code. generate_totp 6 30 ''mfrg g'' 59 = Inr code \<and> length code = 6 \<and> generate_totp 6 30 ''mfrg g'' 31 = Inr code"
proof -
  have "(31 :: int) div 30 = 59 div 30" by simp
  then show ?thesis
    using totp_code_valid [OF secret_key, of 59] by auto
qed

end
