(* ===== verification/Spec2Isabelle.thy ===== *)
theory Spec2Isabelle
  imports Witnesses_Results Witnesses_Consumer Witnesses_Replies Witnesses_Services Witnesses_Backend
begin

text \<open>
  The queue pipeline of an AI customer service: a model of \<open>src/src/app\<close> (below, paths
  start there) and the theorems that make it correct.

  \<^bold>\<open>The program.\<close>  Events of LiveChat arrive by polling or by webhook and are queued in
  \<open>inbound_events\<close>.  The gateway worker leases them, one open event per chat, decides what to
  answer (a menu, a conversation graph around a language model, or nothing, when a human
  has the conversation) and writes, in one transaction, the conversation, its history,
  \<open>outbound_messages\<close> and \<open>external_commands\<close>.  The sender sends the messages; the command worker
  opens and supplements cases in Telegram groups of the staff, asks the back office, looks
  up earlier replies and transfers chats to humans; it puts results into
  \<open>external_command_results\<close>, which the result consumer turns into replies and further commands.
  Replies of the staff come back from the stream of Telegram updates.  An idle timer asks
  silent customers, says goodbye and closes.  The workers share nothing but the database.

  \<^bold>\<open>State and effects\<close> (\<open>Tables\<close>, \<open>Prelude\<close>).  A \<open>world\<close> is the database (a record of tables, each
  a list of rows), a list of faults (which of the next statements fail) and the log of calls
  to external services.  A computation returns an exception or a value and the world; \<open>stmt\<close>,
  \<open>query\<close>, \<open>exec\<close> and \<open>update\<close> are single statements, \<open>transaction\<close> rolls back on any exception,
  \<open>call\<close> asks a service, which is an argument: any function of the calls so far.  Every
  theorem about such a computation therefore holds whichever statements fail and whatever
  the services answer, unless it says otherwise.  JSON is a datatype, a Python dict an
  association list in insertion order, times are microseconds as \<open>int\<close>.

  \<^bold>\<open>Parts.\<close>  Each theory has its operations in the order of the source, then its lemmas.

  \<^item> \<open>db/repositories.py\<close>: \<open>Queues\<close> (leases; the locale \<open>lease_queue\<close> is the contract of a queue
    with its workers: exclusive leases, recovery), \<open>Jobs\<close> (idempotent insertion, locale
    \<open>unique_keys\<close>; retries), \<open>Inbound\<close>, \<open>Outbound\<close>, \<open>Commands\<close>, \<open>Results\<close> (the four queues, each
    interpreting the locales), \<open>Conversations\<close> (workflow state, takeover by a human),
    \<open>Messages\<close> (history), \<open>Transactions\<close> (of gateway, result consumer and sender).
  \<^item> \<open>db/telegram_repositories.py\<close>: \<open>Telegram_Cases\<close>; the candidates for a follow-up and
    \<open>services/telegram_case_followup.py\<close> are in \<open>Followups\<close>.
  \<^item> \<open>services/outbox.py\<close>, \<open>services/message_history.py\<close>: \<open>Outbox\<close>; \<open>config/platforms.py\<close>,
    \<open>services/telegram_target_resolver.py\<close>: \<open>Platforms\<close>.
  \<^item> \<open>channels/livechat/sender_client.py\<close>: \<open>LiveChat_Client\<close>; \<open>channels/telegram/sender_client.py\<close>:
    \<open>Telegram_Client\<close>; what computations call at all: \<open>Service_Calls\<close>.
  \<^item> \<open>workers/sender_worker.py\<close>: \<open>Sender\<close>; \<open>workers/external_command_worker.py\<close>: \<open>Command_Worker\<close>,
    \<open>Command_Safety\<close>; \<open>workers/livechat_idle_timer.py\<close>: \<open>Calendar\<close> (its times as text),
    \<open>Idle_Timer\<close>, \<open>Idle_Safety\<close>.
  \<^item> \<open>channels/livechat/polling_receiver.py\<close>, \<open>normalizer.py\<close>: \<open>Polling\<close>; \<open>webhook_normalizer.py\<close>,
    \<open>api/livechat_webhook.py\<close>: \<open>Webhook\<close>.
  \<^item> \<open>services/livechat_menus.py\<close>, \<open>language_policy.py\<close>: \<open>Menus\<close>; \<open>services/gateway.py\<close>: \<open>Gateway\<close>,
    \<open>Gateway_Safety\<close>, \<open>Handoff\<close>; \<open>services/final_reply_service.py\<close> with its policy and finalizer:
    \<open>Final_Reply\<close> (\<open>Handoff\<close> states what the gateway needs of it as the locale \<open>reply_composer\<close>);
    \<open>workers/gateway_consumer.py\<close>: \<open>Gateway_Consumer\<close>.
  \<^item> \<open>workflows/backend_dispute_escalation.py\<close> and the dispute route of the graph: \<open>Disputes\<close>;
    \<open>workers/external_result_consumer.py\<close>: \<open>Result_Consumer\<close>, \<open>Result_Safety\<close>.
  \<^item> \<open>workers/telegram_reply_consumer.py\<close>, \<open>services/staff_reply_processor.py\<close>,
    \<open>telegram_case_status.py\<close>: \<open>Staff_Replies\<close>, \<open>Reply_Safety\<close>.
  \<^item> \<open>backends/resolver.py\<close>, \<open>backends/config.py\<close>: \<open>Backend\<close>; \<open>backends/tac_client.py\<close>: \<open>Totp\<close> (one-time
    codes, with SHA-1 and base 32 on words), \<open>Backend_Client\<close>; \<open>services/backend_query_service.py\<close>,
    \<open>backends/factory.py\<close>: \<open>Backend_Service\<close>, \<open>Backend_Safety\<close>.  The command worker sees this part
    as the service \<open>BackendQuery\<close>.
  \<^item> \<open>workers/service_runner.py\<close>: \<open>Service_Runner\<close>.
  \<^item> \<open>Witnesses\<close> and the theories named after it: the theorems applied to concrete runs.

  \<^bold>\<open>What is shown.\<close>

  \<^item> The queues: keys stay unique and inserts are idempotent; a row is leased by one worker;
    in every run of the inbound queue (\<open>inbound_run\<close>, a step relation with arrivals, leases,
    recoveries and settlements) events of a chat are processed in their order and at most
    one is handed out; a conversation is sent by one worker, and backs off after failures.
  \<^item> Transactions are all or nothing, replaying them adds nothing, and they never take
    a conversation back from a human; a takeover cancels what is open.
  \<^item> The gateway worker refines the inbound queue: any schedule of the groups of a batch is a
    run of the queue; what it was handed it settles or gives back; its grouping agrees
    with a reference definition; batches without failures drain the queue.
  \<^item> The gateway and the result consumer store their output completely or not at all; an event
    of a conversation in human hands reaches neither model nor services; the button for a
    human and a handoff of a backend result come with the acknowledgement for which
    the command worker waits; disputes and failed lookups call a human when they should and
    only then; menus stay within the catalogue; the composed reply is guarded.
  \<^item> Sender, command worker and idle timer: nothing is sent to a conversation of a human, a
    chat is transferred at most once and only past its guards, a silent customer is let
    go and one who writes is not interrupted, and rows are put down with the reported status.
  \<^item> Ingress: unauthenticated bodies change nothing, only foreign and allowed events are
    queued for the assistant, accepted ones are stored, once.
  \<^item> Staff: a recorded reply is stored with its messages, each update is acted on at most once,
    the offset follows the handled updates, follow-ups are matched only on evidence, the
    token of the bot never shows in an error and a follow-up is not sent twice.
  \<^item> Back office: a query concerns the merchant of its group alone, in at most 22 requests; the
    turnover is called met only after every window was searched; login codes are those of
    RFC 4226 and the key is the one the secret encodes; stored errors show no URL.
  \<^item> The service runner accounts for its ticks, stops when told, and ends when bounded.

  Where the code does something else than it means to, a lemma shows it:
  \<open>Reply_Safety.reply_acted_on_once\<close> (a staff reply whose first attempt fails is lost),
  \<open>Witnesses_Services.card_sent_then_retried\<close> (a case card is sent twice),
  \<open>Result_Safety.result_reply_dropped\<close>, \<open>Result_Safety.recheck_marks_survive\<close>,
  \<open>Handoff.failed_picture_reply_calls_nobody\<close>, \<open>Gateway_Consumer.failed_event_blocks_chat\<close>.

  \<^bold>\<open>Bounds and termination.\<close>  All functions are total: recursion is structural over rows,
  events, digits or characters, or has a measure (the calendar, the search for rows in a
  reply), so no fuel is needed.  Loops that run for ever in the program (\<open>run_periodic_worker\<close>) are step relations.

  \<^bold>\<open>Reading the model.\<close>

  \<^item> Strings are compared as lists of characters (the database compares without case);
    code points above 255 do not occur, so texts, labels and regular expressions that need
    them are arguments: titles of menus, templates of replies, wording of cards and
    follow-ups, validation patterns, fixed texts in Chinese.
  \<^item> Language models, the workflow graph, FAQ retrieval, handlers of standard procedures,
    SHA-256, decimal formatting, floating-point arithmetic of amounts, the HTTP transports and
    the lookup of pending replies are arguments or services.
  \<^item> Rows with equal times of creation are taken in key order; gaps of \<open>AUTO_INCREMENT\<close> and
    limits of column lengths are not modelled; an update counts the rows it changes.
  \<^item> A worker reads the clock once per step.  Rows that concurrent transactions lock are the
    argument \<open>held\<close>.  Commits of others between the statements of a step occur only where a
    step waits for the language model: the arguments \<open>it_meanwhile\<close>, \<open>gw_meanwhile\<close>, \<open>rc_meanwhile\<close>,
    \<open>rp_meanwhile\<close>.  A commit either happened or failed: lost acknowledgements of a commit are
    not modelled.
  \<^item> Batches of the sender, the command worker and the result consumer run one after the
    other; batches of the gateway run in any schedule of their groups, an event at a time.
  \<^item> Nested objects of requests and replies have their documented shape; JSON text has
    compact separators; confidences are whole numbers; branches that only serve other versions
    of a collaborator (\<open>hasattr\<close>, \<open>TypeError\<close>) are left out.

  \<^bold>\<open>Not modelled.\<close>  The nodes of the conversation graph (\<open>graph/nodes.py\<close>, \<open>workflows\<close>: prompts, text
  classification by regular expressions), the language model providers (\<open>llm\<close>), and retrieval
  (\<open>services/rag.py\<close>) are behind arguments of the model; the daily chat report (\<open>reporting\<close>) reads archives and
  shares no state with the workers; the non-transactional path of the gateway and its records
  of checkpoints and errors are not used or not read by the workers; argument parsing,
  settings, process set-up, schema creation, HTTP routing, smoke runners, scripts and
  tests are not part of the pipeline.
\<close>

end
